(* ===== verification/Prelude.thy ===== *)
theory Prelude
  imports Main "HOL-Library.Word" "HOL-Library.Monad_Syntax"
begin

text \<open>
  What every component theory shares: the machine types, Rust's \<open>Result\<close> as a sum with the
  \<open>?\<close> operator as \<open>bindR\<close>, byte encodings of unsigned integers in both byte orders,
  checked list indexing, and the named theorem collections the component proofs use.
\<close>

section \<open>Machine types\<close>

type_synonym byte = "8 word"
type_synonym bytes = "byte list"
type_synonym u16 = "16 word"
type_synonym u32 = "32 word"
type_synonym u64 = "64 word"

text \<open>An \<open>i64\<close> is the same 64 bits, read with \<open>sint\<close>; the cast \<open>now as u64\<close>
  keeps the bits.\<close>

type_synonym i64 = "64 word"

named_theorems result_simps \<open>inversion and evaluation of Result-valued code\<close>
named_theorems byte_simps \<open>lengths and values of byte encodings\<close>

text \<open>A non-negative \<open>i64\<close> keeps its value under the cast to \<open>u64\<close>.\<close>

lemma uint_nonneg_sint:
  fixes x :: i64
  assumes "0 \<le> sint x"
  shows "uint x = sint x"
proof -
  have "sint x < 2 ^ 63"
    using sint_lt [of x] by simp
  with assms show ?thesis
    by (simp add: uint_sint take_bit_eq_mod)
qed

text \<open>So the guards \<open>now >= 0 && (now as u64) <= d\<close> and
  \<open>now >= 0 && (now as u64) > d\<close> compare the two times as integers.\<close>

lemma le_as_int:
  fixes now :: i64 and d :: u64
  shows "0 \<le> sint now \<Longrightarrow> now \<le> d \<longleftrightarrow> sint now \<le> uint d"
  by (simp add: word_le_def uint_nonneg_sint)

lemma within_as_int:
  fixes now :: i64 and d :: u64
  shows "0 \<le> sint now \<and> now \<le> d \<longleftrightarrow> 0 \<le> sint now \<and> sint now \<le> uint d"
  by (auto simp: word_le_def uint_nonneg_sint)

lemma after_as_int:
  fixes now :: i64 and d :: u64
  shows "0 \<le> sint now \<and> d < now \<longleftrightarrow> uint d < sint now"
proof (cases "0 \<le> sint now")
  case True
  then show ?thesis by (simp add: word_less_def uint_nonneg_sint)
next
  case False
  then have "sint now < uint d"
    by (meson less_le_trans not_le uint_ge_0)
  with False show ?thesis by simp
qed

section \<open>Results\<close>

text \<open>\<open>Inl e\<close> is Rust's \<open>Err(e)\<close>, \<open>Inr x\<close> is \<open>Ok(x)\<close>. \<open>bindR r f\<close> is
  \<open>let x = r?; f(x)\<close>.\<close>

fun bindR :: "'e + 'a \<Rightarrow> ('a \<Rightarrow> 'e + 'b) \<Rightarrow> 'e + 'b" where
  "bindR (Inl e) f = Inl e"
| "bindR (Inr x) f = f x"

text \<open>\<open>Option::ok_or\<close>, and also \<open>map_err(|_| e)\<close> where the library error is dropped.\<close>

fun ok_or :: "'e \<Rightarrow> 'a option \<Rightarrow> 'e + 'a" where
  "ok_or e None = Inl e"
| "ok_or e (Some x) = Inr x"

definition guardR :: "bool \<Rightarrow> 'e \<Rightarrow> 'e + unit" where
  "guardR b e = (if b then Inr () else Inl e)"

text \<open>\<open>let [x] = xs else { return Err(e) }\<close>.\<close>

fun single :: "'e \<Rightarrow> 'a list \<Rightarrow> 'e + 'a" where
  "single e [x] = Inr x"
| "single e _ = Inl e"

fun map_errR :: "('e \<Rightarrow> 'f) \<Rightarrow> 'e + 'a \<Rightarrow> 'f + 'a" where
  "map_errR f (Inl e) = Inl (f e)"
| "map_errR f (Inr x) = Inr x"

text \<open>\<open>Result::ok()\<close>.\<close>

fun ok_of :: "'e + 'a \<Rightarrow> 'a option" where
  "ok_of (Inl e) = None"
| "ok_of (Inr x) = Some x"

fun is_ok :: "'e + 'a \<Rightarrow> bool" where
  "is_ok (Inl e) = False"
| "is_ok (Inr x) = True"

lemma bindR_cong [fundef_cong]:
  "r = r' \<Longrightarrow> (\<And>x. r' = Inr x \<Longrightarrow> f x = g x) \<Longrightarrow> bindR r f = bindR r' g"
  by (cases r') auto

lemma bindR_Inr_iff [result_simps]: "bindR r f = Inr y \<longleftrightarrow> (\<exists>x. r = Inr x \<and> f x = Inr y)"
  by (cases r) auto

lemma bindR_Inl_iff [result_simps]:
  "bindR r f = Inl e \<longleftrightarrow> r = Inl e \<or> (\<exists>x. r = Inr x \<and> f x = Inl e)"
  by (cases r) auto

lemma bindR_assoc: "bindR (bindR r f) g = bindR r (\<lambda>x. bindR (f x) g)"
  by (cases r) auto

lemma ok_or_Inr_iff [result_simps]: "ok_or e r = Inr x \<longleftrightarrow> r = Some x"
  by (cases r) auto

lemma ok_or_Inl_iff [result_simps]: "ok_or e r = Inl e' \<longleftrightarrow> r = None \<and> e' = e"
  by (cases r) auto

lemma guardR_Inr_iff [result_simps]: "guardR b e = Inr u \<longleftrightarrow> b"
  by (simp add: guardR_def)

lemma guardR_Inl_iff [result_simps]: "guardR b e = Inl e' \<longleftrightarrow> \<not> b \<and> e' = e"
  by (auto simp: guardR_def)

lemma ok_of_Some_iff [result_simps]: "ok_of r = Some x \<longleftrightarrow> r = Inr x"
  by (cases r) auto

lemma single_Inr_iff [result_simps]: "single e xs = Inr x \<longleftrightarrow> xs = [x]"
  by (cases "(e, xs)" rule: single.cases) auto

lemma single_Inl_iff [result_simps]: "single e xs = Inl e' \<longleftrightarrow> (\<forall>x. xs \<noteq> [x]) \<and> e' = e"
  by (cases "(e, xs)" rule: single.cases) auto

lemma map_errR_Inr_iff [result_simps]: "map_errR f r = Inr x \<longleftrightarrow> r = Inr x"
  by (cases r) auto

lemma map_errR_Inl_iff [result_simps]: "map_errR f r = Inl e \<longleftrightarrow> (\<exists>e'. r = Inl e' \<and> e = f e')"
  by (cases r) auto

text \<open>Code with a single error value fails exactly when it does not succeed.\<close>

lemma Inl_iff_single:
  assumes "\<And>u. r = Inr u \<longleftrightarrow> P" "\<And>e. r = Inl e \<Longrightarrow> e = e0"
  shows "r = Inl e \<longleftrightarrow> \<not> P \<and> e = e0"
  using assms by (cases r) auto

lemma is_ok_iff: "is_ok r \<longleftrightarrow> (\<exists>x. r = Inr x)"
  by (cases r) auto

section \<open>Lists\<close>

text \<open>\<open>slice.get(i)\<close>.\<close>

fun nth_opt :: "'a list \<Rightarrow> nat \<Rightarrow> 'a option" where
  "nth_opt [] n = None"
| "nth_opt (x # xs) 0 = Some x"
| "nth_opt (x # xs) (Suc n) = nth_opt xs n"

lemma nth_opt_iff: "nth_opt xs n = Some x \<longleftrightarrow> n < length xs \<and> xs ! n = x"
  by (induction xs n rule: nth_opt.induct) auto

text \<open>\<open>slice.first()\<close> and \<open>slice.last()\<close>.\<close>

fun first_opt :: "'a list \<Rightarrow> 'a option" where
  "first_opt [] = None"
| "first_opt (x # xs) = Some x"

fun last_opt :: "'a list \<Rightarrow> 'a option" where
  "last_opt [] = None"
| "last_opt (x # xs) = Some (last (x # xs))"

lemma first_opt_iff: "first_opt xs = Some x \<longleftrightarrow> (\<exists>ys. xs = x # ys)"
  by (cases xs) auto

lemma last_opt_iff: "last_opt xs = Some x \<longleftrightarrow> xs \<noteq> [] \<and> last xs = x"
  by (cases xs) auto

text \<open>\<open>iter().find_map(f)\<close> and \<open>iter().find(p)\<close>.\<close>

fun find_map :: "('a \<Rightarrow> 'b option) \<Rightarrow> 'a list \<Rightarrow> 'b option" where
  "find_map f [] = None"
| "find_map f (x # xs) = (case f x of Some y \<Rightarrow> Some y | None \<Rightarrow> find_map f xs)"

lemma find_map_Some: "find_map f xs = Some y \<Longrightarrow> \<exists>x \<in> set xs. f x = Some y"
  by (induction xs) (auto split: option.splits)

lemma find_map_None: "find_map f xs = None \<longleftrightarrow> (\<forall>x \<in> set xs. f x = None)"
  by (induction xs) (auto split: option.splits)

lemma find_map_append:
  "find_map f (xs @ ys) = (case find_map f xs of None \<Rightarrow> find_map f ys | Some y \<Rightarrow> Some y)"
  by (induction xs) (auto split: option.splits)

section \<open>Integers as bytes\<close>

text \<open>\<open>le_bytes k n\<close> is the little-endian encoding of \<open>n\<close> in \<open>k\<close> bytes (higher bytes
  are dropped), \<open>le_val\<close> the value of a little-endian byte string.\<close>

fun le_bytes :: "nat \<Rightarrow> nat \<Rightarrow> bytes" where
  "le_bytes 0 n = []"
| "le_bytes (Suc k) n = of_nat (n mod 256) # le_bytes k (n div 256)"

fun le_val :: "bytes \<Rightarrow> nat" where
  "le_val [] = 0"
| "le_val (b # bs) = unat b + 256 * le_val bs"

definition be_val :: "bytes \<Rightarrow> nat" where
  "be_val bs = le_val (rev bs)"

text \<open>\<open>u64::to_be_bytes\<close>, \<open>u64::from_be_bytes\<close> and \<open>u64::to_le_bytes\<close>.\<close>

definition to_be_bytes :: "u64 \<Rightarrow> bytes" where
  "to_be_bytes x = rev (le_bytes 8 (unat x))"

definition from_be_bytes :: "bytes \<Rightarrow> u64" where
  "from_be_bytes bs = of_nat (be_val bs)"

definition to_le_bytes :: "u64 \<Rightarrow> bytes" where
  "to_le_bytes x = le_bytes 8 (unat x)"

lemma length_le_bytes [simp, byte_simps]: "length (le_bytes k n) = k"
  by (induction k arbitrary: n) auto

lemma unat_byte_bound: "unat (b :: byte) < 256"
  using unsigned_less [of b] by simp

lemma unat_of_nat_byte: "unat (of_nat (n mod 256) :: byte) = n mod 256"
  by (simp add: unat_of_nat)

lemma le_val_le_bytes [byte_simps]: "le_val (le_bytes k n) = n mod 256 ^ k"
proof (induction k arbitrary: n)
  case 0
  then show ?case by simp
next
  case (Suc k)
  have "le_val (le_bytes (Suc k) n) = n mod 256 + 256 * (n div 256 mod 256 ^ k)"
    by (simp only: le_bytes.simps le_val.simps unat_of_nat_byte Suc.IH)
  also have "\<dots> = n mod 256 ^ Suc k"
    by (simp only: power_Suc mod_mult2_eq)
  finally show ?case .
qed

lemma le_val_bound: "le_val bs < 256 ^ length bs"
proof (induction bs)
  case Nil
  then show ?case by simp
next
  case (Cons b bs)
  have "unat b < 256"
    by (rule unat_byte_bound)
  with Cons.IH show ?case by simp
qed

lemma le_bytes_le_val: "le_bytes (length bs) (le_val bs) = bs"
proof (induction bs)
  case Nil
  then show ?case by simp
next
  case (Cons b bs)
  have b: "unat b < 256"
    by (rule unat_byte_bound)
  have m: "(unat b + 256 * le_val bs) mod 256 = unat b"
    using b by simp
  have d: "(unat b + 256 * le_val bs) div 256 = le_val bs"
    using b by simp
  have w: "(of_nat (unat b) :: byte) = b"
    by simp
  show ?case
    by (simp only: length_Cons le_bytes.simps le_val.simps m d w Cons.IH)
qed

lemma be_val_bound: "be_val bs < 256 ^ length bs"
  using le_val_bound [of "rev bs"] by (simp add: be_val_def)

lemma le_val_inject: "length xs = length ys \<Longrightarrow> le_val xs = le_val ys \<Longrightarrow> xs = ys"
  by (metis le_bytes_le_val)

lemma be_val_inject: "length xs = length ys \<Longrightarrow> be_val xs = be_val ys \<Longrightarrow> xs = ys"
  unfolding be_val_def using le_val_inject [of "rev xs" "rev ys"] by simp

lemma le_val_append: "le_val (xs @ ys) = le_val xs + 256 ^ length xs * le_val ys"
  by (induction xs) (simp_all add: algebra_simps)

lemma le_val_zeros [simp]: "le_val (replicate n 0) = 0"
  by (induction n) auto

lemma be_val_zeros_append [byte_simps]: "be_val (replicate n 0 @ bs) = be_val bs"
  by (simp add: be_val_def le_val_append)

lemma length_to_be_bytes [simp, byte_simps]: "length (to_be_bytes x) = 8"
  by (simp add: to_be_bytes_def)

lemma length_to_le_bytes [simp, byte_simps]: "length (to_le_bytes x) = 8"
  by (simp add: to_le_bytes_def)

lemma unat_u64_bound: "unat (x :: u64) < 18446744073709551616"
  using unsigned_less [of x] by simp

lemma be_val_to_be_bytes [byte_simps]: "be_val (to_be_bytes x) = unat x"
  using unat_u64_bound [of x] by (simp add: be_val_def to_be_bytes_def le_val_le_bytes)

lemma from_be_to_be [simp]: "from_be_bytes (to_be_bytes x) = x"
  by (simp add: from_be_bytes_def be_val_to_be_bytes)

lemma to_be_bytes_inject [simp]: "to_be_bytes x = to_be_bytes y \<longleftrightarrow> x = y"
  by (metis from_be_to_be)

end
