(* ===== verification/Codec.thy ===== *)
theory Codec
  imports Prelude
begin

text \<open>
  Byte codecs. The derive macros of wincode and borsh write a struct field by field in
  declaration order; the codecs of the field types (\<open>u64\<close>, \<open>[u8; N]\<close> and the shielded-pool
  crate's \<open>TransactIxData\<close>) come from those crates and are the parameters collected in the
  record \<open>wire\<close>. The locale \<open>codec\<close> is the contract between a writer and a reader; its
  lemmas are proved once and used at every struct the programs exchange.
\<close>

section \<open>Data of the SPP interface crate\<close>

text \<open>
  \<open>TransactIxData\<close> and its parts, with the fields the code under \<open>src/\<close> reads or writes.
  The remaining fields of each struct, which that code only carries along, are the one opaque
  component of type \<open>'x\<close>.
\<close>

record 'x input_utxo =
  nullifier_hash :: bytes
  input_rest :: 'x

record 'x transact_output =
  utxo_hash :: bytes
  output_data :: "bytes option"
  output_rest :: 'x

record message_data =
  view_tag :: bytes
  message_bytes :: bytes

record 'x transact_ix_data =
  expiry_unix_ts :: u64
  private_tx_hash :: bytes
  inputs :: "'x input_utxo list"
  outputs :: "'x transact_output list"
  messages :: "message_data list"
  transact_rest :: 'x

section \<open>Primitive codecs\<close>

record 'x wire =
  put_u64 :: "u64 \<Rightarrow> bytes option"
  get_u64 :: "bytes \<Rightarrow> (u64 \<times> bytes) option"
  put_array :: "bytes \<Rightarrow> bytes option"
  get_array :: "nat \<Rightarrow> bytes \<Rightarrow> (bytes \<times> bytes) option"
  put_transact :: "'x transact_ix_data \<Rightarrow> bytes option"
  get_transact :: "bytes \<Rightarrow> ('x transact_ix_data \<times> bytes) option"
  borsh_put_array :: "bytes \<Rightarrow> bytes option"
  borsh_get_array :: "nat \<Rightarrow> bytes \<Rightarrow> (bytes \<times> bytes) option"

text \<open>\<open>deserialize_exact\<close> (wincode) and \<open>try_from_slice\<close> (borsh) refuse input that is left
  over.\<close>

definition deserialize_exact :: "(bytes \<Rightarrow> ('a \<times> bytes) option) \<Rightarrow> bytes \<Rightarrow> 'a option" where
  "deserialize_exact get bs =
     (case get bs of None \<Rightarrow> None | Some (x, r) \<Rightarrow> if r = [] then Some x else None)"

lemma deserialize_exact_Some:
  "deserialize_exact get bs = Some x \<longleftrightarrow> get bs = Some (x, [])"
  by (auto simp: deserialize_exact_def split: option.splits if_splits)

section \<open>The contract of a codec\<close>

locale codec =
  fixes put :: "'a \<Rightarrow> bytes option"
    and get :: "bytes \<Rightarrow> ('a \<times> bytes) option"
    and valid :: "'a \<Rightarrow> bool"
  assumes get_put: "valid x \<Longrightarrow> put x = Some bs \<Longrightarrow> get (bs @ r) = Some (x, r)"
begin

lemma exact_put: "valid x \<Longrightarrow> put x = Some bs \<Longrightarrow> deserialize_exact get bs = Some x"
  using get_put [of x bs "[]"] by (simp add: deserialize_exact_Some)

lemma put_inject:
  assumes "valid x" "valid y" "put x = Some bs" "put y = Some bs"
  shows "x = y"
  using exact_put [OF assms(1,3)] exact_put [OF assms(2,4)] by simp

text \<open>No encoding is a proper prefix of another one.\<close>

lemma put_prefix_free:
  assumes "valid x" "valid y" "put x = Some bs" "put y = Some (bs @ t)"
  shows "t = []"
  using get_put [OF assms(1,3), of t] get_put [OF assms(2,4), of "[]"] by simp

lemma exact_rejects_trailing:
  assumes "valid x" "put x = Some bs" "t \<noteq> []"
  shows "deserialize_exact get (bs @ t) = None"
  using get_put [OF assms(1,2), of t] assms(3) by (simp add: deserialize_exact_def)

end

text \<open>
  The documented behaviour of the primitive codecs: each one reads back what it wrote and
  leaves the rest of the input.
\<close>

definition wincode_ok :: "'x wire \<Rightarrow> bool" where
  "wincode_ok W \<longleftrightarrow>
     codec (put_u64 W) (get_u64 W) (\<lambda>_. True) \<and>
     (\<forall>n. codec (put_array W) (get_array W n) (\<lambda>x. length x = n))"

definition transact_ok :: "'x wire \<Rightarrow> bool" where
  "transact_ok W \<longleftrightarrow> codec (put_transact W) (get_transact W) (\<lambda>_. True)"

text \<open>A decoded \<open>TransactIxData\<close> has 32-byte hashes: the fields are \<open>[u8; 32]\<close>.\<close>

definition transact_wf :: "'x transact_ix_data \<Rightarrow> bool" where
  "transact_wf t \<longleftrightarrow>
     length (private_tx_hash t) = 32 \<and>
     (\<forall>i \<in> set (inputs t). length (nullifier_hash i) = 32) \<and>
     (\<forall>out \<in> set (outputs t). length (utxo_hash out) = 32)"

definition transact_sized :: "'x wire \<Rightarrow> bool" where
  "transact_sized W \<longleftrightarrow> (\<forall>bs t r. get_transact W bs = Some (t, r) \<longrightarrow> transact_wf t)"

lemma transact_sizedD:
  "transact_sized W \<Longrightarrow> get_transact W bs = Some (t, r) \<Longrightarrow> transact_wf t"
  unfolding transact_sized_def by blast

definition borsh_ok :: "'x wire \<Rightarrow> bool" where
  "borsh_ok W \<longleftrightarrow> (\<forall>n. codec (borsh_put_array W) (borsh_get_array W n) (\<lambda>x. length x = n))"

named_theorems codec_simps \<open>reading back a primitive field\<close>

lemma get_put_u64 [codec_simps]:
  "wincode_ok W \<Longrightarrow> put_u64 W x = Some bs \<Longrightarrow> get_u64 W (bs @ r) = Some (x, r)"
  unfolding wincode_ok_def by (blast intro: codec.get_put)

lemma get_put_array [codec_simps]:
  "wincode_ok W \<Longrightarrow> put_array W x = Some bs \<Longrightarrow> length x = n \<Longrightarrow>
   get_array W n (bs @ r) = Some (x, r)"
  unfolding wincode_ok_def by (blast intro: codec.get_put)

lemma get_put_transact [codec_simps]:
  "transact_ok W \<Longrightarrow> put_transact W x = Some bs \<Longrightarrow> get_transact W (bs @ r) = Some (x, r)"
  unfolding transact_ok_def by (blast intro: codec.get_put)

lemma get_put_borsh_array [codec_simps]:
  "borsh_ok W \<Longrightarrow> borsh_put_array W x = Some bs \<Longrightarrow> length x = n \<Longrightarrow>
   borsh_get_array W n (bs @ r) = Some (x, r)"
  unfolding borsh_ok_def by (blast intro: codec.get_put)

section \<open>A concrete wire format\<close>

text \<open>
  An instance of the parameters, on which witnesses evaluate: little-endian \<open>u64\<close>, raw byte
  arrays, and a caller-chosen table for \<open>TransactIxData\<close> (one byte per entry, its position).
\<close>

definition take_array :: "nat \<Rightarrow> bytes \<Rightarrow> (bytes \<times> bytes) option" where
  "take_array n bs = (if n \<le> length bs then Some (take n bs, drop n bs) else None)"

definition take_u64 :: "bytes \<Rightarrow> (u64 \<times> bytes) option" where
  "take_u64 bs =
     (if 8 \<le> length bs then Some (of_nat (le_val (take 8 bs)), drop 8 bs) else None)"

fun table_pos :: "'a list \<Rightarrow> 'a \<Rightarrow> nat option" where
  "table_pos [] x = None"
| "table_pos (y # ys) x = (if x = y then Some 0 else map_option Suc (table_pos ys x))"

fun table_get :: "'a list \<Rightarrow> bytes \<Rightarrow> ('a \<times> bytes) option" where
  "table_get tab [] = None"
| "table_get tab (b # bs) = map_option (\<lambda>x. (x, bs)) (nth_opt tab (unat b))"

definition table_put :: "'a list \<Rightarrow> 'a \<Rightarrow> bytes option" where
  "table_put tab x = (case table_pos tab x of None \<Rightarrow> None
     | Some i \<Rightarrow> if i < 256 then Some [of_nat i] else None)"

definition table_wire :: "'x transact_ix_data list \<Rightarrow> 'x wire" where
  "table_wire tab =
     \<lparr>put_u64 = Some \<circ> to_le_bytes, get_u64 = take_u64, put_array = Some, get_array = take_array,
      put_transact = table_put tab, get_transact = table_get tab,
      borsh_put_array = Some, borsh_get_array = take_array\<rparr>"

lemma codec_take_array: "codec Some (take_array n) (\<lambda>x. length x = n)"
  by (simp add: codec_def take_array_def)

lemma codec_take_u64: "codec (Some \<circ> to_le_bytes) take_u64 (\<lambda>_. True)"
proof -
  have "(of_nat (le_val (to_le_bytes x)) :: u64) = x" for x
    using unat_u64_bound [of x] by (simp add: to_le_bytes_def le_val_le_bytes)
  then show ?thesis by (simp add: codec_def take_u64_def)
qed

lemma table_pos_nth: "table_pos tab x = Some i \<Longrightarrow> nth_opt tab i = Some x"
  by (induction tab arbitrary: i) (auto split: if_splits)

lemma codec_table: "codec (table_put tab) (table_get tab) (\<lambda>_. True)"
proof
  fix x bs r
  assume "table_put tab x = Some bs"
  then obtain i where i: "table_pos tab x = Some i" "i < 256" and bs: "bs = [of_nat i]"
    by (auto simp: table_put_def split: option.splits if_splits)
  have "unat (of_nat i :: byte) = i"
    using i(2) by (simp add: unat_of_nat)
  with i bs show "table_get tab (bs @ r) = Some (x, r)"
    by (simp add: table_pos_nth)
qed

lemma table_wire_sized:
  assumes "\<forall>t \<in> set tab. transact_wf t"
  shows "transact_sized (table_wire tab)"
  unfolding transact_sized_def
proof (intro allI impI)
  fix bs t r
  assume "get_transact (table_wire tab) bs = Some (t, r)"
  then have "\<exists>i. nth_opt tab i = Some t"
    by (cases bs) (auto simp: table_wire_def)
  then show "transact_wf t"
    using assms by (auto simp: nth_opt_iff)
qed

lemma table_wire_ok [simp]:
  "wincode_ok (table_wire tab)" "transact_ok (table_wire tab)" "borsh_ok (table_wire tab)"
  by (simp_all add: wincode_ok_def transact_ok_def borsh_ok_def table_wire_def
      codec_take_array codec_take_u64 codec_table)

text \<open>The primitive codecs of this instance meet the contract without any hypothesis.\<close>

interpretation le_u64: codec "Some \<circ> to_le_bytes" take_u64 "\<lambda>_. True"
  by (rule codec_take_u64)

interpretation raw_array: codec Some "take_array n" "\<lambda>x. length x = n" for n
  by (rule codec_take_array)

end
