(* ===== verification/Sdk_Env.thy ===== *)
theory Sdk_Env
  imports Codec
begin

text \<open>
  What the two SDKs use of the shielded-pool client crates: the data types they fill in, and the
  record \<open>sdk_env\<close> of the external functions they call (hashes, key derivations, commitments,
  codecs). The documented laws of these functions are predicates, used as hypotheses where a
  property needs them. \<open>Inl\<close> results are \<open>anyhow\<close> errors.
\<close>

section \<open>Errors\<close>

text \<open>\<open>bail!("...")\<close> is \<open>Msg\<close>; an error that comes from another crate is \<open>External\<close>. The helper
  \<open>err\<close> of both SDKs prints its argument with \<open>Debug\<close>, which puts a string in quotes.\<close>

datatype sdk_error = Msg string | External

definition debug_str :: "string \<Rightarrow> string" where
  "debug_str s = CHR 0x22 # s @ [CHR 0x22]"

definition err_str :: "string \<Rightarrow> sdk_error" where
  "err_str s = Msg (debug_str s)"

lemma debug_str_inject [simp]: "debug_str s = debug_str t \<longleftrightarrow> s = t"
  by (simp add: debug_str_def)

section \<open>Data\<close>

text \<open>\<open>'p\<close> is \<open>PublicKey\<close>, \<open>'m\<close> is \<open>Mint\<close>, \<open>'r\<close> the part of an output the code only carries, \<open>'d\<close> is
  \<open>Data\<close>. An \<open>Address\<close>, a \<open>Pubkey\<close> and a viewing key are their bytes.\<close>

record 'p shielded_address =
  signing_pubkey :: 'p
  nullifier_pubkey :: bytes
  viewing_pubkey :: bytes

record ('p, 'm, 'r) output_utxo =
  out_owner_address :: "'p shielded_address option"
  out_asset :: 'm
  out_amount :: u64
  out_blinding :: bytes
  out_data_hash :: "bytes option"
  out_ring_data_hash :: "bytes option"
  out_ring_program_id :: "bytes option"
  out_rest :: 'r

record ('p, 'm, 'd) utxo =
  utxo_owner :: 'p
  utxo_asset :: 'm
  utxo_amount :: u64
  utxo_blinding :: bytes
  utxo_ring_program_id :: "bytes option"
  utxo_data :: 'd

record ('p, 'm, 'd) spend_utxo =
  in_address :: bool
  in_utxo :: "('p, 'm, 'd) utxo"
  in_utxo_hash :: bytes
  in_nullifier :: bytes
  in_nullifier_pubkey :: bytes
  in_data_hash :: "bytes option"
  in_ring_data_hash :: "bytes option"
  in_tree_id :: u16
  in_leaf_index :: u64
  in_cache_slot :: "nat option"
  in_compact :: bool

text \<open>\<open>SppProofInputs\<close>, with the parts that \<open>SppTxHashes::new\<close> reads.\<close>

record ('p, 'm, 'd) spp_proof_inputs =
  spi_input_utxos :: "('p, 'm, 'd) spend_utxo list"
  spi_private_tx_blinding :: "bytes option"
  spi_output_tree_id :: u16

record account_meta =
  meta_pubkey :: bytes
  meta_is_signer :: bool
  meta_is_writable :: bool

record instruction =
  ix_program_id :: bytes
  ix_accounts :: "account_meta list"
  ix_data :: bytes

text \<open>\<open>AccountMeta::new\<close> and \<open>AccountMeta::new_readonly\<close>.\<close>

definition meta_new :: "bytes \<Rightarrow> bool \<Rightarrow> account_meta" where
  "meta_new k s = \<lparr>meta_pubkey = k, meta_is_signer = s, meta_is_writable = True\<rparr>"

definition meta_readonly :: "bytes \<Rightarrow> bool \<Rightarrow> account_meta" where
  "meta_readonly k s = \<lparr>meta_pubkey = k, meta_is_signer = s, meta_is_writable = False\<rparr>"

section \<open>The external functions\<close>

record ('x, 'p, 'm, 'd, 'r, 'i) sdk_env =
  sdk_wire :: "'x wire"
  sdk_poseidon :: "bytes list \<Rightarrow> bytes option"
  sdk_hashv :: "bytes list \<Rightarrow> bytes option"
  hash_bytes :: "bytes \<Rightarrow> bytes option"
  owner_identity :: "bytes \<Rightarrow> bytes option"
  compressed_address_hash :: "bytes \<Rightarrow> bytes \<Rightarrow> bytes option"
  viewing_from_bytes :: "bytes \<Rightarrow> bytes option"
  from_ed25519 :: "bytes \<Rightarrow> 'p"
  owner_hash :: "'p shielded_address \<Rightarrow> bytes option"
  owner_proof_input_hash :: "'p \<Rightarrow> bytes option"
  confidential_view_tag :: "'p \<Rightarrow> bytes option"
  nullifier_key_pubkey :: "bytes \<Rightarrow> bytes option"
  nullifier_key_nullifier :: "bytes \<Rightarrow> bytes \<Rightarrow> bytes \<Rightarrow> bytes option"
  mint_new :: "bytes \<Rightarrow> u64 \<Rightarrow> 'm"
  mint_asset :: "'m \<Rightarrow> bytes"
  mint_sol :: 'm
  default_output :: "('p, 'm, 'r) output_utxo"
  with_utxo_data :: "('p, 'm, 'r) output_utxo \<Rightarrow> bytes \<Rightarrow> bytes \<Rightarrow> ('p, 'm, 'r) output_utxo"
  output_hash :: "('p, 'm, 'r) output_utxo \<Rightarrow> u16 \<Rightarrow> bytes option"
  default_data :: 'd
  utxo_commit :: "('p, 'm, 'd) utxo \<Rightarrow> bytes \<Rightarrow> bytes \<Rightarrow> bytes \<Rightarrow> u16 \<Rightarrow> bytes option"
  proof_input :: "('p, 'm, 'r) output_utxo \<Rightarrow> u16 \<Rightarrow> 'i option"
  proof_input_hash :: "'i \<Rightarrow> bytes option"
  private_tx_hash_of :: "bytes list \<Rightarrow> bytes list \<Rightarrow> bytes \<Rightarrow> bytes option"
  derive_output_blinding_seed :: "bytes \<Rightarrow> bytes \<Rightarrow> bytes option"
  derive_private_tx_blinding :: "bytes \<Rightarrow> bytes \<Rightarrow> bytes option"
  derive_transact_output_blinding :: "bytes \<Rightarrow> bytes \<Rightarrow> u32 \<Rightarrow> bytes option"
  symmetric_apply :: "bytes \<Rightarrow> bytes \<Rightarrow> bytes \<Rightarrow> bytes option"
  merge_info :: bytes
  sdk_ciphertext_hash :: "bytes \<Rightarrow> bytes option"
  pda_of :: "bytes list \<Rightarrow> bytes \<Rightarrow> bytes \<times> byte"
  nullifier_pda_accounts :: "bytes \<Rightarrow> bytes list \<Rightarrow> account_meta list"
  shielded_pool_program_id :: bytes

text \<open>\<open>.map_err(err)?\<close> and a plain \<open>?\<close> on an external result.\<close>

definition ext :: "'a option \<Rightarrow> sdk_error + 'a" where
  "ext = ok_or External"

lemma ext_Inr_iff [result_simps]: "ext r = Inr x \<longleftrightarrow> r = Some x"
  by (simp add: ext_def result_simps)

lemma ext_Inl_iff [result_simps]: "ext r = Inl e \<longleftrightarrow> r = None \<and> e = External"
  by (auto simp: ext_def result_simps)

section \<open>Documented laws\<close>

text \<open>A fresh output carries no commitments; \<open>with_utxo_data\<close> only sets the data and its hash.\<close>

definition output_laws :: "('x, 'p, 'm, 'd, 'r, 'i) sdk_env \<Rightarrow> bool" where
  "output_laws S \<longleftrightarrow>
     out_data_hash (default_output S) = None \<and> out_ring_data_hash (default_output S) = None \<and>
     out_ring_program_id (default_output S) = None \<and>
     (\<forall>u d h. \<exists>r. with_utxo_data S u d h = u\<lparr>out_data_hash := Some h, out_rest := r\<rparr>)"

text \<open>
  An output without ring data commits to its owner, asset, amount, blinding and data hash; a UTXO
  without a ring program that is spent under the same owner, nullifier key and tree commits to
  the same.
\<close>

definition commit_law :: "('x, 'p, 'm, 'd, 'r, 'i) sdk_env \<Rightarrow> bool" where
  "commit_law S \<longleftrightarrow>
     (\<forall>u c a h t. out_owner_address u = Some a \<longrightarrow> out_data_hash u = Some h \<longrightarrow>
        out_ring_data_hash u = None \<longrightarrow> out_ring_program_id u = None \<longrightarrow>
        utxo_owner c = signing_pubkey a \<longrightarrow> utxo_asset c = out_asset u \<longrightarrow>
        utxo_amount c = out_amount u \<longrightarrow> utxo_blinding c = out_blinding u \<longrightarrow>
        utxo_ring_program_id c = None \<longrightarrow>
        output_hash S u t = utxo_commit S c (nullifier_pubkey a) h (replicate 32 0) t)"

text \<open>A proof input has the hash of the output it was made from, under the tree it was made for.\<close>

definition proof_input_law :: "('x, 'p, 'm, 'd, 'r, 'i) sdk_env \<Rightarrow> bool" where
  "proof_input_law S \<longleftrightarrow>
     (\<forall>u t i. proof_input S u t = Some i \<longrightarrow> proof_input_hash S i = output_hash S u t)"

text \<open>Decoding a viewing key keeps its bytes.\<close>

definition viewing_law :: "('x, 'p, 'm, 'd, 'r, 'i) sdk_env \<Rightarrow> bool" where
  "viewing_law S \<longleftrightarrow> (\<forall>k v. viewing_from_bytes S k = Some v \<longrightarrow> v = k)"

text \<open>The symmetric cipher is its own inverse, and keeps the length.\<close>

definition cipher_law :: "('x, 'p, 'm, 'd, 'r, 'i) sdk_env \<Rightarrow> bool" where
  "cipher_law S \<longleftrightarrow>
     (\<forall>k i m c. symmetric_apply S k i m = Some c \<longrightarrow>
        length c = length m \<and> symmetric_apply S k i c = Some m)"

lemma cipher_lawD:
  "cipher_law S \<Longrightarrow> symmetric_apply S k i m = Some c \<Longrightarrow>
   length c = length m \<and> symmetric_apply S k i c = Some m"
  unfolding cipher_law_def by blast

text \<open>The mint of an asset has that asset.\<close>

definition mint_law :: "('x, 'p, 'm, 'd, 'r, 'i) sdk_env \<Rightarrow> bool" where
  "mint_law S \<longleftrightarrow> (\<forall>a n. mint_asset S (mint_new S a n) = a)"

text \<open>An output that belongs to one owner, holds an amount of one asset and carries no data or ring
  commitment.\<close>

definition plain_output ::
  "('x, 'p, 'm, 'd, 'r, 'i) sdk_env \<Rightarrow> ('p, 'm, 'r) output_utxo \<Rightarrow> bytes \<Rightarrow> u64 \<Rightarrow>
   'p shielded_address \<Rightarrow> bool" where
  "plain_output S u mint amount owner \<longleftrightarrow>
     out_owner_address u = Some owner \<and> mint_asset S (out_asset u) = mint \<and> out_amount u = amount \<and>
     out_data_hash u = None \<and> out_ring_data_hash u = None \<and> out_ring_program_id u = None"

text \<open>
  A collision of a partial hash function: two different inputs with the same defined value. The
  binding properties produce one instead of assuming that none exists.
\<close>

definition collides :: "('a \<Rightarrow> 'b option) \<Rightarrow> 'a \<Rightarrow> 'a \<Rightarrow> bool" where
  "collides h x y \<longleftrightarrow> x \<noteq> y \<and> h x \<noteq> None \<and> h x = h y"

section \<open>A UTXO in two forms\<close>

text \<open>
  The contract of a program-owned UTXO: one transaction creates it as an output, encrypted to a
  viewing key, and a later one spends it as an input. The two forms of one state carry the same
  content, so they have the same commitment.
\<close>

locale two_forms =
  fixes S :: "('x, 'p, 'm, 'd, 'r, 'i) sdk_env"
    and output_form :: "'o \<Rightarrow> bytes \<Rightarrow> sdk_error + ('p, 'm, 'r) output_utxo"
    and input_form :: "'o \<Rightarrow> u16 \<Rightarrow> u64 \<Rightarrow> sdk_error + ('p, 'm, 'd) spend_utxo"
  assumes same_content:
    "output_laws S \<Longrightarrow> output_form x v = Inr u \<Longrightarrow> input_form x t l = Inr i \<Longrightarrow>
     \<exists>a h. out_owner_address u = Some a \<and> out_data_hash u = Some h \<and>
       out_ring_data_hash u = None \<and> out_ring_program_id u = None \<and>
       utxo_owner (in_utxo i) = signing_pubkey a \<and> utxo_asset (in_utxo i) = out_asset u \<and>
       utxo_amount (in_utxo i) = out_amount u \<and> utxo_blinding (in_utxo i) = out_blinding u \<and>
       utxo_ring_program_id (in_utxo i) = None \<and> in_data_hash i = Some h \<and>
       utxo_commit S (in_utxo i) (nullifier_pubkey a) h (replicate 32 0) t = Some (in_utxo_hash i)"
    and input_shape:
    "input_form x t l = Inr i \<Longrightarrow> input_form x t l' = Inr (i\<lparr>in_leaf_index := l'\<rparr>)"
    and input_place: "input_form x t l = Inr i \<Longrightarrow> in_tree_id i = t \<and> in_leaf_index i = l"
begin

lemma forms_hash:
  assumes "output_laws S" "commit_law S" "output_form x v = Inr u" "input_form x t l = Inr i"
  shows "output_hash S u t = Some (in_utxo_hash i)"
proof -
  obtain a h where a: "out_owner_address u = Some a" "out_data_hash u = Some h"
    "out_ring_data_hash u = None" "out_ring_program_id u = None"
    "utxo_owner (in_utxo i) = signing_pubkey a" "utxo_asset (in_utxo i) = out_asset u"
    "utxo_amount (in_utxo i) = out_amount u" "utxo_blinding (in_utxo i) = out_blinding u"
    "utxo_ring_program_id (in_utxo i) = None"
    and h: "utxo_commit S (in_utxo i) (nullifier_pubkey a) h (replicate 32 0) t = Some (in_utxo_hash i)"
    using same_content [OF assms(1,3,4)] by blast
  show ?thesis
    using assms(2) [unfolded commit_law_def, rule_format, OF a, of t] h by simp
qed

lemma forms_agree:
  assumes "output_laws S" "commit_law S" "output_form x v = Inr u" "input_form x t l = Inr i"
  shows "output_hash S u t = Some (in_utxo_hash i) \<and> in_data_hash i = out_data_hash u \<and>
     in_tree_id i = t \<and> in_leaf_index i = l"
  using forms_hash [OF assms] same_content [OF assms(1,3,4)] input_place [OF assms(4)] by auto

text \<open>The viewing key an output is encrypted to does not enter its commitment.\<close>

lemma forms_viewing_key:
  assumes "output_laws S" "commit_law S" "output_form x v = Inr u" "output_form x v' = Inr u'"
    and "input_form x t l = Inr i"
  shows "output_hash S u t = output_hash S u' t"
  using forms_hash [OF assms(1,2,3,5)] forms_hash [OF assms(1,2,4,5)] by simp

text \<open>Where the leaf is does not change what is spent: the nullifier, too, is the same.\<close>

lemma forms_leaf:
  assumes "input_form x t l = Inr i" "input_form x t l' = Inr i'"
  shows "in_utxo_hash i = in_utxo_hash i' \<and> in_nullifier i = in_nullifier i'"
  using input_shape [OF assms(1), of l'] assms(2) by auto

end

end
