(* ===== verification/Runtime.thy ===== *)
theory Runtime
  imports Codec
begin

text \<open>
  What the on-chain programs see of the Solana runtime and of the crates they call: the account
  views, \<open>ProgramError\<close>, the verifying-key structs of groth16-solana, and the record
  \<open>chain_env\<close> of every external function the instruction handlers use. A handler threads the
  state \<open>'w\<close> of the rest of the chain; an \<open>Inl\<close> result carries none, because the runtime
  rolls a failed transaction back.
\<close>

section \<open>Runtime data\<close>

text \<open>The \<open>ProgramError\<close> variants the code names; \<open>OtherProgramError\<close> stands for the rest,
  which only external functions return.\<close>

datatype program_error =
    Custom u32
  | PE_InvalidInstructionData
  | PE_IncorrectProgramId
  | PE_NotEnoughAccountKeys
  | OtherProgramError nat

record account_view =
  address :: bytes
  is_signer :: bool
  is_writable :: bool

datatype transact_accounts_error =
    InvalidSppProgram
  | MissingPdaSigner
  | NotEnoughAccounts

record commitment_vk =
  g2 :: bytes
  g_sigma_neg_g2 :: bytes

record groth16_vk =
  nr_pubinputs :: nat
  vk_alpha_g1 :: bytes
  vk_beta_g2 :: bytes
  vk_gamma_g2 :: bytes
  vk_delta_g2 :: bytes
  vk_ic :: "bytes list"
  vk_commitment :: "commitment_vk option"

text \<open>The seeds of one PDA signer: the program's seed and the bump byte.\<close>

type_synonym signer_seeds = "bytes list"

section \<open>The external functions\<close>

text \<open>
  An \<open>AccountIterator\<close> is represented by the accounts it has not returned yet. A dropped
  library error is \<open>None\<close>. \<open>'v\<close> is the prepared Groth16 verifier, \<open>'s\<close> the checked SPP
  account list, \<open>'w\<close> the state the CPI changes.
\<close>

record ('x, 'v, 's, 'w) chain_env =
  next_signer_mut :: "string \<Rightarrow> account_view list \<Rightarrow> program_error + account_view \<times> account_view list"
  next_signer :: "string \<Rightarrow> account_view list \<Rightarrow> program_error + account_view \<times> account_view list"
  remaining :: "account_view list \<Rightarrow> program_error + account_view list"
  clock_unix_timestamp :: "program_error + i64"
  poseidon_hashv :: "bytes list \<Rightarrow> bytes option"
  solana_owner_identity :: "bytes \<Rightarrow> bytes option"
  ciphertext_hash :: "bytes \<Rightarrow> bytes option"
  decompress_g1 :: "bytes \<Rightarrow> bytes option"
  decompress_g2 :: "bytes \<Rightarrow> bytes option"
  groth16_new :: "bytes \<Rightarrow> bytes \<Rightarrow> bytes \<Rightarrow> bytes list \<Rightarrow> groth16_vk \<Rightarrow> 'v option"
  groth16_new_with_commitment ::
    "bytes \<Rightarrow> bytes \<Rightarrow> bytes \<Rightarrow> bytes \<Rightarrow> bytes \<Rightarrow> bytes list \<Rightarrow> groth16_vk \<Rightarrow> 'v option"
  groth16_verify :: "'v \<Rightarrow> unit option"
  find_program_address :: "bytes list \<Rightarrow> bytes \<Rightarrow> bytes \<times> byte"
  spp_transact_accounts :: "account_view list \<Rightarrow> bytes list \<Rightarrow> transact_accounts_error + 's"
  spp_invoke :: "nat \<Rightarrow> 's \<Rightarrow> bytes \<Rightarrow> signer_seeds list \<Rightarrow> 'w \<Rightarrow> program_error + 'w"
  transact_serialize :: "'x transact_ix_data \<Rightarrow> bytes option"
  wire_of :: "'x wire"

text \<open>
  The documented behaviour of \<open>AccountIterator\<close>: a request that succeeds returns the next
  account, which has the privileges asked for, and leaves the ones behind it; an account that has
  them is returned; \<open>remaining\<close> returns what is left.
\<close>

definition account_checks_ok :: "('x, 'v, 's, 'w) chain_env \<Rightarrow> bool" where
  "account_checks_ok E \<longleftrightarrow>
     (\<forall>l as a as'. next_signer_mut E l as = Inr (a, as') \<longrightarrow>
        as = a # as' \<and> is_signer a \<and> is_writable a) \<and>
     (\<forall>l as a as'. next_signer E l as = Inr (a, as') \<longrightarrow> as = a # as' \<and> is_signer a) \<and>
     (\<forall>as as'. remaining E as = Inr as' \<longrightarrow> as' = as) \<and>
     (\<forall>l a as. is_signer a \<longrightarrow> is_writable a \<longrightarrow> next_signer_mut E l (a # as) = Inr (a, as)) \<and>
     (\<forall>l a as. is_signer a \<longrightarrow> next_signer E l (a # as) = Inr (a, as)) \<and>
     (\<forall>as. as \<noteq> [] \<longrightarrow> remaining E as = Inr as)"

lemma next_signer_mutD:
  "account_checks_ok E \<Longrightarrow> next_signer_mut E l as = Inr (a, as') \<Longrightarrow>
   as = a # as' \<and> is_signer a \<and> is_writable a"
  unfolding account_checks_ok_def by (elim conjE) metis

lemma next_signerD:
  "account_checks_ok E \<Longrightarrow> next_signer E l as = Inr (a, as') \<Longrightarrow> as = a # as' \<and> is_signer a"
  unfolding account_checks_ok_def by (elim conjE) metis

lemma remainingD: "account_checks_ok E \<Longrightarrow> remaining E as = Inr as' \<Longrightarrow> as' = as"
  unfolding account_checks_ok_def by (elim conjE) metis

lemma next_signer_mut_Cons:
  "account_checks_ok E \<Longrightarrow> is_signer a \<Longrightarrow> is_writable a \<Longrightarrow>
   next_signer_mut E l (a # as) = Inr (a, as)"
  unfolding account_checks_ok_def by (elim conjE) metis

lemma next_signer_Cons:
  "account_checks_ok E \<Longrightarrow> is_signer a \<Longrightarrow> next_signer E l (a # as) = Inr (a, as)"
  unfolding account_checks_ok_def by (elim conjE) metis

lemma remaining_Cons: "account_checks_ok E \<Longrightarrow> as \<noteq> [] \<Longrightarrow> remaining E as = Inr as"
  unfolding account_checks_ok_def by (elim conjE) metis

lemma account_checks_clock [simp]:
  "account_checks_ok (E\<lparr>clock_unix_timestamp := t\<rparr>) = account_checks_ok E"
  by (simp add: account_checks_ok_def)

section \<open>Compressed proofs and their acceptance\<close>

text \<open>Both programs declare the same \<open>CompressedGroth16Proof\<close>.\<close>

record compressed_groth16_proof =
  cp_a :: bytes
  cp_b :: bytes
  cp_c :: bytes
  cp_commitment :: "(bytes \<times> bytes) option"

text \<open>
  The specification of a verifier call, without its error plumbing: every point decompresses,
  the proof has a commitment exactly when the key has one, and the verifier accepts the single
  public input.
\<close>

definition groth16_accepts ::
  "('x, 'v, 's, 'w) chain_env \<Rightarrow> compressed_groth16_proof \<Rightarrow> bytes \<Rightarrow> groth16_vk \<Rightarrow> bool" where
  "groth16_accepts E p pih vk \<longleftrightarrow>
     (\<exists>a b c v. decompress_g1 E (cp_a p) = Some a \<and> decompress_g2 E (cp_b p) = Some b \<and>
        decompress_g1 E (cp_c p) = Some c \<and> groth16_verify E v = Some () \<and>
        (case cp_commitment p of
           None \<Rightarrow> vk_commitment vk = None \<and> groth16_new E a b c [pih] vk = Some v
         | Some (cm, pok) \<Rightarrow> vk_commitment vk \<noteq> None \<and>
             (\<exists>cm' pok'. decompress_g1 E cm = Some cm' \<and> decompress_g1 E pok = Some pok' \<and>
                groth16_new_with_commitment E a b c cm' pok' [pih] vk = Some v)))"

section \<open>Forwarding a transaction to SPP\<close>

text \<open>
  What a program promises when it forwards a transaction: the account list is one SPP accepts
  with the program's authority PDA in it, and SPP runs on exactly the given bytes with that PDA,
  derived from the program's own id and seed, as the only signer.
\<close>

definition signed_transact ::
  "('x, 'v, 's, 'w) chain_env \<Rightarrow> bytes \<Rightarrow> bytes \<Rightarrow> account_view list \<Rightarrow> bytes \<Rightarrow> 'w \<Rightarrow> 'w \<Rightarrow> bool" where
  "signed_transact E seed pid as tb w w' \<longleftrightarrow>
     (\<exists>s. spp_transact_accounts E as [fst (find_program_address E [seed] pid)] = Inr s \<and>
          spp_invoke E 16 s tb [[seed, [snd (find_program_address E [seed] pid)]]] w = Inr w')"

text \<open>
  The contract between a handler and the rest of the chain. \<open>authorised accounts data rest tb\<close>
  says that the guards of the handler let the request through and that it forwards the bytes
  \<open>tb\<close> with the accounts \<open>rest\<close>; \<open>forward\<close> is the signed call. A handler meets the contract
  when it succeeds exactly on authorised requests whose call succeeds.
\<close>

locale cpi_handler =
  fixes handler :: "account_view list \<Rightarrow> bytes \<Rightarrow> 'w \<Rightarrow> program_error + 'w"
    and authorised :: "account_view list \<Rightarrow> bytes \<Rightarrow> account_view list \<Rightarrow> bytes \<Rightarrow> bool"
    and forward :: "account_view list \<Rightarrow> bytes \<Rightarrow> 'w \<Rightarrow> 'w \<Rightarrow> bool"
  assumes handler_ok: "handler as d w = Inr w' \<longleftrightarrow>
      (\<exists>rest tb. authorised as d rest tb \<and> forward rest tb w w')"
    and authorised_unique: "authorised as d rest tb \<Longrightarrow> authorised as d rest' tb' \<Longrightarrow>
      rest' = rest \<and> tb' = tb"
    and forward_unique: "forward rest tb w w1 \<Longrightarrow> forward rest tb w w2 \<Longrightarrow> w1 = w2"
begin

lemma handler_okE:
  assumes "handler as d w = Inr w'"
  obtains rest tb where "authorised as d rest tb" "forward rest tb w w'"
  using assms handler_ok by blast

text \<open>The chain changes only through the signed call on the one request that was authorised.\<close>

lemma handler_forwards:
  assumes "handler as d w = Inr w'" "authorised as d rest tb"
  shows "forward rest tb w w'"
  using assms handler_ok authorised_unique by blast

lemma handler_rejects:
  assumes "\<And>rest tb. \<not> authorised as d rest tb"
  shows "\<exists>e. handler as d w = Inl e"
  using assms handler_ok [of as d w] by (cases "handler as d w") auto

lemma handler_runs:
  assumes "authorised as d rest tb" "forward rest tb w w'"
  shows "handler as d w = Inr w'"
  using assms handler_ok by blast

text \<open>Whatever SPP keeps true of its own state, the handler keeps true.\<close>

lemma handler_invariant:
  assumes "\<And>rest tb w w'. forward rest tb w w' \<Longrightarrow> I w \<Longrightarrow> I w'"
    and "handler as d w = Inr w'" "I w"
  shows "I w'"
  using assms handler_ok by blast

text \<open>Two chain states on which the same request is authorised differ only by what SPP did.\<close>

lemma handler_replay:
  assumes "handler as d w1 = Inr w1'" "handler as d w2 = Inr w2'"
  obtains rest tb where "authorised as d rest tb" "forward rest tb w1 w1'" "forward rest tb w2 w2'"
  using assms handler_ok authorised_unique by metis

end

lemma signed_transact_unique:
  "signed_transact E seed pid as tb w w1 \<Longrightarrow> signed_transact E seed pid as tb w w2 \<Longrightarrow> w1 = w2"
  by (auto simp: signed_transact_def)

section \<open>Deadlines\<close>

text \<open>
  A pair of time gates around one deadline: \<open>before\<close> is open up to it and \<open>after\<close> from then
  on. Both are closed while the clock is negative.
\<close>

locale deadline_gates =
  fixes before after :: "i64 \<Rightarrow> u64 \<Rightarrow> bool"
  assumes nonneg: "before t d \<or> after t d \<longleftrightarrow> 0 \<le> sint t"
    and exclusive: "\<not> (before t d \<and> after t d)"
    and after_up: "after t d \<Longrightarrow> sint t \<le> sint t' \<Longrightarrow> after t' d"
begin

lemma before_down: "before t d \<Longrightarrow> 0 \<le> sint t' \<Longrightarrow> sint t' \<le> sint t \<Longrightarrow> before t' d"
  using nonneg exclusive after_up by blast

lemma after_then_before: "after t d \<Longrightarrow> before t' d \<Longrightarrow> sint t' < sint t"
  using exclusive [of t' d] after_up [of t d t'] by (meson not_le)

text \<open>Along a clock that never goes back, nothing passes \<open>before\<close> once something passed
  \<open>after\<close>.\<close>

lemma sorted_no_before:
  assumes "sorted (map sint ts)" "i \<le> j" "j < length ts" "after (ts ! i) d"
  shows "\<not> before (ts ! j) d"
proof -
  have "map sint ts ! i \<le> map sint ts ! j"
    using assms(1-3) by (intro sorted_nth_mono) auto
  then have "sint (ts ! i) \<le> sint (ts ! j)"
    using assms(2,3) by simp
  then show ?thesis
    using after_up [OF assms(4)] exclusive by blast
qed

end

section \<open>base58 program ids\<close>

text \<open>\<open>declare_id!\<close> decodes a base58 literal into 32 bytes.\<close>

definition base58_alphabet :: string where
  "base58_alphabet = ''123456789ABCDEFGHJKLMNPQRSTUVWXYZabcdefghijkmnopqrstuvwxyz''"

fun char_pos :: "string \<Rightarrow> char \<Rightarrow> nat" where
  "char_pos [] c = 0"
| "char_pos (d # ds) c = (if c = d then 0 else Suc (char_pos ds c))"

definition base58_val :: "string \<Rightarrow> nat" where
  "base58_val s = foldl (\<lambda>n c. 58 * n + char_pos base58_alphabet c) 0 s"

definition base58_id :: "string \<Rightarrow> bytes" where
  "base58_id s = rev (le_bytes 32 (base58_val s))"

text \<open>A byte-string literal \<open>b"..."\<close>.\<close>

definition byte_string :: "string \<Rightarrow> bytes" where
  "byte_string s = map of_char s"

end
