(* ===== verification/Circuit_Gadgets.thy ===== *)
theory Circuit_Gadgets
  imports Sdk_Env Runtime
begin

text \<open>
  What the Go circuits of both programs (\<open>prover/circuits/\<close>) use of gnark and of the SDK's gadget
  library \<open>zolana/gnarksdk\<close>: the record \<open>gadgets\<close> of external functions, its documented laws, and
  how it fits the functions that the Rust SDK uses for the same things. A circuit's \<open>Define\<close> is a
  function into \<open>option\<close>: \<open>None\<close> is an assignment that breaks a constraint.
\<close>

section \<open>The external functions\<close>

text \<open>
  \<open>'f\<close> is a \<open>frontend.Variable\<close>, \<open>'u\<close> is \<open>gnarksdk.Utxo\<close>, \<open>'k\<close> and \<open>'n\<close> are the key and the nonce of
  the verifiable-encryption gadgets. \<open>gconst\<close> is a constant; the \<open>cu\<close> functions read the fields of
  a UTXO; \<open>field_to_bytes\<close> and the assertions constrain.
\<close>

record ('f, 'u, 'k, 'n) gadgets =
  gconst :: "nat \<Rightarrow> 'f"
  assert_is_equal :: "'f \<Rightarrow> 'f \<Rightarrow> bool"
  assert_is_different :: "'f \<Rightarrow> 'f \<Rightarrow> bool"
  assert_is_boolean :: "'f \<Rightarrow> bool"
  to_binary :: "'f \<Rightarrow> nat \<Rightarrow> bool"
  gposeidon :: "'f list \<Rightarrow> 'f"
  ghash_bytes :: "'f list \<Rightarrow> 'f"
  gprivate_tx_hash :: "'f list \<Rightarrow> 'f list \<Rightarrow> 'f \<Rightarrow> 'f"
  assert_transaction_blindings :: "'f \<Rightarrow> 'f \<Rightarrow> 'f \<Rightarrow> 'f \<Rightarrow> 'f \<Rightarrow> bool"
  cu_owner :: "'u \<Rightarrow> 'f"
  cu_asset :: "'u \<Rightarrow> 'f"
  cu_amount :: "'u \<Rightarrow> 'f"
  cu_blinding :: "'u \<Rightarrow> 'f"
  cu_data_hash :: "'u \<Rightarrow> 'f"
  assert_default_ring :: "'u \<Rightarrow> bool"
  cu_hash :: "'u \<Rightarrow> 'f"
  field_to_bytes :: "'f \<Rightarrow> nat \<Rightarrow> 'f list option"
  key_schedule :: "'f \<Rightarrow> 'f list \<Rightarrow> nat \<Rightarrow> 'k \<times> 'n"
  ctr_encrypt :: "'k \<Rightarrow> 'n \<Rightarrow> 'f list \<Rightarrow> 'f list"

definition assert_that :: "bool \<Rightarrow> unit option" where
  "assert_that b = (if b then Some () else None)"

lemma assert_that_iff [simp]: "assert_that b = Some u \<longleftrightarrow> b"
  by (simp add: assert_that_def)

section \<open>The laws of the assertions\<close>

text \<open>The documented meaning of the assertions; small constants are different field elements.\<close>

definition api_law :: "('f, 'u, 'k, 'n) gadgets \<Rightarrow> bool" where
  "api_law G \<longleftrightarrow>
     (\<forall>a b. assert_is_equal G a b \<longleftrightarrow> a = b) \<and>
     (\<forall>a b. assert_is_different G a b \<longleftrightarrow> a \<noteq> b) \<and>
     (\<forall>a. assert_is_boolean G a \<longleftrightarrow> a = gconst G 0 \<or> a = gconst G 1) \<and>
     (\<forall>a n. to_binary G a n \<longleftrightarrow> (\<exists>k < 2 ^ n. a = gconst G k)) \<and>
     (\<forall>j < 2 ^ 64. \<forall>k < 2 ^ 64. gconst G j = gconst G k \<longrightarrow> j = k)"

lemma api_simps:
  assumes "api_law G"
  shows "assert_is_equal G a b \<longleftrightarrow> a = b" "assert_is_different G a b \<longleftrightarrow> a \<noteq> b"
    "assert_is_boolean G a \<longleftrightarrow> a = gconst G 0 \<or> a = gconst G 1"
    "to_binary G a n \<longleftrightarrow> (\<exists>k < 2 ^ n. a = gconst G k)"
  using assms unfolding api_law_def by blast+

lemma gconst_inject:
  "api_law G \<Longrightarrow> j < 2 ^ 64 \<Longrightarrow> k < 2 ^ 64 \<Longrightarrow> gconst G j = gconst G k \<longleftrightarrow> j = k"
  unfolding api_law_def by blast

lemma gconst_u64_inject:
  "api_law G \<Longrightarrow> gconst G (unat (x :: u64)) = gconst G (unat (y :: u64)) \<longleftrightarrow> x = y"
  using gconst_inject [of G "unat x" "unat y"] unat_u64_bound [of x] unat_u64_bound [of y]
  by (simp add: word_unat_eq_iff)

lemma gconst_u64_0:
  "api_law G \<Longrightarrow> gconst G (unat (x :: u64)) = gconst G 0 \<longleftrightarrow> x = 0"
  using gconst_u64_inject [of G x 0] by simp

lemma gconst_u64_1:
  "api_law G \<Longrightarrow> gconst G (unat (x :: u64)) = gconst G (Suc 0) \<longleftrightarrow> x = 1"
  using gconst_u64_inject [of G x 1] by simp

lemma to_binary_u64: "api_law G \<Longrightarrow> to_binary G (gconst G (unat (x :: u64))) 64"
  using unat_u64_bound [of x] by (auto simp: api_simps)

section \<open>How the gadgets fit the SDK\<close>

text \<open>
  The gadgets compute on field elements what the SDK's functions compute on 32-byte strings:
  \<open>fe\<close> reads a big-endian string as a field element, \<open>gbytes\<close> a string as a list of bytes.
\<close>

definition gbytes :: "('f, 'u, 'k, 'n) gadgets \<Rightarrow> bytes \<Rightarrow> 'f list" where
  "gbytes G bs = map (\<lambda>b. gconst G (unat b)) bs"

definition fe_law :: "('f, 'u, 'k, 'n) gadgets \<Rightarrow> (bytes \<Rightarrow> 'f) \<Rightarrow> bool" where
  "fe_law G fe \<longleftrightarrow> (\<forall>bs. length bs = 32 \<longrightarrow> fe bs = gconst G (be_val bs))"

definition poseidon_fit ::
  "('f, 'u, 'k, 'n) gadgets \<Rightarrow> (bytes \<Rightarrow> 'f) \<Rightarrow> (bytes list \<Rightarrow> bytes option) \<Rightarrow> bool" where
  "poseidon_fit G fe hashv \<longleftrightarrow> (\<forall>xs h. hashv xs = Some h \<longrightarrow> gposeidon G (map fe xs) = fe h)"

definition hashes_fit ::
  "('f, 'u, 'k, 'n) gadgets \<Rightarrow> (bytes \<Rightarrow> 'f) \<Rightarrow> ('x, 'p, 'm, 'd, 'r, 'i) sdk_env \<Rightarrow> bool" where
  "hashes_fit G fe S \<longleftrightarrow>
     fe_law G fe \<and> poseidon_fit G fe (sdk_poseidon S) \<and> poseidon_fit G fe (sdk_hashv S) \<and>
     (\<forall>bs h. hash_bytes S bs = Some h \<longrightarrow> ghash_bytes G (gbytes G bs) = fe h) \<and>
     (\<forall>o_hash v h. compressed_address_hash S o_hash v = Some h \<longrightarrow>
        gposeidon G [fe o_hash, ghash_bytes G (gbytes G v)] = fe h) \<and>
     (\<forall>a h f. owner_hash S a = Some h \<longrightarrow> owner_proof_input_hash S (signing_pubkey a) = Some f \<longrightarrow>
        gposeidon G [fe f, fe (nullifier_pubkey a)] = fe h) \<and>
     (\<forall>ins outs b h. private_tx_hash_of S ins outs b = Some h \<longrightarrow>
        gprivate_tx_hash G (map fe ins) (map fe outs) (fe b) = fe h)"

text \<open>The proof input that the SDK makes of an output is the UTXO of the circuit, field by field;
  \<open>cu\<close> reads the one as the other.\<close>

definition utxo_fits ::
  "('f, 'u, 'k, 'n) gadgets \<Rightarrow> (bytes \<Rightarrow> 'f) \<Rightarrow> ('x, 'p, 'm, 'd, 'r, 'i) sdk_env \<Rightarrow>
   ('p, 'm, 'r) output_utxo \<Rightarrow> 'u \<Rightarrow> bool" where
  "utxo_fits G fe S u c \<longleftrightarrow>
     (\<forall>a. out_owner_address u = Some a \<longrightarrow>
        (\<exists>h. owner_hash S a = Some h \<and> cu_owner G c = fe h)) \<and>
     (\<exists>h. hash_bytes S (mint_asset S (out_asset u)) = Some h \<and> cu_asset G c = fe h) \<and>
     cu_amount G c = gconst G (unat (out_amount u)) \<and>
     cu_blinding G c = fe (out_blinding u) \<and>
     cu_data_hash G c = (case out_data_hash u of None \<Rightarrow> gconst G 0 | Some h \<Rightarrow> fe h) \<and>
     (out_ring_data_hash u = None \<longrightarrow> out_ring_program_id u = None \<longrightarrow> assert_default_ring G c)"

definition utxos_fit ::
  "('f, 'u, 'k, 'n) gadgets \<Rightarrow> (bytes \<Rightarrow> 'f) \<Rightarrow> ('x, 'p, 'm, 'd, 'r, 'i) sdk_env \<Rightarrow> ('i \<Rightarrow> 'u) \<Rightarrow> bool" where
  "utxos_fit G fe S cu \<longleftrightarrow>
     (\<forall>u t i. proof_input S u t = Some i \<longrightarrow> utxo_fits G fe S u (cu i)) \<and>
     (\<forall>i h. proof_input_hash S i = Some h \<longrightarrow> cu_hash G (cu i) = fe h)"

text \<open>Blindings derived as the SDK derives them satisfy the gadget.\<close>

definition blindings_fit ::
  "('f, 'u, 'k, 'n) gadgets \<Rightarrow> (bytes \<Rightarrow> 'f) \<Rightarrow> ('x, 'p, 'm, 'd, 'r, 'i) sdk_env \<Rightarrow> bool" where
  "blindings_fit G fe S \<longleftrightarrow>
     (\<forall>n s seed b x y. derive_output_blinding_seed S n s = Some seed \<longrightarrow>
        derive_private_tx_blinding S n s = Some b \<longrightarrow>
        derive_transact_output_blinding S n seed 0 = Some x \<longrightarrow>
        derive_transact_output_blinding S n seed 1 = Some y \<longrightarrow>
        assert_transaction_blindings G (fe n) (fe s) (fe b) (fe x) (fe y))"

text \<open>The order of the BN254 scalar field, over which the circuits run, and the 32-byte encodings of its
  elements. Only on these does \<open>fe\<close> keep byte strings apart; longer numbers are reduced.\<close>

definition bn254_r :: nat where
  "bn254_r = 21888242871839275222246405745257275088548364400416034343698204186575808495617"

definition canonical :: "bytes \<Rightarrow> bool" where
  "canonical bs \<longleftrightarrow> length bs = 32 \<and> be_val bs < bn254_r"

text \<open>The gadgets that take a field element apart return the bytes of its canonical encoding; under a key
  that is a Poseidon hash, and so canonical, they encrypt what the SDK's cipher encrypts; and the hash
  of a ciphertext that the program computes is the hash of its bytes.\<close>

definition cipher_fit ::
  "('f, 'u, 'k, 'n) gadgets \<Rightarrow> (bytes \<Rightarrow> 'f) \<Rightarrow> ('x, 'p, 'm, 'd, 'r, 'i) sdk_env \<Rightarrow> bool" where
  "cipher_fit G fe S \<longleftrightarrow>
     (\<forall>bs. canonical bs \<longrightarrow> field_to_bytes G (fe bs) 32 = Some (gbytes G bs)) \<and>
     (\<forall>x. field_to_bytes G (gconst G (unat (x :: u64))) 8 = Some (gbytes G (to_be_bytes x))) \<and>
     (\<forall>xs k m c. sdk_poseidon S xs = Some k \<longrightarrow> symmetric_apply S k (merge_info S) m = Some c \<longrightarrow>
        (case key_schedule G (fe k) (gbytes G (merge_info S)) (length (merge_info S)) of
           (key, nonce) \<Rightarrow> ctr_encrypt G key nonce (gbytes G m) = gbytes G c)) \<and>
     (\<forall>c h. sdk_ciphertext_hash S c = Some h \<longrightarrow> ghash_bytes G (gbytes G c) = fe h) \<and>
     merge_info S = byte_string ''TSPP/merge''"

lemma gbytes_append: "gbytes G (xs @ ys) = gbytes G xs @ gbytes G ys"
  by (simp add: gbytes_def)

lemma poseidon_fitD: "poseidon_fit G fe hashv \<Longrightarrow> hashv xs = Some h \<Longrightarrow> gposeidon G (map fe xs) = fe h"
  unfolding poseidon_fit_def by blast

lemma hashes_fitD:
  assumes "hashes_fit G fe S"
  shows "fe_law G fe" "poseidon_fit G fe (sdk_poseidon S)" "poseidon_fit G fe (sdk_hashv S)"
    "hash_bytes S bs = Some h \<Longrightarrow> ghash_bytes G (gbytes G bs) = fe h"
    "compressed_address_hash S o_hash v = Some h \<Longrightarrow>
       gposeidon G [fe o_hash, ghash_bytes G (gbytes G v)] = fe h"
    "owner_hash S a = Some h \<Longrightarrow> owner_proof_input_hash S (signing_pubkey a) = Some f \<Longrightarrow>
       gposeidon G [fe f, fe (nullifier_pubkey a)] = fe h"
    "private_tx_hash_of S ins outs b = Some h \<Longrightarrow>
       gprivate_tx_hash G (map fe ins) (map fe outs) (fe b) = fe h"
  using assms unfolding hashes_fit_def by blast+

lemma utxos_fitD:
  assumes "utxos_fit G fe S cu"
  shows "proof_input S u t = Some i \<Longrightarrow> utxo_fits G fe S u (cu i)"
    "proof_input_hash S i = Some h \<Longrightarrow> cu_hash G (cu i) = fe h"
  using assms unfolding utxos_fit_def by blast+

text \<open>The fields of a plain output.\<close>

lemma plain_output_fits:
  assumes "utxo_fits G fe S u c" "plain_output S u mint amount a"
  shows "cu_amount G c = gconst G (unat amount)" "cu_data_hash G c = gconst G 0"
    "assert_default_ring G c" "hash_bytes S mint = Some h \<Longrightarrow> cu_asset G c = fe h"
    "owner_hash S a = Some k \<Longrightarrow> cu_owner G c = fe k" "hash_bytes S mint \<noteq> None"
    "owner_hash S a \<noteq> None"
  using assms by (auto simp: utxo_fits_def plain_output_def)

text \<open>The encodings of integers and of the missing commitment.\<close>

lemma fe_be_u64: "fe_law G fe \<Longrightarrow> fe (replicate 24 0 @ to_be_bytes x) = gconst G (unat x)"
  unfolding fe_law_def by (simp add: byte_simps)

lemma fe_zeros:
  assumes "fe_law G fe"
  shows "fe (replicate 32 0) = gconst G 0"
proof -
  have "be_val (replicate 32 0 :: bytes) = 0"
    using be_val_zeros_append [of 32 "[]"] by (simp add: be_val_def)
  then show ?thesis
    using assms unfolding fe_law_def by simp
qed

end
