(* ===== verification/Swap_Shared.thy ===== *)
theory Swap_Shared
  imports Runtime
begin

text \<open>
  The parts of the swap program that its instructions share: the error enum
  (\<open>swap-program/program/src/error.rs\<close>), the time gates and the signed SPP call
  (\<open>instructions/shared.rs\<close>), and the proof verifier (\<open>instructions/verifier.rs\<close>).
\<close>

section \<open>Errors\<close>

datatype swap_error =
    Swap_Expired
  | Swap_NotYetExpired
  | Swap_ProofVerificationFailed
  | Swap_InvalidInstructionData
  | Swap_InvalidShieldedPoolProgram
  | Swap_MissingOrderAuthority
  | Swap_InvalidMarkerMessage
  | Swap_MarkerDataNotEmpty
  | Swap_HashingFailed

fun swap_error_code :: "swap_error \<Rightarrow> u32" where
  "swap_error_code Swap_Expired = 8005"
| "swap_error_code Swap_NotYetExpired = 8006"
| "swap_error_code Swap_ProofVerificationFailed = 8007"
| "swap_error_code Swap_InvalidInstructionData = 8011"
| "swap_error_code Swap_InvalidShieldedPoolProgram = 8012"
| "swap_error_code Swap_MissingOrderAuthority = 8013"
| "swap_error_code Swap_InvalidMarkerMessage = 8014"
| "swap_error_code Swap_MarkerDataNotEmpty = 8015"
| "swap_error_code Swap_HashingFailed = 8016"

text \<open>The \<open>#[error]\<close> texts.\<close>

fun swap_error_display :: "swap_error \<Rightarrow> string" where
  "swap_error_display Swap_Expired = ''order has expired''"
| "swap_error_display Swap_NotYetExpired = ''order has not yet expired''"
| "swap_error_display Swap_ProofVerificationFailed = ''proof verification failed''"
| "swap_error_display Swap_InvalidInstructionData = ''instruction data is invalid''"
| "swap_error_display Swap_InvalidShieldedPoolProgram = ''shielded-pool program account is invalid''"
| "swap_error_display Swap_MissingOrderAuthority =
     ''order-authority account is missing from the transact account list''"
| "swap_error_display Swap_InvalidMarkerMessage = ''make transact must carry exactly one marker message''"
| "swap_error_display Swap_MarkerDataNotEmpty = ''make marker message data must be empty''"
| "swap_error_display Swap_HashingFailed = ''hashing failed''"

text \<open>\<open>From<SwapError> for ProgramError\<close> and \<open>From<HasherError> for SwapError\<close>.\<close>

definition swap_program_error :: "swap_error \<Rightarrow> program_error" where
  "swap_program_error e = Custom (swap_error_code e)"

definition swap_error_of_hasher :: "'h \<Rightarrow> swap_error" where
  "swap_error_of_hasher h = Swap_HashingFailed"

lemma swap_error_code_inject: "swap_error_code e = swap_error_code e' \<longleftrightarrow> e = e'"
  by (cases e; cases e') simp_all

lemma swap_program_error_inject [simp]: "swap_program_error e = swap_program_error e' \<longleftrightarrow> e = e'"
  by (simp add: swap_program_error_def swap_error_code_inject)

section \<open>Constants\<close>

definition order_authority_pda_seed :: bytes where
  "order_authority_pda_seed = byte_string ''order_authority''"

definition swap_id :: bytes where
  "swap_id = base58_id ''US517G5965aydkZ46HS38QLi7UQiSojurfbQfKCELFx''"

definition swap_tag_make :: byte where
  "swap_tag_make = 2"

definition swap_tag_take :: byte where
  "swap_tag_take = 3"

definition swap_tag_cancel :: byte where
  "swap_tag_cancel = 4"

definition swap_tag_take_ve :: byte where
  "swap_tag_take_ve = 5"

lemmas swap_tag_defs = swap_tag_make_def swap_tag_take_def swap_tag_cancel_def swap_tag_take_ve_def

section \<open>Field encoding and time gates\<close>

definition swap_u64_right_align :: "u64 \<Rightarrow> bytes" where
  "swap_u64_right_align value = replicate 24 0 @ to_be_bytes value"

definition check_within_window :: "i64 \<Rightarrow> u64 \<Rightarrow> program_error + unit" where
  "check_within_window now expiry =
     (if 0 \<le> sint now \<and> now \<le> expiry then Inr () else Inl (swap_program_error Swap_Expired))"

definition check_after_window :: "i64 \<Rightarrow> u64 \<Rightarrow> program_error + unit" where
  "check_after_window now expiry =
     (if 0 \<le> sint now \<and> expiry < now then Inr ()
      else Inl (swap_program_error Swap_NotYetExpired))"

lemma swap_u64_right_align_inject [simp]:
  "swap_u64_right_align x = swap_u64_right_align y \<longleftrightarrow> x = y"
  by (simp add: swap_u64_right_align_def)

lemma length_swap_u64_right_align [simp, byte_simps]: "length (swap_u64_right_align x) = 32"
  by (simp add: swap_u64_right_align_def)

lemma be_val_swap_u64_right_align [byte_simps]: "be_val (swap_u64_right_align x) = unat x"
  by (simp add: swap_u64_right_align_def byte_simps)

lemma check_within_window_ok [result_simps]:
  "check_within_window now d = Inr u \<longleftrightarrow> 0 \<le> sint now \<and> now \<le> d"
  by (simp add: check_within_window_def)

lemma check_after_window_ok [result_simps]:
  "check_after_window now d = Inr u \<longleftrightarrow> 0 \<le> sint now \<and> d < now"
  by (simp add: check_after_window_def)

lemma check_within_window_err [result_simps]:
  "check_within_window now d = Inl e \<longleftrightarrow>
     \<not> (0 \<le> sint now \<and> now \<le> d) \<and> e = swap_program_error Swap_Expired"
  by (auto simp: check_within_window_def)

lemma check_after_window_err [result_simps]:
  "check_after_window now d = Inl e \<longleftrightarrow>
     \<not> (0 \<le> sint now \<and> d < now) \<and> e = swap_program_error Swap_NotYetExpired"
  by (auto simp: check_after_window_def)

text \<open>The two gates of an order meet the contract of a deadline.\<close>

interpretation order_window: deadline_gates
  "\<lambda>t d. check_within_window t d = Inr ()" "\<lambda>t d. check_after_window t d = Inr ()"
proof
  show "check_within_window t d = Inr () \<or> check_after_window t d = Inr () \<longleftrightarrow> 0 \<le> sint t" for t d
    by (auto simp: result_simps)
  show "\<not> (check_within_window t d = Inr () \<and> check_after_window t d = Inr ())" for t d
    by (auto simp: result_simps)
  show "check_after_window t' d = Inr ()"
    if "check_after_window t d = Inr ()" "sint t \<le> sint t'" for t d t'
  proof -
    have "0 \<le> sint t" "d < t" using that(1) by (auto simp: result_simps)
    then have "t \<le> t'"
      using that(2) by (simp add: word_le_def uint_nonneg_sint)
    with that \<open>0 \<le> sint t\<close> \<open>d < t\<close> show ?thesis by (simp add: result_simps)
  qed
qed

section \<open>The signed SPP call\<close>

fun swap_transact_accounts_error :: "transact_accounts_error \<Rightarrow> program_error" where
  "swap_transact_accounts_error InvalidSppProgram = swap_program_error Swap_InvalidShieldedPoolProgram"
| "swap_transact_accounts_error MissingPdaSigner = swap_program_error Swap_MissingOrderAuthority"
| "swap_transact_accounts_error NotEnoughAccounts = PE_NotEnoughAccountKeys"

definition swap_cpi_spp_transact_signed ::
  "('x, 'v, 's, 'w) chain_env \<Rightarrow> account_view list \<Rightarrow> bytes \<Rightarrow> 'w \<Rightarrow> program_error + 'w" where
  "swap_cpi_spp_transact_signed E spp_accounts transact_bytes w =
     (let (order_authority, bump) = find_program_address E [order_authority_pda_seed] swap_id;
          signer_pdas = [order_authority]
      in bindR (map_errR swap_transact_accounts_error (spp_transact_accounts E spp_accounts signer_pdas))
           (\<lambda>spp. spp_invoke E 16 spp transact_bytes [[order_authority_pda_seed, [bump]]] w))"

text \<open>The call succeeds exactly when SPP ran under the order authority's signature.\<close>

abbreviation swap_signed ::
  "('x, 'v, 's, 'w) chain_env \<Rightarrow> account_view list \<Rightarrow> bytes \<Rightarrow> 'w \<Rightarrow> 'w \<Rightarrow> bool" where
  "swap_signed E \<equiv> signed_transact E order_authority_pda_seed swap_id"

lemma swap_cpi_ok [result_simps]:
  "swap_cpi_spp_transact_signed E as tb w = Inr w' \<longleftrightarrow> swap_signed E as tb w w'"
  by (cases "find_program_address E [order_authority_pda_seed] swap_id")
    (simp add: swap_cpi_spp_transact_signed_def signed_transact_def result_simps)

lemma swap_cpi_bad_accounts:
  "spp_transact_accounts E as [fst (find_program_address E [order_authority_pda_seed] swap_id)] = Inl e \<Longrightarrow>
   swap_cpi_spp_transact_signed E as tb w = Inl (swap_transact_accounts_error e)"
  by (cases "find_program_address E [order_authority_pda_seed] swap_id")
    (simp add: swap_cpi_spp_transact_signed_def)

section \<open>The proof verifier\<close>

definition swap_proof_err :: swap_error where
  "swap_proof_err = Swap_ProofVerificationFailed"

definition swap_verify_groth16 ::
  "('x, 'v, 's, 'w) chain_env \<Rightarrow> compressed_groth16_proof \<Rightarrow> bytes \<Rightarrow> groth16_vk \<Rightarrow>
   program_error + unit" where
  "swap_verify_groth16 E proof public_input_hash verifying_key =
     (let err = swap_program_error swap_proof_err in
      bindR (ok_or err (decompress_g1 E (cp_a proof))) (\<lambda>proof_a.
      bindR (ok_or err (decompress_g2 E (cp_b proof))) (\<lambda>proof_b.
      bindR (ok_or err (decompress_g1 E (cp_c proof))) (\<lambda>proof_c.
      let public_inputs = [public_input_hash] in
      case (cp_commitment proof, vk_commitment verifying_key \<noteq> None) of
        (Some (cm, pok), True) \<Rightarrow>
          bindR (ok_or err (decompress_g1 E cm)) (\<lambda>commitment.
          bindR (ok_or err (decompress_g1 E pok)) (\<lambda>commitment_pok.
          bindR (ok_or err (groth16_new_with_commitment E proof_a proof_b proof_c commitment
                   commitment_pok public_inputs verifying_key)) (\<lambda>verifier.
          ok_or err (groth16_verify E verifier))))
      | (None, False) \<Rightarrow>
          bindR (ok_or err (groth16_new E proof_a proof_b proof_c public_inputs verifying_key))
            (\<lambda>verifier. ok_or err (groth16_verify E verifier))
      | _ \<Rightarrow> Inl err))))"

text \<open>The verifier decides acceptance, and every failure is the one proof error.\<close>

lemma swap_verify_groth16_ok [result_simps]:
  "swap_verify_groth16 E p pih vk = Inr u \<longleftrightarrow> groth16_accepts E p pih vk"
  by (auto simp: swap_verify_groth16_def groth16_accepts_def result_simps Let_def
      split: option.splits bool.splits)

lemma swap_verify_groth16_err [result_simps]:
  "swap_verify_groth16 E p pih vk = Inl e \<longleftrightarrow>
     \<not> groth16_accepts E p pih vk \<and> e = swap_program_error Swap_ProofVerificationFailed"
proof (rule Inl_iff_single)
  show "swap_verify_groth16 E p pih vk = Inr u \<longleftrightarrow> groth16_accepts E p pih vk" for u
    by (rule swap_verify_groth16_ok)
  show "e = swap_program_error Swap_ProofVerificationFailed"
    if "swap_verify_groth16 E p pih vk = Inl e" for e
    using that
    by (cases "cp_commitment p"; cases "vk_commitment vk")
      (auto simp: swap_verify_groth16_def swap_proof_err_def Let_def result_simps)
qed

end
