(* ===== verification/Swap_Order.thy ===== *)
theory Swap_Order
  imports Swap_Shared Sdk_Env
begin

text \<open>
  The order state of the swap SDK (\<open>swap-program/sdk/src/state/order.rs\<close>): the order terms and the
  hash that commits to them, the order UTXO in its two forms (the output that make mints and the
  input that take and cancel spend), and the note that the taker reads. With it the shared
  helpers (\<open>sdk/src/shared.rs\<close>, \<open>sdk/src/lib.rs\<close>), the settlement blinding seed
  (\<open>instructions/take/derivation.rs\<close>) and the destination ciphertext
  (\<open>instructions/take_verifiable_encryption/encryption.rs\<close>).
\<close>

section \<open>Terms\<close>

definition take_mode_derived :: u64 where
  "take_mode_derived = 0"

definition take_mode_verifiable :: u64 where
  "take_mode_verifiable = 1"

definition take_enc_kdf_domain :: u64 where
  "take_enc_kdf_domain = 0x5357415054414b45"

record 'p order_terms =
  ot_destination_mint :: bytes
  ot_destination_amount :: u64
  ot_destination :: "'p shielded_address"
  ot_taker :: bytes
  ot_expiry :: u64
  ot_take_mode :: u64

record order_terms_proof_input =
  op_destination_asset :: bytes
  op_destination_amount :: u64
  op_maker_owner_hash :: bytes
  op_maker_viewing_pk :: bytes
  op_expiry :: u64
  op_taker_pk_fe :: bytes
  op_take_mode :: u64

text \<open>\<open>impl DataHash for Address\<close>.\<close>

definition address_data_hash :: "('x, 'p, 'm, 'd, 'r, 'i) sdk_env \<Rightarrow> bytes \<Rightarrow> sdk_error + bytes" where
  "address_data_hash S a = ext (owner_identity S a)"

text \<open>\<open>TryFrom<&OrderTerms> for OrderTermsProofInput\<close>.\<close>

definition order_terms_proof_input_of ::
  "('x, 'p, 'm, 'd, 'r, 'i) sdk_env \<Rightarrow> 'p order_terms \<Rightarrow> sdk_error + order_terms_proof_input" where
  "order_terms_proof_input_of S terms =
     bindR (ext (hash_bytes S (ot_destination_mint terms))) (\<lambda>destination_asset.
     bindR (ext (owner_hash S (ot_destination terms))) (\<lambda>maker_owner_hash.
     bindR (address_data_hash S (ot_taker terms)) (\<lambda>taker_pk_fe.
     Inr \<lparr>op_destination_asset = destination_asset,
          op_destination_amount = ot_destination_amount terms,
          op_maker_owner_hash = maker_owner_hash,
          op_maker_viewing_pk = viewing_pubkey (ot_destination terms),
          op_expiry = ot_expiry terms,
          op_taker_pk_fe = taker_pk_fe,
          op_take_mode = ot_take_mode terms\<rparr>)))"

text \<open>\<open>impl DataHash for OrderTermsProofInput\<close>.\<close>

definition order_input_data_hash ::
  "('x, 'p, 'm, 'd, 'r, 'i) sdk_env \<Rightarrow> order_terms_proof_input \<Rightarrow> sdk_error + bytes" where
  "order_input_data_hash S t =
     bindR (ext (viewing_from_bytes S (op_maker_viewing_pk t))) (\<lambda>viewing.
     bindR (ext (compressed_address_hash S (op_maker_owner_hash t) viewing)) (\<lambda>maker_address.
     ext (sdk_poseidon S
       [op_destination_asset t, swap_u64_right_align (op_destination_amount t), maker_address,
        swap_u64_right_align (op_expiry t), op_taker_pk_fe t,
        swap_u64_right_align (op_take_mode t)])))"

definition order_terms_data_hash ::
  "('x, 'p, 'm, 'd, 'r, 'i) sdk_env \<Rightarrow> 'p order_terms \<Rightarrow> sdk_error + bytes" where
  "order_terms_data_hash S terms = bindR (order_terms_proof_input_of S terms) (order_input_data_hash S)"

section \<open>The note\<close>

record plain_text_data =
  pt_destination_asset_id :: u64
  pt_destination_amount :: u64
  pt_expiry :: u64
  pt_taker :: bytes
  pt_take_mode :: u64

definition to_plaintext :: "'p order_terms \<Rightarrow> u64 \<Rightarrow> plain_text_data" where
  "to_plaintext terms destination_asset_id =
     \<lparr>pt_destination_asset_id = destination_asset_id,
      pt_destination_amount = ot_destination_amount terms,
      pt_expiry = ot_expiry terms, pt_taker = ot_taker terms,
      pt_take_mode = ot_take_mode terms\<rparr>"

definition put_plaintext :: "'x wire \<Rightarrow> plain_text_data \<Rightarrow> bytes option" where
  "put_plaintext W d = do {
     i \<leftarrow> put_u64 W (pt_destination_asset_id d);
     a \<leftarrow> put_u64 W (pt_destination_amount d);
     e \<leftarrow> put_u64 W (pt_expiry d);
     t \<leftarrow> put_array W (pt_taker d);
     m \<leftarrow> put_u64 W (pt_take_mode d);
     Some (i @ a @ e @ t @ m)
   }"

definition get_plaintext :: "'x wire \<Rightarrow> bytes \<Rightarrow> (plain_text_data \<times> bytes) option" where
  "get_plaintext W bs = do {
     (i, bs) \<leftarrow> get_u64 W bs;
     (a, bs) \<leftarrow> get_u64 W bs;
     (e, bs) \<leftarrow> get_u64 W bs;
     (t, bs) \<leftarrow> get_array W 32 bs;
     (m, bs) \<leftarrow> get_u64 W bs;
     Some (\<lparr>pt_destination_asset_id = i, pt_destination_amount = a, pt_expiry = e, pt_taker = t,
            pt_take_mode = m\<rparr>, bs)
   }"

definition plaintext_serialize ::
  "('x, 'p, 'm, 'd, 'r, 'i) sdk_env \<Rightarrow> plain_text_data \<Rightarrow> sdk_error + bytes" where
  "plaintext_serialize S d = ext (put_plaintext (sdk_wire S) d)"

definition plaintext_deserialize ::
  "('x, 'p, 'm, 'd, 'r, 'i) sdk_env \<Rightarrow> bytes \<Rightarrow> sdk_error + plain_text_data" where
  "plaintext_deserialize S bs = ext (deserialize_exact (get_plaintext (sdk_wire S)) bs)"

interpretation plaintext: codec "put_plaintext W" "get_plaintext W"
  "\<lambda>d. wincode_ok W \<and> length (pt_taker d) = 32" for W
  by unfold_locales
    (auto simp: put_plaintext_def get_plaintext_def codec_simps bind_eq_Some_conv)

section \<open>The order UTXO\<close>

record ('p, 'm) order_utxo =
  ou_terms :: "'p order_terms"
  ou_blinding :: bytes
  ou_source_mint :: 'm
  ou_source_amount :: u64
  ou_destination_asset_id :: u64

definition order_authority_pda :: "('x, 'p, 'm, 'd, 'r, 'i) sdk_env \<Rightarrow> bytes" where
  "order_authority_pda S = fst (pda_of S [order_authority_pda_seed] swap_id)"

definition order_pda_owner :: "('x, 'p, 'm, 'd, 'r, 'i) sdk_env \<Rightarrow> 'p" where
  "order_pda_owner S = from_ed25519 S (order_authority_pda S)"

text \<open>The secret of the constant nullifier key, \<open>[0u8; BLINDING_LEN]\<close>.\<close>

definition order_nullifier_key :: bytes where
  "order_nullifier_key = replicate 31 0"

definition order_output_utxo ::
  "('x, 'p, 'm, 'd, 'r, 'i) sdk_env \<Rightarrow> ('p, 'm) order_utxo \<Rightarrow> bytes \<Rightarrow>
   sdk_error + ('p, 'm, 'r) output_utxo" where
  "order_output_utxo S order taker_viewing_pubkey =
     bindR (order_terms_data_hash S (ou_terms order)) (\<lambda>data_hash.
     bindR (ext (nullifier_key_pubkey S order_nullifier_key)) (\<lambda>npk.
     let owner = \<lparr>signing_pubkey = order_pda_owner S, nullifier_pubkey = npk,
                  viewing_pubkey = taker_viewing_pubkey\<rparr>
     in bindR (plaintext_serialize S (to_plaintext (ou_terms order) (ou_destination_asset_id order)))
          (\<lambda>note. Inr (with_utxo_data S
             ((default_output S)\<lparr>out_asset := ou_source_mint order, out_amount := ou_source_amount order,
                out_blinding := ou_blinding order, out_owner_address := Some owner\<rparr>)
             note data_hash))))"

definition order_to_input_utxo ::
  "('x, 'p, 'm, 'd, 'r, 'i) sdk_env \<Rightarrow> ('p, 'm) order_utxo \<Rightarrow> u16 \<Rightarrow> u64 \<Rightarrow>
   sdk_error + ('p, 'm, 'd) spend_utxo" where
  "order_to_input_utxo S order tree_id leaf_index =
     (let utxo = \<lparr>utxo_owner = order_pda_owner S, utxo_asset = ou_source_mint order,
                  utxo_amount = ou_source_amount order, utxo_blinding = ou_blinding order,
                  utxo_ring_program_id = None, utxo_data = default_data S\<rparr>
      in bindR (order_terms_data_hash S (ou_terms order)) (\<lambda>data_hash.
         bindR (ext (nullifier_key_pubkey S order_nullifier_key)) (\<lambda>npk.
         bindR (ext (utxo_commit S utxo npk data_hash (replicate 32 0) tree_id)) (\<lambda>h.
         bindR (ext (nullifier_key_nullifier S order_nullifier_key h (utxo_blinding utxo))) (\<lambda>nf.
         Inr \<lparr>in_address = False, in_utxo = utxo, in_utxo_hash = h, in_nullifier = nf,
              in_nullifier_pubkey = npk, in_data_hash = Some data_hash, in_ring_data_hash = None,
              in_tree_id = tree_id, in_leaf_index = leaf_index, in_cache_slot = None,
              in_compact = False\<rparr>)))))"

definition order_source_output ::
  "('x, 'p, 'm, 'd, 'r, 'i) sdk_env \<Rightarrow> ('p, 'm) order_utxo \<Rightarrow> 'p shielded_address \<Rightarrow> bytes \<Rightarrow>
   ('p, 'm, 'r) output_utxo" where
  "order_source_output S order recipient blinding =
     (default_output S)\<lparr>out_asset := ou_source_mint order, out_amount := ou_source_amount order,
        out_blinding := blinding, out_owner_address := Some recipient\<rparr>"

definition order_destination_output ::
  "('x, 'p, 'm, 'd, 'r, 'i) sdk_env \<Rightarrow> ('p, 'm) order_utxo \<Rightarrow> 'p shielded_address \<Rightarrow> bytes \<Rightarrow>
   ('p, 'm, 'r) output_utxo" where
  "order_destination_output S order recipient blinding =
     (default_output S)\<lparr>
        out_asset := mint_new S (ot_destination_mint (ou_terms order)) (ou_destination_asset_id order),
        out_amount := ot_destination_amount (ou_terms order),
        out_blinding := blinding, out_owner_address := Some recipient\<rparr>"

section \<open>Derived settlement\<close>

definition take_blinding_seed ::
  "('x, 'p, 'm, 'd, 'r, 'i) sdk_env \<Rightarrow> bytes \<Rightarrow> sdk_error + bytes" where
  "take_blinding_seed S order_blinding =
     (let domain = replicate 28 0 @ byte_string ''SWTX''
      in ext (sdk_poseidon S [domain, order_blinding]))"

definition derived_destination_output ::
  "('x, 'p, 'm, 'd, 'r, 'i) sdk_env \<Rightarrow> ('p, 'm) order_utxo \<Rightarrow> bytes \<Rightarrow>
   sdk_error + ('p, 'm, 'r) output_utxo" where
  "derived_destination_output S order first_nullifier =
     bindR (guardR (ot_take_mode (ou_terms order) = take_mode_derived)
              (Msg ''order does not use derived settlement'')) (\<lambda>_.
     bindR (take_blinding_seed S (ou_blinding order)) (\<lambda>blinding_seed.
     bindR (ext (derive_output_blinding_seed S first_nullifier blinding_seed)) (\<lambda>seed.
     bindR (ext (derive_transact_output_blinding S first_nullifier seed 1)) (\<lambda>blinding.
     Inr (order_destination_output S order (ot_destination (ou_terms order)) blinding)))))"

section \<open>The destination ciphertext\<close>

definition destination_ciphertext_len :: nat where
  "destination_ciphertext_len = 8 + 32 + 32"

definition right_align_blinding :: "bytes \<Rightarrow> bytes" where
  "right_align_blinding blinding = blinding"

definition take_shared_secret ::
  "('x, 'p, 'm, 'd, 'r, 'i) sdk_env \<Rightarrow> bytes \<Rightarrow> sdk_error + bytes" where
  "take_shared_secret S order_utxo_blinding =
     (let domain = swap_u64_right_align take_enc_kdf_domain
      in ext (sdk_poseidon S [right_align_blinding order_utxo_blinding, domain]))"

definition destination_ciphertext_with_hash ::
  "('x, 'p, 'm, 'd, 'r, 'i) sdk_env \<Rightarrow> bytes \<Rightarrow> bytes \<Rightarrow> u64 \<Rightarrow> bytes \<Rightarrow>
   sdk_error + bytes \<times> bytes" where
  "destination_ciphertext_with_hash S order_utxo_blinding destination_mint destination_amount
     destination_output_blinding =
     bindR (ext (hash_bytes S destination_mint)) (\<lambda>asset.
     let plaintext = to_be_bytes destination_amount @ asset @ destination_output_blinding in
     bindR (take_shared_secret S order_utxo_blinding) (\<lambda>secret.
     bindR (ext (symmetric_apply S secret (merge_info S) plaintext)) (\<lambda>ciphertext.
     bindR (ext (hash_bytes S ciphertext)) (\<lambda>ct_hash.
     Inr (ciphertext, ct_hash)))))"

definition order_destination_ciphertext ::
  "('x, 'p, 'm, 'd, 'r, 'i) sdk_env \<Rightarrow> ('p, 'm) order_utxo \<Rightarrow> ('p, 'm, 'r) output_utxo \<Rightarrow>
   sdk_error + bytes" where
  "order_destination_ciphertext S order destination_output =
     bindR (destination_ciphertext_with_hash S (ou_blinding order)
              (ot_destination_mint (ou_terms order)) (ot_destination_amount (ou_terms order))
              (out_blinding destination_output)) (\<lambda>(ciphertext, _). Inr ciphertext)"

text \<open>The slices are \<open>get(0..8)\<close>, \<open>get(8..40)\<close> and \<open>get(40..72)\<close> of a 72-byte array.\<close>

definition slice :: "nat \<Rightarrow> nat \<Rightarrow> bytes \<Rightarrow> bytes option" where
  "slice i j bs = (if i \<le> j \<and> j \<le> length bs then Some (take (j - i) (drop i bs)) else None)"

definition decrypt_destination ::
  "('x, 'p, 'm, 'd, 'r, 'i) sdk_env \<Rightarrow> bytes \<Rightarrow> bytes \<Rightarrow> sdk_error + bytes \<times> u64 \<times> bytes" where
  "decrypt_destination S order_utxo_blinding ciphertext =
     bindR (take_shared_secret S order_utxo_blinding) (\<lambda>secret.
     bindR (ext (symmetric_apply S secret (merge_info S) ciphertext)) (\<lambda>plaintext.
     bindR (ok_or (err_str ''take plaintext amount'') (slice 0 8 plaintext)) (\<lambda>amount_bytes.
     bindR (ok_or (err_str ''take plaintext asset'') (slice 8 40 plaintext)) (\<lambda>asset.
     bindR (ok_or (err_str ''take plaintext blinding'') (slice 40 72 plaintext)) (\<lambda>blinding.
     Inr (asset, from_be_bytes amount_bytes, blinding))))))"

section \<open>Shared helpers\<close>

definition indexed_tree_id :: u16 where
  "indexed_tree_id = 0"

text \<open>The sum is an \<open>i128\<close>; it has no overflow below \<open>2 ^ 63\<close> inputs, so it is an integer here.\<close>

definition swap_input_sum ::
  "('x, 'p, 'm, 'd, 'r, 'i) sdk_env \<Rightarrow> ('p, 'm, 'd) spend_utxo list \<Rightarrow> bytes \<Rightarrow> int" where
  "swap_input_sum S ins asset =
     sum_list (map (\<lambda>u. uint (utxo_amount (in_utxo u)))
       (filter (\<lambda>u. mint_asset S (utxo_asset (in_utxo u)) = asset) ins))"

definition swap_check_output_utxo ::
  "('x, 'p, 'm, 'd, 'r, 'i) sdk_env \<Rightarrow> string \<Rightarrow> ('p, 'm, 'r) output_utxo \<Rightarrow> bytes \<Rightarrow> u64 \<Rightarrow>
   sdk_error + 'p shielded_address" where
  "swap_check_output_utxo S label u mint amount =
     bindR (ok_or (err_str (label @ '' owner address missing'')) (out_owner_address u)) (\<lambda>owner.
     if mint_asset S (out_asset u) \<noteq> mint then Inl (err_str (label @ '' asset mismatch''))
     else if out_amount u \<noteq> amount then Inl (err_str (label @ '' amount mismatch''))
     else if out_data_hash u \<noteq> None \<or> out_ring_data_hash u \<noteq> None \<or> out_ring_program_id u \<noteq> None
     then Inl (err_str (label @ '' must not carry data or ring commitments''))
     else Inr owner)"

lemma swap_check_output_utxo_ok [result_simps]:
  "swap_check_output_utxo S label u mint amount = Inr owner \<longleftrightarrow> plain_output S u mint amount owner"
  by (auto simp: swap_check_output_utxo_def plain_output_def result_simps)

section \<open>Facts\<close>

text \<open>The shape of the order output.\<close>

lemma order_output_utxo_fields:
  assumes "output_laws S" "order_output_utxo S order v = Inr u"
  obtains h npk where "order_terms_data_hash S (ou_terms order) = Inr h"
    "nullifier_key_pubkey S order_nullifier_key = Some npk"
    "out_owner_address u =
       Some \<lparr>signing_pubkey = order_pda_owner S, nullifier_pubkey = npk, viewing_pubkey = v\<rparr>"
    "out_asset u = ou_source_mint order" "out_amount u = ou_source_amount order"
    "out_blinding u = ou_blinding order" "out_data_hash u = Some h"
    "out_ring_data_hash u = None" "out_ring_program_id u = None"
proof -
  obtain h npk note_bytes where h: "order_terms_data_hash S (ou_terms order) = Inr h"
    "nullifier_key_pubkey S order_nullifier_key = Some npk"
    and u: "u = with_utxo_data S
      ((default_output S)\<lparr>out_asset := ou_source_mint order, out_amount := ou_source_amount order,
         out_blinding := ou_blinding order,
         out_owner_address := Some \<lparr>signing_pubkey = order_pda_owner S, nullifier_pubkey = npk,
                                    viewing_pubkey = v\<rparr>\<rparr>) note_bytes h"
    using assms(2) by (auto simp: order_output_utxo_def result_simps Let_def)
  obtain r where "u = (default_output S)\<lparr>out_asset := ou_source_mint order,
       out_amount := ou_source_amount order, out_blinding := ou_blinding order,
       out_owner_address := Some \<lparr>signing_pubkey = order_pda_owner S, nullifier_pubkey = npk,
                                  viewing_pubkey = v\<rparr>,
       out_data_hash := Some h, out_rest := r\<rparr>"
    using assms(1) u unfolding output_laws_def by metis
  then show thesis
    using that [OF h] assms(1) by (simp add: output_laws_def)
qed

text \<open>An order UTXO is one state in two forms.\<close>

interpretation order_forms: two_forms S "order_output_utxo S" "order_to_input_utxo S" for S
proof
  fix x v u t l i
  assume laws: "output_laws S" and out: "order_output_utxo S x v = Inr u"
    and inp: "order_to_input_utxo S x t l = Inr i"
  obtain h npk where u: "order_terms_data_hash S (ou_terms x) = Inr h"
    "nullifier_key_pubkey S order_nullifier_key = Some npk"
    "out_owner_address u =
       Some \<lparr>signing_pubkey = order_pda_owner S, nullifier_pubkey = npk, viewing_pubkey = v\<rparr>"
    "out_asset u = ou_source_mint x" "out_amount u = ou_source_amount x"
    "out_blinding u = ou_blinding x" "out_data_hash u = Some h"
    "out_ring_data_hash u = None" "out_ring_program_id u = None"
    by (rule order_output_utxo_fields [OF laws out])
  show "\<exists>a h. out_owner_address u = Some a \<and> out_data_hash u = Some h \<and>
       out_ring_data_hash u = None \<and> out_ring_program_id u = None \<and>
       utxo_owner (in_utxo i) = signing_pubkey a \<and> utxo_asset (in_utxo i) = out_asset u \<and>
       utxo_amount (in_utxo i) = out_amount u \<and> utxo_blinding (in_utxo i) = out_blinding u \<and>
       utxo_ring_program_id (in_utxo i) = None \<and> in_data_hash i = Some h \<and>
       utxo_commit S (in_utxo i) (nullifier_pubkey a) h (replicate 32 0) t = Some (in_utxo_hash i)"
    using inp u by (auto simp: order_to_input_utxo_def result_simps Let_def)
qed (auto simp: order_to_input_utxo_def result_simps Let_def)

lemmas order_input_hash = order_forms.forms_hash

end
