(* ===== verification/Keys.thy ===== *)
theory Keys
  imports Runtime
begin

text \<open>
  What a committed Groth16 verifying key has to satisfy: the sizes of its points, the number of
  public-input points, and that every coordinate is below the BN254 modulus; and the delimited
  text that records the setup of a key in the program binary.
\<close>

section \<open>Points of BN254\<close>

definition bn254_p :: nat where
  "bn254_p = 21888242871839275222246405745257275088696311157297823662689037894645226208583"

text \<open>Points are concatenations of 32-byte big-endian coordinates: two for a G1 point, four for
  a G2 point. The alt_bn128 syscalls reject a coordinate that is not below the field modulus.\<close>

fun chunks32 :: "nat \<Rightarrow> bytes \<Rightarrow> bytes list" where
  "chunks32 0 bs = []"
| "chunks32 (Suc n) bs = take 32 bs # chunks32 n (drop 32 bs)"

definition canonical_point :: "nat \<Rightarrow> bytes \<Rightarrow> bool" where
  "canonical_point n pt \<longleftrightarrow>
     length pt = 32 * n \<and> list_all (\<lambda>c. be_val c < bn254_p) (chunks32 n pt)"

section \<open>Well-formed keys\<close>

text \<open>One public input, a point for it and one for the constant, and one more per commitment.\<close>

definition vk_wf :: "groth16_vk \<Rightarrow> bool" where
  "vk_wf vk \<longleftrightarrow>
     nr_pubinputs vk = 1 \<and>
     length (vk_ic vk) = nr_pubinputs vk + 1 + (if vk_commitment vk = None then 0 else 1) \<and>
     canonical_point 2 (vk_alpha_g1 vk) \<and> list_all (canonical_point 2) (vk_ic vk) \<and>
     list_all (canonical_point 4) [vk_beta_g2 vk, vk_gamma_g2 vk, vk_delta_g2 vk] \<and>
     (case vk_commitment vk of None \<Rightarrow> True
      | Some c \<Rightarrow> list_all (canonical_point 4) [g2 c, g_sigma_neg_g2 c])"

lemma chunks32_numeral:
  "chunks32 2 bs = [take 32 bs, take 32 (drop 32 bs)]"
  "chunks32 4 bs = [take 32 bs, take 32 (drop 32 bs), take 32 (drop 64 bs), take 32 (drop 96 bs)]"
  by (simp_all add: eval_nat_numeral)

lemmas key_simps = vk_wf_def canonical_point_def bn254_p_def be_val_def chunks32_numeral

section \<open>The setup text\<close>

abbreviation nul :: string where
  "nul \<equiv> [CHR 0x00]"

definition hex_digit :: "nat \<Rightarrow> char" where
  "hex_digit n = ''0123456789abcdef'' ! n"

definition hex_bytes :: "bytes \<Rightarrow> string" where
  "hex_bytes bs = concat (map (\<lambda>b. [hex_digit (unat b div 16), hex_digit (unat b mod 16)]) bs)"

definition setup_txt :: "string \<Rightarrow> bool \<Rightarrow> bytes \<Rightarrow> string" where
  "setup_txt name insecure sha =
     ''=======BEGIN GROTH16 VK SETUP V1======='' @ nul @ ''name'' @ nul @ name @ nul @
     ''insecure_test_setup'' @ nul @ (if insecure then ''true'' else ''false'') @ nul @
     ''proving_key_sha256'' @ nul @ hex_bytes sha @ nul @
     ''=======END GROTH16 VK SETUP V1======='' @ nul"

lemmas setup_simps = setup_txt_def hex_bytes_def hex_digit_def

end
