(* ===== verification/Swap_Keys.thy ===== *)
theory Swap_Keys
  imports Keys
begin

text \<open>
  The four committed verifying keys of the swap program
  (\<open>swap-program/program/src/verifying_keys/\<close>), byte for byte, with the constants that tell
  which setup they come from, and the facts the verifier relies on.
\<close>

section \<open>The verifying key of make\<close>

definition make_vk_ic :: "bytes list" where
  "make_vk_ic =
    [[24, 136, 241, 82, 230, 159, 217, 41, 225, 225, 61, 141, 49, 116, 165, 125, 67, 182,
      155, 22, 78, 57, 108, 152, 19, 105, 16, 168, 241, 35, 68, 26, 23, 220, 144, 126,
      222, 13, 79, 178, 251, 67, 241, 21, 249, 217, 193, 107, 0, 19, 25, 53, 83, 25,
      129, 64, 254, 60, 75, 98, 19, 61, 225, 111],
     [4, 10, 112, 65, 86, 220, 79, 216, 184, 143, 255, 174, 135, 225, 148, 23, 112, 159,
      192, 28, 17, 51, 175, 21, 192, 79, 245, 77, 102, 128, 175, 124, 16, 67, 230,
      196, 182, 245, 164, 142, 177, 249, 104, 160, 63, 98, 181, 211, 2, 214, 224, 81,
      21, 78, 83, 31, 37, 149, 63, 120, 95, 82, 63, 44]]"

definition make_vk :: groth16_vk where
  "make_vk =
    \<lparr>nr_pubinputs = 1,
     vk_alpha_g1 = [7, 233, 249, 65, 52, 81, 247, 241, 234, 220, 155, 8, 63, 38, 196, 12, 116, 206, 14,
      215, 120, 186, 104, 207, 57, 244, 0, 233, 230, 203, 92, 181, 3, 129, 161, 97,
      176, 244, 232, 241, 152, 222, 24, 18, 222, 194, 171, 159, 119, 116, 246, 141,
      155, 4, 52, 123, 167, 219, 149, 231, 178, 27, 190, 230],
     vk_beta_g2 = [25, 179, 59, 151, 208, 66, 131, 130, 129, 66, 97, 3, 137, 227, 147, 17, 20, 207, 173,
      10, 229, 27, 221, 3, 64, 245, 231, 50, 121, 158, 57, 7, 32, 228, 251, 14, 255,
      38, 126, 207, 210, 20, 147, 227, 142, 42, 62, 172, 189, 145, 131, 32, 43, 205,
      194, 145, 176, 71, 202, 219, 24, 83, 152, 209, 31, 69, 246, 146, 233, 110, 225,
      198, 178, 193, 63, 243, 70, 31, 105, 238, 253, 77, 253, 237, 86, 124, 74, 51,
      206, 228, 180, 193, 215, 31, 188, 160, 24, 110, 165, 0, 93, 215, 77, 173, 34,
      166, 182, 197, 123, 84, 234, 166, 56, 82, 250, 77, 226, 209, 16, 51, 146, 64,
      102, 211, 27, 189, 141, 229],
     vk_gamma_g2 = [29, 196, 93, 153, 250, 116, 146, 222, 82, 0, 180, 181, 96, 72, 251, 173, 223, 204,
      176, 250, 8, 252, 7, 58, 33, 195, 247, 47, 229, 176, 124, 18, 3, 210, 194, 77,
      208, 239, 65, 107, 183, 253, 43, 62, 168, 238, 49, 145, 91, 93, 234, 179, 42,
      213, 91, 16, 91, 161, 124, 85, 143, 51, 66, 157, 1, 128, 77, 121, 224, 27, 111,
      155, 212, 164, 153, 106, 37, 233, 207, 67, 152, 70, 161, 97, 194, 151, 46, 59,
      119, 62, 236, 61, 214, 39, 158, 187, 26, 98, 101, 45, 81, 102, 148, 150, 62, 57,
      115, 120, 27, 82, 195, 221, 131, 8, 201, 72, 137, 197, 152, 158, 47, 1, 87, 137,
      245, 173, 88, 36],
     vk_delta_g2 = [3, 167, 94, 221, 198, 108, 18, 40, 92, 18, 92, 36, 23, 48, 95, 86, 55, 106, 18, 255,
      42, 45, 181, 202, 139, 88, 46, 56, 0, 190, 99, 229, 18, 246, 40, 39, 1, 110, 57,
      38, 251, 11, 23, 109, 49, 14, 253, 79, 203, 227, 138, 72, 240, 98, 206, 0, 32,
      150, 241, 146, 10, 4, 89, 64, 23, 204, 77, 17, 119, 217, 239, 59, 1, 158, 67,
      177, 112, 127, 145, 14, 16, 103, 88, 18, 159, 247, 181, 211, 45, 228, 238, 33,
      196, 253, 219, 20, 45, 2, 213, 179, 65, 54, 149, 178, 109, 74, 232, 177, 13,
      255, 252, 56, 190, 70, 96, 140, 180, 173, 56, 142, 253, 207, 39, 130, 51, 40,
      36, 208],
     vk_ic = make_vk_ic,
     vk_commitment = None\<rparr>"

definition make_vk_proving_key_sha256 :: bytes where
  "make_vk_proving_key_sha256 =
    [60, 231, 153, 227, 49, 174, 231, 105, 70, 98, 63, 173, 21, 46, 78, 20, 253, 207, 72,
      65, 36, 135, 33, 182, 86, 30, 11, 239, 117, 40, 198, 234]"

definition make_vk_insecure_test_setup :: bool where
  "make_vk_insecure_test_setup = True"

definition make_vk_setup_txt :: string where
  "make_vk_setup_txt =
     ''=======BEGIN GROTH16 VK SETUP V1======='' @ nul @
     ''name'' @ nul @
     ''VERIFYINGKEY'' @ nul @
     ''insecure_test_setup'' @ nul @
     ''true'' @ nul @
     ''proving_key_sha256'' @ nul @
     ''3ce799e331aee76946623fad152e4e14fdcf4841248721b6561e0bef7528c6ea'' @ nul @
     ''=======END GROTH16 VK SETUP V1======='' @ nul"

section \<open>The verifying key of take\<close>

definition take_vk_ic :: "bytes list" where
  "take_vk_ic =
    [[43, 7, 223, 148, 253, 176, 187, 238, 145, 64, 93, 115, 210, 190, 60, 154, 75, 103,
      154, 32, 17, 175, 244, 86, 51, 122, 127, 162, 7, 130, 187, 1, 7, 121, 248, 234,
      151, 139, 156, 168, 188, 9, 64, 71, 13, 226, 200, 221, 235, 108, 179, 128, 156,
      196, 134, 111, 251, 107, 43, 48, 157, 113, 99, 93],
     [1, 65, 173, 135, 191, 47, 70, 254, 89, 254, 20, 151, 224, 4, 242, 71, 244, 165, 113,
      178, 253, 80, 167, 71, 236, 241, 58, 51, 4, 50, 0, 146, 24, 45, 182, 212, 69,
      121, 79, 75, 140, 100, 64, 8, 143, 198, 63, 28, 234, 192, 43, 96, 137, 75, 235,
      230, 151, 126, 114, 98, 233, 78, 48, 132]]"

definition take_vk :: groth16_vk where
  "take_vk =
    \<lparr>nr_pubinputs = 1,
     vk_alpha_g1 = [23, 58, 38, 85, 5, 97, 56, 149, 234, 65, 208, 250, 157, 24, 214, 220, 81, 238, 128,
      253, 80, 84, 112, 26, 115, 173, 232, 150, 69, 140, 243, 66, 47, 247, 169, 230,
      149, 167, 198, 150, 188, 45, 150, 153, 26, 78, 196, 31, 141, 218, 188, 247, 98,
      138, 75, 233, 58, 58, 192, 171, 90, 29, 56, 236],
     vk_beta_g2 = [6, 113, 102, 167, 235, 63, 48, 3, 241, 135, 184, 166, 175, 133, 228, 186, 222, 158, 7,
      214, 151, 62, 40, 214, 108, 191, 218, 121, 131, 22, 35, 246, 35, 254, 90, 184,
      0, 97, 53, 224, 252, 100, 253, 142, 158, 98, 89, 190, 111, 118, 164, 205, 73,
      84, 34, 135, 35, 68, 178, 235, 135, 158, 93, 162, 10, 182, 236, 11, 113, 54, 88,
      98, 199, 150, 17, 243, 42, 45, 214, 165, 238, 242, 134, 77, 227, 150, 217, 255,
      138, 82, 78, 72, 198, 9, 148, 112, 24, 51, 119, 156, 66, 88, 231, 204, 215, 137,
      126, 37, 175, 136, 57, 54, 59, 221, 0, 139, 42, 135, 148, 218, 63, 115, 18, 95,
      217, 184, 35, 135],
     vk_gamma_g2 = [4, 82, 14, 189, 59, 221, 124, 110, 223, 163, 29, 204, 86, 8, 215, 79, 213, 220, 109,
      156, 78, 180, 236, 44, 144, 13, 183, 199, 161, 65, 35, 79, 16, 65, 196, 125, 85,
      153, 218, 123, 134, 91, 240, 199, 27, 29, 41, 37, 176, 229, 55, 75, 47, 115,
      143, 224, 135, 90, 163, 248, 253, 3, 242, 42, 27, 192, 153, 216, 97, 239, 20,
      190, 51, 108, 60, 0, 63, 162, 163, 57, 165, 69, 115, 228, 155, 241, 161, 226, 0,
      28, 138, 142, 80, 53, 80, 173, 41, 142, 125, 227, 162, 188, 62, 194, 111, 175,
      57, 21, 169, 25, 178, 134, 66, 91, 40, 222, 97, 123, 153, 130, 124, 88, 156, 33,
      108, 217, 4, 234],
     vk_delta_g2 = [2, 149, 148, 197, 131, 60, 129, 248, 196, 206, 104, 21, 30, 107, 132, 130, 31, 21,
      182, 71, 229, 253, 58, 111, 223, 132, 178, 164, 39, 131, 92, 7, 2, 135, 47, 218,
      111, 208, 62, 126, 245, 255, 197, 100, 64, 103, 238, 76, 140, 28, 36, 218, 91,
      38, 254, 70, 12, 176, 31, 74, 244, 21, 29, 155, 31, 86, 232, 255, 187, 159, 17,
      157, 40, 221, 61, 142, 182, 27, 45, 248, 179, 146, 206, 34, 32, 6, 140, 83, 214,
      251, 108, 12, 6, 91, 233, 64, 34, 57, 68, 11, 202, 154, 30, 11, 42, 120, 224,
      58, 245, 81, 76, 108, 131, 122, 22, 75, 205, 154, 79, 14, 157, 205, 214, 25,
      235, 68, 142, 187],
     vk_ic = take_vk_ic,
     vk_commitment = None\<rparr>"

definition take_vk_proving_key_sha256 :: bytes where
  "take_vk_proving_key_sha256 =
    [18, 109, 20, 109, 228, 131, 229, 27, 233, 97, 17, 208, 122, 49, 218, 188, 152, 219, 1,
      224, 224, 139, 233, 136, 85, 120, 159, 209, 226, 130, 193, 236]"

definition take_vk_insecure_test_setup :: bool where
  "take_vk_insecure_test_setup = True"

definition take_vk_setup_txt :: string where
  "take_vk_setup_txt =
     ''=======BEGIN GROTH16 VK SETUP V1======='' @ nul @
     ''name'' @ nul @
     ''VERIFYINGKEY'' @ nul @
     ''insecure_test_setup'' @ nul @
     ''true'' @ nul @
     ''proving_key_sha256'' @ nul @
     ''126d146de483e51be96111d07a31dabc98db01e0e08be98855789fd1e282c1ec'' @ nul @
     ''=======END GROTH16 VK SETUP V1======='' @ nul"

section \<open>The verifying key of cancel\<close>

definition cancel_vk_ic :: "bytes list" where
  "cancel_vk_ic =
    [[36, 228, 171, 226, 52, 253, 24, 234, 193, 197, 236, 116, 161, 74, 248, 157, 219, 208,
      91, 163, 73, 149, 75, 221, 225, 91, 107, 193, 191, 158, 159, 181, 14, 7, 141,
      16, 54, 236, 72, 207, 228, 33, 225, 221, 184, 249, 46, 77, 139, 79, 139, 24, 5,
      221, 51, 7, 201, 247, 5, 242, 224, 94, 184, 107],
     [36, 187, 70, 192, 144, 35, 220, 136, 90, 244, 105, 204, 254, 124, 87, 135, 166, 210,
      20, 175, 184, 192, 93, 214, 166, 23, 76, 17, 64, 92, 9, 228, 21, 44, 187, 193,
      156, 223, 115, 110, 63, 205, 28, 243, 20, 177, 24, 87, 192, 52, 59, 95, 118, 81,
      154, 19, 57, 178, 199, 188, 233, 5, 220, 193]]"

definition cancel_vk :: groth16_vk where
  "cancel_vk =
    \<lparr>nr_pubinputs = 1,
     vk_alpha_g1 = [36, 117, 32, 28, 34, 94, 4, 189, 175, 120, 26, 201, 242, 49, 37, 75, 46, 55, 221, 253,
      221, 162, 224, 120, 64, 195, 213, 238, 247, 247, 172, 227, 47, 158, 71, 172, 8,
      25, 18, 94, 229, 208, 199, 125, 235, 218, 243, 255, 32, 198, 29, 226, 20, 26,
      53, 189, 222, 140, 219, 132, 97, 221, 31, 213],
     vk_beta_g2 = [30, 94, 239, 127, 205, 141, 139, 252, 207, 54, 130, 224, 77, 114, 183, 62, 97, 251,
      246, 19, 248, 53, 71, 144, 106, 251, 244, 205, 215, 241, 172, 218, 0, 170, 149,
      77, 139, 224, 73, 231, 53, 21, 168, 74, 120, 66, 21, 22, 160, 205, 20, 31, 203,
      128, 30, 1, 66, 229, 212, 214, 211, 255, 101, 150, 7, 51, 76, 135, 182, 6, 188,
      25, 100, 165, 57, 209, 229, 33, 245, 115, 54, 95, 240, 18, 187, 109, 94, 149, 8,
      67, 248, 194, 123, 88, 39, 108, 6, 131, 243, 63, 104, 176, 169, 160, 255, 14,
      180, 71, 146, 104, 244, 32, 120, 73, 82, 191, 242, 221, 240, 127, 32, 177, 62,
      58, 102, 36, 186, 247],
     vk_gamma_g2 = [47, 69, 89, 235, 253, 33, 163, 88, 2, 45, 221, 108, 15, 182, 153, 81, 118, 11, 79, 17,
      123, 239, 78, 94, 113, 121, 142, 11, 248, 32, 134, 66, 40, 195, 250, 4, 211,
      194, 182, 84, 23, 155, 186, 189, 173, 254, 109, 141, 38, 131, 241, 238, 42, 73,
      71, 232, 187, 60, 200, 208, 199, 209, 196, 208, 10, 136, 118, 215, 196, 46, 10,
      119, 171, 114, 251, 186, 16, 154, 214, 131, 37, 200, 224, 71, 237, 210, 117,
      235, 125, 251, 24, 148, 50, 55, 32, 178, 40, 153, 237, 119, 143, 244, 130, 182,
      234, 229, 166, 232, 71, 83, 56, 22, 99, 19, 251, 40, 155, 71, 222, 55, 157, 124,
      154, 0, 204, 167, 250, 88],
     vk_delta_g2 = [18, 117, 195, 112, 61, 125, 244, 75, 180, 191, 230, 148, 238, 166, 219, 1, 90, 14,
      152, 50, 211, 91, 106, 85, 55, 52, 204, 52, 110, 125, 153, 166, 6, 241, 239, 2,
      29, 77, 31, 50, 131, 248, 42, 33, 164, 64, 233, 28, 205, 25, 205, 26, 240, 186,
      124, 49, 66, 103, 251, 102, 190, 133, 201, 32, 4, 88, 45, 197, 215, 252, 101,
      62, 153, 249, 131, 141, 29, 139, 50, 166, 252, 171, 34, 175, 173, 40, 3, 61,
      231, 84, 111, 195, 133, 59, 74, 171, 47, 133, 59, 19, 131, 8, 215, 221, 88, 143,
      158, 99, 122, 6, 207, 101, 94, 163, 196, 113, 142, 34, 182, 221, 211, 237, 178,
      75, 223, 161, 47, 8],
     vk_ic = cancel_vk_ic,
     vk_commitment = None\<rparr>"

definition cancel_vk_proving_key_sha256 :: bytes where
  "cancel_vk_proving_key_sha256 =
    [118, 157, 109, 215, 6, 109, 66, 41, 233, 203, 153, 208, 148, 78, 121, 160, 27, 213,
      113, 70, 63, 145, 161, 187, 139, 176, 37, 166, 26, 117, 139, 133]"

definition cancel_vk_insecure_test_setup :: bool where
  "cancel_vk_insecure_test_setup = True"

definition cancel_vk_setup_txt :: string where
  "cancel_vk_setup_txt =
     ''=======BEGIN GROTH16 VK SETUP V1======='' @ nul @
     ''name'' @ nul @
     ''VERIFYINGKEY'' @ nul @
     ''insecure_test_setup'' @ nul @
     ''true'' @ nul @
     ''proving_key_sha256'' @ nul @
     ''769d6dd7066d4229e9cb99d0944e79a01bd571463f91a1bb8bb025a61a758b85'' @ nul @
     ''=======END GROTH16 VK SETUP V1======='' @ nul"

section \<open>The verifying key of take_ve\<close>

definition take_ve_vk_ic :: "bytes list" where
  "take_ve_vk_ic =
    [[33, 94, 169, 55, 151, 74, 60, 53, 52, 236, 167, 192, 110, 209, 230, 174, 161, 174, 2,
      39, 255, 204, 197, 240, 50, 4, 208, 109, 97, 251, 131, 207, 45, 23, 182, 28, 74,
      238, 56, 57, 213, 205, 118, 114, 59, 162, 43, 218, 193, 33, 159, 26, 216, 110,
      114, 67, 119, 245, 104, 246, 162, 99, 27, 50],
     [1, 39, 173, 87, 134, 214, 66, 62, 136, 84, 132, 206, 106, 54, 127, 49, 223, 252, 217,
      55, 118, 96, 25, 243, 54, 118, 136, 168, 106, 126, 26, 206, 37, 196, 100, 198,
      188, 204, 36, 58, 87, 156, 55, 241, 136, 217, 178, 173, 71, 204, 100, 7, 180,
      94, 135, 13, 167, 25, 39, 9, 93, 67, 119, 204],
     [24, 230, 232, 47, 139, 118, 26, 55, 247, 205, 112, 19, 39, 124, 178, 196, 13, 96, 96,
      177, 2, 88, 16, 145, 37, 178, 174, 171, 9, 94, 216, 218, 3, 5, 100, 74, 64, 67,
      155, 61, 111, 213, 253, 242, 234, 52, 43, 225, 29, 30, 162, 192, 42, 125, 150,
      83, 127, 222, 28, 54, 16, 76, 24, 2]]"

definition take_ve_vk :: groth16_vk where
  "take_ve_vk =
    \<lparr>nr_pubinputs = 1,
     vk_alpha_g1 = [12, 36, 150, 7, 67, 196, 53, 192, 3, 73, 39, 12, 98, 100, 0, 236, 179, 174, 150, 196,
      198, 17, 41, 139, 198, 245, 65, 136, 131, 80, 184, 83, 19, 195, 218, 128, 241,
      25, 171, 210, 21, 240, 166, 31, 107, 142, 11, 231, 207, 78, 199, 22, 228, 148,
      172, 250, 35, 190, 231, 24, 90, 97, 179, 53],
     vk_beta_g2 = [17, 52, 75, 85, 101, 195, 49, 234, 3, 247, 179, 27, 34, 126, 43, 96, 137, 134, 54,
      250, 63, 91, 6, 38, 230, 153, 198, 170, 149, 244, 2, 189, 44, 183, 72, 46, 26,
      93, 15, 196, 182, 137, 123, 0, 163, 157, 228, 124, 200, 143, 206, 17, 169, 180,
      244, 90, 172, 217, 26, 80, 122, 148, 177, 185, 35, 159, 74, 194, 66, 215, 224,
      211, 43, 103, 201, 207, 235, 193, 233, 54, 148, 44, 255, 169, 188, 10, 107, 14,
      212, 137, 40, 35, 103, 22, 40, 130, 36, 24, 8, 189, 120, 191, 116, 123, 79, 67,
      225, 2, 182, 87, 16, 211, 190, 174, 222, 193, 101, 213, 95, 94, 59, 122, 245,
      213, 243, 119, 63, 203],
     vk_gamma_g2 = [5, 130, 52, 188, 142, 99, 255, 25, 191, 241, 40, 203, 15, 37, 116, 57, 162, 21, 44,
      127, 189, 159, 248, 254, 76, 184, 110, 41, 229, 164, 187, 22, 30, 125, 83, 128,
      2, 94, 123, 199, 94, 126, 197, 99, 21, 95, 103, 59, 234, 138, 78, 3, 116, 57,
      200, 79, 172, 72, 50, 114, 203, 139, 177, 210, 11, 25, 231, 17, 139, 172, 147,
      220, 107, 3, 101, 110, 66, 4, 145, 222, 208, 215, 101, 218, 112, 202, 168, 1,
      18, 190, 1, 164, 225, 196, 210, 181, 31, 136, 145, 27, 198, 110, 73, 210, 119,
      250, 18, 241, 78, 23, 36, 141, 67, 5, 229, 233, 222, 220, 11, 252, 145, 82, 52,
      3, 30, 58, 43, 114],
     vk_delta_g2 = [27, 8, 10, 197, 91, 154, 44, 247, 217, 0, 54, 89, 100, 158, 178, 8, 192, 215, 46, 149,
      51, 182, 51, 248, 255, 57, 223, 160, 31, 244, 246, 44, 10, 170, 248, 37, 159,
      140, 90, 11, 239, 84, 245, 73, 162, 45, 198, 158, 21, 237, 211, 230, 219, 129,
      147, 59, 240, 173, 112, 40, 92, 172, 70, 118, 3, 23, 175, 99, 18, 69, 18, 91,
      151, 234, 225, 82, 221, 20, 73, 183, 39, 22, 59, 230, 125, 112, 38, 234, 42,
      136, 69, 11, 105, 53, 1, 231, 36, 36, 219, 197, 125, 11, 108, 63, 33, 45, 216,
      28, 17, 139, 217, 209, 92, 207, 237, 80, 26, 108, 110, 103, 229, 232, 27, 0,
      134, 231, 9, 236],
     vk_ic = take_ve_vk_ic,
     vk_commitment = Some
      \<lparr>g2 = [28, 126, 180, 231, 30, 207, 107, 45, 217, 32, 124, 251, 80, 69, 13, 174, 224, 6,
        236, 38, 230, 211, 111, 68, 244, 116, 251, 226, 247, 178, 123, 66, 41, 228,
        78, 102, 62, 158, 224, 235, 135, 241, 149, 98, 81, 163, 87, 115, 113, 251,
        213, 117, 185, 10, 67, 186, 213, 172, 134, 196, 82, 32, 242, 14, 10, 223,
        210, 203, 33, 48, 36, 5, 55, 149, 106, 231, 214, 189, 49, 113, 41, 232, 117,
        218, 194, 96, 79, 70, 141, 19, 124, 56, 47, 181, 188, 37, 47, 200, 88, 133,
        149, 147, 139, 74, 95, 213, 0, 38, 140, 46, 102, 147, 92, 103, 78, 180, 22,
        171, 233, 98, 242, 171, 23, 5, 22, 122, 136, 132],
       g_sigma_neg_g2 = [21, 67, 134, 130, 146, 88, 20, 107, 39, 225, 204, 97, 140, 151, 38, 8, 126, 89, 207,
        244, 46, 76, 64, 229, 89, 166, 120, 113, 232, 45, 20, 190, 28, 255, 105, 23,
        254, 40, 6, 179, 156, 55, 49, 216, 49, 243, 86, 106, 43, 153, 20, 66, 26,
        142, 33, 56, 126, 39, 35, 220, 156, 54, 196, 65, 11, 11, 98, 38, 37, 185,
        153, 57, 168, 102, 202, 221, 219, 19, 160, 18, 230, 25, 203, 12, 241, 129,
        44, 96, 39, 172, 156, 183, 165, 204, 193, 219, 23, 56, 139, 99, 59, 76, 152,
        61, 108, 142, 115, 82, 255, 89, 78, 98, 183, 96, 145, 246, 204, 250, 18,
        156, 136, 4, 41, 63, 55, 58, 139, 159]\<rparr>\<rparr>"

definition take_ve_vk_proving_key_sha256 :: bytes where
  "take_ve_vk_proving_key_sha256 =
    [82, 89, 171, 214, 95, 111, 83, 149, 212, 180, 183, 189, 43, 101, 157, 196, 253, 238,
      51, 255, 248, 249, 174, 128, 143, 103, 111, 176, 183, 111, 166, 90]"

definition take_ve_vk_insecure_test_setup :: bool where
  "take_ve_vk_insecure_test_setup = True"

definition take_ve_vk_setup_txt :: string where
  "take_ve_vk_setup_txt =
     ''=======BEGIN GROTH16 VK SETUP V1======='' @ nul @
     ''name'' @ nul @
     ''VERIFYINGKEY'' @ nul @
     ''insecure_test_setup'' @ nul @
     ''true'' @ nul @
     ''proving_key_sha256'' @ nul @
     ''5259abd65f6f5395d4b4b7bd2b659dc4fdee33fff8f9ae808f676fb0b76fa65a'' @ nul @
     ''=======END GROTH16 VK SETUP V1======='' @ nul"

end
