(* ===== verification/Swap_Take.thy ===== *)
theory Swap_Take
  imports Swap_Shared Swap_Keys
begin

text \<open>
  The take instruction of the swap program (\<open>swap-program/program/src/instructions/take.rs\<close>):
  any taker settles an order up to its expiry. The proof's public input binds the SPP
  transaction, the expiry and the first nullifier of the transaction.
\<close>

section \<open>Data\<close>

record take_proof =
  take_proof_a :: bytes
  take_proof_b :: bytes
  take_proof_c :: bytes

record 'x take_ix_data =
  tk_proof :: take_proof
  tk_transact :: "'x transact_ix_data"

definition put_take_proof :: "'x wire \<Rightarrow> take_proof \<Rightarrow> bytes option" where
  "put_take_proof W p = do {
     a \<leftarrow> put_array W (take_proof_a p);
     b \<leftarrow> put_array W (take_proof_b p);
     c \<leftarrow> put_array W (take_proof_c p);
     Some (a @ b @ c)
   }"

definition get_take_proof :: "'x wire \<Rightarrow> bytes \<Rightarrow> (take_proof \<times> bytes) option" where
  "get_take_proof W bs = do {
     (a, bs) \<leftarrow> get_array W 32 bs;
     (b, bs) \<leftarrow> get_array W 64 bs;
     (c, bs) \<leftarrow> get_array W 32 bs;
     Some (\<lparr>take_proof_a = a, take_proof_b = b, take_proof_c = c\<rparr>, bs)
   }"

definition put_take_ix :: "'x wire \<Rightarrow> 'x take_ix_data \<Rightarrow> bytes option" where
  "put_take_ix W d = do {
     p \<leftarrow> put_take_proof W (tk_proof d);
     t \<leftarrow> put_transact W (tk_transact d);
     Some (p @ t)
   }"

definition get_take_ix :: "'x wire \<Rightarrow> bytes \<Rightarrow> ('x take_ix_data \<times> bytes) option" where
  "get_take_ix W bs = do {
     (p, bs) \<leftarrow> get_take_proof W bs;
     (t, bs) \<leftarrow> get_transact W bs;
     Some (\<lparr>tk_proof = p, tk_transact = t\<rparr>, bs)
   }"

definition take_proof_wf :: "take_proof \<Rightarrow> bool" where
  "take_proof_wf p \<longleftrightarrow>
     length (take_proof_a p) = 32 \<and> length (take_proof_b p) = 64 \<and> length (take_proof_c p) = 32"

interpretation take_proof: codec "put_take_proof W" "get_take_proof W"
  "\<lambda>p. wincode_ok W \<and> take_proof_wf p" for W
  by unfold_locales
    (auto simp: put_take_proof_def get_take_proof_def take_proof_wf_def codec_simps
      bind_eq_Some_conv)

interpretation take_ix: codec "put_take_ix W" "get_take_ix W"
  "\<lambda>d. wincode_ok W \<and> transact_ok W \<and> take_proof_wf (tk_proof d)" for W
  by unfold_locales
    (auto simp: put_take_ix_def get_take_ix_def codec_simps bind_eq_Some_conv
      take_proof.get_put [simplified])

record take_public_input =
  tk_private_tx_hash :: bytes
  tk_expiry :: u64
  tk_first_nullifier :: bytes

definition take_public_input_hash ::
  "(bytes list \<Rightarrow> bytes option) \<Rightarrow> take_public_input \<Rightarrow> program_error + bytes" where
  "take_public_input_hash hashv pub =
     ok_or (swap_program_error Swap_HashingFailed)
       (hashv [tk_private_tx_hash pub, swap_u64_right_align (tk_expiry pub),
                          tk_first_nullifier pub])"

section \<open>The handler\<close>

definition process_take_ix ::
  "('x, 'v, 's, 'w) chain_env \<Rightarrow> account_view list \<Rightarrow> bytes \<Rightarrow> 'w \<Rightarrow> program_error + 'w" where
  "process_take_ix E accounts data w =
     bindR (next_signer_mut E ''payer'' accounts) (\<lambda>(_, iter).
     bindR (ok_or (swap_program_error Swap_InvalidInstructionData)
              (deserialize_exact (get_take_ix (wire_of E)) data)) (\<lambda>ix.
     let proof = tk_proof ix; transact = tk_transact ix in
     bindR (clock_unix_timestamp E) (\<lambda>now.
     bindR (check_within_window now (expiry_unix_ts transact)) (\<lambda>_.
     bindR (ok_or (swap_program_error Swap_InvalidInstructionData)
              (first_opt (inputs transact))) (\<lambda>first_input.
     bindR (take_public_input_hash (poseidon_hashv E)
              \<lparr>tk_private_tx_hash = private_tx_hash transact,
               tk_expiry = expiry_unix_ts transact,
               tk_first_nullifier = nullifier_hash first_input\<rparr>) (\<lambda>public_input_hash.
     bindR (swap_verify_groth16 E
              \<lparr>cp_a = take_proof_a proof, cp_b = take_proof_b proof, cp_c = take_proof_c proof,
               cp_commitment = None\<rparr>
              public_input_hash take_vk) (\<lambda>_.
     bindR (ok_or (swap_program_error Swap_InvalidInstructionData)
              (transact_serialize E transact)) (\<lambda>transact_bytes.
     bindR (remaining E iter) (\<lambda>spp_accounts.
     swap_cpi_spp_transact_signed E spp_accounts transact_bytes w)))))))))"

section \<open>What a take guarantees\<close>

definition take_points :: "take_proof \<Rightarrow> compressed_groth16_proof" where
  "take_points p = \<lparr>cp_a = take_proof_a p, cp_b = take_proof_b p, cp_c = take_proof_c p,
                    cp_commitment = None\<rparr>"

definition take_authorised ::
  "('x, 'v, 's, 'w) chain_env \<Rightarrow> account_view list \<Rightarrow> bytes \<Rightarrow> account_view list \<Rightarrow> bytes \<Rightarrow> bool" where
  "take_authorised E as d rest tb \<longleftrightarrow>
     (\<exists>payer iter ix now i0 h.
        next_signer_mut E ''payer'' as = Inr (payer, iter) \<and>
        get_take_ix (wire_of E) d = Some (ix, []) \<and>
        clock_unix_timestamp E = Inr now \<and>
        0 \<le> sint now \<and> now \<le> expiry_unix_ts (tk_transact ix) \<and>
        first_opt (inputs (tk_transact ix)) = Some i0 \<and>
        poseidon_hashv E
          [private_tx_hash (tk_transact ix),
           swap_u64_right_align (expiry_unix_ts (tk_transact ix)), nullifier_hash i0] = Some h \<and>
        groth16_accepts E (take_points (tk_proof ix)) h take_vk \<and>
        transact_serialize E (tk_transact ix) = Some tb \<and>
        remaining E iter = Inr rest)"

lemma process_take_ix_ok:
  "process_take_ix E as d w = Inr w' \<longleftrightarrow>
     (\<exists>rest tb. take_authorised E as d rest tb \<and> swap_signed E rest tb w w')"
  by (fastforce simp: process_take_ix_def take_authorised_def take_points_def Let_def result_simps
      take_public_input_hash_def deserialize_exact_Some)

lemma take_authorised_unique:
  "take_authorised E as d rest tb \<Longrightarrow> take_authorised E as d rest' tb' \<Longrightarrow> rest' = rest \<and> tb' = tb"
  by (auto simp: take_authorised_def)

interpretation take_ix_handler: cpi_handler "process_take_ix E" "take_authorised E" "swap_signed E"
  for E
  by unfold_locales
    (auto simp: process_take_ix_ok dest: take_authorised_unique signed_transact_unique)

end
