(* ===== verification/Swap_Take_VE.thy ===== *)
theory Swap_Take_VE
  imports Swap_Shared Swap_Keys
begin

text \<open>
  The verifiable-encryption take of the swap program
  (\<open>swap-program/program/src/instructions/take_verifiable_encryption.rs\<close>): a take whose proof
  has a Pedersen commitment and binds the ciphertext of the maker's destination UTXO, which is
  the data of the last output.
\<close>

section \<open>Data\<close>

record take_ve_proof =
  take_ve_proof_a :: bytes
  take_ve_proof_b :: bytes
  take_ve_proof_c :: bytes
  take_ve_proof_commitment :: bytes
  take_ve_proof_commitment_pok :: bytes

record 'x take_ve_ix_data =
  tv_proof :: take_ve_proof
  tv_transact :: "'x transact_ix_data"

definition put_take_ve_proof :: "'x wire \<Rightarrow> take_ve_proof \<Rightarrow> bytes option" where
  "put_take_ve_proof W p = do {
     a \<leftarrow> put_array W (take_ve_proof_a p);
     b \<leftarrow> put_array W (take_ve_proof_b p);
     c \<leftarrow> put_array W (take_ve_proof_c p);
     cm \<leftarrow> put_array W (take_ve_proof_commitment p);
     pok \<leftarrow> put_array W (take_ve_proof_commitment_pok p);
     Some (a @ b @ c @ cm @ pok)
   }"

definition get_take_ve_proof :: "'x wire \<Rightarrow> bytes \<Rightarrow> (take_ve_proof \<times> bytes) option" where
  "get_take_ve_proof W bs = do {
     (a, bs) \<leftarrow> get_array W 32 bs;
     (b, bs) \<leftarrow> get_array W 64 bs;
     (c, bs) \<leftarrow> get_array W 32 bs;
     (cm, bs) \<leftarrow> get_array W 32 bs;
     (pok, bs) \<leftarrow> get_array W 32 bs;
     Some (\<lparr>take_ve_proof_a = a, take_ve_proof_b = b, take_ve_proof_c = c,
            take_ve_proof_commitment = cm, take_ve_proof_commitment_pok = pok\<rparr>, bs)
   }"

definition put_take_ve_ix :: "'x wire \<Rightarrow> 'x take_ve_ix_data \<Rightarrow> bytes option" where
  "put_take_ve_ix W d = do {
     p \<leftarrow> put_take_ve_proof W (tv_proof d);
     t \<leftarrow> put_transact W (tv_transact d);
     Some (p @ t)
   }"

definition get_take_ve_ix :: "'x wire \<Rightarrow> bytes \<Rightarrow> ('x take_ve_ix_data \<times> bytes) option" where
  "get_take_ve_ix W bs = do {
     (p, bs) \<leftarrow> get_take_ve_proof W bs;
     (t, bs) \<leftarrow> get_transact W bs;
     Some (\<lparr>tv_proof = p, tv_transact = t\<rparr>, bs)
   }"

definition take_ve_proof_wf :: "take_ve_proof \<Rightarrow> bool" where
  "take_ve_proof_wf p \<longleftrightarrow>
     length (take_ve_proof_a p) = 32 \<and> length (take_ve_proof_b p) = 64 \<and>
     length (take_ve_proof_c p) = 32 \<and> length (take_ve_proof_commitment p) = 32 \<and>
     length (take_ve_proof_commitment_pok p) = 32"

interpretation take_ve_proof: codec "put_take_ve_proof W" "get_take_ve_proof W"
  "\<lambda>p. wincode_ok W \<and> take_ve_proof_wf p" for W
  by unfold_locales
    (auto simp: put_take_ve_proof_def get_take_ve_proof_def take_ve_proof_wf_def codec_simps
      bind_eq_Some_conv)

interpretation take_ve_ix: codec "put_take_ve_ix W" "get_take_ve_ix W"
  "\<lambda>d. wincode_ok W \<and> transact_ok W \<and> take_ve_proof_wf (tv_proof d)" for W
  by unfold_locales
    (auto simp: put_take_ve_ix_def get_take_ve_ix_def codec_simps bind_eq_Some_conv
      take_ve_proof.get_put [simplified])

record take_ve_public_input =
  tv_private_tx_hash :: bytes
  tv_expiry :: u64
  tv_destination_ciphertext :: bytes

text \<open>The conversion to \<open>[u8; 72]\<close> fails on any other length.\<close>

definition take_ve_public_input_hash ::
  "(bytes list \<Rightarrow> bytes option) \<Rightarrow> (bytes \<Rightarrow> bytes option) \<Rightarrow> take_ve_public_input \<Rightarrow>
   program_error + bytes" where
  "take_ve_public_input_hash hashv ct_hashv pub =
     bindR (guardR (length (tv_destination_ciphertext pub) = 72)
              (swap_program_error Swap_InvalidInstructionData)) (\<lambda>_.
     bindR (ok_or (swap_program_error Swap_HashingFailed)
              (ct_hashv (tv_destination_ciphertext pub))) (\<lambda>ct_hash.
     ok_or (swap_program_error Swap_HashingFailed)
       (hashv [tv_private_tx_hash pub, swap_u64_right_align (tv_expiry pub), ct_hash])))"

section \<open>The handler\<close>

definition process_take_ve_ix ::
  "('x, 'v, 's, 'w) chain_env \<Rightarrow> account_view list \<Rightarrow> bytes \<Rightarrow> 'w \<Rightarrow> program_error + 'w" where
  "process_take_ve_ix E accounts data w =
     bindR (next_signer_mut E ''payer'' accounts) (\<lambda>(_, iter).
     bindR (ok_or (swap_program_error Swap_InvalidInstructionData)
              (deserialize_exact (get_take_ve_ix (wire_of E)) data)) (\<lambda>ix.
     let proof = tv_proof ix; transact = tv_transact ix in
     bindR (clock_unix_timestamp E) (\<lambda>now.
     bindR (check_within_window now (expiry_unix_ts transact)) (\<lambda>_.
     bindR (ok_or (swap_program_error Swap_InvalidInstructionData)
              (do { last_output \<leftarrow> last_opt (outputs transact); output_data last_output }))
       (\<lambda>destination_ciphertext.
     bindR (take_ve_public_input_hash (poseidon_hashv E) (ciphertext_hash E)
              \<lparr>tv_private_tx_hash = private_tx_hash transact,
               tv_expiry = expiry_unix_ts transact,
               tv_destination_ciphertext = destination_ciphertext\<rparr>) (\<lambda>public_input_hash.
     bindR (swap_verify_groth16 E
              \<lparr>cp_a = take_ve_proof_a proof, cp_b = take_ve_proof_b proof,
               cp_c = take_ve_proof_c proof,
               cp_commitment =
                 Some (take_ve_proof_commitment proof, take_ve_proof_commitment_pok proof)\<rparr>
              public_input_hash take_ve_vk) (\<lambda>_.
     bindR (ok_or (swap_program_error Swap_InvalidInstructionData)
              (transact_serialize E transact)) (\<lambda>transact_bytes.
     bindR (remaining E iter) (\<lambda>spp_accounts.
     swap_cpi_spp_transact_signed E spp_accounts transact_bytes w)))))))))"

section \<open>What a verifiable take guarantees\<close>

definition take_ve_points :: "take_ve_proof \<Rightarrow> compressed_groth16_proof" where
  "take_ve_points p = \<lparr>cp_a = take_ve_proof_a p, cp_b = take_ve_proof_b p,
     cp_c = take_ve_proof_c p,
     cp_commitment = Some (take_ve_proof_commitment p, take_ve_proof_commitment_pok p)\<rparr>"

definition take_ve_authorised ::
  "('x, 'v, 's, 'w) chain_env \<Rightarrow> account_view list \<Rightarrow> bytes \<Rightarrow> account_view list \<Rightarrow> bytes \<Rightarrow> bool" where
  "take_ve_authorised E as d rest tb \<longleftrightarrow>
     (\<exists>payer iter ix now o_last ct cth h.
        next_signer_mut E ''payer'' as = Inr (payer, iter) \<and>
        get_take_ve_ix (wire_of E) d = Some (ix, []) \<and>
        clock_unix_timestamp E = Inr now \<and>
        0 \<le> sint now \<and> now \<le> expiry_unix_ts (tv_transact ix) \<and>
        last_opt (outputs (tv_transact ix)) = Some o_last \<and>
        output_data o_last = Some ct \<and> length ct = 72 \<and> ciphertext_hash E ct = Some cth \<and>
        poseidon_hashv E
          [private_tx_hash (tv_transact ix),
           swap_u64_right_align (expiry_unix_ts (tv_transact ix)), cth] = Some h \<and>
        groth16_accepts E (take_ve_points (tv_proof ix)) h take_ve_vk \<and>
        transact_serialize E (tv_transact ix) = Some tb \<and>
        remaining E iter = Inr rest)"

lemma process_take_ve_ix_ok:
  "process_take_ve_ix E as d w = Inr w' \<longleftrightarrow>
     (\<exists>rest tb. take_ve_authorised E as d rest tb \<and> swap_signed E rest tb w w')"
  by (fastforce simp: process_take_ve_ix_def take_ve_authorised_def take_ve_points_def Let_def
      result_simps take_ve_public_input_hash_def deserialize_exact_Some bind_eq_Some_conv)

lemma take_ve_authorised_unique:
  "take_ve_authorised E as d rest tb \<Longrightarrow> take_ve_authorised E as d rest' tb' \<Longrightarrow>
   rest' = rest \<and> tb' = tb"
  by (auto simp: take_ve_authorised_def)

interpretation take_ve_ix_handler:
  cpi_handler "process_take_ve_ix E" "take_ve_authorised E" "swap_signed E" for E
  by unfold_locales
    (auto simp: process_take_ve_ix_ok dest: take_ve_authorised_unique signed_transact_unique)

end
