(* ===== verification/Swap_Cancel.thy ===== *)
theory Swap_Cancel
  imports Swap_Shared Swap_Keys
begin

text \<open>
  The cancel instruction of the swap program
  (\<open>swap-program/program/src/instructions/cancel.rs\<close>): after the expiry the maker, who signs,
  takes the source assets back. The instruction carries the order expiry on its own; the proof's
  public input binds it together with the maker's identity.
\<close>

section \<open>Data\<close>

record cancel_proof =
  cancel_proof_a :: bytes
  cancel_proof_b :: bytes
  cancel_proof_c :: bytes

record 'x cancel_ix_data =
  cn_proof :: cancel_proof
  cn_order_expiry :: u64
  cn_transact :: "'x transact_ix_data"

definition put_cancel_proof :: "'x wire \<Rightarrow> cancel_proof \<Rightarrow> bytes option" where
  "put_cancel_proof W p = do {
     a \<leftarrow> put_array W (cancel_proof_a p);
     b \<leftarrow> put_array W (cancel_proof_b p);
     c \<leftarrow> put_array W (cancel_proof_c p);
     Some (a @ b @ c)
   }"

definition get_cancel_proof :: "'x wire \<Rightarrow> bytes \<Rightarrow> (cancel_proof \<times> bytes) option" where
  "get_cancel_proof W bs = do {
     (a, bs) \<leftarrow> get_array W 32 bs;
     (b, bs) \<leftarrow> get_array W 64 bs;
     (c, bs) \<leftarrow> get_array W 32 bs;
     Some (\<lparr>cancel_proof_a = a, cancel_proof_b = b, cancel_proof_c = c\<rparr>, bs)
   }"

definition put_cancel_ix :: "'x wire \<Rightarrow> 'x cancel_ix_data \<Rightarrow> bytes option" where
  "put_cancel_ix W d = do {
     p \<leftarrow> put_cancel_proof W (cn_proof d);
     e \<leftarrow> put_u64 W (cn_order_expiry d);
     t \<leftarrow> put_transact W (cn_transact d);
     Some (p @ e @ t)
   }"

definition get_cancel_ix :: "'x wire \<Rightarrow> bytes \<Rightarrow> ('x cancel_ix_data \<times> bytes) option" where
  "get_cancel_ix W bs = do {
     (p, bs) \<leftarrow> get_cancel_proof W bs;
     (e, bs) \<leftarrow> get_u64 W bs;
     (t, bs) \<leftarrow> get_transact W bs;
     Some (\<lparr>cn_proof = p, cn_order_expiry = e, cn_transact = t\<rparr>, bs)
   }"

definition cancel_proof_wf :: "cancel_proof \<Rightarrow> bool" where
  "cancel_proof_wf p \<longleftrightarrow>
     length (cancel_proof_a p) = 32 \<and> length (cancel_proof_b p) = 64 \<and> length (cancel_proof_c p) = 32"

interpretation cancel_proof: codec "put_cancel_proof W" "get_cancel_proof W"
  "\<lambda>p. wincode_ok W \<and> cancel_proof_wf p" for W
  by unfold_locales
    (auto simp: put_cancel_proof_def get_cancel_proof_def cancel_proof_wf_def codec_simps
      bind_eq_Some_conv)

interpretation cancel_ix: codec "put_cancel_ix W" "get_cancel_ix W"
  "\<lambda>d. wincode_ok W \<and> transact_ok W \<and> cancel_proof_wf (cn_proof d)" for W
  by unfold_locales
    (auto simp: put_cancel_ix_def get_cancel_ix_def codec_simps bind_eq_Some_conv
      cancel_proof.get_put [simplified])

record cancel_public_input =
  cn_private_tx_hash :: bytes
  cn_expiry :: u64
  cn_maker_owner_pk_field :: bytes

definition cancel_public_input_hash ::
  "(bytes list \<Rightarrow> bytes option) \<Rightarrow> cancel_public_input \<Rightarrow> program_error + bytes" where
  "cancel_public_input_hash hashv pub =
     ok_or (swap_program_error Swap_HashingFailed)
       (hashv [cn_private_tx_hash pub, swap_u64_right_align (cn_expiry pub),
                          cn_maker_owner_pk_field pub])"

section \<open>The handler\<close>

text \<open>The maker's identity is computed before the instruction data is read.\<close>

definition process_cancel_ix ::
  "('x, 'v, 's, 'w) chain_env \<Rightarrow> account_view list \<Rightarrow> bytes \<Rightarrow> 'w \<Rightarrow> program_error + 'w" where
  "process_cancel_ix E accounts data w =
     bindR (next_signer_mut E ''payer'' accounts) (\<lambda>(_, iter).
     bindR (next_signer E ''maker'' iter) (\<lambda>(maker, iter).
     bindR (ok_or (swap_program_error (swap_error_of_hasher ()))
              (solana_owner_identity E (address maker))) (\<lambda>maker_owner_pk_field.
     bindR (ok_or (swap_program_error Swap_InvalidInstructionData)
              (deserialize_exact (get_cancel_ix (wire_of E)) data)) (\<lambda>ix.
     let proof = cn_proof ix; order_expiry = cn_order_expiry ix; transact = cn_transact ix in
     bindR (clock_unix_timestamp E) (\<lambda>now.
     bindR (check_after_window now order_expiry) (\<lambda>_.
     bindR (cancel_public_input_hash (poseidon_hashv E)
              \<lparr>cn_private_tx_hash = private_tx_hash transact, cn_expiry = order_expiry,
               cn_maker_owner_pk_field = maker_owner_pk_field\<rparr>) (\<lambda>public_input_hash.
     bindR (swap_verify_groth16 E
              \<lparr>cp_a = cancel_proof_a proof, cp_b = cancel_proof_b proof,
               cp_c = cancel_proof_c proof, cp_commitment = None\<rparr>
              public_input_hash cancel_vk) (\<lambda>_.
     bindR (ok_or (swap_program_error Swap_InvalidInstructionData)
              (transact_serialize E transact)) (\<lambda>transact_bytes.
     bindR (remaining E iter) (\<lambda>spp_accounts.
     swap_cpi_spp_transact_signed E spp_accounts transact_bytes w))))))))))"

section \<open>What a cancel guarantees\<close>

definition cancel_points :: "cancel_proof \<Rightarrow> compressed_groth16_proof" where
  "cancel_points p = \<lparr>cp_a = cancel_proof_a p, cp_b = cancel_proof_b p, cp_c = cancel_proof_c p,
                      cp_commitment = None\<rparr>"

definition cancel_authorised ::
  "('x, 'v, 's, 'w) chain_env \<Rightarrow> account_view list \<Rightarrow> bytes \<Rightarrow> account_view list \<Rightarrow> bytes \<Rightarrow> bool" where
  "cancel_authorised E as d rest tb \<longleftrightarrow>
     (\<exists>payer iter maker iter' owner ix now h.
        next_signer_mut E ''payer'' as = Inr (payer, iter) \<and>
        next_signer E ''maker'' iter = Inr (maker, iter') \<and>
        solana_owner_identity E (address maker) = Some owner \<and>
        get_cancel_ix (wire_of E) d = Some (ix, []) \<and>
        clock_unix_timestamp E = Inr now \<and>
        0 \<le> sint now \<and> cn_order_expiry ix < now \<and>
        poseidon_hashv E
          [private_tx_hash (cn_transact ix), swap_u64_right_align (cn_order_expiry ix), owner]
          = Some h \<and>
        groth16_accepts E (cancel_points (cn_proof ix)) h cancel_vk \<and>
        transact_serialize E (cn_transact ix) = Some tb \<and>
        remaining E iter' = Inr rest)"

lemma process_cancel_ix_ok:
  "process_cancel_ix E as d w = Inr w' \<longleftrightarrow>
     (\<exists>rest tb. cancel_authorised E as d rest tb \<and> swap_signed E rest tb w w')"
  by (fastforce simp: process_cancel_ix_def cancel_authorised_def cancel_points_def Let_def
      result_simps cancel_public_input_hash_def deserialize_exact_Some)

lemma cancel_authorised_unique:
  "cancel_authorised E as d rest tb \<Longrightarrow> cancel_authorised E as d rest' tb' \<Longrightarrow>
   rest' = rest \<and> tb' = tb"
  by (auto simp: cancel_authorised_def)

interpretation cancel_ix_handler:
  cpi_handler "process_cancel_ix E" "cancel_authorised E" "swap_signed E" for E
  by unfold_locales
    (auto simp: process_cancel_ix_ok dest: cancel_authorised_unique signed_transact_unique)

end
