(* ===== verification/Swap_Proof_Inputs.thy ===== *)
theory Swap_Proof_Inputs
  imports Swap_Order Swap_Take Swap_Take_VE Swap_Cancel
begin

text \<open>
  The proof inputs of the swap SDK (\<open>proof.rs\<close> of \<open>make\<close>, \<open>take\<close>, \<open>cancel\<close> and
  \<open>take_verifiable_encryption\<close> under \<open>swap-program/sdk/src/instructions/\<close>): the checks each one
  makes on the UTXOs it is given, the transaction hash and the public input it computes. The
  public input hashes are the ones of the program crate, which returns a \<open>ProgramError\<close> that the
  SDK wraps.
\<close>

section \<open>Make\<close>

record spp_tx_hashes =
  sth_source_input_hash :: bytes
  sth_private_tx_blinding :: bytes
  sth_output_tree_id :: u16

text \<open>\<open>SppProofInputUtxo::hash()\<close> of an input is the parameter \<open>input_hash\<close>.\<close>

definition spp_tx_hashes_new ::
  "(('p, 'm, 'd) spend_utxo \<Rightarrow> bytes) \<Rightarrow> ('p, 'm, 'd) spp_proof_inputs \<Rightarrow> sdk_error + spp_tx_hashes" where
  "spp_tx_hashes_new input_hash spi =
     bindR (ok_or (err_str ''missing source input'') (first_opt (spi_input_utxos spi))) (\<lambda>source_input.
     bindR (ext (spi_private_tx_blinding spi)) (\<lambda>blinding.
     Inr \<lparr>sth_source_input_hash = input_hash source_input, sth_private_tx_blinding = blinding,
          sth_output_tree_id = spi_output_tree_id spi\<rparr>))"

record 'i make_proof_inputs =
  mpi_private_tx_hash :: bytes
  mpi_order :: order_terms_proof_input
  mpi_order_utxo :: 'i
  mpi_change :: 'i
  mpi_source_input_hash :: bytes
  mpi_private_tx_blinding :: bytes

record ('p, 'm, 'r) make_proof_params =
  mpp_order_utxo :: "('p, 'm) order_utxo"
  mpp_change :: "('p, 'm, 'r) output_utxo"
  mpp_spp_tx_hashes :: spp_tx_hashes

definition make_to_proof_inputs ::
  "('x, 'p, 'm, 'd, 'r, 'i) sdk_env \<Rightarrow> ('p, 'm, 'r) make_proof_params \<Rightarrow>
   sdk_error + 'i make_proof_inputs" where
  "make_to_proof_inputs S P =
     (let order = mpp_order_utxo P; terms = ou_terms order; change = mpp_change P;
          hashes = mpp_spp_tx_hashes P; tree = sth_output_tree_id hashes in
      if out_owner_address change \<noteq> Some (ot_destination terms)
      then Inl (Msg ''change owner does not match order destination'')
      else if out_asset change \<noteq> ou_source_mint order
      then Inl (Msg ''change asset does not match order source mint'')
      else if out_data_hash change \<noteq> None \<or> out_ring_data_hash change \<noteq> None \<or>
        out_ring_program_id change \<noteq> None
      then Inl (Msg ''change output must not carry data or ring commitments'')
      else
        bindR (order_terms_proof_input_of S terms) (\<lambda>order_input.
        bindR (order_output_utxo S order (viewing_pubkey (ot_destination terms))) (\<lambda>order_out.
        bindR (ext (proof_input S order_out tree)) (\<lambda>order_utxo.
        bindR (ext (proof_input S change tree)) (\<lambda>change_utxo.
        bindR (ext (proof_input_hash S change_utxo)) (\<lambda>change_hash.
        bindR (ext (proof_input_hash S order_utxo)) (\<lambda>order_hash.
        bindR (ext (private_tx_hash_of S [sth_source_input_hash hashes, replicate 32 0]
                 [change_hash, order_hash] (sth_private_tx_blinding hashes))) (\<lambda>ptx.
        Inr \<lparr>mpi_private_tx_hash = ptx, mpi_order = order_input, mpi_order_utxo = order_utxo,
             mpi_change = change_utxo, mpi_source_input_hash = sth_source_input_hash hashes,
             mpi_private_tx_blinding = sth_private_tx_blinding hashes\<rparr>))))))))"

section \<open>Cancel\<close>

record 'i cancel_proof_inputs =
  cpi_public_input_hash :: bytes
  cpi_private_tx_hash :: bytes
  cpi_order :: order_terms_proof_input
  cpi_maker_owner_pk_field :: bytes
  cpi_maker_nullifier_pk :: bytes
  cpi_order_utxo :: 'i
  cpi_source_output :: 'i
  cpi_private_tx_blinding :: bytes

record ('p, 'm, 'r) cancel_proof_params =
  cpp_order_utxo :: "('p, 'm) order_utxo"
  cpp_taker_viewing_pubkey :: bytes
  cpp_source_output :: "('p, 'm, 'r) output_utxo"
  cpp_private_tx_blinding :: bytes
  cpp_input_tree_id :: u16
  cpp_output_tree_id :: u16

definition cancel_to_proof_inputs ::
  "('x, 'p, 'm, 'd, 'r, 'i) sdk_env \<Rightarrow> ('p, 'm, 'r) cancel_proof_params \<Rightarrow>
   sdk_error + 'i cancel_proof_inputs" where
  "cancel_to_proof_inputs S P =
     (let order = cpp_order_utxo P; terms = ou_terms order in
      bindR (swap_check_output_utxo S ''source_output'' (cpp_source_output P)
               (mint_asset S (ou_source_mint order)) (ou_source_amount order)) (\<lambda>maker.
      if maker \<noteq> ot_destination terms
      then Inl (Msg ''source output owner does not match the order destination'')
      else
        bindR (order_terms_proof_input_of S terms) (\<lambda>order_input.
        bindR (ext (owner_proof_input_hash S (signing_pubkey maker))) (\<lambda>maker_owner_pk_field.
        bindR (order_output_utxo S order (viewing_pubkey (ot_destination terms))) (\<lambda>order_out.
        bindR (ext (proof_input S order_out (cpp_input_tree_id P))) (\<lambda>order_utxo.
        bindR (ext (proof_input S (cpp_source_output P) (cpp_output_tree_id P))) (\<lambda>source_output.
        bindR (ext (proof_input_hash S order_utxo)) (\<lambda>order_hash.
        bindR (ext (proof_input_hash S source_output)) (\<lambda>source_hash.
        bindR (ext (private_tx_hash_of S [order_hash] [source_hash] (cpp_private_tx_blinding P))) (\<lambda>ptx.
        bindR (map_errR (\<lambda>_. External) (cancel_public_input_hash (sdk_hashv S)
                 \<lparr>cn_private_tx_hash = ptx, cn_expiry = ot_expiry terms,
                  cn_maker_owner_pk_field = maker_owner_pk_field\<rparr>)) (\<lambda>public_input_hash.
        Inr \<lparr>cpi_public_input_hash = public_input_hash, cpi_private_tx_hash = ptx,
             cpi_order = order_input, cpi_maker_owner_pk_field = maker_owner_pk_field,
             cpi_maker_nullifier_pk = nullifier_pubkey maker, cpi_order_utxo = order_utxo,
             cpi_source_output = source_output,
             cpi_private_tx_blinding = cpp_private_tx_blinding P\<rparr>)))))))))))"

section \<open>Take\<close>

record 'i take_proof_inputs =
  tpi_public_input_hash :: bytes
  tpi_private_tx_hash :: bytes
  tpi_first_nullifier :: bytes
  tpi_order :: order_terms_proof_input
  tpi_order_utxo :: 'i
  tpi_taker_in :: 'i
  tpi_source_output :: 'i
  tpi_destination_output :: 'i
  tpi_private_tx_blinding :: bytes

text \<open>Both kinds of take have the same parameters.\<close>

record ('p, 'm, 'r) take_proof_params =
  tpp_order_utxo :: "('p, 'm) order_utxo"
  tpp_taker_in :: "('p, 'm, 'r) output_utxo"
  tpp_source_output :: "('p, 'm, 'r) output_utxo"
  tpp_destination_output :: "('p, 'm, 'r) output_utxo"
  tpp_private_tx_blinding :: bytes
  tpp_input_tree_id :: u16
  tpp_output_tree_id :: u16

text \<open>The loop over the two outputs, with the index of each.\<close>

definition show_index :: "nat \<Rightarrow> string" where
  "show_index i = [CHR ''0'', CHR ''1''] ! i # []"

fun check_take_blindings ::
  "('x, 'p, 'm, 'd, 'r, 'i) sdk_env \<Rightarrow> bytes \<Rightarrow> bytes \<Rightarrow> nat \<Rightarrow> ('p, 'm, 'r) output_utxo list \<Rightarrow>
   sdk_error + unit" where
  "check_take_blindings S first_nullifier seed index [] = Inr ()"
| "check_take_blindings S first_nullifier seed index (u # us) =
     bindR (ext (derive_transact_output_blinding S first_nullifier seed (of_nat index))) (\<lambda>b.
     if out_blinding u \<noteq> b
     then Inl (Msg (''take output '' @ show_index index @
            '' blinding must derive from the order opening''))
     else check_take_blindings S first_nullifier seed (Suc index) us)"

text \<open>The checks on the UTXOs, which both kinds of take make in the same order. The result is the
  taker's address.\<close>

definition check_take_utxos ::
  "('x, 'p, 'm, 'd, 'r, 'i) sdk_env \<Rightarrow> ('p, 'm, 'r) take_proof_params \<Rightarrow>
   sdk_error + 'p shielded_address" where
  "check_take_utxos S P =
     (let order = tpp_order_utxo P; terms = ou_terms order in
      bindR (swap_check_output_utxo S ''taker_in'' (tpp_taker_in P) (ot_destination_mint terms)
               (ot_destination_amount terms)) (\<lambda>taker.
      bindR (swap_check_output_utxo S ''source_output'' (tpp_source_output P)
               (mint_asset S (ou_source_mint order)) (ou_source_amount order)) (\<lambda>source_owner.
      if source_owner \<noteq> taker
      then Inl (Msg ''source output owner does not match the taker input owner'')
      else
        bindR (swap_check_output_utxo S ''destination_output'' (tpp_destination_output P)
                 (ot_destination_mint terms) (ot_destination_amount terms)) (\<lambda>destination_owner.
        if destination_owner \<noteq> ot_destination terms
        then Inl (Msg ''destination output owner does not match the order destination'')
        else Inr taker))))"

text \<open>The hash of the SPP transaction that spends order and taker UTXO for the two outputs.\<close>

definition take_private_tx_hash ::
  "('x, 'p, 'm, 'd, 'r, 'i) sdk_env \<Rightarrow> bytes \<Rightarrow> 'i \<Rightarrow> 'i \<Rightarrow> 'i \<Rightarrow> 'i \<Rightarrow> sdk_error + bytes" where
  "take_private_tx_hash S blinding order_utxo taker_in source_output destination_output =
     bindR (ext (proof_input_hash S order_utxo)) (\<lambda>h1.
     bindR (ext (proof_input_hash S taker_in)) (\<lambda>h2.
     bindR (ext (proof_input_hash S source_output)) (\<lambda>h3.
     bindR (ext (proof_input_hash S destination_output)) (\<lambda>h4.
     ext (private_tx_hash_of S [h1, h2] [h3, h4] blinding)))))"

definition take_to_proof_inputs ::
  "('x, 'p, 'm, 'd, 'r, 'i) sdk_env \<Rightarrow> ('p, 'm, 'r) take_proof_params \<Rightarrow>
   sdk_error + 'i take_proof_inputs" where
  "take_to_proof_inputs S P =
     (let order = tpp_order_utxo P; terms = ou_terms order in
      bindR (check_take_utxos S P) (\<lambda>taker.
      if ot_take_mode terms \<noteq> take_mode_derived
      then Inl (Msg ''order take_mode does not authorize the derived take'')
      else
        bindR (order_terms_proof_input_of S terms) (\<lambda>order_input.
        bindR (order_output_utxo S order (viewing_pubkey (ot_destination terms))) (\<lambda>order_output.
        bindR (ext (proof_input S order_output (tpp_input_tree_id P))) (\<lambda>order_utxo.
        bindR (ext (proof_input_hash S order_utxo)) (\<lambda>order_hash.
        bindR (ext (nullifier_key_nullifier S order_nullifier_key order_hash (ou_blinding order)))
          (\<lambda>first_nullifier.
        bindR (take_blinding_seed S (ou_blinding order)) (\<lambda>blinding_seed.
        bindR (ext (derive_output_blinding_seed S first_nullifier blinding_seed)) (\<lambda>seed.
        bindR (ext (derive_private_tx_blinding S first_nullifier blinding_seed)) (\<lambda>tx_blinding.
        if tpp_private_tx_blinding P \<noteq> tx_blinding
        then Inl (Msg ''take blinding seed must derive from the order opening'')
        else
          bindR (check_take_blindings S first_nullifier seed 0
                   [tpp_source_output P, tpp_destination_output P]) (\<lambda>_.
          bindR (ext (proof_input S (tpp_taker_in P) (tpp_input_tree_id P))) (\<lambda>taker_in.
          bindR (ext (proof_input S (tpp_source_output P) (tpp_output_tree_id P))) (\<lambda>source_output.
          bindR (ext (proof_input S (tpp_destination_output P) (tpp_output_tree_id P)))
            (\<lambda>destination_output.
          bindR (take_private_tx_hash S (tpp_private_tx_blinding P) order_utxo taker_in source_output
                   destination_output) (\<lambda>ptx.
          bindR (map_errR (\<lambda>_. External) (take_public_input_hash (sdk_hashv S)
                   \<lparr>tk_private_tx_hash = ptx, tk_expiry = ot_expiry terms,
                    tk_first_nullifier = first_nullifier\<rparr>)) (\<lambda>public_input_hash.
          Inr \<lparr>tpi_public_input_hash = public_input_hash, tpi_private_tx_hash = ptx,
               tpi_first_nullifier = first_nullifier, tpi_order = order_input,
               tpi_order_utxo = order_utxo, tpi_taker_in = taker_in,
               tpi_source_output = source_output, tpi_destination_output = destination_output,
               tpi_private_tx_blinding = tpp_private_tx_blinding P\<rparr>))))))))))))))))"

section \<open>Verifiable-encryption take\<close>

record 'i take_ve_proof_inputs =
  vpi_public_input_hash :: bytes
  vpi_private_tx_hash :: bytes
  vpi_order :: order_terms_proof_input
  vpi_taker_nullifier_pk :: bytes
  vpi_order_utxo :: 'i
  vpi_taker_in :: 'i
  vpi_source_output :: 'i
  vpi_destination_output :: 'i
  vpi_private_tx_blinding :: bytes

definition take_ve_to_proof_inputs ::
  "('x, 'p, 'm, 'd, 'r, 'i) sdk_env \<Rightarrow> ('p, 'm, 'r) take_proof_params \<Rightarrow>
   sdk_error + 'i take_ve_proof_inputs" where
  "take_ve_to_proof_inputs S P =
     (let order = tpp_order_utxo P; terms = ou_terms order in
      bindR (check_take_utxos S P) (\<lambda>taker.
      if ot_take_mode terms \<noteq> take_mode_verifiable
      then Inl (Msg ''order take_mode does not authorize the verifiable-encryption take'')
      else
        bindR (order_terms_proof_input_of S terms) (\<lambda>order_input.
        bindR (order_output_utxo S order (viewing_pubkey (ot_destination terms))) (\<lambda>order_output.
        bindR (ext (proof_input S order_output (tpp_input_tree_id P))) (\<lambda>order_utxo.
        bindR (ext (proof_input S (tpp_taker_in P) (tpp_input_tree_id P))) (\<lambda>taker_in.
        bindR (ext (proof_input S (tpp_source_output P) (tpp_output_tree_id P))) (\<lambda>source_output.
        bindR (ext (proof_input S (tpp_destination_output P) (tpp_output_tree_id P)))
          (\<lambda>destination_output.
        bindR (take_private_tx_hash S (tpp_private_tx_blinding P) order_utxo taker_in source_output
                 destination_output) (\<lambda>ptx.
        bindR (destination_ciphertext_with_hash S (ou_blinding order) (ot_destination_mint terms)
                 (ot_destination_amount terms) (out_blinding (tpp_destination_output P)))
          (\<lambda>(ciphertext, _).
        bindR (map_errR (\<lambda>_. External) (take_ve_public_input_hash (sdk_hashv S) (sdk_ciphertext_hash S)
                 \<lparr>tv_private_tx_hash = ptx, tv_expiry = ot_expiry terms,
                  tv_destination_ciphertext = ciphertext\<rparr>)) (\<lambda>public_input_hash.
        Inr \<lparr>vpi_public_input_hash = public_input_hash, vpi_private_tx_hash = ptx,
             vpi_order = order_input, vpi_taker_nullifier_pk = nullifier_pubkey taker,
             vpi_order_utxo = order_utxo, vpi_taker_in = taker_in,
             vpi_source_output = source_output, vpi_destination_output = destination_output,
             vpi_private_tx_blinding = tpp_private_tx_blinding P\<rparr>)))))))))))"

section \<open>Facts\<close>

lemma if_Inl_Inr_iff [result_simps]:
  "(if b then Inl e else r) = Inr x \<longleftrightarrow> \<not> b \<and> r = Inr x"
  by simp

text \<open>What the UTXO checks of a take establish.\<close>

lemma check_take_utxos_ok [result_simps]:
  "check_take_utxos S P = Inr taker \<longleftrightarrow>
     plain_output S (tpp_taker_in P) (ot_destination_mint (ou_terms (tpp_order_utxo P)))
       (ot_destination_amount (ou_terms (tpp_order_utxo P))) taker \<and>
     plain_output S (tpp_source_output P) (mint_asset S (ou_source_mint (tpp_order_utxo P)))
       (ou_source_amount (tpp_order_utxo P)) taker \<and>
     plain_output S (tpp_destination_output P) (ot_destination_mint (ou_terms (tpp_order_utxo P)))
       (ot_destination_amount (ou_terms (tpp_order_utxo P)))
       (ot_destination (ou_terms (tpp_order_utxo P)))"
  by (auto simp: check_take_utxos_def result_simps Let_def)

lemma check_take_blindings_ok:
  "check_take_blindings S n s 0 [u, v] = Inr x \<longleftrightarrow>
     derive_transact_output_blinding S n s 0 = Some (out_blinding u) \<and>
     derive_transact_output_blinding S n s 1 = Some (out_blinding v)"
  by (auto simp: result_simps)

text \<open>What a derived take establishes about its blindings.\<close>

lemma take_to_proof_inputs_blindings:
  assumes "take_to_proof_inputs S P = Inr q"
  obtains taker order_out order_utxo order_hash bseed seed where
    "check_take_utxos S P = Inr taker"
    "ot_take_mode (ou_terms (tpp_order_utxo P)) = take_mode_derived"
    "order_output_utxo S (tpp_order_utxo P)
       (viewing_pubkey (ot_destination (ou_terms (tpp_order_utxo P)))) = Inr order_out"
    "proof_input S order_out (tpp_input_tree_id P) = Some order_utxo"
    "proof_input_hash S order_utxo = Some order_hash"
    "nullifier_key_nullifier S order_nullifier_key order_hash (ou_blinding (tpp_order_utxo P))
       = Some (tpi_first_nullifier q)"
    "take_blinding_seed S (ou_blinding (tpp_order_utxo P)) = Inr bseed"
    "derive_output_blinding_seed S (tpi_first_nullifier q) bseed = Some seed"
    "derive_private_tx_blinding S (tpi_first_nullifier q) bseed = Some (tpp_private_tx_blinding P)"
    "derive_transact_output_blinding S (tpi_first_nullifier q) seed 0
       = Some (out_blinding (tpp_source_output P))"
    "derive_transact_output_blinding S (tpi_first_nullifier q) seed 1
       = Some (out_blinding (tpp_destination_output P))"
  using assms unfolding take_to_proof_inputs_def Let_def
  by (simp only: result_simps check_take_blindings_ok) (elim exE conjE, auto)

end
