(* ===== verification/Swap_Circuits.thy ===== *)
theory Swap_Circuits
  imports Circuit_Gadgets Swap_Proof_Inputs
begin

text \<open>
  The Go circuits of the swap program (\<open>swap-program/prover/circuits/\<close>): \<open>orderterms\<close>, \<open>make\<close>,
  \<open>cancel\<close>, \<open>take\<close> and \<open>take_verifiable_encryption\<close>. A circuit is satisfied by an assignment
  when its \<open>Define\<close> is \<open>Some ()\<close>.
\<close>

section \<open>Order terms (orderterms.go)\<close>

definition go_take_mode_derived :: nat where
  "go_take_mode_derived = 0"

definition go_take_mode_verifiable :: nat where
  "go_take_mode_verifiable = 1"

definition go_take_enc_kdf_domain :: nat where
  "go_take_enc_kdf_domain = 0x5357415054414b45"

record 'f circuit_order =
  co_destination_asset :: 'f
  co_destination_amount :: 'f
  co_maker_owner_hash :: 'f
  co_maker_viewing_pk :: "'f list"
  co_expiry :: 'f
  co_taker_pk_fe :: 'f
  co_take_mode :: 'f

definition check_order :: "('f, 'u, 'k, 'n) gadgets \<Rightarrow> 'f circuit_order \<Rightarrow> unit option" where
  "check_order G t = do {
     assert_that (assert_is_different G (co_destination_amount t) (gconst G 0));
     assert_that (to_binary G (co_destination_amount t) 64);
     assert_that (assert_is_boolean G (co_take_mode t))
   }"

definition maker_address_fe :: "('f, 'u, 'k, 'n) gadgets \<Rightarrow> 'f circuit_order \<Rightarrow> 'f" where
  "maker_address_fe G t =
     gposeidon G [co_maker_owner_hash t, ghash_bytes G (co_maker_viewing_pk t)]"

definition circuit_data_hash :: "('f, 'u, 'k, 'n) gadgets \<Rightarrow> 'f circuit_order \<Rightarrow> 'f \<Rightarrow> 'f" where
  "circuit_data_hash G t maker_address =
     gposeidon G [co_destination_asset t, co_destination_amount t, maker_address, co_expiry t,
       co_taker_pk_fe t, co_take_mode t]"

section \<open>The order UTXO\<close>

text \<open>\<open>checkOrderInputUtxo\<close> of take and cancel and \<open>checkOrderOutputUtxo\<close> of make have the same body.\<close>

definition check_order_utxo ::
  "('f, 'u, 'k, 'n) gadgets \<Rightarrow> 'f circuit_order \<Rightarrow> 'u \<Rightarrow> 'f \<Rightarrow> 'f option" where
  "check_order_utxo G t order_utxo maker_address = do {
     assert_that (assert_default_ring G order_utxo);
     assert_that (assert_is_equal G (cu_data_hash G order_utxo) (circuit_data_hash G t maker_address));
     assert_that (assert_is_different G (cu_amount G order_utxo) (gconst G 0));
     Some (cu_hash G order_utxo)
   }"

section \<open>Make (make.go)\<close>

record ('f, 'u) make_circuit =
  mc_private_tx_hash :: 'f
  mc_order :: "'f circuit_order"
  mc_order_utxo :: 'u
  mc_change :: 'u
  mc_source_input_hash :: 'f
  mc_private_tx_blinding :: 'f

definition check_change_output ::
  "('f, 'u, 'k, 'n) gadgets \<Rightarrow> ('f, 'u) make_circuit \<Rightarrow> 'f option" where
  "check_change_output G c = do {
     assert_that (assert_default_ring G (mc_change c));
     assert_that (assert_is_equal G (cu_data_hash G (mc_change c)) (gconst G 0));
     assert_that (assert_is_equal G (cu_asset G (mc_change c)) (cu_asset G (mc_order_utxo c)));
     assert_that (assert_is_equal G (cu_owner G (mc_change c)) (co_maker_owner_hash (mc_order c)));
     Some (cu_hash G (mc_change c))
   }"

definition make_define :: "('f, 'u, 'k, 'n) gadgets \<Rightarrow> ('f, 'u) make_circuit \<Rightarrow> unit option" where
  "make_define G c = do {
     check_order G (mc_order c);
     order_hash \<leftarrow> check_order_utxo G (mc_order c) (mc_order_utxo c) (maker_address_fe G (mc_order c));
     change_hash \<leftarrow> check_change_output G c;
     assert_that (assert_is_equal G
       (gprivate_tx_hash G [mc_source_input_hash c, gconst G 0] [change_hash, order_hash]
          (mc_private_tx_blinding c))
       (mc_private_tx_hash c))
   }"

section \<open>Cancel (cancel.go)\<close>

record ('f, 'u) cancel_circuit =
  cc_public_input_hash :: 'f
  cc_private_tx_hash :: 'f
  cc_order :: "'f circuit_order"
  cc_order_utxo :: 'u
  cc_source_output :: 'u
  cc_maker_owner_pk_field :: 'f
  cc_maker_nullifier_pk :: 'f
  cc_private_tx_blinding :: 'f

definition check_refund_output ::
  "('f, 'u, 'k, 'n) gadgets \<Rightarrow> ('f, 'u) cancel_circuit \<Rightarrow> 'f option" where
  "check_refund_output G c = do {
     assert_that (assert_default_ring G (cc_source_output c));
     assert_that (assert_is_equal G (cu_data_hash G (cc_source_output c)) (gconst G 0));
     assert_that (assert_is_equal G (cu_asset G (cc_source_output c)) (cu_asset G (cc_order_utxo c)));
     assert_that (assert_is_equal G (cu_amount G (cc_source_output c)) (cu_amount G (cc_order_utxo c)));
     assert_that (assert_is_equal G (cu_owner G (cc_source_output c)) (co_maker_owner_hash (cc_order c)));
     Some (cu_hash G (cc_source_output c))
   }"

definition check_maker_authorization ::
  "('f, 'u, 'k, 'n) gadgets \<Rightarrow> ('f, 'u) cancel_circuit \<Rightarrow> unit option" where
  "check_maker_authorization G c =
     assert_that (assert_is_equal G
       (gposeidon G [cc_maker_owner_pk_field c, cc_maker_nullifier_pk c])
       (co_maker_owner_hash (cc_order c)))"

text \<open>\<open>PublicInputs.Check\<close>, which each circuit has with its own third input.\<close>

definition check_public_inputs ::
  "('f, 'u, 'k, 'n) gadgets \<Rightarrow> 'f \<Rightarrow> 'f \<Rightarrow> 'f \<Rightarrow> 'f \<Rightarrow> unit option" where
  "check_public_inputs G public_input_hash ptx expiry third =
     assert_that (assert_is_equal G public_input_hash (gposeidon G [ptx, expiry, third]))"

definition cancel_define :: "('f, 'u, 'k, 'n) gadgets \<Rightarrow> ('f, 'u) cancel_circuit \<Rightarrow> unit option" where
  "cancel_define G c = do {
     order_hash \<leftarrow> check_order_utxo G (cc_order c) (cc_order_utxo c) (maker_address_fe G (cc_order c));
     source_hash \<leftarrow> check_refund_output G c;
     check_maker_authorization G c;
     assert_that (assert_is_equal G
       (gprivate_tx_hash G [order_hash] [source_hash] (cc_private_tx_blinding c))
       (cc_private_tx_hash c));
     check_public_inputs G (cc_public_input_hash c) (cc_private_tx_hash c) (co_expiry (cc_order c))
       (cc_maker_owner_pk_field c)
   }"

section \<open>The core of both takes (take.go)\<close>

record ('f, 'u) take_core =
  tc_order :: "'f circuit_order"
  tc_order_utxo :: 'u
  tc_taker_in :: 'u
  tc_source_output :: 'u
  tc_destination_output :: 'u
  tc_private_tx_blinding :: 'f

definition check_taker_input ::
  "('f, 'u, 'k, 'n) gadgets \<Rightarrow> ('f, 'u) take_core \<Rightarrow> 'f option" where
  "check_taker_input G c = do {
     assert_that (assert_default_ring G (tc_taker_in c));
     assert_that (assert_is_equal G (cu_data_hash G (tc_taker_in c)) (gconst G 0));
     assert_that (assert_is_equal G (cu_asset G (tc_taker_in c)) (co_destination_asset (tc_order c)));
     assert_that (assert_is_equal G (cu_amount G (tc_taker_in c)) (co_destination_amount (tc_order c)));
     Some (cu_hash G (tc_taker_in c))
   }"

definition check_source_output ::
  "('f, 'u, 'k, 'n) gadgets \<Rightarrow> ('f, 'u) take_core \<Rightarrow> 'f option" where
  "check_source_output G c = do {
     assert_that (assert_default_ring G (tc_source_output c));
     assert_that (assert_is_equal G (cu_data_hash G (tc_source_output c)) (gconst G 0));
     assert_that (assert_is_equal G (cu_asset G (tc_source_output c)) (cu_asset G (tc_order_utxo c)));
     assert_that (assert_is_equal G (cu_amount G (tc_source_output c)) (cu_amount G (tc_order_utxo c)));
     assert_that (assert_is_equal G (cu_owner G (tc_source_output c)) (cu_owner G (tc_taker_in c)));
     Some (cu_hash G (tc_source_output c))
   }"

definition check_destination_output ::
  "('f, 'u, 'k, 'n) gadgets \<Rightarrow> ('f, 'u) take_core \<Rightarrow> 'f option" where
  "check_destination_output G c = do {
     assert_that (assert_default_ring G (tc_destination_output c));
     assert_that (assert_is_equal G (cu_data_hash G (tc_destination_output c)) (gconst G 0));
     assert_that (assert_is_equal G (cu_asset G (tc_destination_output c))
       (co_destination_asset (tc_order c)));
     assert_that (assert_is_equal G (cu_amount G (tc_destination_output c))
       (co_destination_amount (tc_order c)));
     assert_that (assert_is_equal G (cu_owner G (tc_destination_output c))
       (co_maker_owner_hash (tc_order c)));
     Some (cu_hash G (tc_destination_output c))
   }"

definition check_core :: "('f, 'u, 'k, 'n) gadgets \<Rightarrow> ('f, 'u) take_core \<Rightarrow> 'f \<Rightarrow> unit option" where
  "check_core G c ptx = do {
     check_order G (tc_order c);
     order_hash \<leftarrow> check_order_utxo G (tc_order c) (tc_order_utxo c) (maker_address_fe G (tc_order c));
     taker_hash \<leftarrow> check_taker_input G c;
     source_hash \<leftarrow> check_source_output G c;
     destination_hash \<leftarrow> check_destination_output G c;
     assert_that (assert_is_equal G
       (gprivate_tx_hash G [order_hash, taker_hash] [source_hash, destination_hash]
          (tc_private_tx_blinding c))
       ptx)
   }"

section \<open>Take (take.go)\<close>

definition blinding_seed_domain :: nat where
  "blinding_seed_domain = 0x53575458"

record ('f, 'u) take_circuit =
  tk_public_hash :: 'f
  tk_public_tx_hash :: 'f
  tk_public_nullifier :: 'f
  tk_core :: "('f, 'u) take_core"

definition take_define :: "('f, 'u, 'k, 'n) gadgets \<Rightarrow> ('f, 'u) take_circuit \<Rightarrow> unit option" where
  "take_define G c =
     (let core = tk_core c;
          seed = gposeidon G [gconst G blinding_seed_domain, cu_blinding G (tc_order_utxo core)]
      in do {
        assert_that (assert_is_equal G (co_take_mode (tc_order core)) (gconst G go_take_mode_derived));
        assert_that (assert_transaction_blindings G (tk_public_nullifier c) seed
          (tc_private_tx_blinding core) (cu_blinding G (tc_source_output core))
          (cu_blinding G (tc_destination_output core)));
        check_core G core (tk_public_tx_hash c);
        check_public_inputs G (tk_public_hash c) (tk_public_tx_hash c) (co_expiry (tc_order core))
          (tk_public_nullifier c)
      })"

section \<open>Verifiable-encryption take (take_verifiable_encryption/take.go)\<close>

definition merge_kdf_info :: bytes where
  "merge_kdf_info = byte_string ''TSPP/merge''"

record ('f, 'u) take_ve_circuit =
  tv_public_hash :: 'f
  tv_public_tx_hash :: 'f
  tv_core :: "('f, 'u) take_core"
  tv_taker_nullifier_pk :: 'f

definition check_verifiable_encryption ::
  "('f, 'u, 'k, 'n) gadgets \<Rightarrow> ('f, 'u) take_core \<Rightarrow> 'f option" where
  "check_verifiable_encryption G core =
     (let secret = gposeidon G [cu_blinding G (tc_order_utxo core), gconst G go_take_enc_kdf_domain];
          (key, nonce) = key_schedule G secret (gbytes G merge_kdf_info) (length merge_kdf_info)
      in do {
        amount \<leftarrow> field_to_bytes G (co_destination_amount (tc_order core)) 8;
        asset \<leftarrow> field_to_bytes G (co_destination_asset (tc_order core)) 32;
        blinding \<leftarrow> field_to_bytes G (cu_blinding G (tc_destination_output core)) 32;
        Some (ghash_bytes G (ctr_encrypt G key nonce (amount @ asset @ blinding)))
      })"

definition take_ve_define :: "('f, 'u, 'k, 'n) gadgets \<Rightarrow> ('f, 'u) take_ve_circuit \<Rightarrow> unit option" where
  "take_ve_define G c =
     (let core = tv_core c in do {
        assert_that (assert_is_equal G (co_take_mode (tc_order core)) (gconst G go_take_mode_verifiable));
        assert_that (assert_is_equal G (cu_owner G (tc_taker_in core))
          (gposeidon G [co_taker_pk_fe (tc_order core), tv_taker_nullifier_pk c]));
        check_core G core (tv_public_tx_hash c);
        ct_hash \<leftarrow> check_verifiable_encryption G core;
        check_public_inputs G (tv_public_hash c) (tv_public_tx_hash c) (co_expiry (tc_order core)) ct_hash
      })"

lemmas swap_define_simps = make_define_def cancel_define_def take_define_def take_ve_define_def
  check_maker_authorization_def check_public_inputs_def check_change_output_def check_refund_output_def

section \<open>Assignments\<close>

text \<open>The assignment that the witness map of each kind of proof inputs gives to its circuit: the keys of
  the map are the paths of the fields.\<close>

definition order_assignment ::
  "('f, 'u, 'k, 'n) gadgets \<Rightarrow> (bytes \<Rightarrow> 'f) \<Rightarrow> order_terms_proof_input \<Rightarrow> 'f circuit_order" where
  "order_assignment G fe t =
     \<lparr>co_destination_asset = fe (op_destination_asset t),
      co_destination_amount = fe (swap_u64_right_align (op_destination_amount t)),
      co_maker_owner_hash = fe (op_maker_owner_hash t),
      co_maker_viewing_pk = gbytes G (op_maker_viewing_pk t),
      co_expiry = fe (swap_u64_right_align (op_expiry t)),
      co_taker_pk_fe = fe (op_taker_pk_fe t),
      co_take_mode = fe (swap_u64_right_align (op_take_mode t))\<rparr>"

definition make_assignment ::
  "('f, 'u, 'k, 'n) gadgets \<Rightarrow> (bytes \<Rightarrow> 'f) \<Rightarrow> ('i \<Rightarrow> 'u) \<Rightarrow> 'i make_proof_inputs \<Rightarrow> ('f, 'u) make_circuit" where
  "make_assignment G fe cu q =
     \<lparr>mc_private_tx_hash = fe (mpi_private_tx_hash q), mc_order = order_assignment G fe (mpi_order q),
      mc_order_utxo = cu (mpi_order_utxo q), mc_change = cu (mpi_change q),
      mc_source_input_hash = fe (mpi_source_input_hash q),
      mc_private_tx_blinding = fe (mpi_private_tx_blinding q)\<rparr>"

definition cancel_assignment ::
  "('f, 'u, 'k, 'n) gadgets \<Rightarrow> (bytes \<Rightarrow> 'f) \<Rightarrow> ('i \<Rightarrow> 'u) \<Rightarrow> 'i cancel_proof_inputs \<Rightarrow>
   ('f, 'u) cancel_circuit" where
  "cancel_assignment G fe cu q =
     \<lparr>cc_public_input_hash = fe (cpi_public_input_hash q),
      cc_private_tx_hash = fe (cpi_private_tx_hash q), cc_order = order_assignment G fe (cpi_order q),
      cc_order_utxo = cu (cpi_order_utxo q), cc_source_output = cu (cpi_source_output q),
      cc_maker_owner_pk_field = fe (cpi_maker_owner_pk_field q),
      cc_maker_nullifier_pk = fe (cpi_maker_nullifier_pk q),
      cc_private_tx_blinding = fe (cpi_private_tx_blinding q)\<rparr>"

definition take_assignment ::
  "('f, 'u, 'k, 'n) gadgets \<Rightarrow> (bytes \<Rightarrow> 'f) \<Rightarrow> ('i \<Rightarrow> 'u) \<Rightarrow> 'i take_proof_inputs \<Rightarrow> ('f, 'u) take_circuit" where
  "take_assignment G fe cu q =
     \<lparr>tk_public_hash = fe (tpi_public_input_hash q), tk_public_tx_hash = fe (tpi_private_tx_hash q),
      tk_public_nullifier = fe (tpi_first_nullifier q),
      tk_core = \<lparr>tc_order = order_assignment G fe (tpi_order q), tc_order_utxo = cu (tpi_order_utxo q),
        tc_taker_in = cu (tpi_taker_in q), tc_source_output = cu (tpi_source_output q),
        tc_destination_output = cu (tpi_destination_output q),
        tc_private_tx_blinding = fe (tpi_private_tx_blinding q)\<rparr>\<rparr>"

definition take_ve_assignment ::
  "('f, 'u, 'k, 'n) gadgets \<Rightarrow> (bytes \<Rightarrow> 'f) \<Rightarrow> ('i \<Rightarrow> 'u) \<Rightarrow> 'i take_ve_proof_inputs \<Rightarrow>
   ('f, 'u) take_ve_circuit" where
  "take_ve_assignment G fe cu q =
     \<lparr>tv_public_hash = fe (vpi_public_input_hash q), tv_public_tx_hash = fe (vpi_private_tx_hash q),
      tv_core = \<lparr>tc_order = order_assignment G fe (vpi_order q), tc_order_utxo = cu (vpi_order_utxo q),
        tc_taker_in = cu (vpi_taker_in q), tc_source_output = cu (vpi_source_output q),
        tc_destination_output = cu (vpi_destination_output q),
        tc_private_tx_blinding = fe (vpi_private_tx_blinding q)\<rparr>,
      tv_taker_nullifier_pk = fe (vpi_taker_nullifier_pk q)\<rparr>"

section \<open>Facts\<close>

lemma fe_u64: "fe_law G fe \<Longrightarrow> fe (swap_u64_right_align x) = gconst G (unat x)"
  by (simp add: swap_u64_right_align_def fe_be_u64)

lemma check_order_assignment:
  assumes "api_law G" "fe_law G fe"
  shows "check_order G (order_assignment G fe t) = Some () \<longleftrightarrow>
     op_destination_amount t \<noteq> 0 \<and> (op_take_mode t = 0 \<or> op_take_mode t = 1)"
  using assms
  by (simp add: check_order_def order_assignment_def fe_u64 api_simps(1-3) gconst_u64_0 gconst_u64_1
      to_binary_u64 bind_eq_Some_conv)

text \<open>The data hash that the circuit computes is the one that the SDK computes.\<close>

lemma circuit_data_hash_assignment:
  assumes "hashes_fit G fe S" "viewing_law S" "order_input_data_hash S t = Inr h"
  shows "circuit_data_hash G (order_assignment G fe t) (maker_address_fe G (order_assignment G fe t)) = fe h"
proof -
  obtain a where a: "compressed_address_hash S (op_maker_owner_hash t) (op_maker_viewing_pk t) = Some a"
    and h: "sdk_poseidon S
       [op_destination_asset t, swap_u64_right_align (op_destination_amount t), a,
        swap_u64_right_align (op_expiry t), op_taker_pk_fe t, swap_u64_right_align (op_take_mode t)] = Some h"
    using assms(2,3) by (auto simp: order_input_data_hash_def result_simps viewing_law_def)
  show ?thesis
    using poseidon_fitD [OF hashes_fitD(2) [OF assms(1)] h] hashes_fitD(5) [OF assms(1) a]
    by (simp add: circuit_data_hash_def maker_address_fe_def order_assignment_def)
qed

text \<open>The order output of the SDK passes the check of the circuits exactly when it holds something.\<close>

lemma check_order_utxo_assignment:
  assumes "api_law G" "hashes_fit G fe S" "utxos_fit G fe S cu" "viewing_law S" "output_laws S"
    and "order_terms_proof_input_of S (ou_terms order) = Inr t"
    and "order_output_utxo S order v = Inr u" "proof_input S u tree = Some i"
    and "proof_input_hash S i = Some h"
  shows "check_order_utxo G (order_assignment G fe t) (cu i) (maker_address_fe G (order_assignment G fe t))
     = (if ou_source_amount order = 0 then None else Some (fe h))"
proof -
  obtain d npk where d: "order_terms_data_hash S (ou_terms order) = Inr d"
    and u: "out_amount u = ou_source_amount order" "out_data_hash u = Some d"
      "out_ring_data_hash u = None" "out_ring_program_id u = None"
    by (rule order_output_utxo_fields [OF assms(5,7)])
  have data: "circuit_data_hash G (order_assignment G fe t)
      (maker_address_fe G (order_assignment G fe t)) = fe d"
    using circuit_data_hash_assignment [OF assms(2,4)] d assms(6)
    by (simp add: order_terms_data_hash_def)
  have fit: "utxo_fits G fe S u (cu i)" "cu_hash G (cu i) = fe h"
    using utxos_fitD [OF assms(3)] assms(8,9) by blast+
  then have "cu_data_hash G (cu i) = fe d" "assert_default_ring G (cu i)"
    "cu_amount G (cu i) = gconst G (unat (ou_source_amount order))"
    using u by (simp_all add: utxo_fits_def)
  then show ?thesis
    using data fit(2) gconst_u64_0 [OF assms(1), of "ou_source_amount order"]
    by (auto simp: check_order_utxo_def api_simps [OF assms(1)] assert_that_def split: if_splits)
qed

end
