(* ===== verification/Escrow_Shared.thy ===== *)
theory Escrow_Shared
  imports Runtime
begin

text \<open>
  The parts of the timelock escrow program that its instructions share: the error enum
  (\<open>escrow-program/program/src/error.rs\<close>), the time gate and the signed SPP call
  (\<open>instructions/shared.rs\<close>), and the proof verifier (\<open>instructions/verifier.rs\<close>).
\<close>

section \<open>Errors\<close>

datatype escrow_error =
    Escrow_ProofVerificationFailed
  | Escrow_InvalidInstructionData
  | Escrow_InvalidShieldedPoolProgram
  | Escrow_MissingEscrowAuthority
  | Escrow_HashingFailed
  | Escrow_NotYetUnlocked

fun escrow_error_code :: "escrow_error \<Rightarrow> u32" where
  "escrow_error_code Escrow_ProofVerificationFailed = 9000"
| "escrow_error_code Escrow_InvalidInstructionData = 9001"
| "escrow_error_code Escrow_InvalidShieldedPoolProgram = 9002"
| "escrow_error_code Escrow_MissingEscrowAuthority = 9003"
| "escrow_error_code Escrow_HashingFailed = 9004"
| "escrow_error_code Escrow_NotYetUnlocked = 9005"

text \<open>The \<open>#[error]\<close> texts.\<close>

fun escrow_error_display :: "escrow_error \<Rightarrow> string" where
  "escrow_error_display Escrow_ProofVerificationFailed = ''proof verification failed''"
| "escrow_error_display Escrow_InvalidInstructionData = ''instruction data is invalid''"
| "escrow_error_display Escrow_InvalidShieldedPoolProgram = ''shielded-pool program account is invalid''"
| "escrow_error_display Escrow_MissingEscrowAuthority =
     ''escrow-authority account is missing from the transact account list''"
| "escrow_error_display Escrow_HashingFailed = ''hashing failed''"
| "escrow_error_display Escrow_NotYetUnlocked = ''escrow has not yet unlocked''"

text \<open>\<open>From<TimelockEscrowError> for ProgramError\<close> and
  \<open>From<HasherError> for TimelockEscrowError\<close>.\<close>

definition escrow_program_error :: "escrow_error \<Rightarrow> program_error" where
  "escrow_program_error e = Custom (escrow_error_code e)"

definition escrow_error_of_hasher :: "'h \<Rightarrow> escrow_error" where
  "escrow_error_of_hasher h = Escrow_HashingFailed"

lemma escrow_error_code_inject: "escrow_error_code e = escrow_error_code e' \<longleftrightarrow> e = e'"
  by (cases e; cases e') simp_all

lemma escrow_program_error_inject [simp]:
  "escrow_program_error e = escrow_program_error e' \<longleftrightarrow> e = e'"
  by (simp add: escrow_program_error_def escrow_error_code_inject)

section \<open>Constants\<close>

definition escrow_authority_pda_seed :: bytes where
  "escrow_authority_pda_seed = byte_string ''escrow_authority''"

definition escrow_id :: bytes where
  "escrow_id = base58_id ''2ehy1rrRKT3KEVNN6pLmHeiUedwazPZezXXhwaLjCt5G''"

definition escrow_tag_escrow :: byte where
  "escrow_tag_escrow = 0"

definition escrow_tag_withdraw :: byte where
  "escrow_tag_withdraw = 1"

section \<open>Field encoding and the time gate\<close>

definition escrow_u64_right_align :: "u64 \<Rightarrow> bytes" where
  "escrow_u64_right_align value = replicate 24 0 @ to_be_bytes value"

definition escrow_check_after_window :: "i64 \<Rightarrow> u64 \<Rightarrow> program_error + unit" where
  "escrow_check_after_window now unlock =
     (if 0 \<le> sint now \<and> unlock < now then Inr ()
      else Inl (escrow_program_error Escrow_NotYetUnlocked))"

lemma escrow_u64_right_align_inject [simp]:
  "escrow_u64_right_align x = escrow_u64_right_align y \<longleftrightarrow> x = y"
  by (simp add: escrow_u64_right_align_def)

lemma length_escrow_u64_right_align [simp, byte_simps]: "length (escrow_u64_right_align x) = 32"
  by (simp add: escrow_u64_right_align_def)

lemma be_val_escrow_u64_right_align [byte_simps]: "be_val (escrow_u64_right_align x) = unat x"
  by (simp add: escrow_u64_right_align_def byte_simps)

lemma escrow_check_after_window_ok [result_simps]:
  "escrow_check_after_window now d = Inr u \<longleftrightarrow> 0 \<le> sint now \<and> d < now"
  by (simp add: escrow_check_after_window_def)

lemma escrow_check_after_window_err [result_simps]:
  "escrow_check_after_window now d = Inl e \<longleftrightarrow>
     \<not> (0 \<le> sint now \<and> d < now) \<and> e = escrow_program_error Escrow_NotYetUnlocked"
  by (auto simp: escrow_check_after_window_def)

section \<open>The signed SPP call\<close>

fun escrow_transact_accounts_error :: "transact_accounts_error \<Rightarrow> program_error" where
  "escrow_transact_accounts_error InvalidSppProgram = escrow_program_error Escrow_InvalidShieldedPoolProgram"
| "escrow_transact_accounts_error MissingPdaSigner = escrow_program_error Escrow_MissingEscrowAuthority"
| "escrow_transact_accounts_error NotEnoughAccounts = PE_NotEnoughAccountKeys"

definition escrow_cpi_spp_transact_signed ::
  "('x, 'v, 's, 'w) chain_env \<Rightarrow> account_view list \<Rightarrow> bytes \<Rightarrow> 'w \<Rightarrow> program_error + 'w" where
  "escrow_cpi_spp_transact_signed E spp_accounts transact_bytes w =
     (let (escrow_authority, bump) = find_program_address E [escrow_authority_pda_seed] escrow_id;
          signer_pdas = [escrow_authority]
      in bindR (map_errR escrow_transact_accounts_error (spp_transact_accounts E spp_accounts signer_pdas))
           (\<lambda>spp. spp_invoke E 16 spp transact_bytes [[escrow_authority_pda_seed, [bump]]] w))"

text \<open>The call succeeds exactly when SPP ran under the escrow authority's signature.\<close>

abbreviation escrow_signed ::
  "('x, 'v, 's, 'w) chain_env \<Rightarrow> account_view list \<Rightarrow> bytes \<Rightarrow> 'w \<Rightarrow> 'w \<Rightarrow> bool" where
  "escrow_signed E \<equiv> signed_transact E escrow_authority_pda_seed escrow_id"

lemma escrow_cpi_ok [result_simps]:
  "escrow_cpi_spp_transact_signed E as tb w = Inr w' \<longleftrightarrow> escrow_signed E as tb w w'"
  by (cases "find_program_address E [escrow_authority_pda_seed] escrow_id")
    (simp add: escrow_cpi_spp_transact_signed_def signed_transact_def result_simps)

lemma escrow_cpi_bad_accounts:
  "spp_transact_accounts E as [fst (find_program_address E [escrow_authority_pda_seed] escrow_id)] = Inl e \<Longrightarrow>
   escrow_cpi_spp_transact_signed E as tb w = Inl (escrow_transact_accounts_error e)"
  by (cases "find_program_address E [escrow_authority_pda_seed] escrow_id")
    (simp add: escrow_cpi_spp_transact_signed_def)

section \<open>The proof verifier\<close>

definition escrow_proof_err :: escrow_error where
  "escrow_proof_err = Escrow_ProofVerificationFailed"

definition escrow_verify_groth16 ::
  "('x, 'v, 's, 'w) chain_env \<Rightarrow> compressed_groth16_proof \<Rightarrow> bytes \<Rightarrow> groth16_vk \<Rightarrow>
   program_error + unit" where
  "escrow_verify_groth16 E proof public_input_hash verifying_key =
     (let err = escrow_program_error escrow_proof_err in
      bindR (ok_or err (decompress_g1 E (cp_a proof))) (\<lambda>proof_a.
      bindR (ok_or err (decompress_g2 E (cp_b proof))) (\<lambda>proof_b.
      bindR (ok_or err (decompress_g1 E (cp_c proof))) (\<lambda>proof_c.
      let public_inputs = [public_input_hash] in
      case (cp_commitment proof, vk_commitment verifying_key \<noteq> None) of
        (Some (cm, pok), True) \<Rightarrow>
          bindR (ok_or err (decompress_g1 E cm)) (\<lambda>commitment.
          bindR (ok_or err (decompress_g1 E pok)) (\<lambda>commitment_pok.
          bindR (ok_or err (groth16_new_with_commitment E proof_a proof_b proof_c commitment
                   commitment_pok public_inputs verifying_key)) (\<lambda>verifier.
          ok_or err (groth16_verify E verifier))))
      | (None, False) \<Rightarrow>
          bindR (ok_or err (groth16_new E proof_a proof_b proof_c public_inputs verifying_key))
            (\<lambda>verifier. ok_or err (groth16_verify E verifier))
      | _ \<Rightarrow> Inl err))))"

text \<open>The verifier decides acceptance, and every failure is the one proof error.\<close>

lemma escrow_verify_groth16_ok [result_simps]:
  "escrow_verify_groth16 E p pih vk = Inr u \<longleftrightarrow> groth16_accepts E p pih vk"
  by (auto simp: escrow_verify_groth16_def groth16_accepts_def result_simps Let_def
      split: option.splits bool.splits)

lemma escrow_verify_groth16_err [result_simps]:
  "escrow_verify_groth16 E p pih vk = Inl e \<longleftrightarrow>
     \<not> groth16_accepts E p pih vk \<and> e = escrow_program_error Escrow_ProofVerificationFailed"
proof (rule Inl_iff_single)
  show "escrow_verify_groth16 E p pih vk = Inr u \<longleftrightarrow> groth16_accepts E p pih vk" for u
    by (rule escrow_verify_groth16_ok)
  show "e = escrow_program_error Escrow_ProofVerificationFailed"
    if "escrow_verify_groth16 E p pih vk = Inl e" for e
    using that
    by (cases "cp_commitment p"; cases "vk_commitment vk")
      (auto simp: escrow_verify_groth16_def escrow_proof_err_def Let_def result_simps)
qed

end
