(* ===== verification/Escrow_State.thy ===== *)
theory Escrow_State
  imports Escrow_Shared Sdk_Env
begin

text \<open>
  The escrow state of the escrow SDK (\<open>escrow-program/sdk/src/state/escrow.rs\<close>): the escrow terms
  and the hash that commits to them, the escrow UTXO as the output that escrow mints and as the
  input that withdraw spends; with it the shared helpers (\<open>sdk/src/shared.rs\<close>,
  \<open>sdk/src/lib.rs\<close>).
\<close>

section \<open>Terms\<close>

record 'p escrow_terms =
  et_creator :: "'p shielded_address"
  et_unlock_timestamp :: u64

record escrow_terms_proof_input =
  ep_owner_hash :: bytes
  ep_unlock :: u64

definition escrow_terms_proof_input_of ::
  "('x, 'p, 'm, 'd, 'r, 'i) sdk_env \<Rightarrow> 'p escrow_terms \<Rightarrow> sdk_error + escrow_terms_proof_input" where
  "escrow_terms_proof_input_of S terms =
     bindR (ext (owner_hash S (et_creator terms))) (\<lambda>h.
     Inr \<lparr>ep_owner_hash = h, ep_unlock = et_unlock_timestamp terms\<rparr>)"

definition escrow_input_data_hash ::
  "('x, 'p, 'm, 'd, 'r, 'i) sdk_env \<Rightarrow> escrow_terms_proof_input \<Rightarrow> sdk_error + bytes" where
  "escrow_input_data_hash S t =
     ext (sdk_poseidon S [ep_owner_hash t, escrow_u64_right_align (ep_unlock t)])"

definition escrow_terms_data_hash ::
  "('x, 'p, 'm, 'd, 'r, 'i) sdk_env \<Rightarrow> 'p escrow_terms \<Rightarrow> sdk_error + bytes" where
  "escrow_terms_data_hash S terms =
     bindR (escrow_terms_proof_input_of S terms) (escrow_input_data_hash S)"

section \<open>The escrow UTXO\<close>

record ('p, 'm) escrow_utxo =
  eu_terms :: "'p escrow_terms"
  eu_blinding :: bytes
  eu_asset :: 'm
  eu_amount :: u64

definition escrow_authority_pda :: "('x, 'p, 'm, 'd, 'r, 'i) sdk_env \<Rightarrow> bytes" where
  "escrow_authority_pda S = fst (pda_of S [escrow_authority_pda_seed] escrow_id)"

definition escrow_pda_owner :: "('x, 'p, 'm, 'd, 'r, 'i) sdk_env \<Rightarrow> 'p" where
  "escrow_pda_owner S = from_ed25519 S (escrow_authority_pda S)"

text \<open>The secret of the constant nullifier key, \<open>[0u8; BLINDING_LEN]\<close>.\<close>

definition escrow_nullifier_key :: bytes where
  "escrow_nullifier_key = replicate 31 0"

definition escrow_output_utxo ::
  "('x, 'p, 'm, 'd, 'r, 'i) sdk_env \<Rightarrow> ('p, 'm) escrow_utxo \<Rightarrow>
   sdk_error + ('p, 'm, 'r) output_utxo" where
  "escrow_output_utxo S e =
     bindR (escrow_terms_data_hash S (eu_terms e)) (\<lambda>data_hash.
     bindR (ext (nullifier_key_pubkey S escrow_nullifier_key)) (\<lambda>npk.
     let owner = \<lparr>signing_pubkey = escrow_pda_owner S, nullifier_pubkey = npk,
                  viewing_pubkey = viewing_pubkey (et_creator (eu_terms e))\<rparr>
     in Inr (with_utxo_data S
          ((default_output S)\<lparr>out_asset := eu_asset e, out_amount := eu_amount e,
             out_blinding := eu_blinding e, out_owner_address := Some owner\<rparr>)
          [] data_hash)))"

definition escrow_to_input_utxo ::
  "('x, 'p, 'm, 'd, 'r, 'i) sdk_env \<Rightarrow> ('p, 'm) escrow_utxo \<Rightarrow> u16 \<Rightarrow> u64 \<Rightarrow>
   sdk_error + ('p, 'm, 'd) spend_utxo" where
  "escrow_to_input_utxo S e tree_id leaf_index =
     (let utxo = \<lparr>utxo_owner = escrow_pda_owner S, utxo_asset = eu_asset e,
                  utxo_amount = eu_amount e, utxo_blinding = eu_blinding e,
                  utxo_ring_program_id = None, utxo_data = default_data S\<rparr>
      in bindR (escrow_terms_data_hash S (eu_terms e)) (\<lambda>data_hash.
         bindR (ext (nullifier_key_pubkey S escrow_nullifier_key)) (\<lambda>npk.
         bindR (ext (utxo_commit S utxo npk data_hash (replicate 32 0) tree_id)) (\<lambda>h.
         bindR (ext (nullifier_key_nullifier S escrow_nullifier_key h (utxo_blinding utxo))) (\<lambda>nf.
         Inr \<lparr>in_address = False, in_utxo = utxo, in_utxo_hash = h, in_nullifier = nf,
              in_nullifier_pubkey = npk, in_data_hash = Some data_hash, in_ring_data_hash = None,
              in_tree_id = tree_id, in_leaf_index = leaf_index, in_cache_slot = None,
              in_compact = False\<rparr>)))))"

definition escrow_source_output ::
  "('x, 'p, 'm, 'd, 'r, 'i) sdk_env \<Rightarrow> ('p, 'm) escrow_utxo \<Rightarrow> 'p shielded_address \<Rightarrow> bytes \<Rightarrow>
   ('p, 'm, 'r) output_utxo" where
  "escrow_source_output S e recipient blinding =
     (default_output S)\<lparr>out_asset := eu_asset e, out_amount := eu_amount e,
        out_blinding := blinding, out_owner_address := Some recipient\<rparr>"

section \<open>Shared helpers\<close>

definition escrow_input_sum ::
  "('x, 'p, 'm, 'd, 'r, 'i) sdk_env \<Rightarrow> ('p, 'm, 'd) spend_utxo list \<Rightarrow> bytes \<Rightarrow> int" where
  "escrow_input_sum S ins asset =
     sum_list (map (\<lambda>u. uint (utxo_amount (in_utxo u)))
       (filter (\<lambda>u. mint_asset S (utxo_asset (in_utxo u)) = asset) ins))"

definition escrow_check_output_utxo ::
  "('x, 'p, 'm, 'd, 'r, 'i) sdk_env \<Rightarrow> string \<Rightarrow> ('p, 'm, 'r) output_utxo \<Rightarrow> bytes \<Rightarrow> u64 \<Rightarrow>
   sdk_error + 'p shielded_address" where
  "escrow_check_output_utxo S label u mint amount =
     bindR (ok_or (err_str (label @ '' owner address missing'')) (out_owner_address u)) (\<lambda>owner.
     if mint_asset S (out_asset u) \<noteq> mint then Inl (err_str (label @ '' asset mismatch''))
     else if out_amount u \<noteq> amount then Inl (err_str (label @ '' amount mismatch''))
     else if out_data_hash u \<noteq> None \<or> out_ring_data_hash u \<noteq> None \<or> out_ring_program_id u \<noteq> None
     then Inl (err_str (label @ '' must not carry data or ring commitments''))
     else Inr owner)"

lemma escrow_check_output_utxo_ok [result_simps]:
  "escrow_check_output_utxo S label u mint amount = Inr owner \<longleftrightarrow> plain_output S u mint amount owner"
  by (auto simp: escrow_check_output_utxo_def plain_output_def result_simps)

section \<open>Facts\<close>

text \<open>The shape of the escrow output.\<close>

lemma escrow_output_utxo_fields:
  assumes "output_laws S" "escrow_output_utxo S e = Inr u"
  obtains h npk where "escrow_terms_data_hash S (eu_terms e) = Inr h"
    "nullifier_key_pubkey S escrow_nullifier_key = Some npk"
    "out_owner_address u =
       Some \<lparr>signing_pubkey = escrow_pda_owner S, nullifier_pubkey = npk,
             viewing_pubkey = viewing_pubkey (et_creator (eu_terms e))\<rparr>"
    "out_asset u = eu_asset e" "out_amount u = eu_amount e" "out_blinding u = eu_blinding e"
    "out_data_hash u = Some h" "out_ring_data_hash u = None" "out_ring_program_id u = None"
proof -
  let ?base = "\<lambda>npk. (default_output S)\<lparr>out_asset := eu_asset e, out_amount := eu_amount e,
     out_blinding := eu_blinding e,
     out_owner_address := Some \<lparr>signing_pubkey = escrow_pda_owner S, nullifier_pubkey = npk,
        viewing_pubkey = viewing_pubkey (et_creator (eu_terms e))\<rparr>\<rparr>"
  obtain h npk where h: "escrow_terms_data_hash S (eu_terms e) = Inr h"
    "nullifier_key_pubkey S escrow_nullifier_key = Some npk"
    and u: "u = with_utxo_data S (?base npk) [] h"
    using assms(2) by (auto simp: escrow_output_utxo_def result_simps Let_def)
  obtain r where "u = (?base npk)\<lparr>out_data_hash := Some h, out_rest := r\<rparr>"
    using assms(1) u unfolding output_laws_def by metis
  then show thesis
    using that [OF h] assms(1) by (simp add: output_laws_def)
qed

text \<open>An escrow UTXO is one state in two forms; its output is always encrypted to the creator.\<close>

interpretation escrow_forms: two_forms S "\<lambda>e v. escrow_output_utxo S e" "escrow_to_input_utxo S" for S
proof
  fix x v u t l i
  assume laws: "output_laws S" and out: "escrow_output_utxo S x = Inr u"
    and inp: "escrow_to_input_utxo S x t l = Inr i"
  obtain h npk where u: "escrow_terms_data_hash S (eu_terms x) = Inr h"
    "nullifier_key_pubkey S escrow_nullifier_key = Some npk"
    "out_owner_address u =
       Some \<lparr>signing_pubkey = escrow_pda_owner S, nullifier_pubkey = npk,
             viewing_pubkey = viewing_pubkey (et_creator (eu_terms x))\<rparr>"
    "out_asset u = eu_asset x" "out_amount u = eu_amount x" "out_blinding u = eu_blinding x"
    "out_data_hash u = Some h" "out_ring_data_hash u = None" "out_ring_program_id u = None"
    by (rule escrow_output_utxo_fields [OF laws out])
  show "\<exists>a h. out_owner_address u = Some a \<and> out_data_hash u = Some h \<and>
       out_ring_data_hash u = None \<and> out_ring_program_id u = None \<and>
       utxo_owner (in_utxo i) = signing_pubkey a \<and> utxo_asset (in_utxo i) = out_asset u \<and>
       utxo_amount (in_utxo i) = out_amount u \<and> utxo_blinding (in_utxo i) = out_blinding u \<and>
       utxo_ring_program_id (in_utxo i) = None \<and> in_data_hash i = Some h \<and>
       utxo_commit S (in_utxo i) (nullifier_pubkey a) h (replicate 32 0) t = Some (in_utxo_hash i)"
    using inp u by (auto simp: escrow_to_input_utxo_def result_simps Let_def)
qed (auto simp: escrow_to_input_utxo_def result_simps Let_def)

end
