(* ===== verification/Escrow_Keys.thy ===== *)
theory Escrow_Keys
  imports Keys
begin

text \<open>
  The two committed verifying keys of the timelock escrow program
  (\<open>escrow-program/program/src/verifying_keys/\<close>), byte for byte, with the constants that tell
  which setup they come from, and the facts the verifier relies on.
\<close>

section \<open>The verifying key of escrow\<close>

definition escrow_vk_ic :: "bytes list" where
  "escrow_vk_ic =
    [[38, 23, 10, 14, 17, 171, 2, 163, 114, 51, 112, 172, 158, 202, 135, 230, 26, 174, 49,
      193, 121, 130, 121, 127, 246, 153, 168, 8, 101, 118, 145, 7, 7, 228, 152, 73,
      13, 81, 58, 69, 64, 108, 107, 123, 252, 44, 216, 194, 118, 160, 100, 67, 83,
      108, 20, 9, 194, 241, 124, 96, 18, 153, 78, 46],
     [0, 182, 100, 73, 211, 165, 72, 149, 41, 222, 154, 153, 136, 231, 116, 253, 77, 248,
      143, 76, 10, 6, 240, 201, 42, 156, 107, 8, 9, 193, 120, 134, 6, 40, 133, 160,
      110, 89, 224, 118, 144, 195, 31, 55, 235, 62, 52, 93, 105, 26, 233, 221, 206,
      255, 158, 1, 165, 227, 95, 225, 129, 163, 161, 135]]"

definition escrow_vk :: groth16_vk where
  "escrow_vk =
    \<lparr>nr_pubinputs = 1,
     vk_alpha_g1 = [43, 226, 196, 120, 150, 27, 53, 67, 237, 4, 164, 253, 84, 183, 60, 144, 149, 75, 139,
      153, 21, 217, 119, 24, 42, 254, 239, 244, 15, 227, 122, 125, 27, 151, 194, 175,
      191, 142, 175, 108, 222, 230, 91, 241, 230, 198, 51, 125, 79, 194, 77, 95, 57,
      76, 142, 73, 238, 82, 125, 199, 164, 228, 151, 64],
     vk_beta_g2 = [35, 255, 222, 128, 133, 235, 103, 210, 127, 83, 201, 183, 88, 52, 13, 235, 77, 204,
      38, 47, 93, 65, 7, 91, 223, 221, 248, 237, 21, 4, 189, 16, 30, 28, 238, 207,
      137, 238, 38, 128, 158, 13, 171, 212, 37, 123, 187, 42, 207, 131, 184, 140, 60,
      214, 198, 208, 165, 104, 86, 175, 158, 129, 244, 205, 7, 60, 195, 173, 6, 26,
      148, 220, 234, 170, 139, 233, 220, 9, 19, 142, 41, 59, 161, 198, 7, 233, 119,
      83, 21, 19, 212, 170, 81, 57, 28, 16, 0, 60, 229, 80, 19, 29, 228, 25, 198, 93,
      208, 121, 86, 140, 152, 131, 150, 51, 144, 156, 127, 181, 132, 48, 104, 113,
      202, 119, 157, 231, 221, 188],
     vk_gamma_g2 = [26, 217, 26, 69, 139, 194, 183, 34, 201, 105, 221, 38, 29, 43, 102, 201, 252, 112, 0,
      33, 188, 244, 36, 89, 17, 219, 86, 127, 4, 59, 129, 185, 15, 56, 216, 243, 50,
      220, 201, 14, 180, 150, 42, 167, 176, 206, 160, 245, 202, 182, 213, 164, 230,
      20, 16, 103, 26, 87, 68, 45, 201, 117, 103, 143, 31, 7, 144, 87, 202, 111, 161,
      21, 254, 212, 245, 244, 109, 105, 1, 64, 7, 105, 177, 49, 153, 28, 200, 0, 89,
      249, 173, 232, 40, 43, 38, 71, 40, 65, 148, 84, 140, 250, 8, 73, 188, 176, 179,
      95, 195, 116, 205, 89, 68, 179, 42, 251, 8, 66, 232, 73, 103, 24, 68, 166, 138,
      1, 149, 118],
     vk_delta_g2 = [11, 199, 222, 113, 72, 187, 31, 179, 87, 131, 144, 153, 56, 230, 136, 49, 30, 195,
      129, 181, 251, 75, 213, 95, 72, 105, 200, 225, 155, 204, 142, 54, 38, 29, 121,
      33, 232, 91, 206, 100, 120, 136, 170, 170, 235, 119, 181, 249, 100, 170, 117,
      133, 170, 88, 116, 29, 156, 220, 84, 200, 104, 34, 210, 246, 8, 151, 71, 8, 232,
      244, 228, 124, 208, 177, 235, 95, 134, 24, 250, 163, 211, 27, 227, 242, 128,
      162, 231, 81, 46, 154, 83, 13, 200, 51, 132, 118, 22, 81, 165, 227, 127, 34,
      167, 26, 191, 85, 219, 37, 16, 94, 104, 162, 65, 240, 248, 95, 141, 126, 55, 90,
      111, 244, 63, 113, 139, 52, 142, 108],
     vk_ic = escrow_vk_ic,
     vk_commitment = None\<rparr>"

definition escrow_vk_proving_key_sha256 :: bytes where
  "escrow_vk_proving_key_sha256 =
    [212, 65, 242, 180, 8, 119, 217, 118, 212, 41, 85, 116, 226, 225, 34, 184, 191, 26,
      153, 42, 44, 130, 238, 163, 142, 117, 156, 207, 156, 174, 74, 57]"

definition escrow_vk_insecure_test_setup :: bool where
  "escrow_vk_insecure_test_setup = True"

definition escrow_vk_setup_txt :: string where
  "escrow_vk_setup_txt =
     ''=======BEGIN GROTH16 VK SETUP V1======='' @ nul @
     ''name'' @ nul @
     ''VERIFYINGKEY'' @ nul @
     ''insecure_test_setup'' @ nul @
     ''true'' @ nul @
     ''proving_key_sha256'' @ nul @
     ''d441f2b40877d976d4295574e2e122b8bf1a992a2c82eea38e759ccf9cae4a39'' @ nul @
     ''=======END GROTH16 VK SETUP V1======='' @ nul"

section \<open>The verifying key of withdraw\<close>

definition withdraw_vk_ic :: "bytes list" where
  "withdraw_vk_ic =
    [[0, 118, 124, 205, 182, 240, 186, 30, 102, 2, 198, 213, 155, 79, 148, 86, 184, 213,
      175, 56, 107, 248, 172, 127, 52, 219, 135, 46, 109, 113, 170, 119, 42, 30, 56,
      149, 93, 78, 173, 224, 67, 90, 140, 68, 221, 228, 174, 145, 137, 86, 29, 99, 44,
      247, 184, 110, 144, 61, 61, 50, 199, 33, 11, 164],
     [25, 149, 194, 207, 60, 167, 228, 173, 229, 54, 27, 118, 110, 143, 84, 63, 116, 64, 21,
      92, 152, 158, 19, 93, 40, 207, 104, 109, 194, 15, 144, 169, 36, 178, 82, 182,
      246, 128, 231, 52, 53, 186, 226, 140, 141, 235, 170, 234, 113, 177, 169, 154,
      97, 100, 82, 194, 194, 17, 131, 153, 156, 2, 76, 12]]"

definition withdraw_vk :: groth16_vk where
  "withdraw_vk =
    \<lparr>nr_pubinputs = 1,
     vk_alpha_g1 = [39, 69, 230, 1, 188, 17, 15, 194, 246, 26, 36, 136, 136, 193, 97, 170, 164, 41, 18,
      111, 120, 150, 207, 151, 216, 23, 117, 232, 9, 111, 9, 14, 46, 214, 27, 193,
      128, 25, 70, 135, 221, 153, 161, 233, 36, 159, 240, 63, 25, 17, 147, 248, 67, 4,
      61, 236, 18, 141, 117, 103, 70, 7, 233, 174],
     vk_beta_g2 = [29, 242, 97, 146, 81, 66, 175, 2, 4, 194, 101, 255, 181, 94, 66, 45, 118, 188, 192,
      187, 132, 157, 197, 216, 141, 204, 64, 9, 43, 86, 190, 230, 23, 80, 66, 2, 34,
      227, 132, 10, 238, 249, 144, 33, 179, 30, 90, 84, 32, 103, 45, 216, 133, 77, 42,
      144, 72, 235, 7, 185, 122, 70, 171, 115, 47, 154, 46, 209, 134, 231, 116, 22,
      229, 50, 60, 111, 219, 6, 142, 140, 163, 89, 162, 192, 64, 32, 81, 185, 222,
      121, 96, 230, 199, 88, 63, 56, 41, 24, 222, 209, 7, 238, 8, 124, 165, 185, 174,
      189, 218, 237, 58, 75, 204, 54, 109, 139, 196, 192, 163, 164, 125, 220, 229, 94,
      95, 148, 153, 61],
     vk_gamma_g2 = [38, 19, 62, 28, 235, 119, 101, 197, 67, 228, 2, 129, 215, 220, 137, 74, 128, 242, 236,
      78, 221, 34, 212, 210, 17, 212, 7, 70, 181, 243, 97, 91, 27, 87, 34, 214, 10,
      27, 225, 165, 42, 214, 124, 155, 174, 195, 91, 47, 98, 86, 54, 173, 163, 114,
      119, 2, 237, 71, 191, 35, 1, 84, 221, 204, 32, 62, 252, 164, 232, 228, 27, 212,
      70, 49, 224, 240, 229, 226, 160, 58, 24, 92, 101, 124, 222, 23, 104, 221, 7, 38,
      223, 122, 66, 111, 221, 201, 9, 69, 37, 83, 125, 125, 38, 194, 19, 239, 215,
      126, 248, 151, 188, 154, 105, 220, 68, 200, 125, 63, 219, 112, 35, 59, 56, 151,
      124, 5, 123, 198],
     vk_delta_g2 = [21, 20, 58, 135, 216, 76, 104, 19, 127, 41, 250, 128, 191, 136, 238, 61, 58, 72, 243,
      162, 130, 156, 140, 14, 212, 132, 3, 250, 235, 106, 138, 226, 22, 221, 140, 36,
      76, 111, 60, 88, 64, 209, 173, 253, 248, 54, 69, 134, 95, 73, 142, 247, 221,
      236, 98, 92, 2, 115, 120, 146, 53, 83, 214, 129, 13, 169, 240, 155, 5, 121, 6,
      229, 110, 105, 128, 118, 86, 180, 242, 11, 188, 190, 143, 52, 108, 154, 85, 74,
      104, 249, 56, 66, 198, 91, 100, 188, 3, 187, 137, 248, 47, 59, 38, 134, 243,
      138, 214, 131, 55, 138, 202, 153, 177, 107, 77, 10, 180, 23, 45, 112, 166, 74,
      126, 81, 206, 205, 141, 217],
     vk_ic = withdraw_vk_ic,
     vk_commitment = None\<rparr>"

definition withdraw_vk_proving_key_sha256 :: bytes where
  "withdraw_vk_proving_key_sha256 =
    [102, 62, 109, 152, 104, 182, 215, 161, 202, 13, 46, 199, 242, 236, 96, 45, 44, 145,
      22, 29, 162, 206, 134, 63, 35, 88, 116, 60, 33, 231, 32, 158]"

definition withdraw_vk_insecure_test_setup :: bool where
  "withdraw_vk_insecure_test_setup = True"

definition withdraw_vk_setup_txt :: string where
  "withdraw_vk_setup_txt =
     ''=======BEGIN GROTH16 VK SETUP V1======='' @ nul @
     ''name'' @ nul @
     ''VERIFYINGKEY'' @ nul @
     ''insecure_test_setup'' @ nul @
     ''true'' @ nul @
     ''proving_key_sha256'' @ nul @
     ''663e6d9868b6d7a1ca0d2ec7f2ec602d2c91161da2ce863f2358743c21e7209e'' @ nul @
     ''=======END GROTH16 VK SETUP V1======='' @ nul"

end
