(* ===== verification/Escrow_Withdraw.thy ===== *)
theory Escrow_Withdraw
  imports Escrow_Shared Escrow_Keys
begin

text \<open>
  The withdraw instruction of the timelock escrow program
  (\<open>escrow-program/program/src/instructions/withdraw.rs\<close>): after the unlock time the creator,
  who signs, takes the assets back. The instruction carries the unlock time on its own; the
  proof's public input binds it together with the creator's identity.
\<close>

section \<open>Data\<close>

record withdraw_proof =
  withdraw_proof_a :: bytes
  withdraw_proof_b :: bytes
  withdraw_proof_c :: bytes

record 'x withdraw_ix_data =
  wd_proof :: withdraw_proof
  wd_unlock_timestamp :: u64
  wd_transact :: "'x transact_ix_data"

definition put_withdraw_proof :: "'x wire \<Rightarrow> withdraw_proof \<Rightarrow> bytes option" where
  "put_withdraw_proof W p = do {
     a \<leftarrow> put_array W (withdraw_proof_a p);
     b \<leftarrow> put_array W (withdraw_proof_b p);
     c \<leftarrow> put_array W (withdraw_proof_c p);
     Some (a @ b @ c)
   }"

definition get_withdraw_proof :: "'x wire \<Rightarrow> bytes \<Rightarrow> (withdraw_proof \<times> bytes) option" where
  "get_withdraw_proof W bs = do {
     (a, bs) \<leftarrow> get_array W 32 bs;
     (b, bs) \<leftarrow> get_array W 64 bs;
     (c, bs) \<leftarrow> get_array W 32 bs;
     Some (\<lparr>withdraw_proof_a = a, withdraw_proof_b = b, withdraw_proof_c = c\<rparr>, bs)
   }"

definition put_withdraw_ix :: "'x wire \<Rightarrow> 'x withdraw_ix_data \<Rightarrow> bytes option" where
  "put_withdraw_ix W d = do {
     p \<leftarrow> put_withdraw_proof W (wd_proof d);
     e \<leftarrow> put_u64 W (wd_unlock_timestamp d);
     t \<leftarrow> put_transact W (wd_transact d);
     Some (p @ e @ t)
   }"

definition get_withdraw_ix :: "'x wire \<Rightarrow> bytes \<Rightarrow> ('x withdraw_ix_data \<times> bytes) option" where
  "get_withdraw_ix W bs = do {
     (p, bs) \<leftarrow> get_withdraw_proof W bs;
     (e, bs) \<leftarrow> get_u64 W bs;
     (t, bs) \<leftarrow> get_transact W bs;
     Some (\<lparr>wd_proof = p, wd_unlock_timestamp = e, wd_transact = t\<rparr>, bs)
   }"

definition withdraw_proof_wf :: "withdraw_proof \<Rightarrow> bool" where
  "withdraw_proof_wf p \<longleftrightarrow>
     length (withdraw_proof_a p) = 32 \<and> length (withdraw_proof_b p) = 64 \<and> length (withdraw_proof_c p) = 32"

interpretation withdraw_proof: codec "put_withdraw_proof W" "get_withdraw_proof W"
  "\<lambda>p. wincode_ok W \<and> withdraw_proof_wf p" for W
  by unfold_locales
    (auto simp: put_withdraw_proof_def get_withdraw_proof_def withdraw_proof_wf_def codec_simps
      bind_eq_Some_conv)

interpretation withdraw_ix: codec "put_withdraw_ix W" "get_withdraw_ix W"
  "\<lambda>d. wincode_ok W \<and> transact_ok W \<and> withdraw_proof_wf (wd_proof d)" for W
  by unfold_locales
    (auto simp: put_withdraw_ix_def get_withdraw_ix_def codec_simps bind_eq_Some_conv
      withdraw_proof.get_put [simplified])

record withdraw_public_input =
  wd_private_tx_hash :: bytes
  wd_unlock :: u64
  wd_owner_pk_field :: bytes

definition withdraw_public_input_hash ::
  "(bytes list \<Rightarrow> bytes option) \<Rightarrow> withdraw_public_input \<Rightarrow> program_error + bytes" where
  "withdraw_public_input_hash hashv pub =
     ok_or (escrow_program_error Escrow_HashingFailed)
       (hashv [wd_private_tx_hash pub, escrow_u64_right_align (wd_unlock pub),
                          wd_owner_pk_field pub])"

section \<open>The handler\<close>

text \<open>The creator's identity is computed before the instruction data is read.\<close>

definition process_withdraw_ix ::
  "('x, 'v, 's, 'w) chain_env \<Rightarrow> account_view list \<Rightarrow> bytes \<Rightarrow> 'w \<Rightarrow> program_error + 'w" where
  "process_withdraw_ix E accounts data w =
     bindR (next_signer_mut E ''caller'' accounts) (\<lambda>(_, iter).
     bindR (next_signer E ''creator'' iter) (\<lambda>(creator, iter).
     bindR (ok_or (escrow_program_error (escrow_error_of_hasher ()))
              (solana_owner_identity E (address creator))) (\<lambda>owner_pk_field.
     bindR (ok_or (escrow_program_error Escrow_InvalidInstructionData)
              (deserialize_exact (get_withdraw_ix (wire_of E)) data)) (\<lambda>ix.
     let proof = wd_proof ix; unlock_timestamp = wd_unlock_timestamp ix; transact = wd_transact ix in
     bindR (clock_unix_timestamp E) (\<lambda>now.
     bindR (escrow_check_after_window now unlock_timestamp) (\<lambda>_.
     bindR (withdraw_public_input_hash (poseidon_hashv E)
              \<lparr>wd_private_tx_hash = private_tx_hash transact, wd_unlock = unlock_timestamp,
               wd_owner_pk_field = owner_pk_field\<rparr>) (\<lambda>public_input_hash.
     bindR (escrow_verify_groth16 E
              \<lparr>cp_a = withdraw_proof_a proof, cp_b = withdraw_proof_b proof,
               cp_c = withdraw_proof_c proof, cp_commitment = None\<rparr>
              public_input_hash withdraw_vk) (\<lambda>_.
     bindR (ok_or (escrow_program_error Escrow_InvalidInstructionData)
              (transact_serialize E transact)) (\<lambda>transact_bytes.
     bindR (remaining E iter) (\<lambda>spp_accounts.
     escrow_cpi_spp_transact_signed E spp_accounts transact_bytes w))))))))))"

section \<open>What a withdraw guarantees\<close>

definition withdraw_points :: "withdraw_proof \<Rightarrow> compressed_groth16_proof" where
  "withdraw_points p = \<lparr>cp_a = withdraw_proof_a p, cp_b = withdraw_proof_b p, cp_c = withdraw_proof_c p,
                      cp_commitment = None\<rparr>"

definition withdraw_authorised ::
  "('x, 'v, 's, 'w) chain_env \<Rightarrow> account_view list \<Rightarrow> bytes \<Rightarrow> account_view list \<Rightarrow> bytes \<Rightarrow> bool" where
  "withdraw_authorised E as d rest tb \<longleftrightarrow>
     (\<exists>caller iter creator iter' owner ix now h.
        next_signer_mut E ''caller'' as = Inr (caller, iter) \<and>
        next_signer E ''creator'' iter = Inr (creator, iter') \<and>
        solana_owner_identity E (address creator) = Some owner \<and>
        get_withdraw_ix (wire_of E) d = Some (ix, []) \<and>
        clock_unix_timestamp E = Inr now \<and>
        0 \<le> sint now \<and> wd_unlock_timestamp ix < now \<and>
        poseidon_hashv E
          [private_tx_hash (wd_transact ix), escrow_u64_right_align (wd_unlock_timestamp ix), owner]
          = Some h \<and>
        groth16_accepts E (withdraw_points (wd_proof ix)) h withdraw_vk \<and>
        transact_serialize E (wd_transact ix) = Some tb \<and>
        remaining E iter' = Inr rest)"

lemma process_withdraw_ix_ok:
  "process_withdraw_ix E as d w = Inr w' \<longleftrightarrow>
     (\<exists>rest tb. withdraw_authorised E as d rest tb \<and> escrow_signed E rest tb w w')"
  by (fastforce simp: process_withdraw_ix_def withdraw_authorised_def withdraw_points_def Let_def
      result_simps withdraw_public_input_hash_def deserialize_exact_Some)

lemma withdraw_authorised_unique:
  "withdraw_authorised E as d rest tb \<Longrightarrow> withdraw_authorised E as d rest' tb' \<Longrightarrow>
   rest' = rest \<and> tb' = tb"
  by (auto simp: withdraw_authorised_def)

interpretation withdraw_ix_handler:
  cpi_handler "process_withdraw_ix E" "withdraw_authorised E" "escrow_signed E" for E
  by unfold_locales
    (auto simp: process_withdraw_ix_ok dest: withdraw_authorised_unique signed_transact_unique)

end
