(* ===== verification/Escrow_Proof_Inputs.thy ===== *)
theory Escrow_Proof_Inputs
  imports Escrow_State Escrow_Withdraw
begin

text \<open>
  The proof inputs of the escrow SDK (\<open>proof.rs\<close> of \<open>escrow\<close> and \<open>withdraw\<close> under
  \<open>escrow-program/sdk/src/instructions/\<close>): the checks each one makes on the UTXOs it is given, the
  transaction hash, and for withdraw the public input, whose hash is the one of the program crate.
\<close>

section \<open>Escrow\<close>

record escrow_tx_hashes =
  eth_source_input_hash :: bytes
  eth_private_tx_blinding :: bytes
  eth_output_tree_id :: u16

text \<open>\<open>SppProofInputUtxo::hash()\<close> of an input is the parameter \<open>input_hash\<close>.\<close>

definition escrow_tx_hashes_new ::
  "(('p, 'm, 'd) spend_utxo \<Rightarrow> bytes) \<Rightarrow> ('p, 'm, 'd) spp_proof_inputs \<Rightarrow>
   sdk_error + escrow_tx_hashes" where
  "escrow_tx_hashes_new input_hash spi =
     bindR (ok_or (err_str ''missing source input'') (first_opt (spi_input_utxos spi))) (\<lambda>source_input.
     bindR (ext (spi_private_tx_blinding spi)) (\<lambda>blinding.
     Inr \<lparr>eth_source_input_hash = input_hash source_input, eth_private_tx_blinding = blinding,
          eth_output_tree_id = spi_output_tree_id spi\<rparr>))"

record 'i escrow_proof_inputs =
  epi_private_tx_hash :: bytes
  epi_terms :: escrow_terms_proof_input
  epi_escrow_utxo :: 'i
  epi_change :: 'i
  epi_source_input_hash :: bytes
  epi_private_tx_blinding :: bytes

record ('p, 'm, 'r) escrow_proof_params =
  epp_escrow_utxo :: "('p, 'm) escrow_utxo"
  epp_change :: "('p, 'm, 'r) output_utxo"
  epp_spp_tx_hashes :: escrow_tx_hashes

definition escrow_to_proof_inputs ::
  "('x, 'p, 'm, 'd, 'r, 'i) sdk_env \<Rightarrow> ('p, 'm, 'r) escrow_proof_params \<Rightarrow>
   sdk_error + 'i escrow_proof_inputs" where
  "escrow_to_proof_inputs S P =
     (let e = epp_escrow_utxo P; terms = eu_terms e; change = epp_change P;
          hashes = epp_spp_tx_hashes P; tree = eth_output_tree_id hashes in
      if out_owner_address change \<noteq> Some (et_creator terms)
      then Inl (Msg ''change owner does not match escrow creator'')
      else if out_asset change \<noteq> eu_asset e
      then Inl (Msg ''change asset does not match escrow asset'')
      else if out_data_hash change \<noteq> None \<or> out_ring_data_hash change \<noteq> None \<or>
        out_ring_program_id change \<noteq> None
      then Inl (Msg ''change output must not carry data or ring commitments'')
      else
        bindR (escrow_terms_proof_input_of S terms) (\<lambda>terms_input.
        bindR (escrow_output_utxo S e) (\<lambda>escrow_out.
        bindR (ext (proof_input S escrow_out tree)) (\<lambda>escrow_utxo.
        bindR (ext (proof_input S change tree)) (\<lambda>change_utxo.
        bindR (ext (proof_input_hash S change_utxo)) (\<lambda>change_hash.
        bindR (ext (proof_input_hash S escrow_utxo)) (\<lambda>escrow_hash.
        bindR (ext (private_tx_hash_of S [eth_source_input_hash hashes, replicate 32 0]
                 [change_hash, escrow_hash] (eth_private_tx_blinding hashes))) (\<lambda>ptx.
        Inr \<lparr>epi_private_tx_hash = ptx, epi_terms = terms_input, epi_escrow_utxo = escrow_utxo,
             epi_change = change_utxo, epi_source_input_hash = eth_source_input_hash hashes,
             epi_private_tx_blinding = eth_private_tx_blinding hashes\<rparr>))))))))"

section \<open>Withdraw\<close>

record 'i withdraw_proof_inputs =
  wpi_public_input_hash :: bytes
  wpi_private_tx_hash :: bytes
  wpi_terms :: escrow_terms_proof_input
  wpi_owner_pk_field :: bytes
  wpi_nullifier_pk :: bytes
  wpi_escrow_utxo :: 'i
  wpi_source_output :: 'i
  wpi_private_tx_blinding :: bytes

record ('p, 'm, 'r) withdraw_proof_params =
  wpp_escrow_utxo :: "('p, 'm) escrow_utxo"
  wpp_source_output :: "('p, 'm, 'r) output_utxo"
  wpp_private_tx_blinding :: bytes
  wpp_input_tree_id :: u16
  wpp_output_tree_id :: u16

definition withdraw_to_proof_inputs ::
  "('x, 'p, 'm, 'd, 'r, 'i) sdk_env \<Rightarrow> ('p, 'm, 'r) withdraw_proof_params \<Rightarrow>
   sdk_error + 'i withdraw_proof_inputs" where
  "withdraw_to_proof_inputs S P =
     (let e = wpp_escrow_utxo P; terms = eu_terms e in
      bindR (escrow_check_output_utxo S ''source_output'' (wpp_source_output P)
               (mint_asset S (eu_asset e)) (eu_amount e)) (\<lambda>creator.
      if creator \<noteq> et_creator terms
      then Inl (Msg ''source output owner does not match the escrow creator'')
      else
        bindR (escrow_terms_proof_input_of S terms) (\<lambda>terms_input.
        bindR (ext (owner_proof_input_hash S (signing_pubkey creator))) (\<lambda>owner_pk_field.
        bindR (escrow_output_utxo S e) (\<lambda>escrow_out.
        bindR (ext (proof_input S escrow_out (wpp_input_tree_id P))) (\<lambda>escrow_utxo.
        bindR (ext (proof_input S (wpp_source_output P) (wpp_output_tree_id P))) (\<lambda>source_output.
        bindR (ext (proof_input_hash S escrow_utxo)) (\<lambda>escrow_hash.
        bindR (ext (proof_input_hash S source_output)) (\<lambda>source_hash.
        bindR (ext (private_tx_hash_of S [escrow_hash] [source_hash] (wpp_private_tx_blinding P))) (\<lambda>ptx.
        bindR (map_errR (\<lambda>_. External) (withdraw_public_input_hash (sdk_hashv S)
                 \<lparr>wd_private_tx_hash = ptx, wd_unlock = et_unlock_timestamp terms,
                  wd_owner_pk_field = owner_pk_field\<rparr>)) (\<lambda>public_input_hash.
        Inr \<lparr>wpi_public_input_hash = public_input_hash, wpi_private_tx_hash = ptx,
             wpi_terms = terms_input, wpi_owner_pk_field = owner_pk_field,
             wpi_nullifier_pk = nullifier_pubkey creator, wpi_escrow_utxo = escrow_utxo,
             wpi_source_output = source_output,
             wpi_private_tx_blinding = wpp_private_tx_blinding P\<rparr>)))))))))))"

end
