(* ===== verification/Escrow_Circuits.thy ===== *)
theory Escrow_Circuits
  imports Circuit_Gadgets Escrow_Proof_Inputs
begin

text \<open>
  The Go circuits of the timelock escrow program (\<open>escrow-program/prover/circuits/\<close>):
  \<open>escrowterms\<close>, \<open>escrow\<close> and \<open>withdraw\<close>, with the assignments that the witness maps give them.
\<close>

section \<open>Escrow terms (escrowterms.go)\<close>

record 'f circuit_escrow_terms =
  ce_owner_hash :: 'f
  ce_unlock :: 'f

definition circuit_escrow_data_hash ::
  "('f, 'u, 'k, 'n) gadgets \<Rightarrow> 'f circuit_escrow_terms \<Rightarrow> 'f" where
  "circuit_escrow_data_hash G t = gposeidon G [ce_owner_hash t, ce_unlock t]"

text \<open>\<open>checkEscrowInputUtxo\<close> of withdraw and \<open>checkEscrowOutputUtxo\<close> of escrow have the same body.\<close>

definition check_escrow_utxo ::
  "('f, 'u, 'k, 'n) gadgets \<Rightarrow> 'f circuit_escrow_terms \<Rightarrow> 'u \<Rightarrow> 'f option" where
  "check_escrow_utxo G t escrow_utxo = do {
     assert_that (assert_default_ring G escrow_utxo);
     assert_that (assert_is_equal G (cu_data_hash G escrow_utxo) (circuit_escrow_data_hash G t));
     assert_that (assert_is_different G (cu_amount G escrow_utxo) (gconst G 0));
     Some (cu_hash G escrow_utxo)
   }"

section \<open>Escrow (escrow.go)\<close>

record ('f, 'u) escrow_circuit =
  ec_private_tx_hash :: 'f
  ec_terms :: "'f circuit_escrow_terms"
  ec_escrow_utxo :: 'u
  ec_change :: 'u
  ec_source_input_hash :: 'f
  ec_private_tx_blinding :: 'f

definition check_escrow_change ::
  "('f, 'u, 'k, 'n) gadgets \<Rightarrow> ('f, 'u) escrow_circuit \<Rightarrow> 'f option" where
  "check_escrow_change G c = do {
     assert_that (assert_default_ring G (ec_change c));
     assert_that (assert_is_equal G (cu_data_hash G (ec_change c)) (gconst G 0));
     assert_that (assert_is_equal G (cu_asset G (ec_change c)) (cu_asset G (ec_escrow_utxo c)));
     assert_that (assert_is_equal G (cu_owner G (ec_change c)) (ce_owner_hash (ec_terms c)));
     Some (cu_hash G (ec_change c))
   }"

definition escrow_define :: "('f, 'u, 'k, 'n) gadgets \<Rightarrow> ('f, 'u) escrow_circuit \<Rightarrow> unit option" where
  "escrow_define G c = do {
     escrow_hash \<leftarrow> check_escrow_utxo G (ec_terms c) (ec_escrow_utxo c);
     change_hash \<leftarrow> check_escrow_change G c;
     assert_that (assert_is_equal G
       (gprivate_tx_hash G [ec_source_input_hash c, gconst G 0] [change_hash, escrow_hash]
          (ec_private_tx_blinding c))
       (ec_private_tx_hash c))
   }"

section \<open>Withdraw (withdraw.go)\<close>

record ('f, 'u) withdraw_circuit =
  wc_public_input_hash :: 'f
  wc_private_tx_hash :: 'f
  wc_terms :: "'f circuit_escrow_terms"
  wc_escrow_utxo :: 'u
  wc_source_output :: 'u
  wc_owner_pk_field :: 'f
  wc_nullifier_pk :: 'f
  wc_private_tx_blinding :: 'f

definition check_withdraw_output ::
  "('f, 'u, 'k, 'n) gadgets \<Rightarrow> ('f, 'u) withdraw_circuit \<Rightarrow> 'f option" where
  "check_withdraw_output G c = do {
     assert_that (assert_default_ring G (wc_source_output c));
     assert_that (assert_is_equal G (cu_data_hash G (wc_source_output c)) (gconst G 0));
     assert_that (assert_is_equal G (cu_asset G (wc_source_output c)) (cu_asset G (wc_escrow_utxo c)));
     assert_that (assert_is_equal G (cu_amount G (wc_source_output c)) (cu_amount G (wc_escrow_utxo c)));
     assert_that (assert_is_equal G (cu_owner G (wc_source_output c)) (ce_owner_hash (wc_terms c)));
     Some (cu_hash G (wc_source_output c))
   }"

definition check_owner_authorization ::
  "('f, 'u, 'k, 'n) gadgets \<Rightarrow> ('f, 'u) withdraw_circuit \<Rightarrow> unit option" where
  "check_owner_authorization G c =
     assert_that (assert_is_equal G
       (gposeidon G [wc_owner_pk_field c, wc_nullifier_pk c]) (ce_owner_hash (wc_terms c)))"

text \<open>\<open>PublicInputs.Check\<close>.\<close>

definition check_withdraw_public ::
  "('f, 'u, 'k, 'n) gadgets \<Rightarrow> 'f \<Rightarrow> 'f \<Rightarrow> 'f \<Rightarrow> 'f \<Rightarrow> unit option" where
  "check_withdraw_public G public_input_hash ptx unlock owner_pk_field =
     assert_that (assert_is_equal G public_input_hash
       (gposeidon G [ptx, unlock, owner_pk_field]))"

definition withdraw_define :: "('f, 'u, 'k, 'n) gadgets \<Rightarrow> ('f, 'u) withdraw_circuit \<Rightarrow> unit option" where
  "withdraw_define G c = do {
     escrow_hash \<leftarrow> check_escrow_utxo G (wc_terms c) (wc_escrow_utxo c);
     source_hash \<leftarrow> check_withdraw_output G c;
     check_owner_authorization G c;
     assert_that (assert_is_equal G
       (gprivate_tx_hash G [escrow_hash] [source_hash] (wc_private_tx_blinding c))
       (wc_private_tx_hash c));
     check_withdraw_public G (wc_public_input_hash c) (wc_private_tx_hash c) (ce_unlock (wc_terms c))
       (wc_owner_pk_field c)
   }"

lemmas escrow_define_simps = escrow_define_def withdraw_define_def check_escrow_change_def
  check_withdraw_output_def check_owner_authorization_def check_withdraw_public_def

section \<open>Assignments\<close>

definition escrow_terms_assignment ::
  "(bytes \<Rightarrow> 'f) \<Rightarrow> escrow_terms_proof_input \<Rightarrow> 'f circuit_escrow_terms" where
  "escrow_terms_assignment fe t =
     \<lparr>ce_owner_hash = fe (ep_owner_hash t), ce_unlock = fe (escrow_u64_right_align (ep_unlock t))\<rparr>"

definition escrow_assignment ::
  "(bytes \<Rightarrow> 'f) \<Rightarrow> ('i \<Rightarrow> 'u) \<Rightarrow> 'i escrow_proof_inputs \<Rightarrow> ('f, 'u) escrow_circuit" where
  "escrow_assignment fe cu q =
     \<lparr>ec_private_tx_hash = fe (epi_private_tx_hash q),
      ec_terms = escrow_terms_assignment fe (epi_terms q),
      ec_escrow_utxo = cu (epi_escrow_utxo q), ec_change = cu (epi_change q),
      ec_source_input_hash = fe (epi_source_input_hash q),
      ec_private_tx_blinding = fe (epi_private_tx_blinding q)\<rparr>"

definition withdraw_assignment ::
  "(bytes \<Rightarrow> 'f) \<Rightarrow> ('i \<Rightarrow> 'u) \<Rightarrow> 'i withdraw_proof_inputs \<Rightarrow> ('f, 'u) withdraw_circuit" where
  "withdraw_assignment fe cu q =
     \<lparr>wc_public_input_hash = fe (wpi_public_input_hash q),
      wc_private_tx_hash = fe (wpi_private_tx_hash q),
      wc_terms = escrow_terms_assignment fe (wpi_terms q),
      wc_escrow_utxo = cu (wpi_escrow_utxo q), wc_source_output = cu (wpi_source_output q),
      wc_owner_pk_field = fe (wpi_owner_pk_field q), wc_nullifier_pk = fe (wpi_nullifier_pk q),
      wc_private_tx_blinding = fe (wpi_private_tx_blinding q)\<rparr>"

section \<open>Facts\<close>

lemma fe_escrow_u64: "fe_law G fe \<Longrightarrow> fe (escrow_u64_right_align x) = gconst G (unat x)"
  by (simp add: escrow_u64_right_align_def fe_be_u64)

lemma circuit_escrow_data_hash_assignment:
  assumes "hashes_fit G fe S" "escrow_input_data_hash S t = Inr h"
  shows "circuit_escrow_data_hash G (escrow_terms_assignment fe t) = fe h"
proof -
  have "sdk_poseidon S [ep_owner_hash t, escrow_u64_right_align (ep_unlock t)] = Some h"
    using assms(2) by (simp add: escrow_input_data_hash_def result_simps)
  then show ?thesis
    using poseidon_fitD [OF hashes_fitD(2) [OF assms(1)]]
    by (fastforce simp: circuit_escrow_data_hash_def escrow_terms_assignment_def)
qed

text \<open>The escrow output of the SDK passes the check of the circuits exactly when it holds something.\<close>

lemma check_escrow_utxo_assignment:
  assumes "api_law G" "hashes_fit G fe S" "utxos_fit G fe S cu" "output_laws S"
    and "escrow_terms_proof_input_of S (eu_terms e) = Inr t"
    and "escrow_output_utxo S e = Inr u" "proof_input S u tree = Some i"
    and "proof_input_hash S i = Some h"
  shows "check_escrow_utxo G (escrow_terms_assignment fe t) (cu i)
     = (if eu_amount e = 0 then None else Some (fe h))"
proof -
  obtain d npk where d: "escrow_terms_data_hash S (eu_terms e) = Inr d"
    and u: "out_amount u = eu_amount e" "out_data_hash u = Some d"
      "out_ring_data_hash u = None" "out_ring_program_id u = None"
    by (rule escrow_output_utxo_fields [OF assms(4,6)])
  have data: "circuit_escrow_data_hash G (escrow_terms_assignment fe t) = fe d"
    using circuit_escrow_data_hash_assignment [OF assms(2)] d assms(5)
    by (simp add: escrow_terms_data_hash_def)
  have fit: "utxo_fits G fe S u (cu i)" "cu_hash G (cu i) = fe h"
    using utxos_fitD [OF assms(3)] assms(7,8) by blast+
  then have "cu_data_hash G (cu i) = fe d" "assert_default_ring G (cu i)"
    "cu_amount G (cu i) = gconst G (unat (eu_amount e))"
    using u by (simp_all add: utxo_fits_def)
  then show ?thesis
    using data fit(2) gconst_u64_0 [OF assms(1), of "eu_amount e"]
    by (auto simp: check_escrow_utxo_def api_simps [OF assms(1)] assert_that_def split: if_splits)
qed

end
