(* ===== verification/Circuit_Completeness.thy ===== *)
theory Circuit_Completeness
  imports Swap_Circuits Escrow_Circuits
begin

text \<open>
  The proof inputs that the SDKs compute against the circuits they are proved with: which inputs
  satisfy every constraint. The lemmas follow the parts the circuits share.
\<close>

section \<open>The core of both takes\<close>

text \<open>What both kinds of take compute before they differ.\<close>

definition core_inputs ::
  "('x, 'p, 'm, 'd, 'r, 'i) sdk_env \<Rightarrow> ('p, 'm, 'r) take_proof_params \<Rightarrow> 'p shielded_address \<Rightarrow>
   order_terms_proof_input \<Rightarrow> 'i \<Rightarrow> 'i \<Rightarrow> 'i \<Rightarrow> 'i \<Rightarrow> bytes \<Rightarrow> bool" where
  "core_inputs S P taker t order_utxo taker_in source destination ptx \<longleftrightarrow>
     check_take_utxos S P = Inr taker \<and>
     order_terms_proof_input_of S (ou_terms (tpp_order_utxo P)) = Inr t \<and>
     (\<exists>u. order_output_utxo S (tpp_order_utxo P)
          (viewing_pubkey (ot_destination (ou_terms (tpp_order_utxo P)))) = Inr u \<and>
        proof_input S u (tpp_input_tree_id P) = Some order_utxo) \<and>
     proof_input S (tpp_taker_in P) (tpp_input_tree_id P) = Some taker_in \<and>
     proof_input S (tpp_source_output P) (tpp_output_tree_id P) = Some source \<and>
     proof_input S (tpp_destination_output P) (tpp_output_tree_id P) = Some destination \<and>
     take_private_tx_hash S (tpp_private_tx_blinding P) order_utxo taker_in source destination
       = Inr ptx"

lemmas run_simps = bindR_Inr_iff ok_or_Inr_iff map_errR_Inr_iff if_Inl_Inr_iff ext_Inr_iff guardR_Inr_iff

lemma take_core_inputs:
  assumes "take_to_proof_inputs S P = Inr q"
  obtains taker where
    "core_inputs S P taker (tpi_order q) (tpi_order_utxo q) (tpi_taker_in q) (tpi_source_output q)
       (tpi_destination_output q) (tpi_private_tx_hash q)"
    "tpi_private_tx_blinding q = tpp_private_tx_blinding P"
    "sdk_hashv S [tpi_private_tx_hash q, swap_u64_right_align (ot_expiry (ou_terms (tpp_order_utxo P))),
       tpi_first_nullifier q] = Some (tpi_public_input_hash q)"
  using assms unfolding take_to_proof_inputs_def Let_def
  by (simp only: run_simps take_public_input_hash_def take_public_input.simps)
    (elim exE conjE, auto simp: core_inputs_def)

lemma take_ve_core_inputs:
  assumes "take_ve_to_proof_inputs S P = Inr q"
  obtains taker ct ct_hash h where
    "core_inputs S P taker (vpi_order q) (vpi_order_utxo q) (vpi_taker_in q) (vpi_source_output q)
       (vpi_destination_output q) (vpi_private_tx_hash q)"
    "vpi_taker_nullifier_pk q = nullifier_pubkey taker"
    "ot_take_mode (ou_terms (tpp_order_utxo P)) = take_mode_verifiable"
    "vpi_private_tx_blinding q = tpp_private_tx_blinding P"
    "destination_ciphertext_with_hash S (ou_blinding (tpp_order_utxo P))
       (ot_destination_mint (ou_terms (tpp_order_utxo P)))
       (ot_destination_amount (ou_terms (tpp_order_utxo P)))
       (out_blinding (tpp_destination_output P)) = Inr (ct, ct_hash)"
    "sdk_ciphertext_hash S ct = Some h"
    "sdk_hashv S [vpi_private_tx_hash q, swap_u64_right_align (ot_expiry (ou_terms (tpp_order_utxo P))),
       h] = Some (vpi_public_input_hash q)"
  using assms unfolding take_ve_to_proof_inputs_def Let_def
  by (simp only: run_simps take_ve_public_input_hash_def take_ve_public_input.simps split_paired_Ex
        prod.case)
    (elim exE conjE, auto simp: core_inputs_def)

lemma order_terms_inputs:
  assumes "order_terms_proof_input_of S terms = Inr t"
  shows "op_destination_amount t = ot_destination_amount terms" "op_expiry t = ot_expiry terms"
    "op_take_mode t = ot_take_mode terms"
    "hash_bytes S (ot_destination_mint terms) = Some (op_destination_asset t)"
    "owner_hash S (ot_destination terms) = Some (op_maker_owner_hash t)"
    "owner_identity S (ot_taker terms) = Some (op_taker_pk_fe t)"
  using assms by (auto simp: order_terms_proof_input_of_def address_data_hash_def run_simps)

text \<open>The core accepts what the SDK computes, for an order that holds and asks for something.\<close>

lemma check_core_assignment:
  assumes "api_law G" "hashes_fit G fe S" "utxos_fit G fe S cu" "viewing_law S" "output_laws S"
    and "core_inputs S P taker t order_utxo taker_in source destination ptx"
    and "ot_take_mode (ou_terms (tpp_order_utxo P)) = 0 \<or> ot_take_mode (ou_terms (tpp_order_utxo P)) = 1"
  shows "check_core G
      \<lparr>tc_order = order_assignment G fe t, tc_order_utxo = cu order_utxo, tc_taker_in = cu taker_in,
       tc_source_output = cu source, tc_destination_output = cu destination,
       tc_private_tx_blinding = fe (tpp_private_tx_blinding P)\<rparr> (fe ptx) = Some () \<longleftrightarrow>
     ot_destination_amount (ou_terms (tpp_order_utxo P)) \<noteq> 0 \<and> ou_source_amount (tpp_order_utxo P) \<noteq> 0"
proof -
  let ?o = "tpp_order_utxo P" let ?terms = "ou_terms ?o"
  have law: "fe_law G fe"
    by (rule hashes_fitD(1) [OF assms(2)])
  obtain u where t: "order_terms_proof_input_of S ?terms = Inr t"
    and u: "order_output_utxo S ?o (viewing_pubkey (ot_destination ?terms)) = Inr u"
      "proof_input S u (tpp_input_tree_id P) = Some order_utxo"
    and plain: "plain_output S (tpp_taker_in P) (ot_destination_mint ?terms) (ot_destination_amount ?terms) taker"
      "plain_output S (tpp_source_output P) (mint_asset S (ou_source_mint ?o)) (ou_source_amount ?o) taker"
      "plain_output S (tpp_destination_output P) (ot_destination_mint ?terms)
         (ot_destination_amount ?terms) (ot_destination ?terms)"
    and ins: "proof_input S (tpp_taker_in P) (tpp_input_tree_id P) = Some taker_in"
      "proof_input S (tpp_source_output P) (tpp_output_tree_id P) = Some source"
      "proof_input S (tpp_destination_output P) (tpp_output_tree_id P) = Some destination"
    and ptx: "take_private_tx_hash S (tpp_private_tx_blinding P) order_utxo taker_in source destination = Inr ptx"
    using assms(6) unfolding core_inputs_def check_take_utxos_ok by blast
  obtain h1 h2 h3 h4 where h: "proof_input_hash S order_utxo = Some h1" "proof_input_hash S taker_in = Some h2"
    "proof_input_hash S source = Some h3" "proof_input_hash S destination = Some h4"
    "private_tx_hash_of S [h1, h2] [h3, h4] (tpp_private_tx_blinding P) = Some ptx"
    using ptx by (auto simp: take_private_tx_hash_def run_simps)
  note fits = utxos_fitD(1) [OF assms(3) ins(1)] utxos_fitD(1) [OF assms(3) ins(2)]
    utxos_fitD(1) [OF assms(3) ins(3)] utxos_fitD(1) [OF assms(3) u(2)]
  obtain d npk where "out_asset u = ou_source_mint ?o"
    by (rule order_output_utxo_fields [OF assms(5) u(1)])
  then obtain a where a: "hash_bytes S (mint_asset S (ou_source_mint ?o)) = Some a"
    "cu_asset G (cu order_utxo) = fe a" "cu_amount G (cu order_utxo) = gconst G (unat (ou_source_amount ?o))"
    using fits(4) order_output_utxo_fields [OF assms(5) u(1)] by (fastforce simp: utxo_fits_def)
  obtain k where k: "owner_hash S taker = Some k"
    using plain_output_fits(7) [OF fits(1) plain(1)] by blast
  note T = plain_output_fits [OF fits(1) plain(1)] and SO = plain_output_fits [OF fits(2) plain(2)]
    and D = plain_output_fits [OF fits(3) plain(3)]
  have hashes: "cu_hash G (cu taker_in) = fe h2" "cu_hash G (cu source) = fe h3"
    "cu_hash G (cu destination) = fe h4"
    using utxos_fitD(2) [OF assms(3)] h by blast+
  show ?thesis
    using check_order_assignment [OF assms(1) law, of t] assms(7)
      check_order_utxo_assignment [OF assms(1-5) t u h(1)]
      hashes_fitD(7) [OF assms(2) h(5)] hashes T SO D order_terms_inputs [OF t] a k
    by (auto simp: check_core_def check_taker_input_def check_source_output_def
        check_destination_output_def api_simps(1) [OF assms(1)] order_assignment_def
        fe_u64 [OF law] bind_eq_Some_conv)
qed

text \<open>The order UTXO of the assignment has the blinding of the order.\<close>

lemma core_blindings:
  assumes "utxos_fit G fe S cu" "output_laws S"
    and "core_inputs S P taker t order_utxo taker_in source destination ptx"
  shows "cu_blinding G (cu order_utxo) = fe (ou_blinding (tpp_order_utxo P))"
    "cu_blinding G (cu source) = fe (out_blinding (tpp_source_output P))"
    "cu_blinding G (cu destination) = fe (out_blinding (tpp_destination_output P))"
proof -
  obtain u where u: "order_output_utxo S (tpp_order_utxo P)
       (viewing_pubkey (ot_destination (ou_terms (tpp_order_utxo P)))) = Inr u"
    "proof_input S u (tpp_input_tree_id P) = Some order_utxo"
    using assms(3) unfolding core_inputs_def by blast
  obtain d npk where "out_blinding u = ou_blinding (tpp_order_utxo P)"
    by (rule order_output_utxo_fields [OF assms(2) u(1)])
  then show "cu_blinding G (cu order_utxo) = fe (ou_blinding (tpp_order_utxo P))"
    using utxos_fitD(1) [OF assms(1) u(2)] by (simp add: utxo_fits_def)
  show "cu_blinding G (cu source) = fe (out_blinding (tpp_source_output P))"
    "cu_blinding G (cu destination) = fe (out_blinding (tpp_destination_output P))"
    using assms(3) utxos_fitD(1) [OF assms(1)] unfolding core_inputs_def utxo_fits_def by blast+
qed

lemma fe_seed_domain:
  assumes "fe_law G fe"
  shows "fe (replicate 28 0 @ byte_string ''SWTX'') = gconst G blinding_seed_domain"
proof -
  have "be_val (byte_string ''SWTX'') = blinding_seed_domain"
    by (simp add: be_val_def byte_string_def blinding_seed_domain_def)
  then show ?thesis
    using assms unfolding fe_law_def by (simp add: byte_simps byte_string_def)
qed

lemma fe_kdf_domain:
  "fe_law G fe \<Longrightarrow> fe (swap_u64_right_align take_enc_kdf_domain) = gconst G go_take_enc_kdf_domain"
  by (simp add: fe_u64 take_enc_kdf_domain_def go_take_enc_kdf_domain_def)

lemma take_define_assignment:
  assumes "api_law G" "hashes_fit G fe S" "utxos_fit G fe S cu" "blindings_fit G fe S"
    "viewing_law S" "output_laws S" and "take_to_proof_inputs S P = Inr q"
  shows "take_define G (take_assignment G fe cu q) = Some () \<longleftrightarrow>
     ot_destination_amount (ou_terms (tpp_order_utxo P)) \<noteq> 0 \<and> ou_source_amount (tpp_order_utxo P) \<noteq> 0"
proof -
  let ?o = "tpp_order_utxo P"
  have law: "fe_law G fe"
    by (rule hashes_fitD(1) [OF assms(2)])
  obtain taker where core: "core_inputs S P taker (tpi_order q) (tpi_order_utxo q) (tpi_taker_in q)
      (tpi_source_output q) (tpi_destination_output q) (tpi_private_tx_hash q)"
    and b: "tpi_private_tx_blinding q = tpp_private_tx_blinding P"
    and pub: "sdk_hashv S [tpi_private_tx_hash q, swap_u64_right_align (ot_expiry (ou_terms ?o)),
       tpi_first_nullifier q] = Some (tpi_public_input_hash q)"
    by (rule take_core_inputs [OF assms(7)])
  obtain bseed seed where mode: "ot_take_mode (ou_terms ?o) = take_mode_derived"
    and bseed: "take_blinding_seed S (ou_blinding ?o) = Inr bseed"
    and derived: "derive_output_blinding_seed S (tpi_first_nullifier q) bseed = Some seed"
      "derive_private_tx_blinding S (tpi_first_nullifier q) bseed = Some (tpp_private_tx_blinding P)"
      "derive_transact_output_blinding S (tpi_first_nullifier q) seed 0 = Some (out_blinding (tpp_source_output P))"
      "derive_transact_output_blinding S (tpi_first_nullifier q) seed 1 = Some (out_blinding (tpp_destination_output P))"
    by (rule take_to_proof_inputs_blindings [OF assms(7)])
  have t: "order_terms_proof_input_of S (ou_terms ?o) = Inr (tpi_order q)"
    using core by (simp add: core_inputs_def)
  have "sdk_poseidon S [replicate 28 0 @ byte_string ''SWTX'', ou_blinding ?o] = Some bseed"
    using bseed by (simp add: take_blinding_seed_def run_simps Let_def)
  from poseidon_fitD [OF hashes_fitD(2) [OF assms(2)] this]
  have seed: "gposeidon G [gconst G blinding_seed_domain, fe (ou_blinding ?o)] = fe bseed"
    by (simp add: fe_seed_domain [OF law])
  have blindings: "assert_transaction_blindings G (fe (tpi_first_nullifier q)) (fe bseed)
      (fe (tpp_private_tx_blinding P)) (fe (out_blinding (tpp_source_output P)))
      (fe (out_blinding (tpp_destination_output P)))"
    using assms(4) derived unfolding blindings_fit_def by blast
  have public: "gposeidon G [fe (tpi_private_tx_hash q), fe (swap_u64_right_align (ot_expiry (ou_terms ?o))),
      fe (tpi_first_nullifier q)] = fe (tpi_public_input_hash q)"
    using poseidon_fitD [OF hashes_fitD(3) [OF assms(2)] pub] by simp
  show ?thesis
    using check_core_assignment [OF assms(1-3,5,6) core] mode seed blindings public
      core_blindings [OF assms(3,6) core] order_terms_inputs(2,3) [OF t] b
    by (simp add: swap_define_simps take_assignment_def Let_def bind_eq_Some_conv api_simps(1) [OF assms(1)]
        order_assignment_def fe_u64 [OF law] take_mode_derived_def go_take_mode_derived_def)
qed

section \<open>The ciphertext\<close>

lemma check_verifiable_encryption_assignment:
  assumes "hashes_fit G fe S" "cipher_fit G fe S"
    and "destination_ciphertext_with_hash S blinding mint amount dest_blinding = Inr (ct, ct_hash)"
    and "hash_bytes S mint = Some asset" "canonical asset" "canonical dest_blinding"
    and "sdk_ciphertext_hash S ct = Some h"
    and "cu_blinding G (tc_order_utxo core) = fe blinding"
    and "cu_blinding G (tc_destination_output core) = fe dest_blinding"
    and "co_destination_asset (tc_order core) = fe asset"
    and "co_destination_amount (tc_order core) = gconst G (unat amount)"
  shows "check_verifiable_encryption G core = Some (fe h)"
proof -
  have law: "fe_law G fe"
    by (rule hashes_fitD(1) [OF assms(1)])
  obtain secret where secret: "take_shared_secret S blinding = Inr secret"
    and ct: "symmetric_apply S secret (merge_info S) (to_be_bytes amount @ asset @ dest_blinding) = Some ct"
    using assms(3,4) by (auto simp: destination_ciphertext_with_hash_def run_simps Let_def)
  have hash: "sdk_poseidon S [blinding, swap_u64_right_align take_enc_kdf_domain] = Some secret"
    using secret by (simp add: take_shared_secret_def run_simps Let_def right_align_blinding_def)
  from poseidon_fitD [OF hashes_fitD(2) [OF assms(1)] hash]
  have key: "gposeidon G [fe blinding, gconst G go_take_enc_kdf_domain] = fe secret"
    by (simp add: fe_kdf_domain [OF law])
  have info: "merge_info S = merge_kdf_info"
    using assms(2) by (simp add: cipher_fit_def merge_kdf_info_def)
  obtain k n where kn: "key_schedule G (fe secret) (gbytes G merge_kdf_info) (length merge_kdf_info) = (k, n)"
    by fastforce
  have "ctr_encrypt G k n (gbytes G (to_be_bytes amount @ asset @ dest_blinding)) = gbytes G ct"
    using assms(2) hash ct kn info unfolding cipher_fit_def by fastforce
  moreover have "ghash_bytes G (gbytes G ct) = fe h"
    "field_to_bytes G (fe asset) 32 = Some (gbytes G asset)"
    "field_to_bytes G (fe dest_blinding) 32 = Some (gbytes G dest_blinding)"
    "field_to_bytes G (gconst G (unat amount)) 8 = Some (gbytes G (to_be_bytes amount))"
    using assms(2,5-7) unfolding cipher_fit_def by blast+
  ultimately show ?thesis
    using key kn assms(8-11) by (simp add: check_verifiable_encryption_def gbytes_append)
qed

lemma take_ve_define_assignment:
  assumes "api_law G" "hashes_fit G fe S" "utxos_fit G fe S cu" "cipher_fit G fe S"
    "viewing_law S" "output_laws S" and "take_ve_to_proof_inputs S P = Inr q"
    and "hash_bytes S (ot_destination_mint (ou_terms (tpp_order_utxo P))) = Some asset"
    and "canonical asset" "canonical (out_blinding (tpp_destination_output P))"
    and "out_owner_address (tpp_taker_in P) = Some taker" "owner_hash S taker = Some taker_hash"
    and "owner_identity S (ot_taker (ou_terms (tpp_order_utxo P))) = Some named"
  shows "take_ve_define G (take_ve_assignment G fe cu q) = Some () \<longleftrightarrow>
     ot_destination_amount (ou_terms (tpp_order_utxo P)) \<noteq> 0 \<and> ou_source_amount (tpp_order_utxo P) \<noteq> 0 \<and>
     fe taker_hash = gposeidon G [fe named, fe (nullifier_pubkey taker)]"
proof -
  let ?o = "tpp_order_utxo P"
  have law: "fe_law G fe"
    by (rule hashes_fitD(1) [OF assms(2)])
  obtain tk ct ct_hash h where core: "core_inputs S P tk (vpi_order q) (vpi_order_utxo q) (vpi_taker_in q)
      (vpi_source_output q) (vpi_destination_output q) (vpi_private_tx_hash q)"
    and npk: "vpi_taker_nullifier_pk q = nullifier_pubkey tk"
    and mode: "ot_take_mode (ou_terms ?o) = take_mode_verifiable"
    and b: "vpi_private_tx_blinding q = tpp_private_tx_blinding P"
    and ct: "destination_ciphertext_with_hash S (ou_blinding ?o) (ot_destination_mint (ou_terms ?o))
       (ot_destination_amount (ou_terms ?o)) (out_blinding (tpp_destination_output P)) = Inr (ct, ct_hash)"
    and h: "sdk_ciphertext_hash S ct = Some h"
    and pub: "sdk_hashv S [vpi_private_tx_hash q, swap_u64_right_align (ot_expiry (ou_terms ?o)), h]
       = Some (vpi_public_input_hash q)"
    by (rule take_ve_core_inputs [OF assms(7)])
  have plain: "plain_output S (tpp_taker_in P) (ot_destination_mint (ou_terms ?o))
      (ot_destination_amount (ou_terms ?o)) tk"
    and t: "order_terms_proof_input_of S (ou_terms ?o) = Inr (vpi_order q)"
    and tin: "proof_input S (tpp_taker_in P) (tpp_input_tree_id P) = Some (vpi_taker_in q)"
    using core unfolding core_inputs_def check_take_utxos_ok by blast+
  have tk: "tk = taker"
    using plain assms(11) by (simp add: plain_output_def)
  have owner: "cu_owner G (cu (vpi_taker_in q)) = fe taker_hash"
    using plain_output_fits(5) [OF utxos_fitD(1) [OF assms(3) tin] plain] tk assms(12) by simp
  have public: "gposeidon G [fe (vpi_private_tx_hash q), fe (swap_u64_right_align (ot_expiry (ou_terms ?o))),
      fe h] = fe (vpi_public_input_hash q)"
    using poseidon_fitD [OF hashes_fitD(3) [OF assms(2)] pub] by simp
  let ?core = "tv_core (take_ve_assignment G fe cu q)"
  have "check_verifiable_encryption G ?core = Some (fe h)"
    by (rule check_verifiable_encryption_assignment [OF assms(2,4) ct assms(8-10) h])
      (use core_blindings [OF assms(3,6) core] order_terms_inputs(1,4) [OF t] assms(8) in
        \<open>simp_all add: take_ve_assignment_def order_assignment_def fe_u64 [OF law]\<close>)
  then show ?thesis
    using check_core_assignment [OF assms(1-3,5,6) core] mode public owner tk npk b assms(13)
      order_terms_inputs(2,3,6) [OF t]
    by (auto simp: swap_define_simps take_ve_assignment_def Let_def bind_eq_Some_conv
        api_simps(1) [OF assms(1)] order_assignment_def fe_u64 [OF law] take_mode_verifiable_def
        go_take_mode_verifiable_def)
qed

section \<open>Cancel and make\<close>

text \<open>What the SDK computes for a cancel.\<close>

lemma cancel_inputs:
  assumes "cancel_to_proof_inputs S P = Inr q"
  obtains maker u h1 h2 where "plain_output S (cpp_source_output P)
      (mint_asset S (ou_source_mint (cpp_order_utxo P))) (ou_source_amount (cpp_order_utxo P)) maker"
    "maker = ot_destination (ou_terms (cpp_order_utxo P))" "cpi_maker_nullifier_pk q = nullifier_pubkey maker"
      "owner_proof_input_hash S (signing_pubkey maker) = Some (cpi_maker_owner_pk_field q)"
    "order_terms_proof_input_of S (ou_terms (cpp_order_utxo P)) = Inr (cpi_order q)"
    "order_output_utxo S (cpp_order_utxo P) (viewing_pubkey (ot_destination (ou_terms (cpp_order_utxo P)))) = Inr u"
      "proof_input S u (cpp_input_tree_id P) = Some (cpi_order_utxo q)"
    "proof_input S (cpp_source_output P) (cpp_output_tree_id P) = Some (cpi_source_output q)"
    "proof_input_hash S (cpi_order_utxo q) = Some h1" "proof_input_hash S (cpi_source_output q) = Some h2"
      "private_tx_hash_of S [h1] [h2] (cpi_private_tx_blinding q) = Some (cpi_private_tx_hash q)"
    "sdk_hashv S [cpi_private_tx_hash q, swap_u64_right_align (ot_expiry (ou_terms (cpp_order_utxo P))),
       cpi_maker_owner_pk_field q] = Some (cpi_public_input_hash q)"
  using assms unfolding cancel_to_proof_inputs_def Let_def
  by (simp only: run_simps swap_check_output_utxo_ok cancel_public_input_hash_def
      cancel_public_input.simps) (elim exE conjE, auto)

lemma cancel_define_assignment:
  assumes "api_law G" "hashes_fit G fe S" "utxos_fit G fe S cu" "viewing_law S" "output_laws S"
    and "cancel_to_proof_inputs S P = Inr q"
  shows "cancel_define G (cancel_assignment G fe cu q) = Some () \<longleftrightarrow> ou_source_amount (cpp_order_utxo P) \<noteq> 0"
proof -
  let ?o = "cpp_order_utxo P"
  have law: "fe_law G fe"
    by (rule hashes_fitD(1) [OF assms(2)])
  obtain maker u h1 h2 where plain: "plain_output S (cpp_source_output P)
      (mint_asset S (ou_source_mint ?o)) (ou_source_amount ?o) maker"
    and maker: "maker = ot_destination (ou_terms ?o)" "cpi_maker_nullifier_pk q = nullifier_pubkey maker"
      "owner_proof_input_hash S (signing_pubkey maker) = Some (cpi_maker_owner_pk_field q)"
    and t: "order_terms_proof_input_of S (ou_terms ?o) = Inr (cpi_order q)"
    and u: "order_output_utxo S ?o (viewing_pubkey (ot_destination (ou_terms ?o))) = Inr u"
      "proof_input S u (cpp_input_tree_id P) = Some (cpi_order_utxo q)"
    and src: "proof_input S (cpp_source_output P) (cpp_output_tree_id P) = Some (cpi_source_output q)"
    and h: "proof_input_hash S (cpi_order_utxo q) = Some h1" "proof_input_hash S (cpi_source_output q) = Some h2"
      "private_tx_hash_of S [h1] [h2] (cpi_private_tx_blinding q) = Some (cpi_private_tx_hash q)"
    and pub: "sdk_hashv S [cpi_private_tx_hash q, swap_u64_right_align (ot_expiry (ou_terms ?o)),
       cpi_maker_owner_pk_field q] = Some (cpi_public_input_hash q)"
    by (rule cancel_inputs [OF assms(6)])
  note fits = utxos_fitD(1) [OF assms(3) u(2)] utxos_fitD(1) [OF assms(3) src]
  obtain d npk where "out_asset u = ou_source_mint ?o" "out_amount u = ou_source_amount ?o"
    by (rule order_output_utxo_fields [OF assms(5) u(1)])
  then obtain a where a: "hash_bytes S (mint_asset S (ou_source_mint ?o)) = Some a"
    "cu_asset G (cu (cpi_order_utxo q)) = fe a"
    "cu_amount G (cu (cpi_order_utxo q)) = gconst G (unat (ou_source_amount ?o))"
    using fits(1) by (auto simp: utxo_fits_def)
  have public: "gposeidon G [fe (cpi_private_tx_hash q), fe (swap_u64_right_align (ot_expiry (ou_terms ?o))),
      fe (cpi_maker_owner_pk_field q)] = fe (cpi_public_input_hash q)"
    using poseidon_fitD [OF hashes_fitD(3) [OF assms(2)] pub] by simp
  show ?thesis
    using check_order_utxo_assignment [OF assms(1-5) t u h(1)] plain_output_fits [OF fits(2) plain]
      utxos_fitD(2) [OF assms(3) h(2)] hashes_fitD(7) [OF assms(2) h(3)] a public maker
      hashes_fitD(6) [OF assms(2) order_terms_inputs(5) [OF t]] order_terms_inputs(2,5) [OF t]
    by (auto simp: swap_define_simps cancel_assignment_def bind_eq_Some_conv
        api_simps(1) [OF assms(1)] order_assignment_def)
qed

lemma make_define_assignment:
  assumes "api_law G" "hashes_fit G fe S" "utxos_fit G fe S cu" "viewing_law S" "output_laws S"
    and "make_to_proof_inputs S P = Inr q"
  shows "make_define G (make_assignment G fe cu q) = Some () \<longleftrightarrow>
     ot_destination_amount (ou_terms (mpp_order_utxo P)) \<noteq> 0 \<and> ou_source_amount (mpp_order_utxo P) \<noteq> 0 \<and>
     (ot_take_mode (ou_terms (mpp_order_utxo P)) = take_mode_derived \<or>
      ot_take_mode (ou_terms (mpp_order_utxo P)) = take_mode_verifiable)"
proof -
  let ?o = "mpp_order_utxo P" let ?tree = "sth_output_tree_id (mpp_spp_tx_hashes P)"
  have law: "fe_law G fe"
    by (rule hashes_fitD(1) [OF assms(2)])
  obtain u h1 h2 where plain: "plain_output S (mpp_change P)
      (mint_asset S (ou_source_mint ?o)) (out_amount (mpp_change P)) (ot_destination (ou_terms ?o))"
    and t: "order_terms_proof_input_of S (ou_terms ?o) = Inr (mpi_order q)"
    and u: "order_output_utxo S ?o (viewing_pubkey (ot_destination (ou_terms ?o))) = Inr u"
      "proof_input S u ?tree = Some (mpi_order_utxo q)"
    and change: "proof_input S (mpp_change P) ?tree = Some (mpi_change q)"
    and h: "proof_input_hash S (mpi_order_utxo q) = Some h1" "proof_input_hash S (mpi_change q) = Some h2"
      "private_tx_hash_of S [mpi_source_input_hash q, replicate 32 0] [h2, h1] (mpi_private_tx_blinding q)
         = Some (mpi_private_tx_hash q)"
    using assms(6) unfolding make_to_proof_inputs_def Let_def
    by (simp only: run_simps de_Morgan_disj not_not) (elim exE conjE, auto simp: plain_output_def)
  note fits = utxos_fitD(1) [OF assms(3) u(2)] utxos_fitD(1) [OF assms(3) change]
  obtain d npk where "out_asset u = ou_source_mint ?o"
    by (rule order_output_utxo_fields [OF assms(5) u(1)])
  then obtain a where a: "hash_bytes S (mint_asset S (ou_source_mint ?o)) = Some a"
    "cu_asset G (cu (mpi_order_utxo q)) = fe a"
    using fits(1) by (auto simp: utxo_fits_def)
  show ?thesis
    using check_order_assignment [OF assms(1) law, of "mpi_order q"]
      check_order_utxo_assignment [OF assms(1-5) t u h(1)] plain_output_fits [OF fits(2) plain]
      utxos_fitD(2) [OF assms(3) h(2)] hashes_fitD(7) [OF assms(2) h(3)] a order_terms_inputs [OF t]
    by (auto simp: swap_define_simps make_assignment_def bind_eq_Some_conv
        api_simps(1) [OF assms(1)] order_assignment_def fe_zeros [OF law] take_mode_derived_def
        take_mode_verifiable_def)
qed

section \<open>Escrow and withdraw\<close>

lemma escrow_terms_inputs:
  assumes "escrow_terms_proof_input_of S terms = Inr t"
  shows "owner_hash S (et_creator terms) = Some (ep_owner_hash t)" "ep_unlock t = et_unlock_timestamp terms"
  using assms by (auto simp: escrow_terms_proof_input_of_def run_simps)

lemma escrow_define_assignment:
  assumes "api_law G" "hashes_fit G fe S" "utxos_fit G fe S cu" "output_laws S"
    and "escrow_to_proof_inputs S P = Inr q"
  shows "escrow_define G (escrow_assignment fe cu q) = Some () \<longleftrightarrow> eu_amount (epp_escrow_utxo P) \<noteq> 0"
proof -
  let ?e = "epp_escrow_utxo P" let ?tree = "eth_output_tree_id (epp_spp_tx_hashes P)"
  have law: "fe_law G fe"
    by (rule hashes_fitD(1) [OF assms(2)])
  obtain u h1 h2 where plain: "plain_output S (epp_change P)
      (mint_asset S (eu_asset ?e)) (out_amount (epp_change P)) (et_creator (eu_terms ?e))"
    and t: "escrow_terms_proof_input_of S (eu_terms ?e) = Inr (epi_terms q)"
    and u: "escrow_output_utxo S ?e = Inr u" "proof_input S u ?tree = Some (epi_escrow_utxo q)"
    and change: "proof_input S (epp_change P) ?tree = Some (epi_change q)"
    and h: "proof_input_hash S (epi_escrow_utxo q) = Some h1" "proof_input_hash S (epi_change q) = Some h2"
      "private_tx_hash_of S [epi_source_input_hash q, replicate 32 0] [h2, h1] (epi_private_tx_blinding q)
         = Some (epi_private_tx_hash q)"
    using assms(5) unfolding escrow_to_proof_inputs_def Let_def
    by (simp only: run_simps de_Morgan_disj not_not) (elim exE conjE, auto simp: plain_output_def)
  note fits = utxos_fitD(1) [OF assms(3) u(2)] utxos_fitD(1) [OF assms(3) change]
  obtain d npk where "out_asset u = eu_asset ?e"
    by (rule escrow_output_utxo_fields [OF assms(4) u(1)])
  then obtain a where a: "hash_bytes S (mint_asset S (eu_asset ?e)) = Some a"
    "cu_asset G (cu (epi_escrow_utxo q)) = fe a"
    using fits(1) by (auto simp: utxo_fits_def)
  show ?thesis
    using check_escrow_utxo_assignment [OF assms(1-4) t u h(1)] plain_output_fits [OF fits(2) plain]
      utxos_fitD(2) [OF assms(3) h(2)] hashes_fitD(7) [OF assms(2) h(3)] a escrow_terms_inputs [OF t]
    by (auto simp: escrow_define_simps escrow_assignment_def bind_eq_Some_conv
        api_simps(1) [OF assms(1)] escrow_terms_assignment_def fe_zeros [OF law])
qed

text \<open>What the SDK computes for a withdraw.\<close>

lemma withdraw_inputs:
  assumes "withdraw_to_proof_inputs S P = Inr q"
  obtains creator u h1 h2 where "plain_output S (wpp_source_output P)
      (mint_asset S (eu_asset (wpp_escrow_utxo P))) (eu_amount (wpp_escrow_utxo P)) creator"
    "creator = et_creator (eu_terms (wpp_escrow_utxo P))" "wpi_nullifier_pk q = nullifier_pubkey creator"
      "owner_proof_input_hash S (signing_pubkey creator) = Some (wpi_owner_pk_field q)"
    "escrow_terms_proof_input_of S (eu_terms (wpp_escrow_utxo P)) = Inr (wpi_terms q)"
    "escrow_output_utxo S (wpp_escrow_utxo P) = Inr u"
      "proof_input S u (wpp_input_tree_id P) = Some (wpi_escrow_utxo q)"
    "proof_input S (wpp_source_output P) (wpp_output_tree_id P) = Some (wpi_source_output q)"
    "proof_input_hash S (wpi_escrow_utxo q) = Some h1" "proof_input_hash S (wpi_source_output q) = Some h2"
      "private_tx_hash_of S [h1] [h2] (wpi_private_tx_blinding q) = Some (wpi_private_tx_hash q)"
    "sdk_hashv S [wpi_private_tx_hash q, escrow_u64_right_align (et_unlock_timestamp (eu_terms (wpp_escrow_utxo P))),
       wpi_owner_pk_field q] = Some (wpi_public_input_hash q)"
  using assms unfolding withdraw_to_proof_inputs_def Let_def
  by (simp only: run_simps escrow_check_output_utxo_ok withdraw_public_input_hash_def
      withdraw_public_input.simps) (elim exE conjE, auto)

lemma withdraw_define_assignment:
  assumes "api_law G" "hashes_fit G fe S" "utxos_fit G fe S cu" "output_laws S"
    and "withdraw_to_proof_inputs S P = Inr q"
  shows "withdraw_define G (withdraw_assignment fe cu q) = Some () \<longleftrightarrow> eu_amount (wpp_escrow_utxo P) \<noteq> 0"
proof -
  let ?e = "wpp_escrow_utxo P"
  obtain creator u h1 h2 where plain: "plain_output S (wpp_source_output P)
      (mint_asset S (eu_asset ?e)) (eu_amount ?e) creator"
    and creator: "creator = et_creator (eu_terms ?e)" "wpi_nullifier_pk q = nullifier_pubkey creator"
      "owner_proof_input_hash S (signing_pubkey creator) = Some (wpi_owner_pk_field q)"
    and t: "escrow_terms_proof_input_of S (eu_terms ?e) = Inr (wpi_terms q)"
    and u: "escrow_output_utxo S ?e = Inr u"
      "proof_input S u (wpp_input_tree_id P) = Some (wpi_escrow_utxo q)"
    and src: "proof_input S (wpp_source_output P) (wpp_output_tree_id P) = Some (wpi_source_output q)"
    and h: "proof_input_hash S (wpi_escrow_utxo q) = Some h1" "proof_input_hash S (wpi_source_output q) = Some h2"
      "private_tx_hash_of S [h1] [h2] (wpi_private_tx_blinding q) = Some (wpi_private_tx_hash q)"
    and pub: "sdk_hashv S [wpi_private_tx_hash q, escrow_u64_right_align (et_unlock_timestamp (eu_terms ?e)),
       wpi_owner_pk_field q] = Some (wpi_public_input_hash q)"
    by (rule withdraw_inputs [OF assms(5)])
  note fits = utxos_fitD(1) [OF assms(3) u(2)] utxos_fitD(1) [OF assms(3) src]
  obtain d npk where "out_asset u = eu_asset ?e" "out_amount u = eu_amount ?e"
    by (rule escrow_output_utxo_fields [OF assms(4) u(1)])
  then obtain a where a: "hash_bytes S (mint_asset S (eu_asset ?e)) = Some a"
    "cu_asset G (cu (wpi_escrow_utxo q)) = fe a"
    "cu_amount G (cu (wpi_escrow_utxo q)) = gconst G (unat (eu_amount ?e))"
    using fits(1) by (auto simp: utxo_fits_def)
  have public: "gposeidon G [fe (wpi_private_tx_hash q),
      fe (escrow_u64_right_align (et_unlock_timestamp (eu_terms ?e))), fe (wpi_owner_pk_field q)]
      = fe (wpi_public_input_hash q)"
    using poseidon_fitD [OF hashes_fitD(3) [OF assms(2)] pub] by simp
  show ?thesis
    using check_escrow_utxo_assignment [OF assms(1-4) t u h(1)] plain_output_fits [OF fits(2) plain]
      utxos_fitD(2) [OF assms(3) h(2)] hashes_fitD(7) [OF assms(2) h(3)] a public creator
      hashes_fitD(6) [OF assms(2) escrow_terms_inputs(1) [OF t]] escrow_terms_inputs [OF t]
    by (auto simp: escrow_define_simps withdraw_assignment_def bind_eq_Some_conv
        api_simps(1) [OF assms(1)] escrow_terms_assignment_def)
qed

end
