(* ===== verification/Circuit_Soundness.thy ===== *)
theory Circuit_Soundness
  imports Circuit_Completeness
begin

text \<open>
  What the circuits enforce on a transaction that was proved: an extractor returns the assignment
  behind an accepted proof, and unless two explicit inputs of a hash collide, the assignment is
  about the order (or escrow) that the transaction spends and the outputs that it creates.
\<close>

section \<open>Soundness and collisions\<close>

text \<open>
  The knowledge soundness of the proof system for one circuit and key: the extractor \<open>X\<close> returns,
  for an accepted proof and public input, an assignment that satisfies the circuit and has that
  public input. The keys that the repository commits are test keys with a public setup, for which
  their own files say that proofs can be forged: this assumption is about keys of a proper setup.
\<close>

definition proof_sound ::
  "('x, 'v, 's, 'w) chain_env \<Rightarrow> groth16_vk \<Rightarrow> (bytes \<Rightarrow> 'f) \<Rightarrow> ('c \<Rightarrow> unit option) \<Rightarrow> ('c \<Rightarrow> 'f) \<Rightarrow>
   (compressed_groth16_proof \<Rightarrow> bytes \<Rightarrow> 'c) \<Rightarrow> bool" where
  "proof_sound E vk fe define public X \<longleftrightarrow>
     (\<forall>p h. groth16_accepts E p h vk \<longrightarrow> define (X p h) = Some () \<and> public (X p h) = fe h)"

lemma proof_soundD:
  assumes "proof_sound E vk fe define public X" "groth16_accepts E p h vk"
  shows "define (X p h) = Some ()" "public (X p h) = fe h"
  using assms unfolding proof_sound_def by blast+

text \<open>Two different inputs with the same value.\<close>

definition clash :: "('a \<Rightarrow> 'b) \<Rightarrow> 'a \<Rightarrow> 'a \<Rightarrow> bool" where
  "clash h x y \<longleftrightarrow> x \<noteq> y \<and> h x = h y"

lemma clashD: "\<not> clash h x y \<Longrightarrow> h x = h y \<Longrightarrow> x = y"
  by (simp add: clash_def)

text \<open>The preimage of a transaction hash: input hashes, output hashes and blinding.\<close>

definition tx_hash_of :: "('f, 'u, 'k, 'n) gadgets \<Rightarrow> 'f list \<times> 'f list \<times> 'f \<Rightarrow> 'f" where
  "tx_hash_of G t = (case t of (ins, outs, b) \<Rightarrow> gprivate_tx_hash G ins outs b)"

text \<open>A UTXO without data or ring that holds an amount of one asset for one owner.\<close>

definition pays :: "('f, 'u, 'k, 'n) gadgets \<Rightarrow> 'u \<Rightarrow> 'f \<Rightarrow> 'f \<Rightarrow> 'f \<Rightarrow> bool" where
  "pays G u asset amount owner \<longleftrightarrow>
     cu_asset G u = asset \<and> cu_amount G u = amount \<and> cu_owner G u = owner \<and>
     cu_data_hash G u = gconst G 0 \<and> assert_default_ring G u"

section \<open>What an order UTXO commits to\<close>

definition circuit_preimage :: "('f, 'u, 'k, 'n) gadgets \<Rightarrow> 'f circuit_order \<Rightarrow> 'f list" where
  "circuit_preimage G t =
     [co_destination_asset t, co_destination_amount t, maker_address_fe G t, co_expiry t,
      co_taker_pk_fe t, co_take_mode t]"

definition maker_preimage :: "('f, 'u, 'k, 'n) gadgets \<Rightarrow> 'f circuit_order \<Rightarrow> 'f list" where
  "maker_preimage G t = [co_maker_owner_hash t, ghash_bytes G (co_maker_viewing_pk t)]"

text \<open>A collision between the order of an assignment and the order of the SDK.\<close>

definition order_clash ::
  "('f, 'u, 'k, 'n) gadgets \<Rightarrow> 'f circuit_order \<Rightarrow> 'u \<Rightarrow> 'f circuit_order \<Rightarrow> 'u \<Rightarrow> bool" where
  "order_clash G t u t' u' \<longleftrightarrow>
     clash (cu_hash G) u u' \<or> clash (gposeidon G) (circuit_preimage G t) (circuit_preimage G t') \<or>
     clash (gposeidon G) (maker_preimage G t) (maker_preimage G t')"

text \<open>\<open>u\<close> is the leaf of an order with the terms \<open>t\<close>: its data hash is the one of the terms.\<close>

definition order_leaf ::
  "('f, 'u, 'k, 'n) gadgets \<Rightarrow> (bytes \<Rightarrow> 'f) \<Rightarrow> ('x, 'p, 'm, 'd, 'r, 'i) sdk_env \<Rightarrow> 'p order_terms \<Rightarrow>
   order_terms_proof_input \<Rightarrow> 'u \<Rightarrow> bool" where
  "order_leaf G fe S terms t u \<longleftrightarrow>
     order_terms_proof_input_of S terms = Inr t \<and>
     (\<exists>h. order_input_data_hash S t = Inr h \<and> cu_data_hash G u = fe h)"

lemma order_utxo_binds:
  assumes "api_law G" "hashes_fit G fe S" "viewing_law S" "order_leaf G fe S terms t u"
    and "check_order_utxo G t' u' (maker_address_fe G t') = Some leaf" "leaf = cu_hash G u"
    and "\<not> order_clash G t' u' (order_assignment G fe t) u"
  shows "u' = u" "co_destination_asset t' = fe (op_destination_asset t)"
    "co_destination_amount t' = gconst G (unat (op_destination_amount t))"
    "co_maker_owner_hash t' = fe (op_maker_owner_hash t)"
    "co_expiry t' = gconst G (unat (op_expiry t))" "co_taker_pk_fe t' = fe (op_taker_pk_fe t)"
    "co_take_mode t' = gconst G (unat (op_take_mode t))"
proof -
  let ?t = "order_assignment G fe t"
  have law: "fe_law G fe"
    by (rule hashes_fitD(1) [OF assms(2)])
  have u': "cu_hash G u' = cu_hash G u" "cu_data_hash G u' = circuit_data_hash G t' (maker_address_fe G t')"
    using assms(5,6) by (auto simp: check_order_utxo_def api_simps [OF assms(1)] bind_eq_Some_conv)
  have no: "\<not> clash (cu_hash G) u' u"
    "\<not> clash (gposeidon G) (circuit_preimage G t') (circuit_preimage G ?t)"
    "\<not> clash (gposeidon G) (maker_preimage G t') (maker_preimage G ?t)"
    using assms(7) by (simp_all add: order_clash_def)
  show uu: "u' = u"
    by (rule clashD [OF no(1) u'(1)])
  obtain h where h: "order_input_data_hash S t = Inr h" "cu_data_hash G u = fe h"
    using assms(4) unfolding order_leaf_def by blast
  have "gposeidon G (circuit_preimage G t') = gposeidon G (circuit_preimage G ?t)"
    using u'(2) h(2) circuit_data_hash_assignment [OF assms(2,3) h(1)] uu
    by (simp add: circuit_data_hash_def circuit_preimage_def)
  then have pre: "circuit_preimage G t' = circuit_preimage G ?t"
    by (rule clashD [OF no(2)])
  then have "gposeidon G (maker_preimage G t') = gposeidon G (maker_preimage G ?t)"
    by (simp add: circuit_preimage_def maker_preimage_def maker_address_fe_def)
  then have "maker_preimage G t' = maker_preimage G ?t"
    by (rule clashD [OF no(3)])
  with pre show "co_destination_asset t' = fe (op_destination_asset t)"
    "co_destination_amount t' = gconst G (unat (op_destination_amount t))"
    "co_maker_owner_hash t' = fe (op_maker_owner_hash t)"
    "co_expiry t' = gconst G (unat (op_expiry t))" "co_taker_pk_fe t' = fe (op_taker_pk_fe t)"
    "co_take_mode t' = gconst G (unat (op_take_mode t))"
    by (simp_all add: circuit_preimage_def maker_preimage_def order_assignment_def fe_u64 [OF law])
qed

section \<open>The core of a take\<close>

text \<open>The transaction of a take: order and taker leaf in, source and destination leaf out.\<close>

definition core_clash ::
  "('f, 'u, 'k, 'n) gadgets \<Rightarrow> ('f, 'u) take_core \<Rightarrow> 'f circuit_order \<Rightarrow> 'u \<Rightarrow> 'f \<times> 'f \<times> 'f \<times> 'f \<Rightarrow> bool" where
  "core_clash G c t u tx \<longleftrightarrow>
     order_clash G (tc_order c) (tc_order_utxo c) t u \<or>
     (case tx of (taker_leaf, source_leaf, destination_leaf, b) \<Rightarrow> clash (tx_hash_of G)
        ([cu_hash G (tc_order_utxo c), cu_hash G (tc_taker_in c)],
         [cu_hash G (tc_source_output c), cu_hash G (tc_destination_output c)],
         tc_private_tx_blinding c)
        ([cu_hash G u, taker_leaf], [source_leaf, destination_leaf], b))"

text \<open>The exchange that an order stands for: what the taker gave, and who gets what.\<close>

definition exchanged ::
  "('f, 'u, 'k, 'n) gadgets \<Rightarrow> (bytes \<Rightarrow> 'f) \<Rightarrow> order_terms_proof_input \<Rightarrow> 'u \<Rightarrow> 'f \<times> 'f \<times> 'f \<times> 'f \<Rightarrow> 'u \<Rightarrow>
   'u \<Rightarrow> 'u \<Rightarrow> bool" where
  "exchanged G fe t u tx taker_in source destination \<longleftrightarrow>
     (case tx of (taker_leaf, source_leaf, destination_leaf, b) \<Rightarrow>
        cu_hash G taker_in = taker_leaf \<and> cu_hash G source = source_leaf \<and>
        cu_hash G destination = destination_leaf) \<and>
     pays G taker_in (fe (op_destination_asset t)) (gconst G (unat (op_destination_amount t)))
       (cu_owner G taker_in) \<and>
     pays G destination (fe (op_destination_asset t)) (gconst G (unat (op_destination_amount t)))
       (fe (op_maker_owner_hash t)) \<and>
     pays G source (cu_asset G u) (cu_amount G u) (cu_owner G taker_in)"

lemma check_core_binds:
  assumes "api_law G" "hashes_fit G fe S" "viewing_law S" "order_leaf G fe S terms t u"
    and "check_core G c ptx = Some ()"
    and "gprivate_tx_hash G [cu_hash G u, taker_leaf] [source_leaf, destination_leaf] b = ptx"
    and "\<not> core_clash G c (order_assignment G fe t) u (taker_leaf, source_leaf, destination_leaf, b)"
  shows "exchanged G fe t u (taker_leaf, source_leaf, destination_leaf, b)
      (tc_taker_in c) (tc_source_output c) (tc_destination_output c)"
    "co_expiry (tc_order c) = gconst G (unat (op_expiry t))"
    "co_take_mode (tc_order c) = gconst G (unat (op_take_mode t))"
    "co_taker_pk_fe (tc_order c) = fe (op_taker_pk_fe t)"
proof -
  obtain order_hash where checked:
    "check_order_utxo G (tc_order c) (tc_order_utxo c) (maker_address_fe G (tc_order c)) = Some order_hash"
    and taker: "pays G (tc_taker_in c) (co_destination_asset (tc_order c))
        (co_destination_amount (tc_order c)) (cu_owner G (tc_taker_in c))"
    and source: "pays G (tc_source_output c) (cu_asset G (tc_order_utxo c))
        (cu_amount G (tc_order_utxo c)) (cu_owner G (tc_taker_in c))"
    and dest: "pays G (tc_destination_output c) (co_destination_asset (tc_order c))
        (co_destination_amount (tc_order c)) (co_maker_owner_hash (tc_order c))"
    and tx: "gprivate_tx_hash G [order_hash, cu_hash G (tc_taker_in c)]
        [cu_hash G (tc_source_output c), cu_hash G (tc_destination_output c)]
        (tc_private_tx_blinding c) = ptx"
    using assms(5) by (auto simp: check_core_def check_taker_input_def check_source_output_def
        check_destination_output_def api_simps(1) [OF assms(1)] bind_eq_Some_conv pays_def)
  have leaf: "order_hash = cu_hash G (tc_order_utxo c)"
    using checked by (auto simp: check_order_utxo_def bind_eq_Some_conv)
  have "([cu_hash G (tc_order_utxo c), cu_hash G (tc_taker_in c)],
        [cu_hash G (tc_source_output c), cu_hash G (tc_destination_output c)], tc_private_tx_blinding c)
      = ([cu_hash G u, taker_leaf], [source_leaf, destination_leaf], b)"
    by (rule clashD [where h = "tx_hash_of G"])
      (use assms(6,7) tx leaf in \<open>simp_all add: core_clash_def tx_hash_of_def\<close>)
  then have leaves: "order_hash = cu_hash G u" "cu_hash G (tc_taker_in c) = taker_leaf"
    "cu_hash G (tc_source_output c) = source_leaf"
    "cu_hash G (tc_destination_output c) = destination_leaf"
    using leaf by simp_all
  have "\<not> order_clash G (tc_order c) (tc_order_utxo c) (order_assignment G fe t) u"
    using assms(7) by (simp add: core_clash_def)
  note order = order_utxo_binds [OF assms(1-4) checked leaves(1) this]
  show "exchanged G fe t u (taker_leaf, source_leaf, destination_leaf, b)
      (tc_taker_in c) (tc_source_output c) (tc_destination_output c)"
    using leaves taker source dest order by (simp add: exchanged_def)
  show "co_expiry (tc_order c) = gconst G (unat (op_expiry t))"
    "co_take_mode (tc_order c) = gconst G (unat (op_take_mode t))"
    "co_taker_pk_fe (tc_order c) = fe (op_taker_pk_fe t)"
    using order by simp_all
qed

section \<open>A settled take\<close>

definition take_clash ::
  "('f, 'u, 'k, 'n) gadgets \<Rightarrow> ('f, 'u) take_circuit \<Rightarrow> 'f list \<Rightarrow> 'f circuit_order \<Rightarrow> 'u \<Rightarrow>
   'f \<times> 'f \<times> 'f \<times> 'f \<Rightarrow> bool" where
  "take_clash G c public t u tx \<longleftrightarrow>
     clash (gposeidon G) [tk_public_tx_hash c, co_expiry (tc_order (tk_core c)), tk_public_nullifier c] public \<or>
     core_clash G (tk_core c) t u tx"

lemma take_define_binds:
  assumes "api_law G" "hashes_fit G fe S" "viewing_law S" "order_leaf G fe S terms t u"
    and "take_define G c = Some ()" "tk_public_hash c = gposeidon G [fe ptx, gconst G (unat x), n]"
    and "gprivate_tx_hash G [cu_hash G u, taker_leaf] [source_leaf, destination_leaf] b = fe ptx"
    and "\<not> take_clash G c [fe ptx, gconst G (unat (x :: u64)), n] (order_assignment G fe t) u
           (taker_leaf, source_leaf, destination_leaf, b)"
  shows "exchanged G fe t u (taker_leaf, source_leaf, destination_leaf, b)
      (tc_taker_in (tk_core c)) (tc_source_output (tk_core c)) (tc_destination_output (tk_core c)) \<and>
    x = ot_expiry terms \<and> ot_take_mode terms = take_mode_derived"
proof -
  have core: "check_core G (tk_core c) (tk_public_tx_hash c) = Some ()"
    and mode: "co_take_mode (tc_order (tk_core c)) = gconst G 0"
    and public: "gposeidon G [tk_public_tx_hash c, co_expiry (tc_order (tk_core c)), tk_public_nullifier c]
        = gposeidon G [fe ptx, gconst G (unat x), n]"
    using assms(5,6) by (auto simp: swap_define_simps Let_def bind_eq_Some_conv api_simps(1) [OF assms(1)]
        go_take_mode_derived_def)
  have no: "\<not> clash (gposeidon G)
      [tk_public_tx_hash c, co_expiry (tc_order (tk_core c)), tk_public_nullifier c]
      [fe ptx, gconst G (unat x), n]"
    "\<not> core_clash G (tk_core c) (order_assignment G fe t) u (taker_leaf, source_leaf, destination_leaf, b)"
    using assms(8) by (simp_all add: take_clash_def)
  have pub: "tk_public_tx_hash c = fe ptx" "co_expiry (tc_order (tk_core c)) = gconst G (unat x)"
    using clashD [OF no(1) public] by simp_all
  note binds = check_core_binds [OF assms(1-4) core _ no(2)]
  have t: "op_expiry t = ot_expiry terms" "op_take_mode t = ot_take_mode terms"
    using assms(4) order_terms_inputs by (auto simp: order_leaf_def)
  show ?thesis
    using binds(1-3) assms(7) pub mode t gconst_u64_inject [OF assms(1), of x "ot_expiry terms"]
      gconst_u64_0 [OF assms(1), of "ot_take_mode terms"]
    by (auto simp: take_mode_derived_def)
qed

section \<open>A settled verifiable take\<close>

definition take_ve_clash ::
  "('f, 'u, 'k, 'n) gadgets \<Rightarrow> ('f, 'u) take_ve_circuit \<Rightarrow> 'f list \<Rightarrow> 'f circuit_order \<Rightarrow> 'u \<Rightarrow>
   'f \<times> 'f \<times> 'f \<times> 'f \<Rightarrow> bool" where
  "take_ve_clash G c public t u tx \<longleftrightarrow>
     (\<exists>ct_hash. check_verifiable_encryption G (tv_core c) = Some ct_hash \<and>
        clash (gposeidon G) [tv_public_tx_hash c, co_expiry (tc_order (tv_core c)), ct_hash] public) \<or>
     core_clash G (tv_core c) t u tx"

lemma take_ve_define_binds:
  assumes "api_law G" "hashes_fit G fe S" "viewing_law S" "order_leaf G fe S terms t u"
    and "take_ve_define G c = Some ()" "tv_public_hash c = gposeidon G [fe ptx, gconst G (unat x), n]"
    and "gprivate_tx_hash G [cu_hash G u, taker_leaf] [source_leaf, destination_leaf] b = fe ptx"
    and "\<not> take_ve_clash G c [fe ptx, gconst G (unat (x :: u64)), n] (order_assignment G fe t) u
           (taker_leaf, source_leaf, destination_leaf, b)"
  shows "exchanged G fe t u (taker_leaf, source_leaf, destination_leaf, b)
      (tc_taker_in (tv_core c)) (tc_source_output (tv_core c)) (tc_destination_output (tv_core c)) \<and>
    cu_owner G (tc_taker_in (tv_core c)) = gposeidon G [fe (op_taker_pk_fe t), tv_taker_nullifier_pk c] \<and>
    check_verifiable_encryption G (tv_core c) = Some n \<and>
    x = ot_expiry terms \<and> ot_take_mode terms = take_mode_verifiable"
proof -
  obtain ct_hash where core: "check_core G (tv_core c) (tv_public_tx_hash c) = Some ()"
    and mode: "co_take_mode (tc_order (tv_core c)) = gconst G (Suc 0)"
    and taker: "cu_owner G (tc_taker_in (tv_core c))
        = gposeidon G [co_taker_pk_fe (tc_order (tv_core c)), tv_taker_nullifier_pk c]"
    and ct: "check_verifiable_encryption G (tv_core c) = Some ct_hash"
    and public: "gposeidon G [tv_public_tx_hash c, co_expiry (tc_order (tv_core c)), ct_hash]
        = gposeidon G [fe ptx, gconst G (unat x), n]"
    using assms(5,6) by (auto simp: swap_define_simps Let_def bind_eq_Some_conv api_simps(1) [OF assms(1)]
        go_take_mode_verifiable_def)
  have no: "\<not> clash (gposeidon G) [tv_public_tx_hash c, co_expiry (tc_order (tv_core c)), ct_hash]
      [fe ptx, gconst G (unat x), n]"
    "\<not> core_clash G (tv_core c) (order_assignment G fe t) u (taker_leaf, source_leaf, destination_leaf, b)"
    using assms(8) ct by (simp_all add: take_ve_clash_def)
  have pub: "tv_public_tx_hash c = fe ptx" "co_expiry (tc_order (tv_core c)) = gconst G (unat x)" "ct_hash = n"
    using clashD [OF no(1) public] by simp_all
  note binds = check_core_binds [OF assms(1-4) core _ no(2)]
  have t: "op_expiry t = ot_expiry terms" "op_take_mode t = ot_take_mode terms"
    using assms(4) order_terms_inputs by (auto simp: order_leaf_def)
  show ?thesis
    using binds assms(7) pub mode taker ct t gconst_u64_inject [OF assms(1), of x "ot_expiry terms"]
      gconst_u64_1 [OF assms(1), of "ot_take_mode terms"]
    by (auto simp: take_mode_verifiable_def)
qed

section \<open>A cancelled order\<close>

definition cancel_clash ::
  "('f, 'u, 'k, 'n) gadgets \<Rightarrow> ('f, 'u) cancel_circuit \<Rightarrow> 'f list \<Rightarrow> 'f circuit_order \<Rightarrow> 'u \<Rightarrow>
   'f \<times> 'f \<Rightarrow> bool" where
  "cancel_clash G c public t u tx \<longleftrightarrow>
     clash (gposeidon G) [cc_private_tx_hash c, co_expiry (cc_order c), cc_maker_owner_pk_field c] public \<or>
     order_clash G (cc_order c) (cc_order_utxo c) t u \<or>
     (case tx of (source_leaf, b) \<Rightarrow> clash (tx_hash_of G)
        ([cu_hash G (cc_order_utxo c)], [cu_hash G (cc_source_output c)], cc_private_tx_blinding c)
        ([cu_hash G u], [source_leaf], b))"

lemma cancel_define_binds:
  assumes "api_law G" "hashes_fit G fe S" "viewing_law S" "order_leaf G fe S terms t u"
    and "cancel_define G c = Some ()"
    and "cc_public_input_hash c = gposeidon G [fe ptx, gconst G (unat x), m]"
    and "gprivate_tx_hash G [cu_hash G u] [source_leaf] b = fe ptx"
    and "\<not> cancel_clash G c [fe ptx, gconst G (unat (x :: u64)), m] (order_assignment G fe t) u
           (source_leaf, b)"
  shows "cu_hash G (cc_source_output c) = source_leaf \<and>
    pays G (cc_source_output c) (cu_asset G u) (cu_amount G u) (fe (op_maker_owner_hash t)) \<and>
    fe (op_maker_owner_hash t) = gposeidon G [m, cc_maker_nullifier_pk c] \<and> x = ot_expiry terms"
proof -
  obtain order_hash where checked:
    "check_order_utxo G (cc_order c) (cc_order_utxo c) (maker_address_fe G (cc_order c)) = Some order_hash"
    and source: "pays G (cc_source_output c) (cu_asset G (cc_order_utxo c))
        (cu_amount G (cc_order_utxo c)) (co_maker_owner_hash (cc_order c))"
    and maker: "gposeidon G [cc_maker_owner_pk_field c, cc_maker_nullifier_pk c]
        = co_maker_owner_hash (cc_order c)"
    and tx: "gprivate_tx_hash G [order_hash] [cu_hash G (cc_source_output c)] (cc_private_tx_blinding c)
        = cc_private_tx_hash c"
    and public: "gposeidon G [cc_private_tx_hash c, co_expiry (cc_order c), cc_maker_owner_pk_field c]
        = gposeidon G [fe ptx, gconst G (unat x), m]"
    using assms(5,6) by (auto simp: swap_define_simps bind_eq_Some_conv
        api_simps(1) [OF assms(1)] pays_def)
  have no: "\<not> clash (gposeidon G)
      [cc_private_tx_hash c, co_expiry (cc_order c), cc_maker_owner_pk_field c] [fe ptx, gconst G (unat x), m]"
    "\<not> order_clash G (cc_order c) (cc_order_utxo c) (order_assignment G fe t) u"
    "\<not> clash (tx_hash_of G)
      ([cu_hash G (cc_order_utxo c)], [cu_hash G (cc_source_output c)], cc_private_tx_blinding c)
      ([cu_hash G u], [source_leaf], b)"
    using assms(8) by (simp_all add: cancel_clash_def)
  have pub: "cc_private_tx_hash c = fe ptx" "co_expiry (cc_order c) = gconst G (unat x)"
    "cc_maker_owner_pk_field c = m"
    using clashD [OF no(1) public] by simp_all
  have leaf: "order_hash = cu_hash G (cc_order_utxo c)"
    using checked by (auto simp: check_order_utxo_def bind_eq_Some_conv)
  have leaves: "cu_hash G (cc_order_utxo c) = cu_hash G u" "cu_hash G (cc_source_output c) = source_leaf"
    using clashD [OF no(3)] tx leaf pub(1) assms(7) by (simp_all add: tx_hash_of_def)
  note order = order_utxo_binds [OF assms(1-4) checked _ no(2)]
  have "op_expiry t = ot_expiry terms"
    using assms(4) order_terms_inputs by (auto simp: order_leaf_def)
  then show ?thesis
    using order leaf leaves source maker pub gconst_u64_inject [OF assms(1), of x "ot_expiry terms"]
    by auto
qed

section \<open>A withdrawn escrow\<close>

definition escrow_leaf ::
  "('f, 'u, 'k, 'n) gadgets \<Rightarrow> (bytes \<Rightarrow> 'f) \<Rightarrow> ('x, 'p, 'm, 'd, 'r, 'i) sdk_env \<Rightarrow> 'p escrow_terms \<Rightarrow>
   escrow_terms_proof_input \<Rightarrow> 'u \<Rightarrow> bool" where
  "escrow_leaf G fe S terms t u \<longleftrightarrow>
     escrow_terms_proof_input_of S terms = Inr t \<and>
     (\<exists>h. escrow_input_data_hash S t = Inr h \<and> cu_data_hash G u = fe h)"

definition withdraw_clash ::
  "('f, 'u, 'k, 'n) gadgets \<Rightarrow> ('f, 'u) withdraw_circuit \<Rightarrow> 'f list \<Rightarrow> 'f circuit_escrow_terms \<Rightarrow> 'u \<Rightarrow>
   'f \<times> 'f \<Rightarrow> bool" where
  "withdraw_clash G c public t u tx \<longleftrightarrow>
     clash (gposeidon G) [wc_private_tx_hash c, ce_unlock (wc_terms c), wc_owner_pk_field c] public \<or>
     clash (cu_hash G) (wc_escrow_utxo c) u \<or>
     clash (gposeidon G) [ce_owner_hash (wc_terms c), ce_unlock (wc_terms c)] [ce_owner_hash t, ce_unlock t] \<or>
     (case tx of (source_leaf, b) \<Rightarrow> clash (tx_hash_of G)
        ([cu_hash G (wc_escrow_utxo c)], [cu_hash G (wc_source_output c)], wc_private_tx_blinding c)
        ([cu_hash G u], [source_leaf], b))"

lemma withdraw_define_binds:
  assumes "api_law G" "hashes_fit G fe S" "escrow_leaf G fe S terms t u"
    and "withdraw_define G c = Some ()"
    and "wc_public_input_hash c = gposeidon G [fe ptx, gconst G (unat x), m]"
    and "gprivate_tx_hash G [cu_hash G u] [source_leaf] b = fe ptx"
    and "\<not> withdraw_clash G c [fe ptx, gconst G (unat (x :: u64)), m] (escrow_terms_assignment fe t) u
           (source_leaf, b)"
  shows "cu_hash G (wc_source_output c) = source_leaf \<and>
    pays G (wc_source_output c) (cu_asset G u) (cu_amount G u) (fe (ep_owner_hash t)) \<and>
    fe (ep_owner_hash t) = gposeidon G [m, wc_nullifier_pk c] \<and> x = et_unlock_timestamp terms"
proof -
  let ?t = "escrow_terms_assignment fe t"
  have law: "fe_law G fe"
    by (rule hashes_fitD(1) [OF assms(2)])
  have checked: "cu_data_hash G (wc_escrow_utxo c) = circuit_escrow_data_hash G (wc_terms c)"
    and source: "pays G (wc_source_output c) (cu_asset G (wc_escrow_utxo c))
        (cu_amount G (wc_escrow_utxo c)) (ce_owner_hash (wc_terms c))"
    and owner: "gposeidon G [wc_owner_pk_field c, wc_nullifier_pk c] = ce_owner_hash (wc_terms c)"
    and tx: "gprivate_tx_hash G [cu_hash G (wc_escrow_utxo c)] [cu_hash G (wc_source_output c)]
        (wc_private_tx_blinding c) = wc_private_tx_hash c"
    and public: "gposeidon G [wc_private_tx_hash c, ce_unlock (wc_terms c), wc_owner_pk_field c]
        = gposeidon G [fe ptx, gconst G (unat x), m]"
    using assms(4,5) by (auto simp: escrow_define_simps check_escrow_utxo_def
        bind_eq_Some_conv api_simps(1) [OF assms(1)] pays_def)
  have no: "\<not> clash (gposeidon G)
      [wc_private_tx_hash c, ce_unlock (wc_terms c), wc_owner_pk_field c] [fe ptx, gconst G (unat x), m]"
    "\<not> clash (cu_hash G) (wc_escrow_utxo c) u"
    "\<not> clash (gposeidon G) [ce_owner_hash (wc_terms c), ce_unlock (wc_terms c)]
       [ce_owner_hash ?t, ce_unlock ?t]"
    "\<not> clash (tx_hash_of G)
      ([cu_hash G (wc_escrow_utxo c)], [cu_hash G (wc_source_output c)], wc_private_tx_blinding c)
      ([cu_hash G u], [source_leaf], b)"
    using assms(7) by (simp_all add: withdraw_clash_def)
  have pub: "wc_private_tx_hash c = fe ptx" "ce_unlock (wc_terms c) = gconst G (unat x)"
    "wc_owner_pk_field c = m"
    using clashD [OF no(1) public] by simp_all
  have leaves: "cu_hash G (wc_escrow_utxo c) = cu_hash G u" "cu_hash G (wc_source_output c) = source_leaf"
    using clashD [OF no(4)] tx pub(1) assms(6) by (simp_all add: tx_hash_of_def)
  have u: "wc_escrow_utxo c = u"
    by (rule clashD [OF no(2) leaves(1)])
  obtain h where t: "escrow_terms_proof_input_of S terms = Inr t"
    and h: "escrow_input_data_hash S t = Inr h" "cu_data_hash G u = fe h"
    using assms(3) unfolding escrow_leaf_def by blast
  have "gposeidon G [ce_owner_hash (wc_terms c), ce_unlock (wc_terms c)]
      = gposeidon G [ce_owner_hash ?t, ce_unlock ?t]"
    using checked u h circuit_escrow_data_hash_assignment [OF assms(2) h(1)]
    by (simp add: circuit_escrow_data_hash_def)
  then have "ce_owner_hash (wc_terms c) = ce_owner_hash ?t" "ce_unlock (wc_terms c) = ce_unlock ?t"
    using clashD [OF no(3)] by simp_all
  then show ?thesis
    using leaves u source owner pub escrow_terms_inputs(2) [OF t] fe_escrow_u64 [OF law]
      gconst_u64_inject [OF assms(1), of x "et_unlock_timestamp terms"]
    by (auto simp: escrow_terms_assignment_def)
qed

end
