(* ===== verification/Program_History.thy ===== *)
theory Program_History
  imports Runtime
begin

text \<open>
  Sequences of instructions of a program under a clock that does not go back, with other parties
  changing the chain in between; both programs run on them. The clock is the only part of the
  environment that an instruction of the sequence sets.
\<close>

section \<open>The clock\<close>

text \<open>The environment with the clock at \<open>t\<close>.\<close>

definition at :: "('x, 'v, 's, 'w) chain_env \<Rightarrow> i64 \<Rightarrow> ('x, 'v, 's, 'w) chain_env" where
  "at E t = E\<lparr>clock_unix_timestamp := Inr t\<rparr>"

lemma at_simps [simp]:
  "clock_unix_timestamp (at E t) = Inr t" "wire_of (at E t) = wire_of E"
  "spp_transact_accounts (at E t) = spp_transact_accounts E"
  "spp_invoke (at E t) = spp_invoke E"
  "find_program_address (at E t) = find_program_address E"
  "transact_serialize (at E t) = transact_serialize E"
  "poseidon_hashv (at E t) = poseidon_hashv E"
  "solana_owner_identity (at E t) = solana_owner_identity E"
  "ciphertext_hash (at E t) = ciphertext_hash E"
  "account_checks_ok (at E t) = account_checks_ok E"
  by (simp_all add: at_def)

lemma signed_transact_at [simp]: "signed_transact (at E t) = signed_transact E"
  by (intro ext) (simp add: signed_transact_def)

lemma groth16_accepts_at [simp]: "groth16_accepts (at E t) = groth16_accepts E"
  by (intro ext) (simp add: groth16_accepts_def at_def cong: option.case_cong)

section \<open>Histories\<close>

text \<open>
  A history lists the successful instructions with the time of each. \<open>chain_history run other w h w'\<close>:
  starting in \<open>w\<close>, the program \<open>run\<close> executes the instructions of \<open>h\<close> in order, between them other
  parties change the state as \<open>other\<close> allows, and the clock does not go back. A failed
  instruction is rolled back and does not appear.
\<close>

record chain_event =
  ev_time :: i64
  ev_accounts :: "account_view list"
  ev_data :: bytes

type_synonym 'w program_run = "i64 \<Rightarrow> account_view list \<Rightarrow> bytes \<Rightarrow> 'w \<Rightarrow> program_error + 'w"

inductive chain_history ::
  "'w program_run \<Rightarrow> ('w \<Rightarrow> 'w \<Rightarrow> bool) \<Rightarrow> 'w \<Rightarrow> chain_event list \<Rightarrow> 'w \<Rightarrow> bool"
  for run other where
  start: "chain_history run other w [] w"
| outside: "chain_history run other w h w1 \<Longrightarrow> other w1 w2 \<Longrightarrow> chain_history run other w h w2"
| instruction:
    "chain_history run other w h w1 \<Longrightarrow>
     (\<forall>e \<in> set h. sint (ev_time e) \<le> sint (ev_time ev)) \<Longrightarrow>
     run (ev_time ev) (ev_accounts ev) (ev_data ev) w1 = Inr w2 \<Longrightarrow>
     chain_history run other w (h @ [ev]) w2"

inductive_cases chain_history_snocE: "chain_history run other w (h @ [ev]) w'"

lemma chain_history_sorted:
  "chain_history run other w h w' \<Longrightarrow> sorted (map (sint \<circ> ev_time) h)"
  by (induction rule: chain_history.induct) (auto simp: sorted_append)

lemma chain_history_event:
  "chain_history run other w h w' \<Longrightarrow> ev \<in> set h \<Longrightarrow>
   \<exists>w1 w2. run (ev_time ev) (ev_accounts ev) (ev_data ev) w1 = Inr w2"
  by (induction rule: chain_history.induct) auto

text \<open>A predicate that other parties keep and that a history ends is ended by one of its instructions.\<close>

lemma chain_history_ends:
  assumes "chain_history run other w h w'" "I w" "\<not> I w'"
    and "\<And>w w'. other w w' \<Longrightarrow> I w \<Longrightarrow> I w'"
  shows "\<exists>h1 ev h2 w1 w2. h = h1 @ ev # h2 \<and>
     run (ev_time ev) (ev_accounts ev) (ev_data ev) w1 = Inr w2 \<and> I w1 \<and> \<not> I w2"
  using assms(1-3)
proof (induction rule: chain_history.induct)
  case (outside w h w1 w2)
  then show ?case
    using assms(4) by blast
next
  case (instruction w h w1 ev w2)
  show ?case
  proof (cases "I w1")
    case True
    show ?thesis
      by (intro exI [of _ h] exI [of _ ev] exI [of _ "[]"] exI [of _ w1] exI [of _ w2])
        (use instruction.hyps instruction.prems True in auto)
  next
    case False
    then obtain h1 e h2 v1 v2 where "h = h1 @ e # h2" "I v1" "\<not> I v2"
      "run (ev_time e) (ev_accounts e) (ev_data e) v1 = Inr v2"
      using instruction by blast
    then show ?thesis
      by (intro exI [of _ h1] exI [of _ e] exI [of _ "h2 @ [ev]"] exI [of _ v1] exI [of _ v2]) simp
  qed
qed auto

lemma chain_history_invariant:
  assumes "chain_history run other w h w'" "I w"
    and "\<And>w w'. other w w' \<Longrightarrow> I w \<Longrightarrow> I w'"
    and "\<And>t as d w w'. run t as d w = Inr w' \<Longrightarrow> I w \<Longrightarrow> I w'"
  shows "I w'"
  using chain_history_ends [where I = I, OF assms(1,2)] assms(3,4) by blast

end
