(* ===== verification/Demo_Env.thy ===== *)
theory Demo_Env
  imports Runtime
begin

text \<open>
  A concrete chain environment on which the witnesses of the program properties run: account
  checks that look at the flags, a clock at a given time, a proof system that accepts the public
  inputs a predicate names, and an SPP that records the bytes it is invoked with.
\<close>

definition demo_next_signer_mut ::
  "string \<Rightarrow> account_view list \<Rightarrow> program_error + account_view \<times> account_view list" where
  "demo_next_signer_mut l as = (case as of [] \<Rightarrow> Inl PE_NotEnoughAccountKeys
     | a # r \<Rightarrow> if is_signer a \<and> is_writable a then Inr (a, r) else Inl (OtherProgramError 0))"

definition demo_next_signer ::
  "string \<Rightarrow> account_view list \<Rightarrow> program_error + account_view \<times> account_view list" where
  "demo_next_signer l as = (case as of [] \<Rightarrow> Inl PE_NotEnoughAccountKeys
     | a # r \<Rightarrow> if is_signer a then Inr (a, r) else Inl (OtherProgramError 0))"

definition demo_remaining :: "account_view list \<Rightarrow> program_error + account_view list" where
  "demo_remaining as = (if as = [] then Inl PE_NotEnoughAccountKeys else Inr as)"

definition demo_pda :: "bytes list \<Rightarrow> bytes \<Rightarrow> bytes \<times> byte" where
  "demo_pda seeds pid = (take 32 (concat seeds @ replicate 32 0), 255)"

definition demo_spp_accounts ::
  "account_view list \<Rightarrow> bytes list \<Rightarrow> transact_accounts_error + account_view list" where
  "demo_spp_accounts as pdas =
     (if as = [] then Inl NotEnoughAccounts
      else if list_all (\<lambda>p. p \<in> set (map address as)) pdas then Inr as else Inl MissingPdaSigner)"

definition demo_env ::
  "i64 \<Rightarrow> (groth16_vk \<Rightarrow> bytes list \<Rightarrow> bool) \<Rightarrow> 'x transact_ix_data list \<Rightarrow>
   ('x, bool, account_view list, bytes list) chain_env" where
  "demo_env now accept tab =
     \<lparr>next_signer_mut = demo_next_signer_mut, next_signer = demo_next_signer,
      remaining = demo_remaining, clock_unix_timestamp = Inr now,
      poseidon_hashv = Some \<circ> concat, solana_owner_identity = Some, ciphertext_hash = Some,
      decompress_g1 = Some, decompress_g2 = Some,
      groth16_new = (\<lambda>a b c pis vk. Some (accept vk pis)),
      groth16_new_with_commitment = (\<lambda>a b c cm pok pis vk. Some (accept vk pis)),
      groth16_verify = (\<lambda>v. if v then Some () else None),
      find_program_address = demo_pda,
      spp_transact_accounts = demo_spp_accounts,
      spp_invoke = (\<lambda>n s tb seeds log. Inr (log @ [tb])),
      transact_serialize = table_put tab,
      wire_of = table_wire tab\<rparr>"

lemma demo_account_checks [simp]: "account_checks_ok (demo_env now accept tab)"
  by (auto simp: account_checks_ok_def demo_env_def demo_next_signer_mut_def demo_next_signer_def
      demo_remaining_def split: list.splits if_splits)

definition demo_signer :: "byte \<Rightarrow> account_view" where
  "demo_signer b = \<lparr>address = replicate 32 b, is_signer = True, is_writable = True\<rparr>"

definition demo_account :: "bytes \<Rightarrow> account_view" where
  "demo_account a = \<lparr>address = a, is_signer = False, is_writable = False\<rparr>"

text \<open>A transaction with the given expiry, nullifiers, outputs and messages, and a proof of zero
  bytes in front of the rest of the instruction data.\<close>

definition demo_transact ::
  "u64 \<Rightarrow> bytes list \<Rightarrow> (bytes \<times> bytes option) list \<Rightarrow> message_data list \<Rightarrow> unit transact_ix_data" where
  "demo_transact x ns os ms =
     \<lparr>expiry_unix_ts = x, private_tx_hash = replicate 32 7,
      inputs = map (\<lambda>n. \<lparr>nullifier_hash = n, input_rest = ()\<rparr>) ns,
      outputs = map (\<lambda>(h, d). \<lparr>utxo_hash = h, output_data = d, output_rest = ()\<rparr>) os,
      messages = ms, transact_rest = ()\<rparr>"

definition demo_proof_bytes :: bytes where
  "demo_proof_bytes = replicate 32 0 @ replicate 64 0 @ replicate 32 0"

lemma take_array_replicate [simp]: "take_array n (replicate n b @ r) = Some (replicate n b, r)"
  by (simp add: take_array_def)

lemma take_u64_to_le_bytes [simp]: "take_u64 (to_le_bytes x @ r) = Some (x, r)"
  using le_u64.get_put [of x] by simp

lemmas demo_simps = demo_env_def demo_next_signer_mut_def demo_next_signer_def demo_remaining_def
  demo_pda_def demo_spp_accounts_def demo_signer_def demo_account_def

lemma demo_address_lengths [simp]:
  "length (address (demo_signer b)) = 32" "length (address (demo_account (fst (demo_pda ss i)))) = 32"
  by (simp_all add: demo_simps)

text \<open>What the environment accepts when its proof system accepts every public input.\<close>

lemma demo_env_simps [simp]:
  "wire_of (demo_env now accept tab) = table_wire tab"
  "clock_unix_timestamp (demo_env now accept tab) = Inr now"
  "poseidon_hashv (demo_env now accept tab) = Some \<circ> concat"
  "solana_owner_identity (demo_env now accept tab) = Some"
  "ciphertext_hash (demo_env now accept tab) = Some"
  "transact_serialize (demo_env now accept tab) = table_put tab"
  by (simp_all add: demo_env_def)

lemma demo_accepts_iff:
  "groth16_accepts (demo_env now accept tab) p h vk \<longleftrightarrow>
     (cp_commitment p = None) = (vk_commitment vk = None) \<and> accept vk [h]"
  by (cases "cp_commitment p"; cases "vk_commitment vk")
    (auto simp: groth16_accepts_def demo_env_def split: if_splits)

lemma demo_accepts [simp]:
  "groth16_accepts (demo_env now (\<lambda>_ _. True) tab) p h vk \<longleftrightarrow>
     (cp_commitment p = None) = (vk_commitment vk = None)"
  by (simp add: demo_accepts_iff)

lemma demo_signed:
  "fst (demo_pda [seed] pid) \<in> set (map address as) \<Longrightarrow>
   signed_transact (demo_env now accept tab) seed pid as tb w (w @ [tb])"
  by (auto simp: signed_transact_def demo_env_def demo_spp_accounts_def)

end
