(* ===== verification/Demo_Sdk.thy ===== *)
theory Demo_Sdk
  imports Sdk_Env Demo_Env
begin

text \<open>
  A concrete SDK environment on which the witnesses of the SDK properties run: hashes concatenate
  their inputs, a mint is an address with its id, a commitment is the concatenation of what it
  commits to, and the cipher inverts every byte.
\<close>

definition demo_commit ::
  "bytes \<Rightarrow> bytes \<Rightarrow> bytes \<times> u64 \<Rightarrow> u64 \<Rightarrow> bytes \<Rightarrow> bytes \<Rightarrow> u16 \<Rightarrow> bytes option" where
  "demo_commit owner npk asset amount blinding data_hash tree =
     Some (owner @ npk @ fst asset @ to_be_bytes amount @ blinding @ data_hash @
           le_bytes 2 (unat tree))"

definition demo_output_hash ::
  "(bytes, bytes \<times> u64, bytes option) output_utxo \<Rightarrow> u16 \<Rightarrow> bytes option" where
  "demo_output_hash u tree = (case out_owner_address u of None \<Rightarrow> None
     | Some a \<Rightarrow> demo_commit (signing_pubkey a) (nullifier_pubkey a) (out_asset u) (out_amount u)
         (out_blinding u) (case out_data_hash u of None \<Rightarrow> replicate 32 0 | Some h \<Rightarrow> h) tree)"

text \<open>A proof input is the output with its tree.\<close>

type_synonym demo_input = "(bytes, bytes \<times> u64, bytes option) output_utxo \<times> u16"

definition demo_proof_input ::
  "(bytes, bytes \<times> u64, bytes option) output_utxo \<Rightarrow> u16 \<Rightarrow> demo_input option" where
  "demo_proof_input u tree = (if out_owner_address u = None then None else Some (u, tree))"

definition demo_sdk ::
  "'x transact_ix_data list \<Rightarrow> ('x, bytes, bytes \<times> u64, unit, bytes option, demo_input) sdk_env" where
  "demo_sdk tab =
     \<lparr>sdk_wire = table_wire tab, sdk_poseidon = Some \<circ> concat, sdk_hashv = Some \<circ> concat,
      hash_bytes = Some, owner_identity = Some, compressed_address_hash = (\<lambda>a b. Some (a @ b)),
      viewing_from_bytes = Some, from_ed25519 = id, owner_hash = (\<lambda>a. Some (signing_pubkey a @ nullifier_pubkey a)),
      owner_proof_input_hash = Some, confidential_view_tag = Some, nullifier_key_pubkey = Some,
      nullifier_key_nullifier = (\<lambda>k h b. Some (take 32 (k @ h @ b))),
      mint_new = Pair, mint_asset = fst, mint_sol = (replicate 32 0, 1),
      default_output = \<lparr>out_owner_address = None, out_asset = (replicate 32 0, 1), out_amount = 0,
         out_blinding = replicate 32 0, out_data_hash = None, out_ring_data_hash = None,
         out_ring_program_id = None, out_rest = None\<rparr>,
      with_utxo_data = (\<lambda>u d h. u\<lparr>out_data_hash := Some h, out_rest := Some d\<rparr>),
      output_hash = demo_output_hash, default_data = (),
      utxo_commit = (\<lambda>u npk h rh t. demo_commit (utxo_owner u) npk (utxo_asset u) (utxo_amount u)
         (utxo_blinding u) h t),
      proof_input = demo_proof_input, proof_input_hash = (\<lambda>(u, t). demo_output_hash u t),
      private_tx_hash_of = (\<lambda>is os b. Some (concat is @ concat os @ b)),
      derive_output_blinding_seed = (\<lambda>n s. Some (n @ s)),
      derive_private_tx_blinding = (\<lambda>n s. Some (n @ s @ [0])),
      derive_transact_output_blinding = (\<lambda>n s i. Some (n @ s @ le_bytes 4 (unat i))),
      symmetric_apply = (\<lambda>k i m. Some (map ((-) 255) m)), merge_info = byte_string ''TSPP/merge'',
      sdk_ciphertext_hash = Some, pda_of = demo_pda,
      nullifier_pda_accounts = (\<lambda>tree ns. map (\<lambda>n. meta_new n False) ns),
      shielded_pool_program_id = replicate 32 9\<rparr>"

lemma demo_sdk_simps [simp]:
  "sdk_wire (demo_sdk tab) = table_wire tab"
  "sdk_poseidon (demo_sdk tab) = Some \<circ> concat"
  "sdk_hashv (demo_sdk tab) = Some \<circ> concat"
  "hash_bytes (demo_sdk tab) = Some"
  "owner_identity (demo_sdk tab) = Some"
  "compressed_address_hash (demo_sdk tab) = (\<lambda>a b. Some (a @ b))"
  "viewing_from_bytes (demo_sdk tab) = Some"
  "from_ed25519 (demo_sdk tab) = id"
  "owner_hash (demo_sdk tab) = (\<lambda>a. Some (signing_pubkey a @ nullifier_pubkey a))"
  "owner_proof_input_hash (demo_sdk tab) = Some"
  "confidential_view_tag (demo_sdk tab) = Some"
  "nullifier_key_pubkey (demo_sdk tab) = Some"
  "nullifier_key_nullifier (demo_sdk tab) = (\<lambda>k h b. Some (take 32 (k @ h @ b)))"
  "mint_new (demo_sdk tab) = Pair"
  "mint_asset (demo_sdk tab) = fst"
  "mint_sol (demo_sdk tab) = (replicate 32 0, 1)"
  "with_utxo_data (demo_sdk tab) = (\<lambda>u d h. u\<lparr>out_data_hash := Some h, out_rest := Some d\<rparr>)"
  "output_hash (demo_sdk tab) = demo_output_hash"
  "default_data (demo_sdk tab) = ()"
  "utxo_commit (demo_sdk tab) = (\<lambda>u npk h rh t. demo_commit (utxo_owner u) npk (utxo_asset u) (utxo_amount u) (utxo_blinding u) h t)"
  "proof_input (demo_sdk tab) = demo_proof_input"
  "proof_input_hash (demo_sdk tab) = (\<lambda>(u, t). demo_output_hash u t)"
  "private_tx_hash_of (demo_sdk tab) = (\<lambda>is os b. Some (concat is @ concat os @ b))"
  "derive_output_blinding_seed (demo_sdk tab) = (\<lambda>n s. Some (n @ s))"
  "derive_private_tx_blinding (demo_sdk tab) = (\<lambda>n s. Some (n @ s @ [0]))"
  "derive_transact_output_blinding (demo_sdk tab) = (\<lambda>n s i. Some (n @ s @ le_bytes 4 (unat i)))"
  "symmetric_apply (demo_sdk tab) = (\<lambda>k i m. Some (map ((-) 255) m))"
  "sdk_ciphertext_hash (demo_sdk tab) = Some"
  "pda_of (demo_sdk tab) = demo_pda"
  "nullifier_pda_accounts (demo_sdk tab) = (\<lambda>tree ns. map (\<lambda>n. meta_new n False) ns)"
  by (simp_all add: demo_sdk_def)

abbreviation demo_S :: "(unit, bytes, bytes \<times> u64, unit, bytes option, demo_input) sdk_env" where
  "demo_S \<equiv> demo_sdk []"

lemma demo_sdk_laws [simp]:
  "output_laws (demo_sdk tab)" "commit_law (demo_sdk tab)" "cipher_law (demo_sdk tab)"
  "mint_law (demo_sdk tab)" "proof_input_law (demo_sdk tab)" "viewing_law (demo_sdk tab)"
  by (auto simp: output_laws_def commit_law_def cipher_law_def mint_law_def proof_input_law_def
      viewing_law_def demo_sdk_def
      demo_output_hash_def demo_proof_input_def comp_def split: if_splits)

text \<open>An output that hashes is a proof input with that hash.\<close>

lemma demo_input_of_hash [simp]:
  "demo_output_hash u t \<noteq> None \<Longrightarrow> demo_proof_input u t = Some (u, t)"
  by (auto simp: demo_output_hash_def demo_proof_input_def split: option.splits)

end
