(* ===== verification/Demo_Gadgets.thy ===== *)
theory Demo_Gadgets
  imports Circuit_Gadgets Demo_Sdk
begin

text \<open>
  Gadgets that fit the concrete SDK environment: a field element is a byte string, a constant its
  32-byte big-endian encoding, and hashes concatenate. The witnesses of the circuit properties run
  on them.
\<close>

definition demo_const :: "nat \<Rightarrow> bytes" where
  "demo_const n = rev (le_bytes 32 n)"

definition demo_gadgets :: "(bytes, demo_input, bytes, unit) gadgets" where
  "demo_gadgets =
     \<lparr>gconst = demo_const, assert_is_equal = (=), assert_is_different = (\<noteq>),
      assert_is_boolean = (\<lambda>a. a = demo_const 0 \<or> a = demo_const 1),
      to_binary = (\<lambda>a n. \<exists>k < 2 ^ n. a = demo_const k),
      gposeidon = concat, ghash_bytes = map last,
      gprivate_tx_hash = (\<lambda>is os b. concat is @ concat os @ b),
      assert_transaction_blindings = (\<lambda>n s b x y. b = n @ s @ [0] \<and> x = n @ (n @ s) @ le_bytes 4 0 \<and>
         y = n @ (n @ s) @ le_bytes 4 1),
      cu_owner = (\<lambda>(u, t). case out_owner_address u of None \<Rightarrow> []
         | Some a \<Rightarrow> signing_pubkey a @ nullifier_pubkey a),
      cu_asset = (\<lambda>(u, t). fst (out_asset u)),
      cu_amount = (\<lambda>(u, t). demo_const (unat (out_amount u))),
      cu_blinding = (\<lambda>(u, t). out_blinding u),
      cu_data_hash = (\<lambda>(u, t). case out_data_hash u of None \<Rightarrow> demo_const 0 | Some h \<Rightarrow> h),
      assert_default_ring = (\<lambda>(u, t). out_ring_data_hash u = None \<and> out_ring_program_id u = None),
      cu_hash = (\<lambda>(u, t). case demo_output_hash u t of None \<Rightarrow> [] | Some h \<Rightarrow> h),
      field_to_bytes = (\<lambda>x n. Some (map (\<lambda>b. demo_const (unat b)) (drop (32 - n) x))),
      key_schedule = (\<lambda>k info n. (k, ())),
      ctr_encrypt = (\<lambda>k n m. map (\<lambda>x. demo_const (unat (255 - last x))) m)\<rparr>"

lemma demo_gadget_simps [simp]:
  "gconst demo_gadgets = demo_const"
  "gposeidon demo_gadgets = concat"
  "gprivate_tx_hash demo_gadgets = (\<lambda>is os b. concat is @ concat os @ b)"
  "cu_hash demo_gadgets = (\<lambda>(u, t). case demo_output_hash u t of None \<Rightarrow> [] | Some h \<Rightarrow> h)"
  by (simp_all add: demo_gadgets_def)

lemma demo_const_inject: "j < 2 ^ 64 \<Longrightarrow> k < 2 ^ 64 \<Longrightarrow> demo_const j = demo_const k \<Longrightarrow> j = k"
proof -
  assume jk: "j < 2 ^ 64" "k < 2 ^ 64" and eq: "demo_const j = demo_const k"
  have "le_val (le_bytes 32 j) = le_val (le_bytes 32 k)"
    using eq by (simp add: demo_const_def)
  then show "j = k"
    using jk by (simp add: le_val_le_bytes)
qed

lemma demo_api: "api_law demo_gadgets"
  unfolding api_law_def demo_gadgets_def using demo_const_inject by fastforce

lemma demo_const_be_val: "length bs = 32 \<Longrightarrow> demo_const (be_val bs) = bs"
  using le_bytes_le_val [of "rev bs"] by (simp add: demo_const_def be_val_def)

lemma last_demo_const: "last (demo_const (unat (b :: byte))) = b"
proof -
  have "le_bytes 32 (unat b) = of_nat (unat b mod 256) # le_bytes 31 (unat b div 256)"
    by (simp only: le_bytes.simps [of 31, symmetric, simplified])
  moreover have "unat b < 256"
    using unsigned_less [of b] by simp
  ultimately show ?thesis
    by (simp add: demo_const_def)
qed

lemma ghash_demo_bytes: "ghash_bytes demo_gadgets (gbytes demo_gadgets bs) = bs"
  by (simp add: gbytes_def demo_gadgets_def comp_def last_demo_const)

lemma demo_fe: "fe_law demo_gadgets id"
  by (simp add: fe_law_def demo_const_be_val)

lemma demo_poseidon_fit: "poseidon_fit demo_gadgets id (Some \<circ> concat)"
  by (simp add: poseidon_fit_def)

lemma demo_hashes_fit: "hashes_fit demo_gadgets id (demo_sdk tab)"
  unfolding hashes_fit_def
  using demo_fe demo_poseidon_fit by (auto simp: ghash_demo_bytes)

lemma demo_utxos_fit: "utxos_fit demo_gadgets id (demo_sdk tab) id"
  by (auto simp: utxos_fit_def utxo_fits_def demo_gadgets_def demo_proof_input_def
      split: if_splits option.splits)

lemma demo_blindings_fit: "blindings_fit demo_gadgets id (demo_sdk tab)"
  by (simp add: blindings_fit_def demo_gadgets_def)

lemma canonical_replicate: "unat b < 48 \<Longrightarrow> canonical (replicate 32 b)"
proof -
  assume b: "unat b < 48"
  have "255 * le_val (replicate n b) + unat b = unat b * 256 ^ n" for n
    by (induction n) (simp_all add: algebra_simps)
  from this [of 32] have "255 * le_val (replicate 32 b) \<le> unat b * 256 ^ 32"
    by linarith
  moreover have "unat b * 256 ^ 32 \<le> 47 * (256 ^ 32 :: nat)"
    using b by (intro mult_right_mono) simp_all
  ultimately have "255 * le_val (replicate 32 b) < 255 * bn254_r"
    by (simp add: bn254_r_def)
  then show ?thesis
    by (simp add: canonical_def be_val_def)
qed

lemma demo_canonical: "canonical (replicate 32 1)" "canonical (replicate 32 9)"
  by (rule canonical_replicate, simp)+

lemma demo_cipher_fit: "cipher_fit demo_gadgets id (demo_sdk tab)"
proof -
  have amount: "drop 24 (demo_const (unat x)) = to_be_bytes x" for x :: u64
    using demo_const_be_val [of "replicate 24 0 @ to_be_bytes x"] by (simp add: byte_simps)
  have cipher: "map (\<lambda>y. demo_const (unat (255 - last y))) (gbytes demo_gadgets m)
      = gbytes demo_gadgets (map ((-) 255) m)" for m
    by (simp add: gbytes_def comp_def last_demo_const)
  show ?thesis
    unfolding cipher_fit_def
    using amount cipher
    by (auto simp: demo_sdk_def demo_gadgets_def gbytes_def ghash_demo_bytes comp_def last_demo_const)
qed

end
