(* ===== verification/Pool.thy ===== *)
theory Pool
  imports Circuit_Soundness Program_History Demo_Gadgets
begin

text \<open>
  What the two programs rely on of the shielded pool itself: which leaves are unspent, and what a
  transaction that SPP runs does to them. SPP is not part of the repository; its documented promise
  is the predicate \<open>pool_law\<close>.
\<close>

text \<open>\<open>live\<close> is the set of unspent leaves; \<open>leaves_of\<close> gives, for the bytes of a transaction, the input
  leaves, the output leaves and the blinding that SPP's own proof is about.\<close>

record ('w, 'f) pool =
  live :: "'w \<Rightarrow> 'f set"
  leaves_of :: "bytes \<Rightarrow> 'f list \<times> 'f list \<times> 'f"

text \<open>SPP checks that the transaction hash is the one of these leaves, spends input leaves and no
  others, and adds the output leaves; a zero leaf is an empty slot.\<close>

definition pool_law ::
  "('f, 'u, 'k, 'n) gadgets \<Rightarrow> (bytes \<Rightarrow> 'f) \<Rightarrow> ('x, 'v, 's, 'w) chain_env \<Rightarrow>
   (account_view list \<Rightarrow> bytes \<Rightarrow> 'w \<Rightarrow> 'w \<Rightarrow> bool) \<Rightarrow> ('w, 'f) pool \<Rightarrow> bool" where
  "pool_law G fe E call P \<longleftrightarrow>
     (\<forall>as tb w w' t. call as tb w w' \<longrightarrow> transact_serialize E t = Some tb \<longrightarrow>
        tx_hash_of G (leaves_of P tb) = fe (private_tx_hash t) \<and>
        live P w - live P w' \<subseteq> set (fst (leaves_of P tb)) \<and>
        set (fst (snd (leaves_of P tb))) \<subseteq> insert (gconst G 0) (live P w'))"

lemma pool_lawD:
  assumes "pool_law G fe E call P" "call as tb w w'" "transact_serialize E t = Some tb"
  shows "tx_hash_of G (leaves_of P tb) = fe (private_tx_hash t)"
    "x \<in> live P w \<Longrightarrow> x \<notin> live P w' \<Longrightarrow> x \<in> set (fst (leaves_of P tb))"
    "x \<in> set (fst (snd (leaves_of P tb))) \<Longrightarrow> x \<in> insert (gconst G 0) (live P w')"
  using assms unfolding pool_law_def by blast+

text \<open>SPP publishes the nullifier of every leaf that it spends and takes none twice: \<open>gone\<close> is the set of
  leaves with a published nullifier. It only grows, holds whatever was spent, and nothing in it is live,
  even if the same commitment is added once more.\<close>

definition nullifier_law ::
  "(account_view list \<Rightarrow> bytes \<Rightarrow> 'w \<Rightarrow> 'w \<Rightarrow> bool) \<Rightarrow> ('w \<Rightarrow> 'w \<Rightarrow> bool) \<Rightarrow> ('w, 'f) pool \<Rightarrow>
   ('w \<Rightarrow> 'f set) \<Rightarrow> bool" where
  "nullifier_law call other P gone \<longleftrightarrow>
     (\<forall>v. live P v \<inter> gone v = {}) \<and> (\<forall>v v'. other v v' \<longrightarrow> gone v \<subseteq> gone v') \<and>
     (\<forall>as tb v v'. call as tb v v' \<longrightarrow> gone v \<subseteq> gone v' \<and> live P v - live P v' \<subseteq> gone v')"

text \<open>Two transactions that differ in more than empty slots and have the same hash.\<close>

definition slots ::
  "('f, 'u, 'k, 'n) gadgets \<Rightarrow> 'f list \<times> 'f list \<times> 'f \<Rightarrow> 'f list \<times> 'f list \<times> 'f" where
  "slots G tx = (case tx of (ins, outs, b) \<Rightarrow>
     (filter (\<lambda>x. x \<noteq> gconst G 0) ins, filter (\<lambda>x. x \<noteq> gconst G 0) outs, b))"

definition tx_clash ::
  "('f, 'u, 'k, 'n) gadgets \<Rightarrow> 'f list \<times> 'f list \<times> 'f \<Rightarrow> 'f list \<times> 'f list \<times> 'f \<Rightarrow> bool" where
  "tx_clash G tx tx' \<longleftrightarrow> slots G tx \<noteq> slots G tx' \<and> tx_hash_of G tx = tx_hash_of G tx'"

lemma tx_clash_self [simp]: "\<not> tx_clash G tx tx"
  by (simp add: tx_clash_def)

lemma slots_sets:
  assumes "slots G (ins, outs, b) = slots G (ins', outs', b')"
  shows "x \<noteq> gconst G 0 \<Longrightarrow> x \<in> set ins \<longleftrightarrow> x \<in> set ins'"
    "x \<noteq> gconst G 0 \<Longrightarrow> x \<in> set outs \<longleftrightarrow> x \<in> set outs'"
proof -
  have "set (filter (\<lambda>x. x \<noteq> gconst G 0) ins) = set (filter (\<lambda>x. x \<noteq> gconst G 0) ins')"
    "set (filter (\<lambda>x. x \<noteq> gconst G 0) outs) = set (filter (\<lambda>x. x \<noteq> gconst G 0) outs')"
    using assms by (simp_all add: slots_def)
  then show "x \<noteq> gconst G 0 \<Longrightarrow> x \<in> set ins \<longleftrightarrow> x \<in> set ins'"
    "x \<noteq> gconst G 0 \<Longrightarrow> x \<in> set outs \<longleftrightarrow> x \<in> set outs'"
    by auto
qed

text \<open>Without such a collision, a leaf that a transaction spends is an input of the transaction that was
  proved, and the proved outputs are created.\<close>

lemma proved_tx:
  assumes "pool_law G fe E call P" "call as tb w w'" "transact_serialize E t = Some tb"
    and "tx_hash_of G (ins, outs, b) = fe (private_tx_hash t)"
    and "\<not> tx_clash G (ins, outs, b) (leaves_of P tb)" "x \<in> live P w" "x \<notin> live P w'" "x \<noteq> gconst G 0"
  shows "x \<in> set ins" "set outs \<subseteq> insert (gconst G 0) (live P w')"
proof -
  obtain ins' outs' b' where tx: "leaves_of P tb = (ins', outs', b')"
    by (cases "leaves_of P tb")
  have eq: "slots G (ins, outs, b) = slots G (ins', outs', b')"
    using assms(4,5) pool_lawD(1) [OF assms(1-3)] tx by (simp add: tx_clash_def)
  show "x \<in> set ins"
    using slots_sets(1) [OF eq assms(8)] pool_lawD(2) [OF assms(1-3,6,7)] tx by simp
  show "set outs \<subseteq> insert (gconst G 0) (live P w')"
  proof
    fix y assume "y \<in> set outs"
    then show "y \<in> insert (gconst G 0) (live P w')"
      using slots_sets(2) [OF eq, of y] pool_lawD(3) [OF assms(1-3), of y] tx by (cases "y = gconst G 0") auto
  qed
qed

text \<open>A pool that holds one leaf and, once anything has run, another one, as the witnesses need it.\<close>

definition demo_pool :: "'f \<Rightarrow> 'f \<Rightarrow> 'f \<Rightarrow> (bytes list, 'f) pool" where
  "demo_pool leaf refund b = \<lparr>live = (\<lambda>w. if w = [] then {leaf} else {refund}),
     leaves_of = (\<lambda>_. ([leaf], [refund], b))\<rparr>"

lemma demo_pool_law:
  assumes "gprivate_tx_hash G [leaf] [refund] b = fe (private_tx_hash t)"
  shows "pool_law G fe (demo_env now accept [t]) (signed_transact (demo_env now accept [t]) seed pid)
     (demo_pool leaf refund b)"
  using assms
  by (auto simp: pool_law_def demo_pool_def tx_hash_of_def table_put_def signed_transact_def demo_env_def
      split: if_splits)

lemma at_demo_env: "at (demo_env now accept tab) t = demo_env t accept tab"
  by (simp add: at_def demo_env_def)

lemma demo_const_0: "demo_const 0 = replicate 32 0"
  using demo_const_be_val [of "replicate 32 0"] be_val_zeros_append [of 32 "[]"] by (simp add: be_val_def)

end
