(* ===== verification/Escrow_Create.thy ===== *)
theory Escrow_Create
  imports Escrow_Shared Escrow_Keys
begin

text \<open>
  The escrow instruction of the timelock escrow program
  (\<open>escrow-program/program/src/instructions/escrow.rs\<close>): the creator locks assets in an escrow
  UTXO; the proof's public input is the hash of the SPP transaction.
\<close>

section \<open>Data\<close>

record escrow_proof =
  escrow_proof_a :: bytes
  escrow_proof_b :: bytes
  escrow_proof_c :: bytes

record 'x escrow_ix_data =
  es_proof :: escrow_proof
  es_transact :: "'x transact_ix_data"

definition put_escrow_proof :: "'x wire \<Rightarrow> escrow_proof \<Rightarrow> bytes option" where
  "put_escrow_proof W p = do {
     a \<leftarrow> put_array W (escrow_proof_a p);
     b \<leftarrow> put_array W (escrow_proof_b p);
     c \<leftarrow> put_array W (escrow_proof_c p);
     Some (a @ b @ c)
   }"

definition get_escrow_proof :: "'x wire \<Rightarrow> bytes \<Rightarrow> (escrow_proof \<times> bytes) option" where
  "get_escrow_proof W bs = do {
     (a, bs) \<leftarrow> get_array W 32 bs;
     (b, bs) \<leftarrow> get_array W 64 bs;
     (c, bs) \<leftarrow> get_array W 32 bs;
     Some (\<lparr>escrow_proof_a = a, escrow_proof_b = b, escrow_proof_c = c\<rparr>, bs)
   }"

definition put_escrow_ix :: "'x wire \<Rightarrow> 'x escrow_ix_data \<Rightarrow> bytes option" where
  "put_escrow_ix W d = do {
     p \<leftarrow> put_escrow_proof W (es_proof d);
     t \<leftarrow> put_transact W (es_transact d);
     Some (p @ t)
   }"

definition get_escrow_ix :: "'x wire \<Rightarrow> bytes \<Rightarrow> ('x escrow_ix_data \<times> bytes) option" where
  "get_escrow_ix W bs = do {
     (p, bs) \<leftarrow> get_escrow_proof W bs;
     (t, bs) \<leftarrow> get_transact W bs;
     Some (\<lparr>es_proof = p, es_transact = t\<rparr>, bs)
   }"

definition escrow_proof_wf :: "escrow_proof \<Rightarrow> bool" where
  "escrow_proof_wf p \<longleftrightarrow>
     length (escrow_proof_a p) = 32 \<and> length (escrow_proof_b p) = 64 \<and> length (escrow_proof_c p) = 32"

interpretation escrow_proof: codec "put_escrow_proof W" "get_escrow_proof W"
  "\<lambda>p. wincode_ok W \<and> escrow_proof_wf p" for W
  by unfold_locales
    (auto simp: put_escrow_proof_def get_escrow_proof_def escrow_proof_wf_def codec_simps
      bind_eq_Some_conv)

interpretation escrow_ix: codec "put_escrow_ix W" "get_escrow_ix W"
  "\<lambda>d. wincode_ok W \<and> transact_ok W \<and> escrow_proof_wf (es_proof d)" for W
  by unfold_locales
    (auto simp: put_escrow_ix_def get_escrow_ix_def codec_simps bind_eq_Some_conv
      escrow_proof.get_put [simplified])

section \<open>The handler\<close>

definition process_escrow_ix ::
  "('x, 'v, 's, 'w) chain_env \<Rightarrow> account_view list \<Rightarrow> bytes \<Rightarrow> 'w \<Rightarrow> program_error + 'w" where
  "process_escrow_ix E accounts data w =
     bindR (next_signer_mut E ''creator'' accounts) (\<lambda>(_, iter).
     bindR (ok_or (escrow_program_error Escrow_InvalidInstructionData)
              (deserialize_exact (get_escrow_ix (wire_of E)) data)) (\<lambda>ix.
     let proof = es_proof ix; transact = es_transact ix in
     bindR (escrow_verify_groth16 E
              \<lparr>cp_a = escrow_proof_a proof, cp_b = escrow_proof_b proof,
               cp_c = escrow_proof_c proof, cp_commitment = None\<rparr>
              (private_tx_hash transact) escrow_vk) (\<lambda>_.
     bindR (ok_or (escrow_program_error Escrow_InvalidInstructionData)
              (transact_serialize E transact)) (\<lambda>transact_bytes.
     bindR (remaining E iter) (\<lambda>spp_accounts.
     escrow_cpi_spp_transact_signed E spp_accounts transact_bytes w)))))"

section \<open>What an escrow guarantees\<close>

definition escrow_points :: "escrow_proof \<Rightarrow> compressed_groth16_proof" where
  "escrow_points p = \<lparr>cp_a = escrow_proof_a p, cp_b = escrow_proof_b p, cp_c = escrow_proof_c p,
                      cp_commitment = None\<rparr>"

definition escrow_authorised ::
  "('x, 'v, 's, 'w) chain_env \<Rightarrow> account_view list \<Rightarrow> bytes \<Rightarrow> account_view list \<Rightarrow> bytes \<Rightarrow> bool" where
  "escrow_authorised E as d rest tb \<longleftrightarrow>
     (\<exists>creator iter ix.
        next_signer_mut E ''creator'' as = Inr (creator, iter) \<and>
        get_escrow_ix (wire_of E) d = Some (ix, []) \<and>
        groth16_accepts E (escrow_points (es_proof ix)) (private_tx_hash (es_transact ix)) escrow_vk \<and>
        transact_serialize E (es_transact ix) = Some tb \<and>
        remaining E iter = Inr rest)"

lemma process_escrow_ix_ok:
  "process_escrow_ix E as d w = Inr w' \<longleftrightarrow>
     (\<exists>rest tb. escrow_authorised E as d rest tb \<and> escrow_signed E rest tb w w')"
  by (fastforce simp: process_escrow_ix_def escrow_authorised_def escrow_points_def Let_def
      result_simps deserialize_exact_Some)

lemma escrow_authorised_unique:
  "escrow_authorised E as d rest tb \<Longrightarrow> escrow_authorised E as d rest' tb' \<Longrightarrow>
   rest' = rest \<and> tb' = tb"
  by (auto simp: escrow_authorised_def)

interpretation escrow_ix_handler:
  cpi_handler "process_escrow_ix E" "escrow_authorised E" "escrow_signed E" for E
  by unfold_locales
    (auto simp: process_escrow_ix_ok dest: escrow_authorised_unique signed_transact_unique)

end
