(* ===== verification/Escrow_Program.thy ===== *)
theory Escrow_Program
  imports Escrow_Create Escrow_Withdraw Program_History
begin

text \<open>
  The entry point of the timelock escrow program (\<open>escrow-program/program/src/lib.rs\<close>): the id
  check, the tag byte and the dispatch, and the abstract contract of the whole program.
\<close>

section \<open>Dispatch\<close>

definition escrow_process_instruction ::
  "('x, 'v, 's, 'w) chain_env \<Rightarrow> bytes \<Rightarrow> account_view list \<Rightarrow> bytes \<Rightarrow> 'w \<Rightarrow> program_error + 'w" where
  "escrow_process_instruction E program_id accounts instruction_data w =
     (if program_id \<noteq> escrow_id then Inl PE_IncorrectProgramId
      else case instruction_data of
        [] \<Rightarrow> Inl PE_InvalidInstructionData
      | ix_tag # ix_data \<Rightarrow>
          if ix_tag = escrow_tag_escrow then process_escrow_ix E accounts ix_data w
          else if ix_tag = escrow_tag_withdraw then process_withdraw_ix E accounts ix_data w
          else Inl PE_InvalidInstructionData)"

section \<open>The contract of the program\<close>

lemmas escrow_tag_defs = escrow_tag_escrow_def escrow_tag_withdraw_def

definition escrow_program_authorised ::
  "('x, 'v, 's, 'w) chain_env \<Rightarrow> account_view list \<Rightarrow> bytes \<Rightarrow> account_view list \<Rightarrow> bytes \<Rightarrow> bool" where
  "escrow_program_authorised E as data rest tb \<longleftrightarrow>
     (case data of [] \<Rightarrow> False
      | t # d \<Rightarrow>
          t = escrow_tag_escrow \<and> escrow_authorised E as d rest tb \<or>
          t = escrow_tag_withdraw \<and> withdraw_authorised E as d rest tb)"

lemma escrow_process_ok:
  "escrow_process_instruction E escrow_id as data w = Inr w' \<longleftrightarrow>
     (\<exists>rest tb. escrow_program_authorised E as data rest tb \<and> escrow_signed E rest tb w w')"
  by (cases data)
    (auto simp: escrow_process_instruction_def escrow_program_authorised_def escrow_tag_defs
      process_escrow_ix_ok process_withdraw_ix_ok)

lemma escrow_program_authorised_unique:
  "escrow_program_authorised E as d rest tb \<Longrightarrow> escrow_program_authorised E as d rest' tb' \<Longrightarrow>
   rest' = rest \<and> tb' = tb"
  by (cases d)
    (auto simp: escrow_program_authorised_def escrow_tag_defs dest: escrow_authorised_unique
      withdraw_authorised_unique)

interpretation escrow_program:
  cpi_handler "escrow_process_instruction E escrow_id" "escrow_program_authorised E"
    "escrow_signed E" for E
  by unfold_locales
    (auto simp: escrow_process_ok dest: escrow_program_authorised_unique signed_transact_unique)

lemma escrow_process_success_id:
  "escrow_process_instruction E pid as data w = Inr w' \<Longrightarrow> pid = escrow_id"
  by (auto simp: escrow_process_instruction_def split: if_splits)

abbreviation escrow_history ::
  "('x, 'v, 's, 'w) chain_env \<Rightarrow> ('w \<Rightarrow> 'w \<Rightarrow> bool) \<Rightarrow> 'w \<Rightarrow> chain_event list \<Rightarrow> 'w \<Rightarrow> bool" where
  "escrow_history E \<equiv> chain_history (\<lambda>t. escrow_process_instruction (at E t) escrow_id)"

end
