(* ===== verification/Swap_Make.thy ===== *)
theory Swap_Make
  imports Swap_Shared Swap_Keys
begin

text \<open>
  The make instruction of the swap program (\<open>swap-program/program/src/instructions/make.rs\<close>):
  its instruction data, its handler, and what a successful make guarantees. The maker locks the
  source assets in an order UTXO; the program stamps the marker message with the order UTXO hash
  and the key that signed.
\<close>

section \<open>Data\<close>

record marker_data =
  order_utxo_hash :: bytes
  maker_pubkey :: bytes

record make_proof =
  make_proof_a :: bytes
  make_proof_b :: bytes
  make_proof_c :: bytes

record 'x make_ix_data =
  mk_proof :: make_proof
  mk_transact :: "'x transact_ix_data"

text \<open>The derived borsh codec of \<open>MarkerData\<close> and the derived wincode codec of
  \<open>MakeIxData\<close>: the fields in declaration order.\<close>

definition put_marker :: "'x wire \<Rightarrow> marker_data \<Rightarrow> bytes option" where
  "put_marker W m = do {
     h \<leftarrow> borsh_put_array W (order_utxo_hash m);
     k \<leftarrow> borsh_put_array W (maker_pubkey m);
     Some (h @ k)
   }"

definition get_marker :: "'x wire \<Rightarrow> bytes \<Rightarrow> (marker_data \<times> bytes) option" where
  "get_marker W bs = do {
     (h, bs) \<leftarrow> borsh_get_array W 32 bs;
     (k, bs) \<leftarrow> borsh_get_array W 32 bs;
     Some (\<lparr>order_utxo_hash = h, maker_pubkey = k\<rparr>, bs)
   }"

definition put_make_proof :: "'x wire \<Rightarrow> make_proof \<Rightarrow> bytes option" where
  "put_make_proof W p = do {
     a \<leftarrow> put_array W (make_proof_a p);
     b \<leftarrow> put_array W (make_proof_b p);
     c \<leftarrow> put_array W (make_proof_c p);
     Some (a @ b @ c)
   }"

definition get_make_proof :: "'x wire \<Rightarrow> bytes \<Rightarrow> (make_proof \<times> bytes) option" where
  "get_make_proof W bs = do {
     (a, bs) \<leftarrow> get_array W 32 bs;
     (b, bs) \<leftarrow> get_array W 64 bs;
     (c, bs) \<leftarrow> get_array W 32 bs;
     Some (\<lparr>make_proof_a = a, make_proof_b = b, make_proof_c = c\<rparr>, bs)
   }"

definition put_make_ix :: "'x wire \<Rightarrow> 'x make_ix_data \<Rightarrow> bytes option" where
  "put_make_ix W d = do {
     p \<leftarrow> put_make_proof W (mk_proof d);
     t \<leftarrow> put_transact W (mk_transact d);
     Some (p @ t)
   }"

definition get_make_ix :: "'x wire \<Rightarrow> bytes \<Rightarrow> ('x make_ix_data \<times> bytes) option" where
  "get_make_ix W bs = do {
     (p, bs) \<leftarrow> get_make_proof W bs;
     (t, bs) \<leftarrow> get_transact W bs;
     Some (\<lparr>mk_proof = p, mk_transact = t\<rparr>, bs)
   }"

definition marker_wf :: "marker_data \<Rightarrow> bool" where
  "marker_wf m \<longleftrightarrow> length (order_utxo_hash m) = 32 \<and> length (maker_pubkey m) = 32"

definition make_proof_wf :: "make_proof \<Rightarrow> bool" where
  "make_proof_wf p \<longleftrightarrow>
     length (make_proof_a p) = 32 \<and> length (make_proof_b p) = 64 \<and> length (make_proof_c p) = 32"

interpretation marker: codec "put_marker W" "get_marker W" "\<lambda>m. borsh_ok W \<and> marker_wf m" for W
  by unfold_locales
    (auto simp: put_marker_def get_marker_def marker_wf_def codec_simps bind_eq_Some_conv)

interpretation make_proof: codec "put_make_proof W" "get_make_proof W"
  "\<lambda>p. wincode_ok W \<and> make_proof_wf p" for W
  by unfold_locales
    (auto simp: put_make_proof_def get_make_proof_def make_proof_wf_def codec_simps
      bind_eq_Some_conv)

interpretation make_ix: codec "put_make_ix W" "get_make_ix W"
  "\<lambda>d. wincode_ok W \<and> transact_ok W \<and> make_proof_wf (mk_proof d)" for W
  by unfold_locales
    (auto simp: put_make_ix_def get_make_ix_def codec_simps bind_eq_Some_conv
      make_proof.get_put [simplified])

lemma get_make_ix_transact_wf:
  "transact_sized W \<Longrightarrow> get_make_ix W bs = Some (ix, r) \<Longrightarrow> transact_wf (mk_transact ix)"
  by (auto simp: get_make_ix_def bind_eq_Some_conv dest: transact_sizedD)

section \<open>The handler\<close>

definition order_output_index :: nat where
  "order_output_index = 1"

text \<open>\<open>process_make_ix\<close>. The account labels are the ones the source passes on.\<close>

definition process_make_ix ::
  "('x, 'v, 's, 'w) chain_env \<Rightarrow> account_view list \<Rightarrow> bytes \<Rightarrow> 'w \<Rightarrow> program_error + 'w" where
  "process_make_ix E accounts data w =
     bindR (next_signer_mut E ''payer'' accounts) (\<lambda>(payer, iter).
     let maker = address payer in
     bindR (ok_or (swap_program_error Swap_InvalidInstructionData)
              (deserialize_exact (get_make_ix (wire_of E)) data)) (\<lambda>ix.
     let proof = mk_proof ix; transact = mk_transact ix in
     bindR (swap_verify_groth16 E
              \<lparr>cp_a = make_proof_a proof, cp_b = make_proof_b proof, cp_c = make_proof_c proof,
               cp_commitment = None\<rparr>
              (private_tx_hash transact) make_vk) (\<lambda>_.
     bindR (ok_or (swap_program_error Swap_InvalidInstructionData)
              (nth_opt (outputs transact) order_output_index)) (\<lambda>order_output.
     let order_hash = utxo_hash order_output in
     bindR (single (swap_program_error Swap_InvalidMarkerMessage) (messages transact))
       (\<lambda>marker_message.
     bindR (guardR (message_bytes marker_message = []) (swap_program_error Swap_MarkerDataNotEmpty))
       (\<lambda>_.
     let marker = \<lparr>order_utxo_hash = order_hash, maker_pubkey = maker\<rparr> in
     bindR (ok_or (swap_program_error Swap_InvalidInstructionData)
              (put_marker (wire_of E) marker)) (\<lambda>marker_bytes.
     let transact = transact\<lparr>messages := [marker_message\<lparr>message_bytes := marker_bytes\<rparr>]\<rparr> in
     bindR (ok_or (swap_program_error Swap_InvalidInstructionData)
              (transact_serialize E transact)) (\<lambda>transact_bytes.
     bindR (remaining E iter) (\<lambda>spp_accounts.
     swap_cpi_spp_transact_signed E spp_accounts transact_bytes w)))))))))"

section \<open>What a make guarantees\<close>

text \<open>
  The abstract contract: which requests the maker's signature and proof authorise, and the
  transaction that is forwarded for them. The marker has the caller's view tag and, as data, the
  hash of the order output and the key of the payer.
\<close>

definition make_points :: "make_proof \<Rightarrow> compressed_groth16_proof" where
  "make_points p = \<lparr>cp_a = make_proof_a p, cp_b = make_proof_b p, cp_c = make_proof_c p,
                    cp_commitment = None\<rparr>"

definition stamped :: "'x transact_ix_data \<Rightarrow> bytes \<Rightarrow> 'x transact_ix_data" where
  "stamped t mb = t\<lparr>messages := map (\<lambda>m. m\<lparr>message_bytes := mb\<rparr>) (messages t)\<rparr>"

definition make_authorised ::
  "('x, 'v, 's, 'w) chain_env \<Rightarrow> account_view list \<Rightarrow> bytes \<Rightarrow> account_view list \<Rightarrow> bytes \<Rightarrow> bool" where
  "make_authorised E as d rest tb \<longleftrightarrow>
     (\<exists>payer iter ix m o_out mb.
        next_signer_mut E ''payer'' as = Inr (payer, iter) \<and>
        get_make_ix (wire_of E) d = Some (ix, []) \<and>
        groth16_accepts E (make_points (mk_proof ix)) (private_tx_hash (mk_transact ix)) make_vk \<and>
        nth_opt (outputs (mk_transact ix)) 1 = Some o_out \<and>
        messages (mk_transact ix) = [m] \<and> message_bytes m = [] \<and>
        put_marker (wire_of E)
          \<lparr>order_utxo_hash = utxo_hash o_out, maker_pubkey = address payer\<rparr> = Some mb \<and>
        transact_serialize E (stamped (mk_transact ix) mb) = Some tb \<and>
        remaining E iter = Inr rest)"

lemma process_make_ix_ok:
  "process_make_ix E as d w = Inr w' \<longleftrightarrow>
     (\<exists>rest tb. make_authorised E as d rest tb \<and> swap_signed E rest tb w w')"
  by (fastforce simp: process_make_ix_def make_authorised_def make_points_def Let_def result_simps
      stamped_def order_output_index_def deserialize_exact_Some)

lemma make_authorised_unique:
  "make_authorised E as d rest tb \<Longrightarrow> make_authorised E as d rest' tb' \<Longrightarrow> rest' = rest \<and> tb' = tb"
  by (auto simp: make_authorised_def)

interpretation make_ix_handler: cpi_handler "process_make_ix E" "make_authorised E" "swap_signed E"
  for E
  by unfold_locales
    (auto simp: process_make_ix_ok dest: make_authorised_unique signed_transact_unique)

end
