(* ===== verification/Swap_Program.thy ===== *)
theory Swap_Program
  imports Swap_Make Swap_Take Swap_Take_VE Swap_Cancel Program_History
begin

text \<open>
  The entry point of the swap program (\<open>swap-program/program/src/lib.rs\<close>): the id check, the
  tag byte and the dispatch, the abstract contract of the whole program, and what holds along
  sequences of instructions under a clock that never goes back.
\<close>

section \<open>Dispatch\<close>

definition swap_process_instruction ::
  "('x, 'v, 's, 'w) chain_env \<Rightarrow> bytes \<Rightarrow> account_view list \<Rightarrow> bytes \<Rightarrow> 'w \<Rightarrow> program_error + 'w" where
  "swap_process_instruction E program_id accounts instruction_data w =
     (if program_id \<noteq> swap_id then Inl PE_IncorrectProgramId
      else case instruction_data of
        [] \<Rightarrow> Inl PE_InvalidInstructionData
      | ix_tag # ix_data \<Rightarrow>
          if ix_tag = swap_tag_make then process_make_ix E accounts ix_data w
          else if ix_tag = swap_tag_take then process_take_ix E accounts ix_data w
          else if ix_tag = swap_tag_cancel then process_cancel_ix E accounts ix_data w
          else if ix_tag = swap_tag_take_ve then process_take_ve_ix E accounts ix_data w
          else Inl PE_InvalidInstructionData)"

section \<open>The contract of the program\<close>

definition swap_authorised ::
  "('x, 'v, 's, 'w) chain_env \<Rightarrow> account_view list \<Rightarrow> bytes \<Rightarrow> account_view list \<Rightarrow> bytes \<Rightarrow> bool" where
  "swap_authorised E as data rest tb \<longleftrightarrow>
     (case data of [] \<Rightarrow> False
      | t # d \<Rightarrow>
          t = swap_tag_make \<and> make_authorised E as d rest tb \<or>
          t = swap_tag_take \<and> take_authorised E as d rest tb \<or>
          t = swap_tag_cancel \<and> cancel_authorised E as d rest tb \<or>
          t = swap_tag_take_ve \<and> take_ve_authorised E as d rest tb)"

lemma swap_process_ok:
  "swap_process_instruction E swap_id as data w = Inr w' \<longleftrightarrow>
     (\<exists>rest tb. swap_authorised E as data rest tb \<and> swap_signed E rest tb w w')"
  by (cases data)
    (auto simp: swap_process_instruction_def swap_authorised_def swap_tag_defs process_make_ix_ok
      process_take_ix_ok process_cancel_ix_ok process_take_ve_ix_ok)

lemma swap_authorised_unique:
  "swap_authorised E as d rest tb \<Longrightarrow> swap_authorised E as d rest' tb' \<Longrightarrow> rest' = rest \<and> tb' = tb"
  by (cases d)
    (auto simp: swap_authorised_def swap_tag_defs dest: make_authorised_unique
      take_authorised_unique cancel_authorised_unique take_ve_authorised_unique)

interpretation swap_program:
  cpi_handler "swap_process_instruction E swap_id" "swap_authorised E" "swap_signed E" for E
  by unfold_locales
    (auto simp: swap_process_ok dest: swap_authorised_unique signed_transact_unique)

lemma swap_process_wrong_id:
  "pid \<noteq> swap_id \<Longrightarrow> swap_process_instruction E pid as data w = Inl PE_IncorrectProgramId"
  by (simp add: swap_process_instruction_def)

lemma swap_process_success_id:
  "swap_process_instruction E pid as data w = Inr w' \<Longrightarrow> pid = swap_id"
  by (auto simp: swap_process_instruction_def split: if_splits)

section \<open>Time\<close>

text \<open>The expiry a take or a cancel instruction names.\<close>

definition take_expiry :: "('x, 'v, 's, 'w) chain_env \<Rightarrow> bytes \<Rightarrow> u64 option" where
  "take_expiry E d =
     map_option (\<lambda>ix. expiry_unix_ts (tk_transact ix)) (deserialize_exact (get_take_ix (wire_of E)) d)"

definition take_ve_expiry :: "('x, 'v, 's, 'w) chain_env \<Rightarrow> bytes \<Rightarrow> u64 option" where
  "take_ve_expiry E d =
     map_option (\<lambda>ix. expiry_unix_ts (tv_transact ix))
       (deserialize_exact (get_take_ve_ix (wire_of E)) d)"

definition cancel_expiry :: "('x, 'v, 's, 'w) chain_env \<Rightarrow> bytes \<Rightarrow> u64 option" where
  "cancel_expiry E d = map_option cn_order_expiry (deserialize_exact (get_cancel_ix (wire_of E)) d)"

text \<open>The expiry under which an instruction settles an order, if it is one that settles.\<close>

definition settle_expiry :: "('x, 'v, 's, 'w) chain_env \<Rightarrow> bytes \<Rightarrow> u64 option" where
  "settle_expiry E data = (case data of [] \<Rightarrow> None
     | t # d \<Rightarrow> if t = swap_tag_take then take_expiry E d
               else if t = swap_tag_take_ve then take_ve_expiry E d else None)"

definition refund_expiry :: "('x, 'v, 's, 'w) chain_env \<Rightarrow> bytes \<Rightarrow> u64 option" where
  "refund_expiry E data = (case data of [] \<Rightarrow> None
     | t # d \<Rightarrow> if t = swap_tag_cancel then cancel_expiry E d else None)"

lemma take_in_window:
  assumes "process_take_ix (at E t) as d w = Inr w'" "take_expiry E d = Some x"
  shows "check_within_window t x = Inr ()"
  using assms
  by (auto simp: process_take_ix_ok take_authorised_def take_expiry_def deserialize_exact_Some
      result_simps)

lemma take_ve_in_window:
  assumes "process_take_ve_ix (at E t) as d w = Inr w'" "take_ve_expiry E d = Some x"
  shows "check_within_window t x = Inr ()"
  using assms
  by (auto simp: process_take_ve_ix_ok take_ve_authorised_def take_ve_expiry_def
      deserialize_exact_Some result_simps)

lemma cancel_after_window:
  assumes "process_cancel_ix (at E t) as d w = Inr w'" "cancel_expiry E d = Some x"
  shows "check_after_window t x = Inr ()"
  using assms
  by (auto simp: process_cancel_ix_ok cancel_authorised_def cancel_expiry_def
      deserialize_exact_Some result_simps)

lemma settle_in_window:
  assumes "swap_process_instruction (at E t) swap_id as d w = Inr w'" "settle_expiry E d = Some x"
  shows "check_within_window t x = Inr ()"
  using assms
  by (auto simp: settle_expiry_def swap_process_instruction_def swap_tag_defs
      split: list.splits if_splits intro: take_in_window take_ve_in_window)

lemma refund_after_window:
  assumes "swap_process_instruction (at E t) swap_id as d w = Inr w'" "refund_expiry E d = Some x"
  shows "check_after_window t x = Inr ()"
  using assms
  by (auto simp: refund_expiry_def swap_process_instruction_def swap_tag_defs
      split: list.splits if_splits intro: cancel_after_window)

section \<open>Sequences of instructions\<close>

abbreviation swap_history ::
  "('x, 'v, 's, 'w) chain_env \<Rightarrow> ('w \<Rightarrow> 'w \<Rightarrow> bool) \<Rightarrow> 'w \<Rightarrow> chain_event list \<Rightarrow> 'w \<Rightarrow> bool" where
  "swap_history E \<equiv> chain_history (\<lambda>t. swap_process_instruction (at E t) swap_id)"

text \<open>Once an order expiry was refunded, only orders that expire later can be settled.\<close>

lemma swap_history_refund_settle:
  assumes "swap_history E other w h w'" "i < j" "j < length h"
    and "refund_expiry E (ev_data (h ! i)) = Some x" "settle_expiry E (ev_data (h ! j)) = Some y"
  shows "x < y"
proof -
  have "check_after_window (ev_time (h ! i)) x = Inr ()"
    using chain_history_event [OF assms(1), of "h ! i"] assms(2-4) refund_after_window by fastforce
  moreover have "sint (ev_time (h ! i)) \<le> sint (ev_time (h ! j))"
    using sorted_nth_mono [OF chain_history_sorted [OF assms(1)], of i j] assms(2,3) by simp
  ultimately have "check_after_window (ev_time (h ! j)) x = Inr ()"
    using order_window.after_up by blast
  moreover have "check_within_window (ev_time (h ! j)) y = Inr ()"
    using chain_history_event [OF assms(1), of "h ! j"] assms(3,5) settle_in_window by fastforce
  ultimately show ?thesis
    by (auto simp: result_simps)
qed

text \<open>Everything the program does to the chain, it does through the signed call.\<close>

lemma swap_history_invariant:
  assumes "swap_history E other w h w'" "I w"
    and "\<And>w w'. other w w' \<Longrightarrow> I w \<Longrightarrow> I w'"
    and "\<And>as tb w w'. swap_signed E as tb w w' \<Longrightarrow> I w \<Longrightarrow> I w'"
  shows "I w'"
  using assms(1,2)
proof (rule chain_history_invariant)
  show "I w2" if "swap_process_instruction (at E t) swap_id as d w1 = Inr w2" "I w1" for t as d w1 w2
    using swap_program.handler_invariant [of "at E t" I] assms(4) that by force
qed (use assms(3) in auto)

end
