(* ===== verification/Swap_Builders.thy ===== *)
theory Swap_Builders
  imports Swap_Program Swap_Order
begin

text \<open>
  The instruction builders of the swap SDK (\<open>instruction.rs\<close> of \<open>make\<close>, \<open>take\<close>, \<open>cancel\<close> and
  \<open>take_verifiable_encryption\<close> under \<open>swap-program/sdk/src/instructions/\<close>): the account list, the
  tag and the encoded data of each instruction, and what the program makes of them.
\<close>

section \<open>The marker message\<close>

record 'p order_marker =
  om_order_utxo_hash :: bytes
  om_maker_pubkey :: bytes
  om_taker_address :: "'p shielded_address"

definition order_marker_message ::
  "('x, 'p, 'm, 'd, 'r, 'i) sdk_env \<Rightarrow> 'p order_marker \<Rightarrow> sdk_error + message_data" where
  "order_marker_message S m =
     bindR (ext (confidential_view_tag S (signing_pubkey (om_taker_address m)))) (\<lambda>tag.
     bindR (ext (put_marker (sdk_wire S)
              \<lparr>order_utxo_hash = om_order_utxo_hash m, maker_pubkey = om_maker_pubkey m\<rparr>)) (\<lambda>d.
     Inr \<lparr>view_tag = tag, message_bytes = d\<rparr>))"

section \<open>Builders\<close>

text \<open>The nullifier hashes of a transaction, in order.\<close>

definition tx_nullifiers :: "'x transact_ix_data \<Rightarrow> bytes list" where
  "tx_nullifiers t = map nullifier_hash (inputs t)"

text \<open>\<open>if let Some(marker) = messages.first_mut() { marker.data = Vec::new(); }\<close>\<close>

definition clear_first_message :: "'x transact_ix_data \<Rightarrow> 'x transact_ix_data" where
  "clear_first_message t =
     t\<lparr>messages := (case messages t of [] \<Rightarrow> [] | m # ms \<Rightarrow> m\<lparr>message_bytes := []\<rparr> # ms)\<rparr>"

text \<open>\<open>Pubkey::default()\<close>, the system program.\<close>

definition default_pubkey :: bytes where
  "default_pubkey = replicate 32 0"

record 'x make_ix_params =
  bm_payer :: bytes
  bm_tree :: bytes
  bm_make_proof :: make_proof
  bm_spp_proof :: "'x transact_ix_data"

definition make_instruction ::
  "('x, 'p, 'm, 'd, 'r, 'i) sdk_env \<Rightarrow> 'x make_ix_params \<Rightarrow> sdk_error + instruction" where
  "make_instruction S b =
     (let t = clear_first_message (bm_spp_proof b);
          nullifier_pdas = nullifier_pda_accounts S (bm_tree b) (tx_nullifiers t)
      in bindR (ext (put_make_ix (sdk_wire S)
                  \<lparr>mk_proof = bm_make_proof b, mk_transact = t\<rparr>)) (\<lambda>serialized_ix.
         Inr \<lparr>ix_program_id = swap_id,
              ix_accounts =
                [meta_new (bm_payer b) True,
                 meta_new (bm_payer b) True,
                 meta_new (bm_tree b) False,
                 meta_readonly (shielded_pool_program_id S) False,
                 meta_readonly default_pubkey False,
                 meta_new (bm_tree b) False]
                @ nullifier_pdas @ [meta_readonly (order_authority_pda S) False],
              ix_data = swap_tag_make # serialized_ix\<rparr>))"

record 'x take_ix_params =
  bt_payer :: bytes
  bt_tree :: bytes
  bt_take_proof :: take_proof
  bt_spp_proof :: "'x transact_ix_data"

definition take_instruction ::
  "('x, 'p, 'm, 'd, 'r, 'i) sdk_env \<Rightarrow> 'x take_ix_params \<Rightarrow> sdk_error + instruction" where
  "take_instruction S b =
     (let t = bt_spp_proof b;
          nullifier_pdas = nullifier_pda_accounts S (bt_tree b) (tx_nullifiers t)
      in bindR (ext (put_take_ix (sdk_wire S)
                  \<lparr>tk_proof = bt_take_proof b, tk_transact = t\<rparr>)) (\<lambda>serialized_ix.
         Inr \<lparr>ix_program_id = swap_id,
              ix_accounts =
                [meta_new (bt_payer b) True,
                 meta_new (bt_payer b) True,
                 meta_new (bt_tree b) False,
                 meta_readonly (shielded_pool_program_id S) False,
                 meta_readonly default_pubkey False,
                 meta_new (bt_tree b) False]
                @ nullifier_pdas @ [meta_readonly (order_authority_pda S) False, meta_readonly (bt_payer b) True],
              ix_data = swap_tag_take # serialized_ix\<rparr>))"

record 'x cancel_ix_params =
  bc_maker :: bytes
  bc_payer :: bytes
  bc_tree :: bytes
  bc_cancel_proof :: cancel_proof
  bc_order_expiry :: u64
  bc_spp_proof :: "'x transact_ix_data"

definition cancel_instruction ::
  "('x, 'p, 'm, 'd, 'r, 'i) sdk_env \<Rightarrow> 'x cancel_ix_params \<Rightarrow> sdk_error + instruction" where
  "cancel_instruction S b =
     (let t = bc_spp_proof b;
          nullifier_pdas = nullifier_pda_accounts S (bc_tree b) (tx_nullifiers t)
      in bindR (ext (put_cancel_ix (sdk_wire S)
                  \<lparr>cn_proof = bc_cancel_proof b, cn_order_expiry = bc_order_expiry b, cn_transact = t\<rparr>)) (\<lambda>serialized_ix.
         Inr \<lparr>ix_program_id = swap_id,
              ix_accounts =
                [meta_new (bc_payer b) True,
                 meta_readonly (bc_maker b) True,
                 meta_new (bc_payer b) True,
                 meta_new (bc_tree b) False,
                 meta_readonly (shielded_pool_program_id S) False,
                 meta_readonly default_pubkey False,
                 meta_new (bc_tree b) False]
                @ nullifier_pdas @ [meta_readonly (order_authority_pda S) False],
              ix_data = swap_tag_cancel # serialized_ix\<rparr>))"

record 'x take_ve_ix_params =
  bv_payer :: bytes
  bv_tree :: bytes
  bv_take_proof :: take_ve_proof
  bv_spp_proof :: "'x transact_ix_data"

definition take_ve_instruction ::
  "('x, 'p, 'm, 'd, 'r, 'i) sdk_env \<Rightarrow> 'x take_ve_ix_params \<Rightarrow> sdk_error + instruction" where
  "take_ve_instruction S b =
     (let t = bv_spp_proof b;
          nullifier_pdas = nullifier_pda_accounts S (bv_tree b) (tx_nullifiers t)
      in bindR (ext (put_take_ve_ix (sdk_wire S)
                  \<lparr>tv_proof = bv_take_proof b, tv_transact = t\<rparr>)) (\<lambda>serialized_ix.
         Inr \<lparr>ix_program_id = swap_id,
              ix_accounts =
                [meta_new (bv_payer b) True,
                 meta_new (bv_payer b) True,
                 meta_new (bv_tree b) False,
                 meta_readonly (shielded_pool_program_id S) False,
                 meta_readonly default_pubkey False,
                 meta_new (bv_tree b) False]
                @ nullifier_pdas @ [meta_readonly (order_authority_pda S) False, meta_readonly (bv_payer b) True],
              ix_data = swap_tag_take_ve # serialized_ix\<rparr>))"

section \<open>What the program receives\<close>

text \<open>The runtime hands the accounts of an instruction over in order.\<close>

definition view_of :: "account_meta \<Rightarrow> account_view" where
  "view_of m = \<lparr>address = meta_pubkey m, is_signer = meta_is_signer m,
                is_writable = meta_is_writable m\<rparr>"

lemma view_of_simps [simp]:
  "view_of (meta_new k s) = \<lparr>address = k, is_signer = s, is_writable = True\<rparr>"
  "view_of (meta_readonly k s) = \<lparr>address = k, is_signer = s, is_writable = False\<rparr>"
  by (simp_all add: view_of_def meta_new_def meta_readonly_def)

end
