(* ===== verification/Escrow_Builders.thy ===== *)
theory Escrow_Builders
  imports Escrow_Program Escrow_State Swap_Builders
begin

text \<open>
  The instruction builders of the escrow SDK (\<open>instruction.rs\<close> of \<open>escrow\<close> and \<open>withdraw\<close> under
  \<open>escrow-program/sdk/src/instructions/\<close>). \<open>tx_nullifiers\<close> and \<open>default_pubkey\<close> are shared with
  the swap builders.
\<close>

section \<open>Builders\<close>

record 'x escrow_ix_params =
  be_payer :: bytes
  be_tree :: bytes
  be_escrow_proof :: escrow_proof
  be_spp_proof :: "'x transact_ix_data"

definition escrow_instruction ::
  "('x, 'p, 'm, 'd, 'r, 'i) sdk_env \<Rightarrow> 'x escrow_ix_params \<Rightarrow> sdk_error + instruction" where
  "escrow_instruction S b =
     (let t = be_spp_proof b;
          nullifier_pdas = nullifier_pda_accounts S (be_tree b) (tx_nullifiers t)
      in bindR (ext (put_escrow_ix (sdk_wire S)
                  \<lparr>es_proof = be_escrow_proof b, es_transact = t\<rparr>)) (\<lambda>serialized_ix.
         Inr \<lparr>ix_program_id = escrow_id,
              ix_accounts =
                [meta_new (be_payer b) True,
                 meta_new (be_payer b) True,
                 meta_new (be_tree b) False,
                 meta_readonly (shielded_pool_program_id S) False,
                 meta_readonly default_pubkey False,
                 meta_new (be_tree b) False]
                @ nullifier_pdas @ [meta_readonly (escrow_authority_pda S) False],
              ix_data = escrow_tag_escrow # serialized_ix\<rparr>))"

record 'x withdraw_ix_params =
  bw_creator :: bytes
  bw_payer :: bytes
  bw_tree :: bytes
  bw_withdraw_proof :: withdraw_proof
  bw_unlock_timestamp :: u64
  bw_spp_proof :: "'x transact_ix_data"

definition withdraw_instruction ::
  "('x, 'p, 'm, 'd, 'r, 'i) sdk_env \<Rightarrow> 'x withdraw_ix_params \<Rightarrow> sdk_error + instruction" where
  "withdraw_instruction S b =
     (let t = bw_spp_proof b;
          nullifier_pdas = nullifier_pda_accounts S (bw_tree b) (tx_nullifiers t)
      in bindR (ext (put_withdraw_ix (sdk_wire S)
                  \<lparr>wd_proof = bw_withdraw_proof b, wd_unlock_timestamp = bw_unlock_timestamp b, wd_transact = t\<rparr>)) (\<lambda>serialized_ix.
         Inr \<lparr>ix_program_id = escrow_id,
              ix_accounts =
                [meta_new (bw_payer b) True,
                 meta_readonly (bw_creator b) True,
                 meta_new (bw_payer b) True,
                 meta_new (bw_tree b) False,
                 meta_readonly (shielded_pool_program_id S) False,
                 meta_readonly default_pubkey False,
                 meta_new (bw_tree b) False]
                @ nullifier_pdas @ [meta_readonly (escrow_authority_pda S) False],
              ix_data = escrow_tag_withdraw # serialized_ix\<rparr>))"

end
