(* ===== verification/Key_Facts.thy ===== *)
theory Key_Facts
  imports Swap_Keys Escrow_Keys
begin

text \<open>
  The facts about the six committed verifying keys: each one is well formed, its setup text is
  the one its constants describe, and no two circuits share a key.
\<close>

lemma make_vk_wf: "vk_wf make_vk"
  by (simp add: make_vk_def make_vk_ic_def key_simps)

lemma make_vk_setup: "make_vk_setup_txt = setup_txt ''VERIFYINGKEY'' make_vk_insecure_test_setup make_vk_proving_key_sha256"
  by (simp add: make_vk_setup_txt_def make_vk_insecure_test_setup_def make_vk_proving_key_sha256_def setup_simps)

lemma take_vk_wf: "vk_wf take_vk"
  by (simp add: take_vk_def take_vk_ic_def key_simps)

lemma take_vk_setup: "take_vk_setup_txt = setup_txt ''VERIFYINGKEY'' take_vk_insecure_test_setup take_vk_proving_key_sha256"
  by (simp add: take_vk_setup_txt_def take_vk_insecure_test_setup_def take_vk_proving_key_sha256_def setup_simps)

lemma cancel_vk_wf: "vk_wf cancel_vk"
  by (simp add: cancel_vk_def cancel_vk_ic_def key_simps)

lemma cancel_vk_setup: "cancel_vk_setup_txt = setup_txt ''VERIFYINGKEY'' cancel_vk_insecure_test_setup cancel_vk_proving_key_sha256"
  by (simp add: cancel_vk_setup_txt_def cancel_vk_insecure_test_setup_def cancel_vk_proving_key_sha256_def setup_simps)

lemma take_ve_vk_wf: "vk_wf take_ve_vk"
  by (simp add: take_ve_vk_def take_ve_vk_ic_def key_simps)

lemma take_ve_vk_setup: "take_ve_vk_setup_txt = setup_txt ''VERIFYINGKEY'' take_ve_vk_insecure_test_setup take_ve_vk_proving_key_sha256"
  by (simp add: take_ve_vk_setup_txt_def take_ve_vk_insecure_test_setup_def take_ve_vk_proving_key_sha256_def setup_simps)

lemma escrow_vk_wf: "vk_wf escrow_vk"
  by (simp add: escrow_vk_def escrow_vk_ic_def key_simps)

lemma escrow_vk_setup: "escrow_vk_setup_txt = setup_txt ''VERIFYINGKEY'' escrow_vk_insecure_test_setup escrow_vk_proving_key_sha256"
  by (simp add: escrow_vk_setup_txt_def escrow_vk_insecure_test_setup_def escrow_vk_proving_key_sha256_def setup_simps)

lemma withdraw_vk_wf: "vk_wf withdraw_vk"
  by (simp add: withdraw_vk_def withdraw_vk_ic_def key_simps)

lemma withdraw_vk_setup: "withdraw_vk_setup_txt = setup_txt ''VERIFYINGKEY'' withdraw_vk_insecure_test_setup withdraw_vk_proving_key_sha256"
  by (simp add: withdraw_vk_setup_txt_def withdraw_vk_insecure_test_setup_def withdraw_vk_proving_key_sha256_def setup_simps)

text \<open>Only the verifiable-encryption circuit commits.\<close>

lemma vk_commitments [simp]:
  "vk_commitment make_vk = None"
  "vk_commitment take_vk = None"
  "vk_commitment cancel_vk = None"
  "vk_commitment take_ve_vk \<noteq> None"
  "vk_commitment escrow_vk = None"
  "vk_commitment withdraw_vk = None"
  by (simp_all add: make_vk_def take_vk_def cancel_vk_def take_ve_vk_def escrow_vk_def withdraw_vk_def)

text \<open>The delta points already tell the six keys apart.\<close>

lemma vk_deltas_distinct:
  "distinct (map vk_delta_g2 [make_vk, take_vk, cancel_vk, take_ve_vk, escrow_vk, withdraw_vk])"
  by (simp add: make_vk_def take_vk_def cancel_vk_def take_ve_vk_def escrow_vk_def withdraw_vk_def)

lemma vk_distinct: "distinct [make_vk, take_vk, cancel_vk, take_ve_vk, escrow_vk, withdraw_vk]"
  using vk_deltas_distinct by (simp only: distinct_map)

end
