(* ===== verification/Swap_Properties.thy ===== *)
theory Swap_Properties
  imports Swap_Program Key_Facts Demo_Env "HOL-Library.Sublist"
begin

text \<open>
  The properties of the swap program, over the component lemmas of its instructions, each with a
  witness on the concrete environment of \<open>Demo_Env\<close>.
\<close>

section \<open>Make\<close>

definition demo_make_in :: "unit transact_ix_data" where
  "demo_make_in = demo_transact 9 [] [(replicate 32 1, None), (replicate 32 2, None)]
     [\<lparr>view_tag = [5], message_bytes = []\<rparr>]"

definition demo_make_out :: "unit transact_ix_data" where
  "demo_make_out = stamped demo_make_in (replicate 32 2 @ replicate 32 3)"

abbreviation demo_make_env :: "(unit, bool, account_view list, bytes list) chain_env" where
  "demo_make_env \<equiv> demo_env 5 (\<lambda>vk pis. pis = [replicate 32 7]) [demo_make_in, demo_make_out]"

definition demo_swap_authority :: account_view where
  "demo_swap_authority = demo_account (fst (demo_pda [order_authority_pda_seed] swap_id))"

lemma demo_get_make:
  "get_make_ix (table_wire tab) (demo_proof_bytes @ r) =
     map_option (\<lambda>(t, bs). (\<lparr>mk_proof = \<lparr>make_proof_a = replicate 32 0,
       make_proof_b = replicate 64 0, make_proof_c = replicate 32 0\<rparr>, mk_transact = t\<rparr>, bs))
       (table_get tab r)"
  by (cases "table_get tab r")
    (auto simp: get_make_ix_def get_make_proof_def demo_proof_bytes_def table_wire_def)

lemmas demo_run_simps = demo_simps Let_def deserialize_exact_def table_wire_def table_put_def
  signed_transact_def swap_cpi_spp_transact_signed_def swap_verify_groth16_def guardR_def

lemma demo_make_sized: "transact_sized (table_wire [demo_make_in, demo_make_out])"
  by (rule table_wire_sized)
    (simp add: transact_wf_def demo_make_in_def demo_make_out_def demo_transact_def stamped_def)

lemma demo_make_runs:
  "process_make_ix demo_make_env [demo_signer 3, demo_swap_authority] (demo_proof_bytes @ [0]) []
     = Inr [[1]]"
  by (simp add: process_make_ix_def demo_get_make [unfolded table_wire_def] demo_run_simps
      demo_make_in_def demo_make_out_def demo_transact_def stamped_def order_output_index_def
      put_marker_def demo_swap_authority_def)

text \<open>C18. A make that succeeds was signed by its first account, and what SPP runs is the submitted
  transaction with one change: its single marker message, empty before, has as data the borsh
  encoding of the hash of output 1 and of the signer's address. Nobody else's key and no other
  hash can be announced.\<close>

theorem make_binds_marker:
  assumes "account_checks_ok E" "borsh_ok (wire_of E)" "transact_sized (wire_of E)"
    and "\<forall>a \<in> set as. length (address a) = 32"
    and "process_make_ix E as d w = Inr w'"
  shows "\<exists>payer rest ix m mb tb.
     as = payer # rest \<and> is_signer payer \<and> is_writable payer \<and>
     get_make_ix (wire_of E) d = Some (ix, []) \<and>
     messages (mk_transact ix) = [m] \<and> message_bytes m = [] \<and>
     1 < length (outputs (mk_transact ix)) \<and>
     deserialize_exact (get_marker (wire_of E)) mb =
       Some \<lparr>order_utxo_hash = utxo_hash (outputs (mk_transact ix) ! 1),
             maker_pubkey = address payer\<rparr> \<and>
     transact_serialize E ((mk_transact ix)\<lparr>messages := [m\<lparr>message_bytes := mb\<rparr>]\<rparr>) = Some tb \<and>
     swap_signed E rest tb w w'"
proof -
  obtain rest tb where auth: "make_authorised E as d rest tb" and sg: "swap_signed E rest tb w w'"
    by (rule make_ix_handler.handler_okE [OF assms(5)])
  then obtain payer iter ix m out1 mb where
    payer: "next_signer_mut E ''payer'' as = Inr (payer, iter)" and
    ix: "get_make_ix (wire_of E) d = Some (ix, [])" and
    out1: "nth_opt (outputs (mk_transact ix)) 1 = Some out1" and
    m: "messages (mk_transact ix) = [m]" "message_bytes m = []" and
    mb: "put_marker (wire_of E) \<lparr>order_utxo_hash = utxo_hash out1, maker_pubkey = address payer\<rparr>
           = Some mb" and
    tb: "transact_serialize E (stamped (mk_transact ix) mb) = Some tb" and
    rest: "remaining E iter = Inr rest"
    unfolding make_authorised_def by blast
  have as: "as = payer # rest" "is_signer payer" "is_writable payer"
    using next_signer_mutD [OF assms(1) payer] remainingD [OF assms(1) rest] by auto
  have out: "1 < length (outputs (mk_transact ix))" "outputs (mk_transact ix) ! 1 = out1"
    using out1 by (simp_all only: nth_opt_iff)
  have "transact_wf (mk_transact ix)"
    using get_make_ix_transact_wf [OF assms(3) ix] .
  then have "length (utxo_hash out1) = 32"
    using out nth_mem [of 1 "outputs (mk_transact ix)"] by (auto simp: transact_wf_def)
  then have "marker_wf \<lparr>order_utxo_hash = utxo_hash out1, maker_pubkey = address payer\<rparr>"
    using assms(4) as(1) by (simp add: marker_wf_def)
  then have "deserialize_exact (get_marker (wire_of E)) mb =
      Some \<lparr>order_utxo_hash = utxo_hash out1, maker_pubkey = address payer\<rparr>"
    using marker.exact_put [OF _ mb] assms(2) by blast
  then show ?thesis
    using as ix m out sg tb by (auto simp: stamped_def)
qed

theorem make_binds_marker_witness:
  "\<exists>payer rest ix m mb tb.
     [demo_signer 3, demo_swap_authority] = payer # rest \<and> is_signer payer \<and> is_writable payer \<and>
     get_make_ix (wire_of demo_make_env) (demo_proof_bytes @ [0]) = Some (ix, []) \<and>
     messages (mk_transact ix) = [m] \<and> message_bytes m = [] \<and>
     1 < length (outputs (mk_transact ix)) \<and>
     deserialize_exact (get_marker (wire_of demo_make_env)) mb =
       Some \<lparr>order_utxo_hash = utxo_hash (outputs (mk_transact ix) ! 1),
             maker_pubkey = address payer\<rparr> \<and>
     transact_serialize demo_make_env ((mk_transact ix)\<lparr>messages := [m\<lparr>message_bytes := mb\<rparr>]\<rparr>)
       = Some tb \<and>
     swap_signed demo_make_env rest tb [] [[1]]"
  by (rule make_binds_marker [OF demo_account_checks _ _ _ demo_make_runs])
    (auto simp: demo_make_sized demo_env_def demo_address_lengths demo_swap_authority_def)

section \<open>Take and cancel\<close>

text \<open>C11. Take and cancel never overlap: in any history of the program in which the clock does not
  go back, whatever other parties do in between, a take (of either kind) that comes after a
  cancel settles an order with a strictly later expiry. An order that was refunded after its
  expiry can therefore not be taken any more.\<close>

theorem no_take_after_cancel:
  assumes "swap_history E other w h w'" "i < j" "j < length h"
    and "refund_expiry E (ev_data (h ! i)) = Some x"
    and "settle_expiry E (ev_data (h ! j)) = Some y"
  shows "x < y"
  using swap_history_refund_settle [OF assms] .

lemma demo_get_take:
  "get_take_ix (table_wire tab) (demo_proof_bytes @ r) =
     map_option (\<lambda>(t, bs). (\<lparr>tk_proof = \<lparr>take_proof_a = replicate 32 0,
       take_proof_b = replicate 64 0, take_proof_c = replicate 32 0\<rparr>, tk_transact = t\<rparr>, bs))
       (table_get tab r)"
  by (cases "table_get tab r")
    (auto simp: get_take_ix_def get_take_proof_def demo_proof_bytes_def table_wire_def)

lemma demo_get_cancel:
  "get_cancel_ix (table_wire tab) (demo_proof_bytes @ to_le_bytes x @ r) =
     map_option (\<lambda>(t, bs). (\<lparr>cn_proof = \<lparr>cancel_proof_a = replicate 32 0,
       cancel_proof_b = replicate 64 0, cancel_proof_c = replicate 32 0\<rparr>, cn_order_expiry = x,
       cn_transact = t\<rparr>, bs))
       (table_get tab r)"
  by (cases "table_get tab r")
    (auto simp: get_cancel_ix_def get_cancel_proof_def demo_proof_bytes_def table_wire_def)

definition demo_settle :: "unit transact_ix_data" where
  "demo_settle = demo_transact 20 [replicate 32 4] [(replicate 32 1, None)] []"

abbreviation demo_settle_env :: "(unit, bool, account_view list, bytes list) chain_env" where
  "demo_settle_env \<equiv> demo_env 0 (\<lambda>vk pis. True) [demo_settle]"

definition demo_cancel_event :: chain_event where
  "demo_cancel_event = \<lparr>ev_time = 10,
     ev_accounts = [demo_signer 3, demo_signer 4, demo_swap_authority],
     ev_data = swap_tag_cancel # demo_proof_bytes @ to_le_bytes 9 @ [0]\<rparr>"

definition demo_take_event :: chain_event where
  "demo_take_event = \<lparr>ev_time = 11, ev_accounts = [demo_signer 3, demo_swap_authority],
     ev_data = swap_tag_take # demo_proof_bytes @ [0]\<rparr>"

lemma demo_cancel_runs:
  "process_cancel_ix (at demo_settle_env 10) [demo_signer 3, demo_signer 4, demo_swap_authority]
     (demo_proof_bytes @ to_le_bytes 9 @ [0]) w = Inr (w @ [[0]])"
  by (simp add: process_cancel_ix_def at_def demo_get_cancel [unfolded table_wire_def]
      demo_run_simps demo_settle_def demo_transact_def demo_swap_authority_def
      cancel_public_input_hash_def check_after_window_def)

lemma demo_take_runs:
  "process_take_ix (at demo_settle_env 11) [demo_signer 3, demo_swap_authority]
     (demo_proof_bytes @ [0]) w = Inr (w @ [[0]])"
  by (simp add: process_take_ix_def at_def demo_get_take [unfolded table_wire_def]
      demo_run_simps demo_settle_def demo_transact_def demo_swap_authority_def
      take_public_input_hash_def check_within_window_def)

lemma demo_history:
  "swap_history demo_settle_env (\<lambda>_ _. False) w ([demo_cancel_event] @ [demo_take_event])
     (w @ [[0], [0]])"
proof -
  have "swap_history demo_settle_env (\<lambda>_ _. False) w ([] @ [demo_cancel_event]) (w @ [[0]])"
    by (rule chain_history.instruction [OF chain_history.start])
      (simp_all add: demo_cancel_event_def swap_process_instruction_def swap_tag_defs
        demo_cancel_runs)
  then have "swap_history demo_settle_env (\<lambda>_ _. False) w [demo_cancel_event] (w @ [[0]])"
    by simp
  then show ?thesis
    by (rule chain_history.instruction)
      (simp_all add: demo_cancel_event_def demo_take_event_def swap_process_instruction_def
        swap_tag_defs demo_take_runs)
qed

lemma demo_expiries:
  "refund_expiry demo_settle_env (ev_data demo_cancel_event) = Some 9"
  "settle_expiry demo_settle_env (ev_data demo_take_event) = Some 20"
  by (simp_all add: refund_expiry_def cancel_expiry_def demo_cancel_event_def demo_take_event_def
      settle_expiry_def take_expiry_def swap_tag_defs demo_env_def demo_get_cancel demo_get_take
      deserialize_exact_def demo_settle_def demo_transact_def)

text \<open>After the cancel of an order that expired at 9 comes the take of one that expires at 20. A take of one
  that expires at 9 as well cannot come after the cancel, at any time and whatever others do.\<close>

definition demo_stale_env :: "(unit, bool, account_view list, bytes list) chain_env" where
  "demo_stale_env = demo_env 0 (\<lambda>vk pis. True)
     [demo_settle, demo_transact 9 [replicate 32 4] [(replicate 32 1, None)] []]"

definition demo_stale_take :: "i64 \<Rightarrow> chain_event" where
  "demo_stale_take t = \<lparr>ev_time = t, ev_accounts = [demo_signer 3, demo_swap_authority],
     ev_data = swap_tag_take # demo_proof_bytes @ [1]\<rparr>"

lemma demo_stale_expiries:
  "refund_expiry demo_stale_env (ev_data demo_cancel_event) = Some 9"
  "settle_expiry demo_stale_env (ev_data (demo_stale_take t)) = Some 9"
  by (simp_all add: refund_expiry_def cancel_expiry_def demo_cancel_event_def demo_stale_take_def
      settle_expiry_def take_expiry_def swap_tag_defs demo_stale_env_def demo_get_cancel demo_get_take
      deserialize_exact_def demo_settle_def demo_transact_def)

theorem no_take_after_cancel_witness:
  "swap_history demo_settle_env (\<lambda>_ _. False) [] [demo_cancel_event, demo_take_event] [[0], [0]] \<and>
   refund_expiry demo_settle_env (ev_data demo_cancel_event) = Some 9 \<and>
   settle_expiry demo_settle_env (ev_data demo_take_event) = Some 20 \<and> (9 :: u64) < 20 \<and>
   \<not> (\<exists>t w w'. swap_history demo_stale_env (\<lambda>_ _. True) w [demo_cancel_event, demo_stale_take t] w')"
proof -
  have h: "swap_history demo_settle_env (\<lambda>_ _. False) [] [demo_cancel_event, demo_take_event] [[0], [0]]"
    using demo_history [of "[]"] by simp
  have "(9 :: u64) < 20"
    by (rule no_take_after_cancel [OF h, of 0 1]) (simp_all add: demo_expiries)
  moreover have False
    if "swap_history demo_stale_env (\<lambda>_ _. True) w [demo_cancel_event, demo_stale_take t] w'" for t w w'
    using no_take_after_cancel [OF that, of 0 1 9 9] by (simp add: demo_stale_expiries)
  ultimately show ?thesis
    using h demo_expiries by blast
qed

text \<open>A cancel that succeeds was signed by two accounts, the payer and the maker; the expiry the
  instruction names is, as an integer, before the clock; and the proof was checked under the
  cancel key against the hash of the transaction, of that expiry and of the identity of the maker
  who signed.\<close>

theorem cancel_needs_maker:
  assumes "account_checks_ok E" "process_cancel_ix E as d w = Inr w'"
  shows "\<exists>payer maker rest ix now owner h tb.
     as = payer # maker # rest \<and> is_signer payer \<and> is_writable payer \<and> is_signer maker \<and>
     get_cancel_ix (wire_of E) d = Some (ix, []) \<and>
     clock_unix_timestamp E = Inr now \<and> uint (cn_order_expiry ix) < sint now \<and>
     solana_owner_identity E (address maker) = Some owner \<and>
     poseidon_hashv E [private_tx_hash (cn_transact ix),
       swap_u64_right_align (cn_order_expiry ix), owner] = Some h \<and>
     groth16_accepts E (cancel_points (cn_proof ix)) h cancel_vk \<and>
     transact_serialize E (cn_transact ix) = Some tb \<and> swap_signed E rest tb w w'"
proof -
  obtain rest tb where auth: "cancel_authorised E as d rest tb" and sg: "swap_signed E rest tb w w'"
    by (rule cancel_ix_handler.handler_okE [OF assms(2)])
  then obtain payer iter maker iter' where
    accts: "next_signer_mut E ''payer'' as = Inr (payer, iter)"
      "next_signer E ''maker'' iter = Inr (maker, iter')" "remaining E iter' = Inr rest"
    and more: "\<exists>owner ix now h. solana_owner_identity E (address maker) = Some owner \<and>
        get_cancel_ix (wire_of E) d = Some (ix, []) \<and> clock_unix_timestamp E = Inr now \<and>
        0 \<le> sint now \<and> cn_order_expiry ix < now \<and>
        poseidon_hashv E [private_tx_hash (cn_transact ix),
          swap_u64_right_align (cn_order_expiry ix), owner] = Some h \<and>
        groth16_accepts E (cancel_points (cn_proof ix)) h cancel_vk \<and>
        transact_serialize E (cn_transact ix) = Some tb"
    unfolding cancel_authorised_def by blast
  have "as = payer # maker # rest" "is_signer payer" "is_writable payer" "is_signer maker"
    using next_signer_mutD [OF assms(1) accts(1)] next_signerD [OF assms(1) accts(2)]
      remainingD [OF assms(1) accts(3)] by auto
  with more sg show ?thesis
    using after_as_int by blast
qed

theorem cancel_needs_maker_witness:
  "\<exists>payer maker rest ix now owner h tb.
     [demo_signer 3, demo_signer 4, demo_swap_authority] = payer # maker # rest \<and>
     is_signer payer \<and> is_writable payer \<and> is_signer maker \<and>
     get_cancel_ix (wire_of (at demo_settle_env 10)) (demo_proof_bytes @ to_le_bytes 9 @ [0])
       = Some (ix, []) \<and>
     clock_unix_timestamp (at demo_settle_env 10) = Inr now \<and>
     uint (cn_order_expiry ix) < sint now \<and>
     solana_owner_identity (at demo_settle_env 10) (address maker) = Some owner \<and>
     poseidon_hashv (at demo_settle_env 10) [private_tx_hash (cn_transact ix),
       swap_u64_right_align (cn_order_expiry ix), owner] = Some h \<and>
     groth16_accepts (at demo_settle_env 10) (cancel_points (cn_proof ix)) h cancel_vk \<and>
     transact_serialize (at demo_settle_env 10) (cn_transact ix) = Some tb \<and>
     swap_signed (at demo_settle_env 10) rest tb [] ([] @ [[0]])"
  by (rule cancel_needs_maker [OF _ demo_cancel_runs]) (simp add: at_def account_checks_clock)

text \<open>A take that succeeds was signed by its payer and happened, in integers, at or before the
  expiry of the transaction it forwards unchanged; its proof was checked under the take key
  against the hash of that transaction, that expiry and its first nullifier.\<close>

theorem take_binds_transaction:
  assumes "account_checks_ok E" "process_take_ix E as d w = Inr w'"
  shows "\<exists>payer rest ix now i0 is h tb.
     as = payer # rest \<and> is_signer payer \<and> is_writable payer \<and>
     get_take_ix (wire_of E) d = Some (ix, []) \<and>
     clock_unix_timestamp E = Inr now \<and>
     0 \<le> sint now \<and> sint now \<le> uint (expiry_unix_ts (tk_transact ix)) \<and>
     inputs (tk_transact ix) = i0 # is \<and>
     poseidon_hashv E [private_tx_hash (tk_transact ix),
       swap_u64_right_align (expiry_unix_ts (tk_transact ix)), nullifier_hash i0] = Some h \<and>
     groth16_accepts E (take_points (tk_proof ix)) h take_vk \<and>
     transact_serialize E (tk_transact ix) = Some tb \<and> swap_signed E rest tb w w'"
proof -
  obtain rest tb where auth: "take_authorised E as d rest tb" and sg: "swap_signed E rest tb w w'"
    by (rule take_ix_handler.handler_okE [OF assms(2)])
  then obtain payer iter where
    accts: "next_signer_mut E ''payer'' as = Inr (payer, iter)" "remaining E iter = Inr rest"
    and more: "\<exists>ix now i0 is h. get_take_ix (wire_of E) d = Some (ix, []) \<and>
        clock_unix_timestamp E = Inr now \<and>
        (0 \<le> sint now \<and> now \<le> expiry_unix_ts (tk_transact ix)) \<and>
        inputs (tk_transact ix) = i0 # is \<and>
        poseidon_hashv E [private_tx_hash (tk_transact ix),
          swap_u64_right_align (expiry_unix_ts (tk_transact ix)), nullifier_hash i0] = Some h \<and>
        groth16_accepts E (take_points (tk_proof ix)) h take_vk \<and>
        transact_serialize E (tk_transact ix) = Some tb"
    unfolding take_authorised_def first_opt_iff by blast
  have "as = payer # rest" "is_signer payer" "is_writable payer"
    using next_signer_mutD [OF assms(1) accts(1)] remainingD [OF assms(1) accts(2)] by auto
  with more sg show ?thesis
    unfolding within_as_int by blast
qed

theorem take_binds_transaction_witness:
  "\<exists>payer rest ix now i0 is h tb.
     [demo_signer 3, demo_swap_authority] = payer # rest \<and> is_signer payer \<and> is_writable payer \<and>
     get_take_ix (wire_of (at demo_settle_env 11)) (demo_proof_bytes @ [0]) = Some (ix, []) \<and>
     clock_unix_timestamp (at demo_settle_env 11) = Inr now \<and>
     0 \<le> sint now \<and> sint now \<le> uint (expiry_unix_ts (tk_transact ix)) \<and>
     inputs (tk_transact ix) = i0 # is \<and>
     poseidon_hashv (at demo_settle_env 11) [private_tx_hash (tk_transact ix),
       swap_u64_right_align (expiry_unix_ts (tk_transact ix)), nullifier_hash i0] = Some h \<and>
     groth16_accepts (at demo_settle_env 11) (take_points (tk_proof ix)) h take_vk \<and>
     transact_serialize (at demo_settle_env 11) (tk_transact ix) = Some tb \<and>
     swap_signed (at demo_settle_env 11) rest tb [] ([] @ [[0]])"
  by (rule take_binds_transaction [OF _ demo_take_runs]) (simp add: at_def)

text \<open>A verifiable-encryption take that succeeds carries, in its last output, a ciphertext of
  exactly 72 bytes whose hash is part of the public input the proof was checked against, under
  the key of that circuit, which has a commitment; it too happens at or before the expiry and
  forwards the transaction unchanged.\<close>

theorem take_ve_binds_ciphertext:
  assumes "account_checks_ok E" "process_take_ve_ix E as d w = Inr w'"
  shows "\<exists>payer rest ix now ct cth h tb.
     as = payer # rest \<and> is_signer payer \<and> is_writable payer \<and>
     get_take_ve_ix (wire_of E) d = Some (ix, []) \<and>
     clock_unix_timestamp E = Inr now \<and>
     0 \<le> sint now \<and> sint now \<le> uint (expiry_unix_ts (tv_transact ix)) \<and>
     outputs (tv_transact ix) \<noteq> [] \<and> output_data (last (outputs (tv_transact ix))) = Some ct \<and>
     length ct = 72 \<and> ciphertext_hash E ct = Some cth \<and>
     poseidon_hashv E [private_tx_hash (tv_transact ix),
       swap_u64_right_align (expiry_unix_ts (tv_transact ix)), cth] = Some h \<and>
     groth16_accepts E (take_ve_points (tv_proof ix)) h take_ve_vk \<and>
     transact_serialize E (tv_transact ix) = Some tb \<and> swap_signed E rest tb w w'"
proof -
  obtain rest tb where auth: "take_ve_authorised E as d rest tb"
    and sg: "swap_signed E rest tb w w'"
    by (rule take_ve_ix_handler.handler_okE [OF assms(2)])
  then obtain payer iter where
    accts: "next_signer_mut E ''payer'' as = Inr (payer, iter)" "remaining E iter = Inr rest"
    and more: "\<exists>ix now ct cth h. get_take_ve_ix (wire_of E) d = Some (ix, []) \<and>
        clock_unix_timestamp E = Inr now \<and>
        (0 \<le> sint now \<and> now \<le> expiry_unix_ts (tv_transact ix)) \<and>
        outputs (tv_transact ix) \<noteq> [] \<and> output_data (last (outputs (tv_transact ix))) = Some ct \<and>
        length ct = 72 \<and> ciphertext_hash E ct = Some cth \<and>
        poseidon_hashv E [private_tx_hash (tv_transact ix),
          swap_u64_right_align (expiry_unix_ts (tv_transact ix)), cth] = Some h \<and>
        groth16_accepts E (take_ve_points (tv_proof ix)) h take_ve_vk \<and>
        transact_serialize E (tv_transact ix) = Some tb"
    unfolding take_ve_authorised_def last_opt_iff by blast
  have "as = payer # rest" "is_signer payer" "is_writable payer"
    using next_signer_mutD [OF assms(1) accts(1)] remainingD [OF assms(1) accts(2)] by auto
  with more sg show ?thesis
    unfolding within_as_int by blast
qed

definition demo_take_ve :: "unit transact_ix_data" where
  "demo_take_ve = demo_transact 20 [] [(replicate 32 1, Some (replicate 72 6))] []"

abbreviation demo_take_ve_env :: "(unit, bool, account_view list, bytes list) chain_env" where
  "demo_take_ve_env \<equiv> demo_env 11 (\<lambda>vk pis. True) [demo_take_ve]"

definition demo_take_ve_data :: bytes where
  "demo_take_ve_data = demo_proof_bytes @ replicate 32 8 @ replicate 32 9 @ [0]"

lemma demo_take_ve_runs:
  "process_take_ve_ix demo_take_ve_env [demo_signer 3, demo_swap_authority] demo_take_ve_data w
     = Inr (w @ [[0]])"
  by (simp add: process_take_ve_ix_def demo_take_ve_data_def demo_proof_bytes_def
      get_take_ve_ix_def get_take_ve_proof_def demo_run_simps demo_take_ve_def demo_transact_def
      demo_swap_authority_def take_ve_public_input_hash_def check_within_window_def
      take_ve_vk_def)

theorem take_ve_binds_ciphertext_witness:
  "\<exists>payer rest ix now ct cth h tb.
     [demo_signer 3, demo_swap_authority] = payer # rest \<and> is_signer payer \<and> is_writable payer \<and>
     get_take_ve_ix (wire_of demo_take_ve_env) demo_take_ve_data = Some (ix, []) \<and>
     clock_unix_timestamp demo_take_ve_env = Inr now \<and>
     0 \<le> sint now \<and> sint now \<le> uint (expiry_unix_ts (tv_transact ix)) \<and>
     outputs (tv_transact ix) \<noteq> [] \<and> output_data (last (outputs (tv_transact ix))) = Some ct \<and>
     length ct = 72 \<and> ciphertext_hash demo_take_ve_env ct = Some cth \<and>
     poseidon_hashv demo_take_ve_env [private_tx_hash (tv_transact ix),
       swap_u64_right_align (expiry_unix_ts (tv_transact ix)), cth] = Some h \<and>
     groth16_accepts demo_take_ve_env (take_ve_points (tv_proof ix)) h take_ve_vk \<and>
     transact_serialize demo_take_ve_env (tv_transact ix) = Some tb \<and>
     swap_signed demo_take_ve_env rest tb [] ([] @ [[0]])"
  by (rule take_ve_binds_ciphertext [OF demo_account_checks demo_take_ve_runs])

section \<open>Errors\<close>

text \<open>C28. The make handler reports each failed guard with its own code and in this order: data that
  does not decode exactly (8011), a rejected proof (8007), fewer than two outputs (8011), a number
  of messages other than one (8014), a message whose data is not empty (8015). In none of these
  cases does SPP run.\<close>

theorem make_error_codes:
  assumes "account_checks_ok E" "is_signer payer" "is_writable payer"
  shows
    "(deserialize_exact (get_make_ix (wire_of E)) d = None \<longrightarrow>
        process_make_ix E (payer # as) d w = Inl (Custom 8011)) \<and>
     (\<forall>p t. deserialize_exact (get_make_ix (wire_of E)) d = Some \<lparr>mk_proof = p, mk_transact = t\<rparr> \<longrightarrow>
        (if \<not> groth16_accepts E (make_points p) (private_tx_hash t) make_vk
         then process_make_ix E (payer # as) d w = Inl (Custom 8007)
         else if length (outputs t) < 2 then process_make_ix E (payer # as) d w = Inl (Custom 8011)
         else if length (messages t) \<noteq> 1
         then process_make_ix E (payer # as) d w = Inl (Custom 8014)
         else if message_bytes (hd (messages t)) \<noteq> []
         then process_make_ix E (payer # as) d w = Inl (Custom 8015)
         else True))"
proof (intro conjI impI allI)
  show "process_make_ix E (payer # as) d w = Inl (Custom 8011)"
    if "deserialize_exact (get_make_ix (wire_of E)) d = None"
    using that assms by (simp add: process_make_ix_def next_signer_mut_Cons swap_program_error_def)
next
  fix p and t :: "'a transact_ix_data"
  assume dec: "deserialize_exact (get_make_ix (wire_of E)) d = Some \<lparr>mk_proof = p, mk_transact = t\<rparr>"
  have v: "swap_verify_groth16 E (make_points p) (private_tx_hash t) make_vk =
      (if groth16_accepts E (make_points p) (private_tx_hash t) make_vk then Inr ()
       else Inl (Custom 8007))"
    by (auto simp: result_simps swap_program_error_def)
  have o1: "nth_opt (outputs t) (Suc 0) = None" if "length (outputs t) < 2"
    using that nth_opt_iff [of "outputs t" "Suc 0"] by (cases "nth_opt (outputs t) (Suc 0)") auto
  have o2: "\<exists>x. nth_opt (outputs t) (Suc 0) = Some x" if "\<not> length (outputs t) < 2"
    using that nth_opt_iff [of "outputs t" "Suc 0"] by auto
  have m: "single e (messages t) = Inl e" if "length (messages t) \<noteq> 1" for e :: program_error
    using that by (auto simp: result_simps)
  show "if \<not> groth16_accepts E (make_points p) (private_tx_hash t) make_vk
         then process_make_ix E (payer # as) d w = Inl (Custom 8007)
         else if length (outputs t) < 2 then process_make_ix E (payer # as) d w = Inl (Custom 8011)
         else if length (messages t) \<noteq> 1
         then process_make_ix E (payer # as) d w = Inl (Custom 8014)
         else if message_bytes (hd (messages t)) \<noteq> []
         then process_make_ix E (payer # as) d w = Inl (Custom 8015)
         else True"
    using assms o1 o2 m
    by (auto simp: process_make_ix_def dec next_signer_mut_Cons v [unfolded make_points_def]
        make_points_def order_output_index_def swap_program_error_def guardR_def length_Suc_conv)
qed

definition demo_stamped_data :: bytes where
  "demo_stamped_data = demo_proof_bytes @ [1]"

lemma demo_stamped_decodes:
  "deserialize_exact (get_make_ix (table_wire [demo_make_in, demo_make_out])) demo_stamped_data =
     Some \<lparr>mk_proof = \<lparr>make_proof_a = replicate 32 0, make_proof_b = replicate 64 0,
                        make_proof_c = replicate 32 0\<rparr>, mk_transact = demo_make_out\<rparr>"
  by (simp add: demo_env_def demo_stamped_data_def demo_get_make deserialize_exact_def)

lemma demo_stamped_accepts:
  "groth16_accepts demo_make_env (make_points p) (private_tx_hash demo_make_out) make_vk"
  by (auto simp: groth16_accepts_def demo_env_def make_points_def demo_make_out_def stamped_def
      demo_make_in_def demo_transact_def)

lemma demo_make_lists:
  "length (outputs demo_make_out) = 2" "length (messages demo_make_out) = 1"
  "message_bytes (hd (messages demo_make_out)) \<noteq> []"
  by (simp_all add: demo_make_out_def stamped_def demo_make_in_def demo_transact_def)

theorem make_error_codes_witness:
  "process_make_ix demo_make_env [demo_signer 3] demo_stamped_data [] = Inl (Custom 8015)"
  using make_error_codes [where E = demo_make_env and payer = "demo_signer 3" and
      d = demo_stamped_data and as = "[]" and w = "[]"]
  by (simp add: demo_stamped_decodes demo_stamped_accepts demo_signer_def demo_make_lists)

text \<open>The codes of take, verifiable take and cancel, in the order in which the handlers look.\<close>

lemma swap_verify_code:
  "swap_verify_groth16 E p h vk = (if groth16_accepts E p h vk then Inr () else Inl (Custom 8007))"
  by (auto simp: result_simps swap_program_error_def)

lemma take_error_codes:
  assumes "account_checks_ok E" "is_signer payer" "is_writable payer" "clock_unix_timestamp E = Inr now"
    and "deserialize_exact (get_take_ix (wire_of E)) d = Some ix"
  shows "0 \<le> sint now \<and> sint now \<le> uint (expiry_unix_ts (tk_transact ix)) \<longrightarrow>
     (if inputs (tk_transact ix) = [] then process_take_ix E (payer # as) d w = Inl (Custom 8011)
     else case poseidon_hashv E [private_tx_hash (tk_transact ix),
            swap_u64_right_align (expiry_unix_ts (tk_transact ix)),
            nullifier_hash (hd (inputs (tk_transact ix)))] of
         None \<Rightarrow> process_take_ix E (payer # as) d w = Inl (Custom 8016)
       | Some h \<Rightarrow> if \<not> groth16_accepts E (take_points (tk_proof ix)) h take_vk
           then process_take_ix E (payer # as) d w = Inl (Custom 8007)
           else transact_serialize E (tk_transact ix) = None \<longrightarrow>
             process_take_ix E (payer # as) d w = Inl (Custom 8011))"
  using assms
  unfolding within_as_int [symmetric]
  by (cases "inputs (tk_transact ix)")
    (auto simp: process_take_ix_def next_signer_mut_Cons Let_def check_within_window_def
      take_public_input_hash_def swap_program_error_def swap_verify_code take_points_def split: option.splits)

lemma take_ve_error_codes:
  assumes "account_checks_ok E" "is_signer payer" "is_writable payer" "clock_unix_timestamp E = Inr now"
    and "deserialize_exact (get_take_ve_ix (wire_of E)) d = Some ix"
  shows "0 \<le> sint now \<and> sint now \<le> uint (expiry_unix_ts (tv_transact ix)) \<longrightarrow>
     (if outputs (tv_transact ix) = [] then process_take_ve_ix E (payer # as) d w = Inl (Custom 8011)
     else case output_data (last (outputs (tv_transact ix))) of
         None \<Rightarrow> process_take_ve_ix E (payer # as) d w = Inl (Custom 8011)
       | Some ct \<Rightarrow> if length ct \<noteq> 72 then process_take_ve_ix E (payer # as) d w = Inl (Custom 8011)
         else case Option.bind (ciphertext_hash E ct) (\<lambda>c. poseidon_hashv E [private_tx_hash (tv_transact ix),
                swap_u64_right_align (expiry_unix_ts (tv_transact ix)), c]) of
             None \<Rightarrow> process_take_ve_ix E (payer # as) d w = Inl (Custom 8016)
           | Some h \<Rightarrow> if \<not> groth16_accepts E (take_ve_points (tv_proof ix)) h take_ve_vk
               then process_take_ve_ix E (payer # as) d w = Inl (Custom 8007)
               else transact_serialize E (tv_transact ix) = None \<longrightarrow>
                 process_take_ve_ix E (payer # as) d w = Inl (Custom 8011))"
proof -
  have out: "last_opt (outputs t) = (if outputs t = [] then None else Some (last (outputs t)))"
    for t :: "'a transact_ix_data"
    using last_opt_iff [of "outputs t"] by (cases "last_opt (outputs t)") auto
  have ok: "bindR (ok_or e x) (\<lambda>c. ok_or e (f c)) = ok_or e (Option.bind x f)"
    for e :: program_error and x :: "bytes option" and f :: "bytes \<Rightarrow> bytes option"
    by (cases x) simp_all
  show ?thesis
    using assms
    unfolding within_as_int [symmetric]
    by (auto simp: ok process_take_ve_ix_def next_signer_mut_Cons Let_def check_within_window_def out
        take_ve_public_input_hash_def swap_program_error_def swap_verify_code take_ve_points_def guardR_def
        split: option.splits)
qed

lemma cancel_error_codes:
  assumes "account_checks_ok E" "is_signer payer" "is_writable payer" "is_signer maker"
    and "clock_unix_timestamp E = Inr now" "solana_owner_identity E (address maker) = Some owner"
    and "deserialize_exact (get_cancel_ix (wire_of E)) d = Some ix"
  shows "uint (cn_order_expiry ix) < sint now \<longrightarrow>
     (case poseidon_hashv E [private_tx_hash (cn_transact ix),
            swap_u64_right_align (cn_order_expiry ix), owner] of
         None \<Rightarrow> process_cancel_ix E (payer # maker # as) d w = Inl (Custom 8016)
       | Some h \<Rightarrow> if \<not> groth16_accepts E (cancel_points (cn_proof ix)) h cancel_vk
           then process_cancel_ix E (payer # maker # as) d w = Inl (Custom 8007)
           else transact_serialize E (cn_transact ix) = None \<longrightarrow>
             process_cancel_ix E (payer # maker # as) d w = Inl (Custom 8011))"
  using assms
  unfolding after_as_int [symmetric]
  by (auto simp: process_cancel_ix_def next_signer_mut_Cons next_signer_Cons Let_def check_after_window_def
      cancel_public_input_hash_def swap_program_error_def swap_verify_code cancel_points_def split: option.splits)

lemma settle_undecodable:
  assumes "account_checks_ok E" "is_signer payer" "is_writable payer" "is_signer maker"
  shows "deserialize_exact (get_take_ix (wire_of E)) d = None \<Longrightarrow>
       process_take_ix E (payer # as) d w = Inl (Custom 8011)"
    "deserialize_exact (get_take_ve_ix (wire_of E)) d = None \<Longrightarrow>
       process_take_ve_ix E (payer # as) d w = Inl (Custom 8011)"
    "solana_owner_identity E (address maker) = None \<Longrightarrow>
       process_cancel_ix E (payer # maker # as) d w = Inl (Custom 8016)"
    "solana_owner_identity E (address maker) \<noteq> None \<Longrightarrow>
       deserialize_exact (get_cancel_ix (wire_of E)) d = None \<Longrightarrow>
       process_cancel_ix E (payer # maker # as) d w = Inl (Custom 8011)"
  using assms
  by (auto simp: process_take_ix_def process_take_ve_ix_def process_cancel_ix_def next_signer_mut_Cons
      next_signer_Cons swap_program_error_def swap_error_of_hasher_def)

text \<open>C10. The settling handlers report each failed guard with its own code and in this order. A take of
  either kind: data that does not decode exactly, at any time (8011), and inside the window no input, or no
  last output with a ciphertext of 72 bytes (8011), a public input that cannot be hashed (8016), a
  rejected proof (8007), a transaction that cannot be encoded again (8011). A cancel: an identity of the
  maker that cannot be hashed (8016) or undecodable data (8011), at any time, and past the expiry
  the hash, the proof and the encoding as in a take. SPP runs in none of these cases.\<close>

theorem settle_error_codes:
  assumes "account_checks_ok E" "is_signer payer" "is_writable payer" "is_signer maker"
    and "clock_unix_timestamp E = Inr now"
  shows "(case deserialize_exact (get_take_ix (wire_of E)) d of
       None \<Rightarrow> process_take_ix E (payer # as) d w = Inl (Custom 8011)
     | Some ix \<Rightarrow> 0 \<le> sint now \<and> sint now \<le> uint (expiry_unix_ts (tk_transact ix)) \<longrightarrow>
         (if inputs (tk_transact ix) = [] then process_take_ix E (payer # as) d w = Inl (Custom 8011)
         else case poseidon_hashv E [private_tx_hash (tk_transact ix),
                swap_u64_right_align (expiry_unix_ts (tk_transact ix)),
                nullifier_hash (hd (inputs (tk_transact ix)))] of
             None \<Rightarrow> process_take_ix E (payer # as) d w = Inl (Custom 8016)
           | Some h \<Rightarrow> if \<not> groth16_accepts E (take_points (tk_proof ix)) h take_vk
               then process_take_ix E (payer # as) d w = Inl (Custom 8007)
               else transact_serialize E (tk_transact ix) = None \<longrightarrow>
                 process_take_ix E (payer # as) d w = Inl (Custom 8011))) \<and>
    (case deserialize_exact (get_take_ve_ix (wire_of E)) d of
       None \<Rightarrow> process_take_ve_ix E (payer # as) d w = Inl (Custom 8011)
     | Some ix \<Rightarrow> 0 \<le> sint now \<and> sint now \<le> uint (expiry_unix_ts (tv_transact ix)) \<longrightarrow>
         (if outputs (tv_transact ix) = [] then process_take_ve_ix E (payer # as) d w = Inl (Custom 8011)
         else case output_data (last (outputs (tv_transact ix))) of
             None \<Rightarrow> process_take_ve_ix E (payer # as) d w = Inl (Custom 8011)
           | Some ct \<Rightarrow> if length ct \<noteq> 72 then process_take_ve_ix E (payer # as) d w = Inl (Custom 8011)
             else case Option.bind (ciphertext_hash E ct) (\<lambda>c. poseidon_hashv E
                    [private_tx_hash (tv_transact ix),
                     swap_u64_right_align (expiry_unix_ts (tv_transact ix)), c]) of
                 None \<Rightarrow> process_take_ve_ix E (payer # as) d w = Inl (Custom 8016)
               | Some h \<Rightarrow> if \<not> groth16_accepts E (take_ve_points (tv_proof ix)) h take_ve_vk
                   then process_take_ve_ix E (payer # as) d w = Inl (Custom 8007)
                   else transact_serialize E (tv_transact ix) = None \<longrightarrow>
                     process_take_ve_ix E (payer # as) d w = Inl (Custom 8011))) \<and>
    (case solana_owner_identity E (address maker) of
       None \<Rightarrow> process_cancel_ix E (payer # maker # as) d w = Inl (Custom 8016)
     | Some owner \<Rightarrow> (case deserialize_exact (get_cancel_ix (wire_of E)) d of
           None \<Rightarrow> process_cancel_ix E (payer # maker # as) d w = Inl (Custom 8011)
         | Some ix \<Rightarrow> uint (cn_order_expiry ix) < sint now \<longrightarrow>
             (case poseidon_hashv E [private_tx_hash (cn_transact ix),
                    swap_u64_right_align (cn_order_expiry ix), owner] of
                 None \<Rightarrow> process_cancel_ix E (payer # maker # as) d w = Inl (Custom 8016)
               | Some h \<Rightarrow> if \<not> groth16_accepts E (cancel_points (cn_proof ix)) h cancel_vk
                   then process_cancel_ix E (payer # maker # as) d w = Inl (Custom 8007)
                   else transact_serialize E (cn_transact ix) = None \<longrightarrow>
                     process_cancel_ix E (payer # maker # as) d w = Inl (Custom 8011))))"
proof (intro conjI, goal_cases)
  case 1
  show ?case
  proof (cases "deserialize_exact (get_take_ix (wire_of E)) d")
    case (Some ix)
    from take_error_codes [OF assms(1-3,5) Some] show ?thesis
      by (simp only: Some option.case)
  qed (simp add: settle_undecodable(1) [OF assms(1-4)])
next
  case 2
  show ?case
  proof (cases "deserialize_exact (get_take_ve_ix (wire_of E)) d")
    case (Some ix)
    from take_ve_error_codes [OF assms(1-3,5) Some] show ?thesis
      by (simp only: Some option.case)
  qed (simp add: settle_undecodable(2) [OF assms(1-4)])
next
  case 3
  show ?case
  proof (cases "solana_owner_identity E (address maker)")
    case (Some owner)
    then show ?thesis
    proof (cases "deserialize_exact (get_cancel_ix (wire_of E)) d")
      case ix: (Some ix)
      from cancel_error_codes [OF assms Some ix] show ?thesis
        by (simp only: Some ix option.case)
    qed (simp add: settle_undecodable(4) [OF assms(1-4)])
  qed (simp add: settle_undecodable(3) [OF assms(1-4)])
qed

text \<open>A verifiable take whose last output carries no ciphertext, and one with a ciphertext of 71 bytes.\<close>

definition demo_short_ve :: "bytes option \<Rightarrow> (unit, bool, account_view list, bytes list) chain_env" where
  "demo_short_ve ct = demo_env 11 (\<lambda>vk pis. True) [demo_transact 20 [] [(replicate 32 1, ct)] []]"

lemma demo_short_decodes:
  "\<exists>ix. deserialize_exact (get_take_ve_ix (wire_of (demo_short_ve ct))) demo_take_ve_data = Some ix \<and>
     tv_transact ix = demo_transact 20 [] [(replicate 32 1, ct)] []"
  by (simp add: demo_take_ve_data_def demo_proof_bytes_def get_take_ve_ix_def get_take_ve_proof_def
      demo_short_ve_def table_wire_def deserialize_exact_def)

theorem settle_error_codes_witness:
  "process_take_ve_ix (demo_short_ve None) [demo_signer 3] demo_take_ve_data [] = Inl (Custom 8011) \<and>
   process_take_ve_ix (demo_short_ve (Some (replicate 71 6))) [demo_signer 3] demo_take_ve_data []
     = Inl (Custom 8011)"
proof -
  have "process_take_ve_ix (demo_short_ve ct) [demo_signer 3] demo_take_ve_data [] = Inl (Custom 8011)"
    if "ct = None \<or> ct = Some (replicate 71 6)" for ct
  proof -
    obtain ix where ix: "deserialize_exact (get_take_ve_ix (wire_of (demo_short_ve ct))) demo_take_ve_data = Some ix"
      "tv_transact ix = demo_transact 20 [] [(replicate 32 1, ct)] []"
      using demo_short_decodes by blast
    have "account_checks_ok (demo_short_ve ct)" "clock_unix_timestamp (demo_short_ve ct) = Inr 11"
      "is_signer (demo_signer 3)" "is_writable (demo_signer 3)"
      by (simp_all add: demo_short_ve_def demo_signer_def)
    from conjunct1 [OF conjunct2 [OF settle_error_codes [OF this(1,3,4,3,2), where d = demo_take_ve_data and as = "[]" and w = "[]"]]]
    show ?thesis
      using that by (auto simp: ix demo_transact_def)
  qed
  then show ?thesis
    by simp
qed

text \<open>C29. The time gates come before the proof: with signed accounts and data that decodes, a take of
  either kind outside its window fails with the expired error and a cancel before it is due
  fails with the not-yet-expired error, whatever the proof, the accounts behind and the chain
  state are. A negative clock closes every gate.\<close>

theorem window_errors:
  assumes "account_checks_ok E" "is_signer payer" "is_writable payer" "is_signer maker"
    and "clock_unix_timestamp E = Inr now" "solana_owner_identity E (address maker) \<noteq> None"
  shows
    "(\<forall>x. take_expiry E d = Some x \<longrightarrow> \<not> (0 \<le> sint now \<and> sint now \<le> uint x) \<longrightarrow>
        process_take_ix E (payer # as) d w = Inl (Custom 8005)) \<and>
     (\<forall>x. take_ve_expiry E d = Some x \<longrightarrow> \<not> (0 \<le> sint now \<and> sint now \<le> uint x) \<longrightarrow>
        process_take_ve_ix E (payer # as) d w = Inl (Custom 8005)) \<and>
     (\<forall>x. cancel_expiry E d = Some x \<longrightarrow> \<not> uint x < sint now \<longrightarrow>
        process_cancel_ix E (payer # maker # as) d w = Inl (Custom 8006))"
  using assms
  unfolding within_as_int [symmetric] after_as_int [symmetric]
  by (auto simp: take_expiry_def take_ve_expiry_def cancel_expiry_def process_take_ix_def
      process_take_ve_ix_def process_cancel_ix_def next_signer_mut_Cons next_signer_Cons Let_def
      check_within_window_def check_after_window_def swap_program_error_def)

definition demo_cancel_data :: bytes where
  "demo_cancel_data = demo_proof_bytes @ to_le_bytes 9 @ [0]"

theorem window_errors_witness:
  "process_cancel_ix demo_settle_env [demo_signer 3, demo_signer 4] demo_cancel_data []
     = Inl (Custom 8006)"
proof -
  have "cancel_expiry demo_settle_env demo_cancel_data = Some 9"
    using demo_expiries(1)
    by (simp add: refund_expiry_def demo_cancel_event_def demo_cancel_data_def)
  moreover have "clock_unix_timestamp demo_settle_env = Inr 0"
    "solana_owner_identity demo_settle_env (address (demo_signer 4)) \<noteq> None"
    by (simp_all add: demo_env_def)
  ultimately show ?thesis
    using window_errors [where E = demo_settle_env and payer = "demo_signer 3" and
        maker = "demo_signer 4" and now = 0 and d = demo_cancel_data and as = "[]" and w = "[]"]
    by (simp add: demo_signer_def)
qed

text \<open>Dispatch: a foreign program id is refused before the data is looked at; empty data and
  every tag other than 2, 3, 4 and 5 are refused; the four tags go to make, take, cancel and
  the verifiable-encryption take.\<close>

theorem swap_dispatch:
  "swap_process_instruction E pid as data w =
     (if pid \<noteq> swap_id then Inl PE_IncorrectProgramId
      else if data = [] then Inl PE_InvalidInstructionData
      else if unat (hd data) \<in> {2, 3, 4, 5}
      then ([process_make_ix, process_take_ix, process_cancel_ix, process_take_ve_ix]
              ! (unat (hd data) - 2)) E as (tl data) w
      else Inl PE_InvalidInstructionData)"
proof (cases data)
  case Nil
  then show ?thesis by (simp add: swap_process_instruction_def)
next
  case (Cons t d)
  have "unat t = 2 \<longleftrightarrow> t = 2" "unat t = 3 \<longleftrightarrow> t = 3" "unat t = 4 \<longleftrightarrow> t = 4" "unat t = 5 \<longleftrightarrow> t = 5"
    by (simp_all add: word_unat_eq_iff)
  with Cons show ?thesis
    by (auto simp: swap_process_instruction_def swap_tag_defs)
qed

section \<open>State\<close>

text \<open>Whatever state invariant SPP and the other parties preserve is preserved by every history
  of the swap program: it has no effect on the chain outside the signed call.\<close>

theorem swap_keeps_invariants:
  assumes "swap_history E other w h w'" "I w"
    and "\<And>w w'. other w w' \<Longrightarrow> I w \<Longrightarrow> I w'"
    and "\<And>as tb w w'. swap_signed E as tb w w' \<Longrightarrow> I w \<Longrightarrow> I w'"
  shows "I w'"
  using swap_history_invariant [of E other w h w' I] assms by blast

lemma demo_signed_log: "swap_signed demo_settle_env as tb w w' \<Longrightarrow> w' = w @ [tb]"
  by (auto simp: signed_transact_def demo_env_def)

theorem swap_keeps_invariants_witness: "prefix [[9]] ([[9 :: byte]] @ [[0], [0]])"
  by (rule swap_keeps_invariants [OF demo_history, of "prefix [[9]]"]) (auto dest: demo_signed_log)

end
