(* ===== verification/Escrow_Properties.thy ===== *)
theory Escrow_Properties
  imports Escrow_Program Key_Facts Demo_Env
begin

text \<open>
  The properties of the timelock escrow program, over the component lemmas of its instructions,
  each with a witness on the concrete environment of \<open>Demo_Env\<close>.
\<close>

section \<open>Withdraw\<close>

text \<open>A withdraw that succeeds was signed by the caller and by the creator, strictly after (in
  integers) the unlock time it names; its proof was checked under the withdraw key against the
  hash of the transaction, of that unlock time and of the identity of the creator who signed, and
  the transaction is forwarded unchanged.\<close>

theorem withdraw_needs_creator:
  assumes "account_checks_ok E" "process_withdraw_ix E as d w = Inr w'"
  shows "\<exists>caller creator rest ix now owner h tb.
     as = caller # creator # rest \<and> is_signer caller \<and> is_writable caller \<and> is_signer creator \<and>
     get_withdraw_ix (wire_of E) d = Some (ix, []) \<and>
     clock_unix_timestamp E = Inr now \<and> uint (wd_unlock_timestamp ix) < sint now \<and>
     solana_owner_identity E (address creator) = Some owner \<and>
     poseidon_hashv E [private_tx_hash (wd_transact ix),
       escrow_u64_right_align (wd_unlock_timestamp ix), owner] = Some h \<and>
     groth16_accepts E (withdraw_points (wd_proof ix)) h withdraw_vk \<and>
     transact_serialize E (wd_transact ix) = Some tb \<and> escrow_signed E rest tb w w'"
proof -
  obtain rest tb where auth: "withdraw_authorised E as d rest tb"
    and sg: "escrow_signed E rest tb w w'"
    by (rule withdraw_ix_handler.handler_okE [OF assms(2)])
  then obtain caller iter creator iter' where
    accts: "next_signer_mut E ''caller'' as = Inr (caller, iter)"
      "next_signer E ''creator'' iter = Inr (creator, iter')" "remaining E iter' = Inr rest"
    and more: "\<exists>owner ix now h. solana_owner_identity E (address creator) = Some owner \<and>
        get_withdraw_ix (wire_of E) d = Some (ix, []) \<and> clock_unix_timestamp E = Inr now \<and>
        0 \<le> sint now \<and> wd_unlock_timestamp ix < now \<and>
        poseidon_hashv E [private_tx_hash (wd_transact ix),
          escrow_u64_right_align (wd_unlock_timestamp ix), owner] = Some h \<and>
        groth16_accepts E (withdraw_points (wd_proof ix)) h withdraw_vk \<and>
        transact_serialize E (wd_transact ix) = Some tb"
    unfolding withdraw_authorised_def by blast
  have "as = caller # creator # rest" "is_signer caller" "is_writable caller" "is_signer creator"
    using next_signer_mutD [OF assms(1) accts(1)] next_signerD [OF assms(1) accts(2)]
      remainingD [OF assms(1) accts(3)] by auto
  with more sg show ?thesis
    using after_as_int by blast
qed

definition demo_refund :: "unit transact_ix_data" where
  "demo_refund = demo_transact 20 [replicate 32 4] [(replicate 32 1, None)] []"

abbreviation demo_refund_env :: "(unit, bool, account_view list, bytes list) chain_env" where
  "demo_refund_env \<equiv> demo_env 10 (\<lambda>vk pis. True) [demo_refund]"

definition demo_escrow_authority :: account_view where
  "demo_escrow_authority = demo_account (fst (demo_pda [escrow_authority_pda_seed] escrow_id))"

definition demo_withdraw_data :: bytes where
  "demo_withdraw_data = demo_proof_bytes @ to_le_bytes 9 @ [0]"

lemma demo_withdraw_runs:
  "process_withdraw_ix demo_refund_env [demo_signer 3, demo_signer 4, demo_escrow_authority]
     demo_withdraw_data w = Inr (w @ [[0]])"
  by (simp add: process_withdraw_ix_def get_withdraw_ix_def get_withdraw_proof_def
      demo_withdraw_data_def demo_proof_bytes_def demo_simps Let_def deserialize_exact_def
      table_wire_def table_put_def escrow_cpi_spp_transact_signed_def escrow_verify_groth16_def
      demo_refund_def demo_transact_def demo_escrow_authority_def
      withdraw_public_input_hash_def escrow_check_after_window_def)

theorem withdraw_needs_creator_witness:
  "\<exists>caller creator rest ix now owner h tb.
     [demo_signer 3, demo_signer 4, demo_escrow_authority] = caller # creator # rest \<and>
     is_signer caller \<and> is_writable caller \<and> is_signer creator \<and>
     get_withdraw_ix (wire_of demo_refund_env) demo_withdraw_data = Some (ix, []) \<and>
     clock_unix_timestamp demo_refund_env = Inr now \<and> uint (wd_unlock_timestamp ix) < sint now \<and>
     solana_owner_identity demo_refund_env (address creator) = Some owner \<and>
     poseidon_hashv demo_refund_env [private_tx_hash (wd_transact ix),
       escrow_u64_right_align (wd_unlock_timestamp ix), owner] = Some h \<and>
     groth16_accepts demo_refund_env (withdraw_points (wd_proof ix)) h withdraw_vk \<and>
     transact_serialize demo_refund_env (wd_transact ix) = Some tb \<and>
     escrow_signed demo_refund_env rest tb [] ([] @ [[0]])"
  by (rule withdraw_needs_creator [OF demo_account_checks demo_withdraw_runs])

section \<open>Errors\<close>

text \<open>C31. The withdraw handler reports, in this order: an identity that cannot be hashed (9004), data
  that does not decode exactly (9001), a clock that is negative or not yet past the unlock time
  (9005, before the proof is looked at), and a public input that cannot be hashed (9004) or a
  rejected proof (9000). The escrow handler reports data that does not decode (9001) and then a
  rejected proof (9000).\<close>

theorem escrow_error_codes:
  assumes "account_checks_ok E" "is_signer payer" "is_writable payer" "is_signer creator"
    and "clock_unix_timestamp E = Inr now"
  shows
    "(deserialize_exact (get_escrow_ix (wire_of E)) d = None \<longrightarrow>
        process_escrow_ix E (payer # as) d w = Inl (Custom 9001)) \<and>
     (\<forall>ix. deserialize_exact (get_escrow_ix (wire_of E)) d = Some ix \<longrightarrow>
        \<not> groth16_accepts E (escrow_points (es_proof ix)) (private_tx_hash (es_transact ix)) escrow_vk \<longrightarrow>
        process_escrow_ix E (payer # as) d w = Inl (Custom 9000)) \<and>
     (solana_owner_identity E (address creator) = None \<longrightarrow>
        process_withdraw_ix E (payer # creator # as) d w = Inl (Custom 9004)) \<and>
     (\<forall>owner. solana_owner_identity E (address creator) = Some owner \<longrightarrow>
        (deserialize_exact (get_withdraw_ix (wire_of E)) d = None \<longrightarrow>
           process_withdraw_ix E (payer # creator # as) d w = Inl (Custom 9001)) \<and>
        (\<forall>ix. deserialize_exact (get_withdraw_ix (wire_of E)) d = Some ix \<longrightarrow>
           (if \<not> uint (wd_unlock_timestamp ix) < sint now
            then process_withdraw_ix E (payer # creator # as) d w = Inl (Custom 9005)
            else case poseidon_hashv E [private_tx_hash (wd_transact ix),
                   escrow_u64_right_align (wd_unlock_timestamp ix), owner] of
                None \<Rightarrow> process_withdraw_ix E (payer # creator # as) d w = Inl (Custom 9004)
              | Some h \<Rightarrow> \<not> groth16_accepts E (withdraw_points (wd_proof ix)) h withdraw_vk \<longrightarrow>
                  process_withdraw_ix E (payer # creator # as) d w = Inl (Custom 9000))))"
proof -
  have v: "escrow_verify_groth16 E p h vk =
      (if groth16_accepts E p h vk then Inr () else Inl (Custom 9000))" for p h vk
    by (auto simp: result_simps escrow_program_error_def)
  show ?thesis
    using assms
    unfolding after_as_int [symmetric]
    by (auto simp: process_escrow_ix_def process_withdraw_ix_def next_signer_mut_Cons
        next_signer_Cons Let_def escrow_check_after_window_def escrow_program_error_def
        escrow_error_of_hasher_def withdraw_public_input_hash_def
        escrow_points_def withdraw_points_def v split: option.splits)
qed

abbreviation demo_early_env :: "(unit, bool, account_view list, bytes list) chain_env" where
  "demo_early_env \<equiv> demo_env 9 (\<lambda>vk pis. True) [demo_refund]"

lemma demo_withdraw_decodes:
  "\<exists>ix. deserialize_exact (get_withdraw_ix (wire_of demo_early_env)) demo_withdraw_data = Some ix \<and>
     wd_unlock_timestamp ix = 9"
  by (simp add: demo_env_def get_withdraw_ix_def get_withdraw_proof_def demo_withdraw_data_def
      demo_proof_bytes_def table_wire_def deserialize_exact_def)

theorem escrow_error_codes_witness:
  "process_withdraw_ix demo_early_env [demo_signer 3, demo_signer 4] demo_withdraw_data []
     = Inl (Custom 9005)"
proof -
  have "clock_unix_timestamp demo_early_env = Inr 9"
    "solana_owner_identity demo_early_env (address (demo_signer 4)) = Some (replicate 32 4)"
    by (simp_all add: demo_env_def demo_signer_def)
  then show ?thesis
    using demo_withdraw_decodes
      escrow_error_codes [where E = demo_early_env and payer = "demo_signer 3" and
        creator = "demo_signer 4" and now = 9 and d = demo_withdraw_data and as = "[]" and w = "[]"]
    by (auto simp: demo_signer_def)
qed

end
