(* ===== verification/Sdk_Properties.thy ===== *)
theory Sdk_Properties
  imports Escrow_Builders Swap_Properties Escrow_Properties Demo_Sdk
begin

text \<open>
  Properties of the two SDKs against the programs: the program decodes what a builder encodes and
  finds the accounts where the builder put them, so an instruction lands exactly when its proof,
  its time gate and SPP accept.
\<close>

section \<open>Instructions that the program receives\<close>

lemma next_signer_mut_payer:
  assumes "account_checks_ok E"
  shows "next_signer_mut E l (\<lparr>address = k, is_signer = True, is_writable = True\<rparr> # as) =
     Inr (\<lparr>address = k, is_signer = True, is_writable = True\<rparr>, as)"
  using next_signer_mut_Cons [OF assms] by simp

lemma next_signer_readonly:
  assumes "account_checks_ok E"
  shows "next_signer E l (\<lparr>address = k, is_signer = True, is_writable = False\<rparr> # as) =
     Inr (\<lparr>address = k, is_signer = True, is_writable = False\<rparr>, as)"
  using next_signer_Cons [OF assms] by simp

text \<open>A make built by the SDK lands exactly when its proof is accepted, it has an order output and
  one message, the marker can be written and SPP accepts the stamped transaction: the encoding,
  the tag and the account order never get in the way, and the accounts SPP gets are the ones
  behind the payer.\<close>

lemma make_instruction_lands:
  assumes "account_checks_ok E" "wire_of E = sdk_wire S" "wincode_ok (sdk_wire S)"
    and "transact_ok (sdk_wire S)" "make_proof_wf (bm_make_proof b)"
    and "make_instruction S b = Inr ix" "t = clear_first_message (bm_spp_proof b)"
  shows "swap_process_instruction E (ix_program_id ix) (map view_of (ix_accounts ix)) (ix_data ix) w
           = Inr w' \<longleftrightarrow>
     groth16_accepts E (make_points (bm_make_proof b)) (private_tx_hash t) make_vk \<and>
     1 < length (outputs t) \<and>
     (\<exists>m mb tb. messages t = [m] \<and>
        put_marker (sdk_wire S)
          \<lparr>order_utxo_hash = utxo_hash (outputs t ! 1), maker_pubkey = bm_payer b\<rparr> = Some mb \<and>
        transact_serialize E (t\<lparr>messages := [m\<lparr>message_bytes := mb\<rparr>]\<rparr>) = Some tb \<and>
        swap_signed E (map view_of (tl (ix_accounts ix))) tb w w')"
proof -
  let ?as = "map view_of (tl (ix_accounts ix))"
  obtain d where put: "put_make_ix (sdk_wire S) \<lparr>mk_proof = bm_make_proof b, mk_transact = t\<rparr> = Some d"
    and ix: "ix_program_id ix = swap_id" "ix_data ix = swap_tag_make # d"
      "map view_of (ix_accounts ix) =
         \<lparr>address = bm_payer b, is_signer = True, is_writable = True\<rparr> # ?as" "?as \<noteq> []"
    using assms(6,7) by (auto simp: make_instruction_def result_simps Let_def)
  have dec: "get_make_ix (wire_of E) d = Some (\<lparr>mk_proof = bm_make_proof b, mk_transact = t\<rparr>, [])"
    using make_ix.get_put [OF _ put, of "[]"] assms(2-5) by simp
  have msgs: "message_bytes m = []" if "messages t = [m]" for m
    using that assms(7) by (auto simp: clear_first_message_def split: list.splits)
  have "swap_process_instruction E (ix_program_id ix) (map view_of (ix_accounts ix)) (ix_data ix) w
           = Inr w' \<longleftrightarrow>
     (\<exists>rest tb. make_authorised E (map view_of (ix_accounts ix)) d rest tb \<and> swap_signed E rest tb w w')"
    unfolding ix(1,2) swap_process_ok by (simp add: swap_authorised_def swap_tag_defs)
  then show ?thesis
    using dec msgs assms(2)
    unfolding make_authorised_def ix(3)
    by (auto simp: next_signer_mut_payer [OF assms(1)] remaining_Cons [OF assms(1) ix(4)]
        nth_opt_iff stamped_def)
qed

lemma demo_sdk_pdas [simp]:
  "order_authority_pda (demo_sdk tab) = fst (demo_pda [order_authority_pda_seed] swap_id)"
  "escrow_authority_pda (demo_sdk tab) = fst (demo_pda [escrow_authority_pda_seed] escrow_id)"
  by (simp_all add: order_authority_pda_def escrow_authority_pda_def demo_sdk_def)

text \<open>A take built by the SDK lands exactly when the clock is in the window of its transaction,
  it has an input, the proof is accepted for the hash of transaction, expiry and first nullifier,
  and SPP accepts the transaction, serialised as submitted.\<close>

lemma take_instruction_lands:
  assumes "account_checks_ok E" "wire_of E = sdk_wire S" "wincode_ok (sdk_wire S)"
    and "transact_ok (sdk_wire S)" "take_proof_wf (bt_take_proof b)"
    and "take_instruction S b = Inr ix" "t = bt_spp_proof b"
  shows "swap_process_instruction E (ix_program_id ix) (map view_of (ix_accounts ix)) (ix_data ix) w
           = Inr w' \<longleftrightarrow>
     (\<exists>now i0 is h tb. clock_unix_timestamp E = Inr now \<and>
        0 \<le> sint now \<and> sint now \<le> uint (expiry_unix_ts t) \<and> inputs t = i0 # is \<and>
        poseidon_hashv E [private_tx_hash t, swap_u64_right_align (expiry_unix_ts t),
          nullifier_hash i0] = Some h \<and>
        groth16_accepts E (take_points (bt_take_proof b)) h take_vk \<and>
        transact_serialize E t = Some tb \<and>
        swap_signed E (map view_of (tl (ix_accounts ix))) tb w w')"
proof -
  let ?as = "map view_of (tl (ix_accounts ix))"
  obtain d where put: "put_take_ix (sdk_wire S) \<lparr>tk_proof = bt_take_proof b, tk_transact = t\<rparr> = Some d"
    and ix: "ix_program_id ix = swap_id" "ix_data ix = swap_tag_take # d"
      "map view_of (ix_accounts ix) =
         \<lparr>address = bt_payer b, is_signer = True, is_writable = True\<rparr> # ?as" "?as \<noteq> []"
    using assms(6,7) by (auto simp: take_instruction_def result_simps Let_def)
  have dec: "get_take_ix (wire_of E) d = Some (\<lparr>tk_proof = bt_take_proof b, tk_transact = t\<rparr>, [])"
    using take_ix.get_put [OF _ put, of "[]"] assms(2-5) by simp
  have "swap_process_instruction E (ix_program_id ix) (map view_of (ix_accounts ix)) (ix_data ix) w
           = Inr w' \<longleftrightarrow>
     (\<exists>rest tb. take_authorised E (map view_of (ix_accounts ix)) d rest tb \<and> swap_signed E rest tb w w')"
    unfolding ix(1,2) swap_process_ok by (simp add: swap_authorised_def swap_tag_defs)
  then show ?thesis
    using dec
    unfolding take_authorised_def ix(3) first_opt_iff
    by (auto simp: le_as_int next_signer_mut_payer [OF assms(1)] remaining_Cons [OF assms(1) ix(4)])
qed

text \<open>A cancel built by the SDK lands exactly when the clock is past the order expiry it carries,
  the proof is accepted for the hash of transaction, expiry and the maker's identity, and SPP
  accepts the transaction: the maker the builder was given is the one the program finds and whose
  signature it requires.\<close>

lemma cancel_instruction_lands:
  assumes "account_checks_ok E" "wire_of E = sdk_wire S" "wincode_ok (sdk_wire S)"
    and "transact_ok (sdk_wire S)" "cancel_proof_wf (bc_cancel_proof b)"
    and "cancel_instruction S b = Inr ix" "t = bc_spp_proof b"
  shows "swap_process_instruction E (ix_program_id ix) (map view_of (ix_accounts ix)) (ix_data ix) w
           = Inr w' \<longleftrightarrow>
     (\<exists>now owner h tb. clock_unix_timestamp E = Inr now \<and> uint (bc_order_expiry b) < sint now \<and>
        solana_owner_identity E (bc_maker b) = Some owner \<and>
        poseidon_hashv E [private_tx_hash t, swap_u64_right_align (bc_order_expiry b), owner] = Some h \<and>
        groth16_accepts E (cancel_points (bc_cancel_proof b)) h cancel_vk \<and>
        transact_serialize E t = Some tb \<and>
        swap_signed E (map view_of (tl (tl (ix_accounts ix)))) tb w w')"
proof -
  let ?as = "map view_of (tl (tl (ix_accounts ix)))"
  obtain d where put: "put_cancel_ix (sdk_wire S)
      \<lparr>cn_proof = bc_cancel_proof b, cn_order_expiry = bc_order_expiry b, cn_transact = t\<rparr> = Some d"
    and ix: "ix_program_id ix = swap_id" "ix_data ix = swap_tag_cancel # d"
      "map view_of (ix_accounts ix) =
         \<lparr>address = bc_payer b, is_signer = True, is_writable = True\<rparr> #
         \<lparr>address = bc_maker b, is_signer = True, is_writable = False\<rparr> # ?as" "?as \<noteq> []"
    using assms(6,7) by (auto simp: cancel_instruction_def result_simps Let_def)
  have dec: "get_cancel_ix (wire_of E) d = Some (\<lparr>cn_proof = bc_cancel_proof b,
      cn_order_expiry = bc_order_expiry b, cn_transact = t\<rparr>, [])"
    using cancel_ix.get_put [OF _ put, of "[]"] assms(2-5) by simp
  have "swap_process_instruction E (ix_program_id ix) (map view_of (ix_accounts ix)) (ix_data ix) w
           = Inr w' \<longleftrightarrow>
     (\<exists>rest tb. cancel_authorised E (map view_of (ix_accounts ix)) d rest tb \<and> swap_signed E rest tb w w')"
    unfolding ix(1,2) swap_process_ok by (simp add: swap_authorised_def swap_tag_defs)
  then show ?thesis
    using dec after_as_int
    unfolding cancel_authorised_def ix(3)
    by (auto simp: next_signer_mut_payer [OF assms(1)] next_signer_readonly [OF assms(1)]
        remaining_Cons [OF assms(1) ix(4)])
qed

text \<open>A withdraw built by the SDK lands exactly when the clock is past the unlock time it
  carries, the proof is accepted for the hash of transaction, unlock time and the creator's
  identity, and SPP accepts the transaction.\<close>

lemma withdraw_instruction_lands:
  assumes "account_checks_ok E" "wire_of E = sdk_wire S" "wincode_ok (sdk_wire S)"
    and "transact_ok (sdk_wire S)" "withdraw_proof_wf (bw_withdraw_proof b)"
    and "withdraw_instruction S b = Inr ix" "t = bw_spp_proof b"
  shows "escrow_process_instruction E (ix_program_id ix) (map view_of (ix_accounts ix)) (ix_data ix) w
           = Inr w' \<longleftrightarrow>
     (\<exists>now owner h tb. clock_unix_timestamp E = Inr now \<and> uint (bw_unlock_timestamp b) < sint now \<and>
        solana_owner_identity E (bw_creator b) = Some owner \<and>
        poseidon_hashv E [private_tx_hash t, escrow_u64_right_align (bw_unlock_timestamp b), owner]
          = Some h \<and>
        groth16_accepts E (withdraw_points (bw_withdraw_proof b)) h withdraw_vk \<and>
        transact_serialize E t = Some tb \<and>
        escrow_signed E (map view_of (tl (tl (ix_accounts ix)))) tb w w')"
proof -
  let ?as = "map view_of (tl (tl (ix_accounts ix)))"
  obtain d where put: "put_withdraw_ix (sdk_wire S)
      \<lparr>wd_proof = bw_withdraw_proof b, wd_unlock_timestamp = bw_unlock_timestamp b,
       wd_transact = t\<rparr> = Some d"
    and ix: "ix_program_id ix = escrow_id" "ix_data ix = escrow_tag_withdraw # d"
      "map view_of (ix_accounts ix) =
         \<lparr>address = bw_payer b, is_signer = True, is_writable = True\<rparr> #
         \<lparr>address = bw_creator b, is_signer = True, is_writable = False\<rparr> # ?as" "?as \<noteq> []"
    using assms(6,7) by (auto simp: withdraw_instruction_def result_simps Let_def)
  have dec: "get_withdraw_ix (wire_of E) d = Some (\<lparr>wd_proof = bw_withdraw_proof b,
      wd_unlock_timestamp = bw_unlock_timestamp b, wd_transact = t\<rparr>, [])"
    using withdraw_ix.get_put [OF _ put, of "[]"] assms(2-5) by simp
  have "escrow_process_instruction E (ix_program_id ix) (map view_of (ix_accounts ix)) (ix_data ix) w
           = Inr w' \<longleftrightarrow>
     (\<exists>rest tb. withdraw_authorised E (map view_of (ix_accounts ix)) d rest tb \<and>
        escrow_signed E rest tb w w')"
    unfolding ix(1,2) escrow_process_ok by (simp add: escrow_program_authorised_def escrow_tag_defs)
  then show ?thesis
    using dec after_as_int
    unfolding withdraw_authorised_def ix(3)
    by (auto simp: next_signer_mut_payer [OF assms(1)] next_signer_readonly [OF assms(1)]
        remaining_Cons [OF assms(1) ix(4)])
qed

text \<open>A verifiable-encryption take built by the SDK lands exactly when the clock is in the window of its
  transaction, the last output carries a 72-byte ciphertext, the proof is accepted for the hash of
  transaction, expiry and ciphertext hash, and SPP accepts the transaction.\<close>

lemma take_ve_instruction_lands:
  assumes "account_checks_ok E" "wire_of E = sdk_wire S" "wincode_ok (sdk_wire S)"
    and "transact_ok (sdk_wire S)" "take_ve_proof_wf (bv_take_proof b)"
    and "take_ve_instruction S b = Inr ix" "t = bv_spp_proof b"
  shows "swap_process_instruction E (ix_program_id ix) (map view_of (ix_accounts ix)) (ix_data ix) w
           = Inr w' \<longleftrightarrow>
     (\<exists>now o_last ct cth h tb. clock_unix_timestamp E = Inr now \<and>
        0 \<le> sint now \<and> sint now \<le> uint (expiry_unix_ts t) \<and>
        last_opt (outputs t) = Some o_last \<and> output_data o_last = Some ct \<and> length ct = 72 \<and>
        ciphertext_hash E ct = Some cth \<and>
        poseidon_hashv E [private_tx_hash t, swap_u64_right_align (expiry_unix_ts t), cth] = Some h \<and>
        groth16_accepts E (take_ve_points (bv_take_proof b)) h take_ve_vk \<and>
        transact_serialize E t = Some tb \<and>
        swap_signed E (map view_of (tl (ix_accounts ix))) tb w w')"
proof -
  let ?as = "map view_of (tl (ix_accounts ix))"
  obtain d where put: "put_take_ve_ix (sdk_wire S) \<lparr>tv_proof = bv_take_proof b, tv_transact = t\<rparr> = Some d"
    and ix: "ix_program_id ix = swap_id" "ix_data ix = swap_tag_take_ve # d"
      "map view_of (ix_accounts ix) =
         \<lparr>address = bv_payer b, is_signer = True, is_writable = True\<rparr> # ?as" "?as \<noteq> []"
    using assms(6,7) by (auto simp: take_ve_instruction_def result_simps Let_def)
  have dec: "get_take_ve_ix (wire_of E) d = Some (\<lparr>tv_proof = bv_take_proof b, tv_transact = t\<rparr>, [])"
    using take_ve_ix.get_put [OF _ put, of "[]"] assms(2-5) by simp
  have "swap_process_instruction E (ix_program_id ix) (map view_of (ix_accounts ix)) (ix_data ix) w
           = Inr w' \<longleftrightarrow>
     (\<exists>rest tb. take_ve_authorised E (map view_of (ix_accounts ix)) d rest tb \<and>
        swap_signed E rest tb w w')"
    unfolding ix(1,2) swap_process_ok by (simp add: swap_authorised_def swap_tag_defs)
  then show ?thesis
    using dec
    unfolding take_ve_authorised_def ix(3)
    by (auto simp: le_as_int next_signer_mut_payer [OF assms(1)] remaining_Cons [OF assms(1) ix(4)])
qed

end
