(* ===== verification/Order_Properties.thy ===== *)
theory Order_Properties
  imports Swap_Proof_Inputs Demo_Sdk
begin

text \<open>
  Properties of the order state and of the proof inputs of the swap SDK: what the data hash of an
  order commits to, that both forms of an order have one commitment, that the note and the
  destination ciphertext can be read back, and that the maker can reconstruct the payout of a
  derived take.
\<close>

section \<open>What the data hash commits to\<close>

text \<open>The part of the terms that settlement depends on: everything but the maker's signing key and
  nullifier key, which enter through the owner hash.\<close>

definition same_deal ::
  "('x, 'p, 'm, 'd, 'r, 'i) sdk_env \<Rightarrow> 'p order_terms \<Rightarrow> 'p order_terms \<Rightarrow> bool" where
  "same_deal S a b \<longleftrightarrow>
     ot_destination_mint a = ot_destination_mint b \<and>
     ot_destination_amount a = ot_destination_amount b \<and>
     owner_hash S (ot_destination a) = owner_hash S (ot_destination b) \<and>
     viewing_pubkey (ot_destination a) = viewing_pubkey (ot_destination b) \<and>
     ot_taker a = ot_taker b \<and> ot_expiry a = ot_expiry b \<and> ot_take_mode a = ot_take_mode b"

text \<open>The input of the outer hash, once the inner values are known.\<close>

definition order_preimage :: "order_terms_proof_input \<Rightarrow> bytes \<Rightarrow> bytes list" where
  "order_preimage t maker_address =
     [op_destination_asset t, swap_u64_right_align (op_destination_amount t), maker_address,
      swap_u64_right_align (op_expiry t), op_taker_pk_fe t, swap_u64_right_align (op_take_mode t)]"

definition maker_address_of ::
  "('x, 'p, 'm, 'd, 'r, 'i) sdk_env \<Rightarrow> order_terms_proof_input \<Rightarrow> bytes option" where
  "maker_address_of S t = compressed_address_hash S (op_maker_owner_hash t) (op_maker_viewing_pk t)"

text \<open>A collision in one of the four hashes, at inputs that the two terms name.\<close>

definition order_collision ::
  "('x, 'p, 'm, 'd, 'r, 'i) sdk_env \<Rightarrow> 'p order_terms \<Rightarrow> 'p order_terms \<Rightarrow> bool" where
  "order_collision S a b \<longleftrightarrow>
     (\<exists>ta tb ma mb. order_terms_proof_input_of S a = Inr ta \<and> order_terms_proof_input_of S b = Inr tb \<and>
        maker_address_of S ta = Some ma \<and> maker_address_of S tb = Some mb \<and>
        (collides (sdk_poseidon S) (order_preimage ta ma) (order_preimage tb mb) \<or>
         collides (\<lambda>(h, v). compressed_address_hash S h v)
           (op_maker_owner_hash ta, op_maker_viewing_pk ta)
           (op_maker_owner_hash tb, op_maker_viewing_pk tb) \<or>
         collides (hash_bytes S) (ot_destination_mint a) (ot_destination_mint b) \<or>
         collides (owner_identity S) (ot_taker a) (ot_taker b)))"

lemma order_data_hash_preimage:
  assumes "viewing_law S" "order_terms_data_hash S a = Inr h"
  obtains ta ma where "order_terms_proof_input_of S a = Inr ta" "maker_address_of S ta = Some ma"
    "sdk_poseidon S (order_preimage ta ma) = Some h"
  using assms
  by (auto simp: order_terms_data_hash_def order_input_data_hash_def result_simps viewing_law_def
      maker_address_of_def order_preimage_def)

text \<open>C23. The data hash of an order binds the deal: if two order terms have the same data hash, they
  agree on mint, amount, maker (owner hash and viewing key), taker, expiry and take mode, or their
  own values are a collision of one of the hash functions.\<close>

theorem order_data_hash_binds:
  assumes "viewing_law S"
    and "order_terms_data_hash S a = Inr h" "order_terms_data_hash S b = Inr h"
  shows "same_deal S a b \<or> order_collision S a b"
proof -
  obtain ta ma where a: "order_terms_proof_input_of S a = Inr ta" "maker_address_of S ta = Some ma"
    "sdk_poseidon S (order_preimage ta ma) = Some h"
    by (rule order_data_hash_preimage [OF assms(1,2)])
  obtain tb mb where b: "order_terms_proof_input_of S b = Inr tb" "maker_address_of S tb = Some mb"
    "sdk_poseidon S (order_preimage tb mb) = Some h"
    by (rule order_data_hash_preimage [OF assms(1,3)])
  have "same_deal S a b" if no: "\<not> order_collision S a b"
  proof -
    have outer: "order_preimage ta ma = order_preimage tb mb"
      using no a b unfolding order_collision_def collides_def by (metis option.distinct(1))
    then have "ma = mb"
      by (simp add: order_preimage_def)
    then have addr: "op_maker_owner_hash ta = op_maker_owner_hash tb"
      "op_maker_viewing_pk ta = op_maker_viewing_pk tb"
      using no a b unfolding order_collision_def collides_def maker_address_of_def by fastforce+
    have mint: "hash_bytes S (ot_destination_mint a) = hash_bytes S (ot_destination_mint b)"
      "hash_bytes S (ot_destination_mint a) \<noteq> None"
      and taker: "owner_identity S (ot_taker a) = owner_identity S (ot_taker b)"
      "owner_identity S (ot_taker a) \<noteq> None"
      and rest: "owner_hash S (ot_destination a) = owner_hash S (ot_destination b)"
      "viewing_pubkey (ot_destination a) = viewing_pubkey (ot_destination b)"
      "ot_destination_amount a = ot_destination_amount b" "ot_expiry a = ot_expiry b"
      "ot_take_mode a = ot_take_mode b"
      using a(1) b(1) addr outer
      by (auto simp: order_terms_proof_input_of_def address_data_hash_def result_simps
          order_preimage_def)
    have "ot_destination_mint a = ot_destination_mint b" "ot_taker a = ot_taker b"
      using no a(1,2) b(1,2) mint taker unfolding order_collision_def collides_def by auto
    with rest show ?thesis by (simp add: same_deal_def)
  qed
  then show ?thesis by blast
qed

definition demo_terms :: "u64 \<Rightarrow> bytes order_terms" where
  "demo_terms mode =
     \<lparr>ot_destination_mint = replicate 32 1, ot_destination_amount = 250,
      ot_destination = \<lparr>signing_pubkey = replicate 32 2, nullifier_pubkey = replicate 32 3,
                        viewing_pubkey = replicate 33 4\<rparr>,
      ot_taker = replicate 32 5, ot_expiry = 1700000000, ot_take_mode = mode\<rparr>"

lemma demo_taker_length [simp]: "length (ot_taker (demo_terms mode)) = 32"
  by (simp add: demo_terms_def)

lemma demo_terms_hash: "\<exists>h. order_terms_data_hash demo_S (demo_terms mode) = Inr h"
  by (simp add: order_terms_data_hash_def order_terms_proof_input_of_def order_input_data_hash_def
      ext_def address_data_hash_def)

text \<open>The deal with another split of the owner hash into signing key and nullifier key.\<close>

definition demo_other_terms :: "bytes order_terms" where
  "demo_other_terms = (demo_terms 0)\<lparr>ot_destination := \<lparr>signing_pubkey = replicate 31 2,
     nullifier_pubkey = 2 # replicate 32 3, viewing_pubkey = replicate 33 4\<rparr>\<rparr>"

lemma demo_no_collision: "\<not> order_collision demo_S (demo_terms 0) (demo_terms mode)"
  "\<not> order_collision demo_S (demo_terms 0) demo_other_terms"
  by (auto simp: order_collision_def collides_def order_terms_proof_input_of_def ext_def
      address_data_hash_def order_preimage_def maker_address_of_def demo_terms_def demo_other_terms_def)

text \<open>Two different terms with one data hash are the same deal, and two deals that differ only in the
  take mode have different data hashes.\<close>

theorem order_data_hash_binds_witness:
  "demo_terms 0 \<noteq> demo_other_terms \<and>
   order_terms_data_hash demo_S (demo_terms 0) = order_terms_data_hash demo_S demo_other_terms \<and>
   same_deal demo_S (demo_terms 0) demo_other_terms \<and>
   order_terms_data_hash demo_S (demo_terms 0) \<noteq> order_terms_data_hash demo_S (demo_terms 1)"
proof -
  obtain h where h: "order_terms_data_hash demo_S (demo_terms 0) = Inr h"
    using demo_terms_hash by blast
  have eq: "order_terms_data_hash demo_S (demo_terms 0) = order_terms_data_hash demo_S demo_other_terms"
    by (simp add: order_terms_data_hash_def order_terms_proof_input_of_def order_input_data_hash_def
        ext_def address_data_hash_def demo_terms_def demo_other_terms_def eval_nat_numeral)
  have "same_deal demo_S (demo_terms 0) demo_other_terms"
    using order_data_hash_binds [where S = demo_S, OF demo_sdk_laws(6) h] h eq demo_no_collision(2) by metis
  moreover have "demo_terms 0 \<noteq> demo_other_terms"
    by (simp add: demo_terms_def demo_other_terms_def)
  moreover have "\<not> same_deal demo_S (demo_terms 0) (demo_terms 1)"
    by (simp add: same_deal_def demo_terms_def)
  ultimately show ?thesis
    using order_data_hash_binds [where S = demo_S, OF demo_sdk_laws(6) h] h eq demo_no_collision(1) by metis
qed

section \<open>One commitment for both forms\<close>

text \<open>The output that make mints for an order and the input that take and cancel build for it
  have the same UTXO hash in every tree, whoever the output is encrypted to: the SDK always spends
  the order that was made.\<close>

theorem order_forms_agree:
  assumes "output_laws S" "commit_law S"
    and "order_output_utxo S order v = Inr u" "order_to_input_utxo S order t l = Inr i"
  shows "output_hash S u t = Some (in_utxo_hash i) \<and> in_data_hash i = out_data_hash u \<and>
     in_tree_id i = t \<and> in_leaf_index i = l"
  using order_forms.forms_agree [OF assms] by simp

definition demo_order :: "u64 \<Rightarrow> (bytes, bytes \<times> u64) order_utxo" where
  "demo_order mode =
     \<lparr>ou_terms = demo_terms mode, ou_blinding = replicate 32 6, ou_source_mint = (replicate 32 7, 2),
      ou_source_amount = 400, ou_destination_asset_id = 3\<rparr>"

lemma demo_order_forms:
  "\<exists>u i. order_output_utxo demo_S (demo_order mode) v = Inr u \<and>
     order_to_input_utxo demo_S (demo_order mode) t l = Inr i"
proof -
  obtain h where h: "order_terms_data_hash demo_S (demo_terms mode) = Inr h"
    using demo_terms_hash by blast
  show ?thesis
    by (simp add: order_output_utxo_def order_to_input_utxo_def demo_order_def h Let_def ext_def
        plaintext_serialize_def put_plaintext_def table_wire_def demo_commit_def)
qed

theorem order_forms_agree_witness:
  "\<exists>u i. order_output_utxo demo_S (demo_order 0) (replicate 33 4) = Inr u \<and>
     order_to_input_utxo demo_S (demo_order 0) 0 5 = Inr i \<and>
     output_hash demo_S u 0 = Some (in_utxo_hash i) \<and> in_leaf_index i = 5"
  using demo_order_forms [of 0 "replicate 33 4" 0 5]
    order_forms_agree [where S = demo_S and t = 0 and l = 5, OF demo_sdk_laws(1,2)] by blast

section \<open>The note and the destination ciphertext\<close>

text \<open>C27. The note that make writes into the order output is read back exactly by the taker, and no
  note is accepted with bytes behind it.\<close>

theorem order_note_roundtrip:
  assumes "wincode_ok (sdk_wire S)" "length (ot_taker terms) = 32"
    and "plaintext_serialize S (to_plaintext terms asset_id) = Inr bs"
  shows "plaintext_deserialize S bs =
      Inr \<lparr>pt_destination_asset_id = asset_id,
           pt_destination_amount = ot_destination_amount terms, pt_expiry = ot_expiry terms,
           pt_taker = ot_taker terms, pt_take_mode = ot_take_mode terms\<rparr> \<and>
    is_ok (plaintext_deserialize S (bs @ rest)) = (rest = [])"
proof -
  have v: "wincode_ok (sdk_wire S) \<and> length (pt_taker (to_plaintext terms asset_id)) = 32"
    using assms(1,2) by (simp add: to_plaintext_def)
  have put: "put_plaintext (sdk_wire S) (to_plaintext terms asset_id) = Some bs"
    using assms(3) by (simp add: plaintext_serialize_def result_simps)
  have "deserialize_exact (get_plaintext (sdk_wire S)) bs = Some (to_plaintext terms asset_id)"
    by (rule plaintext.exact_put [OF v put])
  moreover have "deserialize_exact (get_plaintext (sdk_wire S)) (bs @ rest) = None" if "rest \<noteq> []"
    by (rule plaintext.exact_rejects_trailing [OF v put that])
  ultimately show ?thesis
    by (cases "rest = []") (auto simp: plaintext_deserialize_def ext_def to_plaintext_def)
qed

lemma demo_note:
  "\<exists>bs. plaintext_serialize demo_S (to_plaintext (demo_terms 1) 3) = Inr bs"
  by (simp add: plaintext_serialize_def ext_def put_plaintext_def table_wire_def)

theorem order_note_roundtrip_witness:
  "\<exists>bs. plaintext_serialize demo_S (to_plaintext (demo_terms 1) 3) = Inr bs \<and>
     plaintext_deserialize demo_S bs =
       Inr \<lparr>pt_destination_asset_id = 3, pt_destination_amount = ot_destination_amount (demo_terms 1),
            pt_expiry = ot_expiry (demo_terms 1), pt_taker = ot_taker (demo_terms 1),
            pt_take_mode = ot_take_mode (demo_terms 1)\<rparr>"
proof -
  obtain bs where bs: "plaintext_serialize demo_S (to_plaintext (demo_terms 1) 3) = Inr bs"
    using demo_note by blast
  show ?thesis
    using order_note_roundtrip [where rest = "[]", OF _ _ bs] bs by (intro exI [of _ bs]) simp
qed

text \<open>C26. The destination ciphertext of a verifiable take is 72 bytes long, and the holder of the order
  blinding decrypts it to the hashed mint, the amount and the blinding of the payout.\<close>

theorem destination_ciphertext_roundtrip:
  assumes "cipher_law S" "hash_bytes S mint = Some asset" "length asset = 32" "length blinding = 32"
    and "destination_ciphertext_with_hash S order_blinding mint amount blinding = Inr (ct, ct_hash)"
  shows "length ct = destination_ciphertext_len \<and>
    decrypt_destination S order_blinding ct = Inr (asset, amount, blinding) \<and>
    hash_bytes S ct = Some ct_hash"
proof -
  let ?pt = "to_be_bytes amount @ asset @ blinding"
  obtain k where k: "take_shared_secret S order_blinding = Inr k"
    and ct: "symmetric_apply S k (merge_info S) ?pt = Some ct" "hash_bytes S ct = Some ct_hash"
    using assms(2,5) by (auto simp: destination_ciphertext_with_hash_def result_simps Let_def)
  have len: "length ct = length ?pt" and inv: "symmetric_apply S k (merge_info S) ct = Some ?pt"
    using cipher_lawD [OF assms(1) ct(1)] by blast+
  have "slice 0 8 ?pt = Some (to_be_bytes amount)" "slice 8 40 ?pt = Some asset"
    "slice 40 72 ?pt = Some blinding"
    using assms(3,4) by (simp_all add: slice_def)
  then show ?thesis
    using k ct(2) inv len assms(3,4)
    by (simp add: decrypt_destination_def ext_def destination_ciphertext_len_def)
qed

theorem destination_ciphertext_roundtrip_witness:
  "\<exists>ct h. destination_ciphertext_with_hash demo_S (replicate 32 6) (replicate 32 1) 250
       (replicate 32 9) = Inr (ct, h) \<and>
     decrypt_destination demo_S (replicate 32 6) ct
       = Inr (replicate 32 1, 250, replicate 32 9)"
proof -
  have "\<exists>ct h. destination_ciphertext_with_hash demo_S (replicate 32 6) (replicate 32 1) 250
      (replicate 32 9) = Inr (ct, h)"
    by (simp add: destination_ciphertext_with_hash_def take_shared_secret_def ext_def Let_def)
  then obtain ct h where ct: "destination_ciphertext_with_hash demo_S (replicate 32 6)
      (replicate 32 1) 250 (replicate 32 9) = Inr (ct, h)"
    by blast
  show ?thesis
    using destination_ciphertext_roundtrip [where S = demo_S and asset = "replicate 32 1",
        OF demo_sdk_laws(3) _ _ _ ct] ct by (intro exI [of _ ct] exI [of _ h]) auto
qed

section \<open>The payout of a derived take\<close>

text \<open>C22. Whenever the SDK produces the inputs of a derived take, the maker can reconstruct the payout
  from the order opening and the first nullifier alone: \<open>derived_destination_output\<close> returns an
  output with the same owner (the maker), asset, amount and blinding as the one the taker created,
  and the published nullifier is the one of the order's input form.\<close>

theorem take_payout_recoverable:
  assumes "output_laws S" "mint_law S" "commit_law S" "proof_input_law S"
    and "take_to_proof_inputs S P = Inr q"
    and "order_to_input_utxo S (tpp_order_utxo P) (tpp_input_tree_id P) l = Inr i"
  shows "tpi_first_nullifier q = in_nullifier i \<and>
    (\<exists>u. derived_destination_output S (tpp_order_utxo P) (tpi_first_nullifier q) = Inr u \<and>
       out_owner_address u = out_owner_address (tpp_destination_output P) \<and>
       out_owner_address u = Some (ot_destination (ou_terms (tpp_order_utxo P))) \<and>
       mint_asset S (out_asset u) = mint_asset S (out_asset (tpp_destination_output P)) \<and>
       out_amount u = out_amount (tpp_destination_output P) \<and>
       out_blinding u = out_blinding (tpp_destination_output P) \<and>
       out_data_hash u = None \<and> out_ring_data_hash u = None \<and> out_ring_program_id u = None)"
proof -
  let ?order = "tpp_order_utxo P" and ?n = "tpi_first_nullifier q"
  obtain taker order_out order_utxo order_hash bseed seed where
    taker: "check_take_utxos S P = Inr taker" and
    mode: "ot_take_mode (ou_terms ?order) = take_mode_derived" and
    out: "order_output_utxo S ?order (viewing_pubkey (ot_destination (ou_terms ?order))) = Inr order_out"
      "proof_input S order_out (tpp_input_tree_id P) = Some order_utxo"
      "proof_input_hash S order_utxo = Some order_hash" and
    n: "nullifier_key_nullifier S order_nullifier_key order_hash (ou_blinding ?order) = Some ?n" and
    seeds: "take_blinding_seed S (ou_blinding ?order) = Inr bseed"
      "derive_output_blinding_seed S ?n bseed = Some seed"
      "derive_transact_output_blinding S ?n seed 1 = Some (out_blinding (tpp_destination_output P))"
    by (rule take_to_proof_inputs_blindings [OF assms(5)])
  have "output_hash S order_out (tpp_input_tree_id P) = Some order_hash"
    using assms(4) out(2,3) by (simp add: proof_input_law_def)
  then have "in_utxo_hash i = order_hash"
    using order_input_hash [OF assms(1,3) out(1) assms(6)] by simp
  moreover have "nullifier_key_nullifier S order_nullifier_key (in_utxo_hash i) (ou_blinding ?order)
      = Some (in_nullifier i)"
    using assms(6) by (auto simp: order_to_input_utxo_def result_simps Let_def)
  ultimately have "?n = in_nullifier i"
    using n by simp
  moreover have "derived_destination_output S ?order ?n =
      Inr (order_destination_output S ?order (ot_destination (ou_terms ?order))
             (out_blinding (tpp_destination_output P)))"
    using mode seeds by (simp add: derived_destination_output_def guardR_def ext_def)
  ultimately show ?thesis
    using taker assms(1,2)
    by (auto simp: result_simps plain_output_def order_destination_output_def output_laws_def
        mint_law_def)
qed

lemma demo_take_inputs:
  "\<exists>P q i. take_to_proof_inputs demo_S P = Inr q \<and> tpp_order_utxo P = demo_order 0 \<and>
     order_to_input_utxo demo_S (tpp_order_utxo P) (tpp_input_tree_id P) 0 = Inr i"
proof -
  obtain u i where u: "order_output_utxo demo_S (demo_order 0)
      (viewing_pubkey (ot_destination (demo_terms 0))) = Inr u"
    and i: "order_to_input_utxo demo_S (demo_order 0) 0 0 = Inr i"
    using demo_order_forms by blast
  have h: "demo_output_hash u 0 = Some (in_utxo_hash i)"
    using order_input_hash [where S = demo_S, OF demo_sdk_laws(1,2) u i] by simp
  obtain t where t: "order_terms_proof_input_of demo_S (demo_terms 0) = Inr t"
    by (simp add: order_terms_proof_input_of_def address_data_hash_def ext_def)
  obtain n b where n: "take 32 (order_nullifier_key @ in_utxo_hash i @ replicate 32 6) = n"
    and b: "(replicate 28 0 @ byte_string ''SWTX'') @ replicate 32 6 = b"
    by blast
  let ?owner = "\<lparr>signing_pubkey = replicate 32 8, nullifier_pubkey = replicate 32 3,
                 viewing_pubkey = replicate 33 9\<rparr>"
  let ?out = "\<lambda>w m a bl. \<lparr>out_owner_address = Some w, out_asset = m, out_amount = a,
     out_blinding = bl, out_data_hash = None, out_ring_data_hash = None,
     out_ring_program_id = None, out_rest = None\<rparr>"
  let ?P = "\<lparr>tpp_order_utxo = demo_order 0,
     tpp_taker_in = ?out ?owner (replicate 32 1, 3) 250 (replicate 32 0),
     tpp_source_output = ?out ?owner (replicate 32 7, 2) 400 (n @ (n @ b) @ le_bytes 4 0),
     tpp_destination_output = ?out (ot_destination (demo_terms 0)) (replicate 32 1, 3) 250
        (n @ (n @ b) @ le_bytes 4 1),
     tpp_private_tx_blinding = n @ b @ [0], tpp_input_tree_id = 0, tpp_output_tree_id = 0\<rparr>"
  have checks: "check_take_utxos demo_S ?P = Inr ?owner"
    by (simp add: check_take_utxos_ok plain_output_def demo_order_def demo_terms_def)
  have terms: "ou_terms (demo_order 0) = demo_terms 0" "ou_blinding (demo_order 0) = replicate 32 6"
    "ot_take_mode (demo_terms 0) = 0"
    by (simp_all add: demo_order_def demo_terms_def)
  have out: "\<exists>x. demo_output_hash (?out w m a bl) 0 = Some x" for w m a bl
    by (simp add: demo_output_hash_def demo_commit_def)
  obtain h1 h2 h3 where hs: "demo_output_hash (tpp_taker_in ?P) 0 = Some h1"
    "demo_output_hash (tpp_source_output ?P) 0 = Some h2"
    "demo_output_hash (tpp_destination_output ?P) 0 = Some h3"
    using out [of ?owner "(replicate 32 1, 3)" 250 "replicate 32 0"]
      out [of ?owner "(replicate 32 7, 2)" 400 "n @ (n @ b) @ le_bytes 4 0"]
      out [of "ot_destination (demo_terms 0)" "(replicate 32 1, 3)" 250 "n @ (n @ b) @ le_bytes 4 1"]
    by auto
  have blindings: "check_take_blindings demo_S n (n @ b) 0
      [tpp_source_output ?P, tpp_destination_output ?P] = Inr ()"
    by (simp add: ext_def)
  have seed: "take_blinding_seed demo_S (ou_blinding (demo_order 0)) = Inr b"
    using b by (simp add: take_blinding_seed_def ext_def terms)
  have nf: "nullifier_key_nullifier demo_S order_nullifier_key (in_utxo_hash i) (replicate 32 6)
      = Some n"
    using n by simp
  have "\<exists>q. take_to_proof_inputs demo_S ?P = Inr q"
    unfolding take_to_proof_inputs_def Let_def checks bindR.simps
    using terms t u h hs blindings seed nf
    by (simp add: take_mode_derived_def ext_def take_private_tx_hash_def take_public_input_hash_def
        del: take_append append_assoc check_take_blindings.simps)
  with i show ?thesis
    by (intro exI [of _ ?P]) auto
qed

theorem take_payout_recoverable_witness:
  "\<exists>P q u. take_to_proof_inputs demo_S P = Inr q \<and>
     derived_destination_output demo_S (tpp_order_utxo P) (tpi_first_nullifier q) = Inr u \<and>
     out_blinding u = out_blinding (tpp_destination_output P)"
  using demo_take_inputs
    take_payout_recoverable [where S = demo_S, OF demo_sdk_laws(1,4,2,5)] by metis

end
