(* ===== verification/Settlement_Properties.thy ===== *)
theory Settlement_Properties
  imports Sdk_Properties Key_Facts Order_Properties Escrow_Proof_Inputs
begin

text \<open>
  Properties that join the proof inputs of the SDKs to the programs: the public input that the
  SDK has proved is the one the program recomputes from the instruction and its accounts, so that
  a settlement lands whenever the proof system accepts the SDK's own public input hash.
\<close>

section \<open>The hash of the SDK is the hash of the program\<close>

text \<open>Both sides use the same Poseidon, and the owner hash of the SDK's key is the program's identity
  of the account.\<close>

definition same_hashes ::
  "('x, 'v, 's, 'w) chain_env \<Rightarrow> ('x, 'p, 'm, 'd, 'r, 'i) sdk_env \<Rightarrow> bool" where
  "same_hashes E S \<longleftrightarrow>
     wire_of E = sdk_wire S \<and> poseidon_hashv E = sdk_hashv S \<and>
     ciphertext_hash E = sdk_ciphertext_hash S"

lemma demo_same_hashes [simp]: "same_hashes (demo_env now accept tab) (demo_sdk tab)"
  by (simp add: same_hashes_def)

lemma cancel_to_proof_inputs_hash:
  assumes "cancel_to_proof_inputs S P = Inr q"
  obtains owner where
    "owner_proof_input_hash S (signing_pubkey (ot_destination (ou_terms (cpp_order_utxo P)))) = Some owner"
    "sdk_hashv S [cpi_private_tx_hash q,
       swap_u64_right_align (ot_expiry (ou_terms (cpp_order_utxo P))), owner]
     = Some (cpi_public_input_hash q)"
  using assms
  by (auto simp: cancel_to_proof_inputs_def Let_def result_simps cancel_public_input_hash_def)

lemma take_to_proof_inputs_hash:
  assumes "take_to_proof_inputs S P = Inr q"
  shows "sdk_hashv S [tpi_private_tx_hash q,
       swap_u64_right_align (ot_expiry (ou_terms (tpp_order_utxo P))), tpi_first_nullifier q]
     = Some (tpi_public_input_hash q)"
  using assms
  by (auto simp: take_to_proof_inputs_def Let_def result_simps take_public_input_hash_def)

lemma withdraw_to_proof_inputs_hash:
  assumes "withdraw_to_proof_inputs S P = Inr q"
  obtains owner where
    "owner_proof_input_hash S (signing_pubkey (et_creator (eu_terms (wpp_escrow_utxo P)))) = Some owner"
    "sdk_hashv S [wpi_private_tx_hash q,
       escrow_u64_right_align (et_unlock_timestamp (eu_terms (wpp_escrow_utxo P))), owner]
     = Some (wpi_public_input_hash q)"
  using assms
  by (auto simp: withdraw_to_proof_inputs_def Let_def result_simps withdraw_public_input_hash_def)

lemma take_ve_to_proof_inputs_hash:
  assumes "take_ve_to_proof_inputs S P = Inr q"
    and "order_destination_ciphertext S (tpp_order_utxo P) (tpp_destination_output P) = Inr ct"
  obtains cth where "length ct = 72" "sdk_ciphertext_hash S ct = Some cth"
    "sdk_hashv S [vpi_private_tx_hash q,
       swap_u64_right_align (ot_expiry (ou_terms (tpp_order_utxo P))), cth]
     = Some (vpi_public_input_hash q)"
  using assms
  by (auto simp: take_ve_to_proof_inputs_def order_destination_ciphertext_def Let_def result_simps
      take_ve_public_input_hash_def)

text \<open>The runs of the witnesses: the transaction has the hash that the proof inputs computed, and the
  proof system accepts the public input hash of the SDK and no other.\<close>

definition demo_settlement :: "bytes \<Rightarrow> bytes list \<Rightarrow> bytes option \<Rightarrow> unit transact_ix_data" where
  "demo_settlement ptx ns d = (demo_transact 1700000000 ns [(replicate 32 1, d)] [])\<lparr>private_tx_hash := ptx\<rparr>"

lemma demo_settlement_simps [simp]:
  "private_tx_hash (demo_settlement ptx ns d) = ptx"
  "expiry_unix_ts (demo_settlement ptx ns d) = 1700000000"
  "inputs (demo_settlement ptx ns d) = map (\<lambda>n. \<lparr>nullifier_hash = n, input_rest = ()\<rparr>) ns"
  "outputs (demo_settlement ptx ns d) = [\<lparr>utxo_hash = replicate 32 1, output_data = d, output_rest = ()\<rparr>]"
  by (simp_all add: demo_settlement_def demo_transact_def)

abbreviation demo_accepting ::
  "i64 \<Rightarrow> bytes \<Rightarrow> unit transact_ix_data \<Rightarrow> (unit, bool, account_view list, bytes list) chain_env" where
  "demo_accepting now h t \<equiv> demo_env now (\<lambda>vk pis. pis = [h]) [t]"

abbreviation demo_with :: "unit transact_ix_data \<Rightarrow> (unit, bytes, bytes \<times> u64, unit, bytes option, demo_input) sdk_env" where
  "demo_with t \<equiv> demo_sdk [t]"

definition demo_out ::
  "bytes shielded_address \<Rightarrow> bytes \<times> u64 \<Rightarrow> u64 \<Rightarrow> bytes \<Rightarrow> (bytes, bytes \<times> u64, bytes option) output_utxo" where
  "demo_out owner asset amount blinding = \<lparr>out_owner_address = Some owner, out_asset = asset,
     out_amount = amount, out_blinding = blinding, out_data_hash = None, out_ring_data_hash = None,
     out_ring_program_id = None, out_rest = None\<rparr>"

definition demo_address :: "byte \<Rightarrow> bytes shielded_address" where
  "demo_address b = \<lparr>signing_pubkey = replicate 32 b, nullifier_pubkey = replicate 32 3,
     viewing_pubkey = replicate 33 4\<rparr>"

lemma demo_plain [simp]:
  "plain_output (demo_sdk tab) (demo_out owner asset amount blinding) m n k \<longleftrightarrow>
     owner = k \<and> fst asset = m \<and> amount = n"
  by (auto simp: demo_out_def plain_output_def)

lemma demo_out_hash [simp]: "\<exists>h. demo_output_hash (demo_out owner asset amount blinding) t = Some h"
  by (simp add: demo_out_def demo_output_hash_def demo_commit_def)

text \<open>The table of transactions does not enter the proof inputs.\<close>

lemma demo_default_tab: "default_output (demo_sdk tab) = default_output demo_S"
  by (simp add: demo_sdk_def)

lemma demo_merge_tab: "merge_info (demo_sdk tab) = merge_info demo_S"
  by (simp add: demo_sdk_def)

lemma demo_order_output_tab:
  "order_output_utxo (demo_sdk tab) order v = order_output_utxo demo_S order v"
  by (simp add: order_output_utxo_def order_terms_data_hash_def order_terms_proof_input_of_def
      order_input_data_hash_def ext_def address_data_hash_def Let_def plaintext_serialize_def
      put_plaintext_def table_wire_def order_pda_owner_def demo_default_tab [of tab])

lemma demo_take_tab: "take_to_proof_inputs (demo_sdk tab) P = take_to_proof_inputs demo_S P"
proof -
  have "check_take_blindings (demo_sdk tab) n seed i us = check_take_blindings demo_S n seed i us" for n seed i us
    by (induction us arbitrary: i) (simp_all cong: if_cong)
  then show ?thesis
    by (simp add: take_to_proof_inputs_def Let_def demo_order_output_tab [of tab]
        check_take_utxos_def swap_check_output_utxo_def take_blinding_seed_def
        take_private_tx_hash_def order_terms_proof_input_of_def address_data_hash_def
        del: check_take_blindings.simps cong: if_cong)
qed

lemma demo_take_ve_tab: "take_ve_to_proof_inputs (demo_sdk tab) P = take_ve_to_proof_inputs demo_S P"
  by (simp add: take_ve_to_proof_inputs_def Let_def demo_order_output_tab [of tab]
      check_take_utxos_def swap_check_output_utxo_def destination_ciphertext_with_hash_def
      take_shared_secret_def demo_merge_tab [of tab]
      take_private_tx_hash_def order_terms_proof_input_of_def address_data_hash_def cong: if_cong)

lemma demo_ciphertext_tab:
  "order_destination_ciphertext (demo_sdk tab) e u = order_destination_ciphertext demo_S e u"
  by (simp add: order_destination_ciphertext_def destination_ciphertext_with_hash_def
      take_shared_secret_def demo_merge_tab [of tab])

lemma demo_escrow_output_tab: "escrow_output_utxo (demo_sdk tab) e = escrow_output_utxo demo_S e"
  by (simp add: escrow_output_utxo_def escrow_terms_data_hash_def escrow_terms_proof_input_of_def
      escrow_input_data_hash_def ext_def Let_def escrow_pda_owner_def demo_default_tab [of tab])

lemma demo_withdraw_tab: "withdraw_to_proof_inputs (demo_sdk tab) P = withdraw_to_proof_inputs demo_S P"
  by (simp add: withdraw_to_proof_inputs_def Let_def demo_escrow_output_tab [of tab]
      escrow_check_output_utxo_def escrow_terms_proof_input_of_def cong: if_cong)

lemma demo_cancel_tab: "cancel_to_proof_inputs (demo_sdk tab) P = cancel_to_proof_inputs demo_S P"
  by (simp add: cancel_to_proof_inputs_def Let_def demo_order_output_tab [of tab] swap_check_output_utxo_def
      order_terms_proof_input_of_def address_data_hash_def cong: if_cong)

section \<open>Settlements that land\<close>

text \<open>A cancel made with the proof inputs of the SDK lands exactly when the clock is past the order's
  expiry, the proof system accepts the SDK's own public input hash under the cancel key, and SPP
  accepts the transaction signed by the order authority: the program recomputes that very hash
  from the submitted transaction, the expiry field and the account of the maker.\<close>

theorem cancel_proof_lands:
  assumes "account_checks_ok E" "same_hashes E S" "wincode_ok (sdk_wire S)" "transact_ok (sdk_wire S)"
    and "cancel_proof_wf (bc_cancel_proof b)" "cancel_instruction S b = Inr ix"
    and "cancel_to_proof_inputs S P = Inr q" "terms = ou_terms (cpp_order_utxo P)"
    and "solana_owner_identity E (bc_maker b)
           = owner_proof_input_hash S (signing_pubkey (ot_destination terms))"
    and "bc_order_expiry b = ot_expiry terms"
    and "private_tx_hash (bc_spp_proof b) = cpi_private_tx_hash q"
  shows "swap_process_instruction E (ix_program_id ix) (map view_of (ix_accounts ix)) (ix_data ix) w
           = Inr w' \<longleftrightarrow>
     (\<exists>now tb. clock_unix_timestamp E = Inr now \<and> uint (ot_expiry terms) < sint now \<and>
        groth16_accepts E (cancel_points (bc_cancel_proof b)) (cpi_public_input_hash q) cancel_vk \<and>
        transact_serialize E (bc_spp_proof b) = Some tb \<and>
        swap_signed E (map view_of (tl (tl (ix_accounts ix)))) tb w w')"
proof -
  obtain owner where
    "owner_proof_input_hash S (signing_pubkey (ot_destination terms)) = Some owner"
    "sdk_hashv S [cpi_private_tx_hash q, swap_u64_right_align (ot_expiry terms), owner]
       = Some (cpi_public_input_hash q)"
    using cancel_to_proof_inputs_hash [OF assms(7)] assms(8) by blast
  then show ?thesis
    using cancel_instruction_lands [where E = E and S = S and w = w and w' = w', OF assms(1) _ assms(3-6) refl]
      assms(2,9-11)
    by (auto simp: same_hashes_def)
qed

definition demo_cancel_inputs :: "(bytes, bytes \<times> u64, bytes option) cancel_proof_params" where
  "demo_cancel_inputs = \<lparr>cpp_order_utxo = demo_order 0, cpp_taker_viewing_pubkey = replicate 33 9,
     cpp_source_output = demo_out (ot_destination (demo_terms 0)) (replicate 32 7, 2) 400 (replicate 32 8),
     cpp_private_tx_blinding = replicate 32 1, cpp_input_tree_id = 0, cpp_output_tree_id = 0\<rparr>"

definition demo_cancel_params :: "unit transact_ix_data \<Rightarrow> unit cancel_ix_params" where
  "demo_cancel_params t = \<lparr>bc_maker = replicate 32 2, bc_payer = replicate 32 3,
     bc_tree = replicate 32 8,
     bc_cancel_proof = \<lparr>cancel_proof_a = replicate 32 0, cancel_proof_b = replicate 64 0,
       cancel_proof_c = replicate 32 0\<rparr>,
     bc_order_expiry = 1700000000, bc_spp_proof = t\<rparr>"

lemma demo_cancel_proves: "\<exists>q. cancel_to_proof_inputs demo_S demo_cancel_inputs = Inr q"
proof -
  let ?v = "viewing_pubkey (ot_destination (demo_terms 0))"
  obtain u i where u: "order_output_utxo demo_S (demo_order 0) ?v = Inr u"
    and i: "order_to_input_utxo demo_S (demo_order 0) 0 0 = Inr i"
    using demo_order_forms by blast
  have h: "demo_output_hash u 0 = Some (in_utxo_hash i)"
    using order_input_hash [where S = demo_S, OF demo_sdk_laws(1,2) u i] by simp
  obtain h2 where h2: "demo_output_hash (cpp_source_output demo_cancel_inputs) 0 = Some h2"
    using demo_out_hash unfolding demo_cancel_inputs_def cancel_proof_params.simps by blast
  have c: "swap_check_output_utxo demo_S ''source_output'' (cpp_source_output demo_cancel_inputs)
      (fst (ou_source_mint (demo_order 0))) (ou_source_amount (demo_order 0))
      = Inr (ot_destination (demo_terms 0))"
    by (simp add: swap_check_output_utxo_ok demo_cancel_inputs_def demo_order_def)
  show ?thesis
    using u h h2 c
    by (simp add: cancel_to_proof_inputs_def Let_def demo_cancel_inputs_def demo_order_def
        order_terms_proof_input_of_def address_data_hash_def ext_def cancel_public_input_hash_def)
qed

lemma demo_cancel_builds:
  "\<exists>ix. cancel_instruction (demo_with t) (demo_cancel_params t) = Inr ix"
  by (simp add: cancel_instruction_def demo_cancel_params_def put_cancel_ix_def
      put_cancel_proof_def table_wire_def table_put_def ext_def Let_def)

lemma demo_cancel_accounts:
  assumes "cancel_instruction (demo_with t) (demo_cancel_params t) = Inr ix"
  shows "swap_signed (demo_accepting now h t) (map view_of (tl (tl (ix_accounts ix)))) tb w (w @ [tb])"
  by (rule demo_signed)
    (use assms in \<open>auto simp: cancel_instruction_def result_simps Let_def\<close>)

theorem cancel_proof_lands_witness:
  "\<exists>q t ix. cancel_to_proof_inputs (demo_with t) demo_cancel_inputs = Inr q \<and>
     cancel_instruction (demo_with t) (demo_cancel_params t) = Inr ix \<and>
     swap_process_instruction (demo_accepting 1700000001 (cpi_public_input_hash q) t)
       (ix_program_id ix) (map view_of (ix_accounts ix)) (ix_data ix) [] = Inr ([] @ [[0]])"
proof -
  obtain q where q: "cancel_to_proof_inputs demo_S demo_cancel_inputs = Inr q"
    using demo_cancel_proves by blast
  obtain t where t: "t = demo_settlement (cpi_private_tx_hash q) [replicate 32 4] None"
    by blast
  obtain ix where ix: "cancel_instruction (demo_with t) (demo_cancel_params t) = Inr ix"
    using demo_cancel_builds by blast
  have q': "cancel_to_proof_inputs (demo_with t) demo_cancel_inputs = Inr q"
    using q demo_cancel_tab [of "[t]"] by simp
  have "swap_process_instruction (demo_accepting 1700000001 (cpi_public_input_hash q) t)
       (ix_program_id ix) (map view_of (ix_accounts ix)) (ix_data ix) [] = Inr ([] @ [[0]])"
    using cancel_proof_lands [where w = "[]" and w' = "[] @ [[0]]", OF demo_account_checks
        demo_same_hashes _ _ _ ix q' refl] demo_cancel_accounts [OF ix, of _ _ "[0]" "[]"]
    by (simp add: demo_cancel_params_def cancel_proof_wf_def cancel_points_def table_put_def
        demo_accepts_iff t demo_cancel_inputs_def demo_order_def demo_terms_def vk_commitments)
  with ix q' show ?thesis by blast
qed

text \<open>C14. A derived take made with the proof inputs of the SDK lands exactly when the clock is in the
  order's window, the proof system accepts the SDK's own public input hash under the take key, and
  SPP accepts the transaction: the first nullifier the proof derives the payout blinding from is
  the one the program reads from the submitted transaction.\<close>

theorem take_proof_lands:
  assumes "account_checks_ok E" "same_hashes E S" "wincode_ok (sdk_wire S)" "transact_ok (sdk_wire S)"
    and "take_proof_wf (bt_take_proof b)" "take_instruction S b = Inr ix"
    and "take_to_proof_inputs S P = Inr q" "terms = ou_terms (tpp_order_utxo P)"
    and "expiry_unix_ts (bt_spp_proof b) = ot_expiry terms"
    and "private_tx_hash (bt_spp_proof b) = tpi_private_tx_hash q"
    and "inputs (bt_spp_proof b) = i0 # is" "nullifier_hash i0 = tpi_first_nullifier q"
  shows "swap_process_instruction E (ix_program_id ix) (map view_of (ix_accounts ix)) (ix_data ix) w
           = Inr w' \<longleftrightarrow>
     (\<exists>now tb. clock_unix_timestamp E = Inr now \<and>
        0 \<le> sint now \<and> sint now \<le> uint (ot_expiry terms) \<and>
        groth16_accepts E (take_points (bt_take_proof b)) (tpi_public_input_hash q) take_vk \<and>
        transact_serialize E (bt_spp_proof b) = Some tb \<and>
        swap_signed E (map view_of (tl (ix_accounts ix))) tb w w')"
  using take_instruction_lands [where E = E and S = S and w = w and w' = w', OF assms(1) _ assms(3-6) refl]
    assms(2,8-12) take_to_proof_inputs_hash [OF assms(7)]
  by (auto simp: same_hashes_def)

definition demo_take_params :: "unit transact_ix_data \<Rightarrow> unit take_ix_params" where
  "demo_take_params t = \<lparr>bt_payer = replicate 32 3, bt_tree = replicate 32 8,
     bt_take_proof = \<lparr>take_proof_a = replicate 32 0, take_proof_b = replicate 64 0,
       take_proof_c = replicate 32 0\<rparr>,
     bt_spp_proof = t\<rparr>"

lemma demo_take_builds: "\<exists>ix. take_instruction (demo_with t) (demo_take_params t) = Inr ix"
  by (simp add: take_instruction_def demo_take_params_def put_take_ix_def put_take_proof_def
      table_wire_def table_put_def ext_def Let_def)

lemma demo_take_accounts:
  assumes "take_instruction (demo_with t) (demo_take_params t) = Inr ix"
  shows "swap_signed (demo_accepting now h t) (map view_of (tl (ix_accounts ix))) tb w (w @ [tb])"
  by (rule demo_signed)
    (use assms in \<open>auto simp: take_instruction_def result_simps Let_def\<close>)

theorem take_proof_lands_witness:
  "\<exists>P q t ix. take_to_proof_inputs (demo_with t) P = Inr q \<and>
     take_instruction (demo_with t) (demo_take_params t) = Inr ix \<and>
     swap_process_instruction (demo_accepting 1700000000 (tpi_public_input_hash q) t)
       (ix_program_id ix) (map view_of (ix_accounts ix)) (ix_data ix) [] = Inr ([] @ [[0]])"
proof -
  obtain P q where q: "take_to_proof_inputs demo_S P = Inr q" "tpp_order_utxo P = demo_order 0"
    using demo_take_inputs by blast
  obtain t where t: "t = demo_settlement (tpi_private_tx_hash q) [tpi_first_nullifier q] None"
    by blast
  obtain ix where ix: "take_instruction (demo_with t) (demo_take_params t) = Inr ix"
    using demo_take_builds by blast
  have q': "take_to_proof_inputs (demo_with t) P = Inr q"
    using q(1) demo_take_tab [of "[t]"] by simp
  have "swap_process_instruction (demo_accepting 1700000000 (tpi_public_input_hash q) t)
       (ix_program_id ix) (map view_of (ix_accounts ix)) (ix_data ix) [] = Inr ([] @ [[0]])"
    using take_proof_lands [where w = "[]" and w' = "[] @ [[0]]" and ?is = "[]"
        and ?i0.0 = "\<lparr>nullifier_hash = tpi_first_nullifier q, input_rest = ()\<rparr>", OF demo_account_checks
        demo_same_hashes _ _ _ ix q' refl] demo_take_accounts [OF ix, of _ _ "[0]" "[]"]
    by (simp add: demo_take_params_def take_proof_wf_def take_points_def table_put_def
        demo_accepts_iff t q(2) demo_order_def demo_terms_def vk_commitments)
  with ix q' show ?thesis by blast
qed

text \<open>A verifiable-encryption take made with the proof inputs of the SDK lands exactly when the
  clock is in the order's window, the proof system accepts the SDK's own public input hash under
  the key with a commitment, and SPP accepts the transaction, provided the last output publishes
  the SDK's destination ciphertext: its length is always the one the program requires.\<close>

theorem take_ve_proof_lands:
  assumes "account_checks_ok E" "same_hashes E S" "wincode_ok (sdk_wire S)" "transact_ok (sdk_wire S)"
    and "take_ve_proof_wf (bv_take_proof b)" "take_ve_instruction S b = Inr ix"
    and "take_ve_to_proof_inputs S P = Inr q" "terms = ou_terms (tpp_order_utxo P)"
    and "expiry_unix_ts (bv_spp_proof b) = ot_expiry terms"
    and "private_tx_hash (bv_spp_proof b) = vpi_private_tx_hash q"
    and "last_opt (outputs (bv_spp_proof b)) = Some o_last"
    and "order_destination_ciphertext S (tpp_order_utxo P) (tpp_destination_output P) = Inr ct"
    and "output_data o_last = Some ct"
  shows "swap_process_instruction E (ix_program_id ix) (map view_of (ix_accounts ix)) (ix_data ix) w
           = Inr w' \<longleftrightarrow>
     (\<exists>now tb. clock_unix_timestamp E = Inr now \<and>
        0 \<le> sint now \<and> sint now \<le> uint (ot_expiry terms) \<and>
        groth16_accepts E (take_ve_points (bv_take_proof b)) (vpi_public_input_hash q) take_ve_vk \<and>
        transact_serialize E (bv_spp_proof b) = Some tb \<and>
        swap_signed E (map view_of (tl (ix_accounts ix))) tb w w')"
proof -
  obtain cth where "length ct = 72" "sdk_ciphertext_hash S ct = Some cth"
    "sdk_hashv S [vpi_private_tx_hash q, swap_u64_right_align (ot_expiry terms), cth]
       = Some (vpi_public_input_hash q)"
    by (rule take_ve_to_proof_inputs_hash [OF assms(7,12)]) (use assms(8) in simp)
  then show ?thesis
    using take_ve_instruction_lands [where E = E and S = S and w = w and w' = w', OF assms(1) _ assms(3-6) refl]
      assms(2,8-13)
    by (auto simp: same_hashes_def)
qed

definition demo_ve_inputs :: "(bytes, bytes \<times> u64, bytes option) take_proof_params" where
  "demo_ve_inputs = \<lparr>tpp_order_utxo = demo_order 1,
     tpp_taker_in = demo_out (demo_address 5) (replicate 32 1, 3) 250 (replicate 32 0),
     tpp_source_output = demo_out (demo_address 5) (replicate 32 7, 2) 400 (replicate 32 0),
     tpp_destination_output = demo_out (ot_destination (demo_terms 1)) (replicate 32 1, 3) 250 (replicate 32 9),
     tpp_private_tx_blinding = replicate 32 1, tpp_input_tree_id = 0, tpp_output_tree_id = 0\<rparr>"

definition demo_ve_params :: "unit transact_ix_data \<Rightarrow> unit take_ve_ix_params" where
  "demo_ve_params t = \<lparr>bv_payer = replicate 32 3, bv_tree = replicate 32 8,
     bv_take_proof = \<lparr>take_ve_proof_a = replicate 32 0, take_ve_proof_b = replicate 64 0,
       take_ve_proof_c = replicate 32 0, take_ve_proof_commitment = replicate 32 0,
       take_ve_proof_commitment_pok = replicate 32 0\<rparr>,
     bv_spp_proof = t\<rparr>"

lemma demo_ve_ciphertext:
  "\<exists>ct. order_destination_ciphertext demo_S (demo_order 1) (tpp_destination_output demo_ve_inputs) = Inr ct"
  by (simp add: order_destination_ciphertext_def destination_ciphertext_with_hash_def
      take_shared_secret_def ext_def Let_def)

lemma demo_ve_proves: "\<exists>q. take_ve_to_proof_inputs demo_S demo_ve_inputs = Inr q"
proof -
  let ?v = "viewing_pubkey (ot_destination (demo_terms 1))"
  obtain u i where u: "order_output_utxo demo_S (demo_order 1) ?v = Inr u"
    and i: "order_to_input_utxo demo_S (demo_order 1) 0 0 = Inr i"
    using demo_order_forms by blast
  have h: "demo_output_hash u 0 = Some (in_utxo_hash i)"
    using order_input_hash [where S = demo_S, OF demo_sdk_laws(1,2) u i] by simp
  obtain h1 h2 h3 where hs: "demo_output_hash (tpp_taker_in demo_ve_inputs) 0 = Some h1"
    "demo_output_hash (tpp_source_output demo_ve_inputs) 0 = Some h2"
    "demo_output_hash (tpp_destination_output demo_ve_inputs) 0 = Some h3"
    using demo_out_hash unfolding demo_ve_inputs_def take_proof_params.simps by metis
  have c: "check_take_utxos demo_S demo_ve_inputs = Inr (demo_address 5)"
    by (simp add: check_take_utxos_ok demo_ve_inputs_def demo_order_def demo_terms_def)
  have m: "tpp_order_utxo demo_ve_inputs = demo_order 1" "ot_take_mode (demo_terms 1) = 1"
    "ou_terms (demo_order 1) = demo_terms 1" "tpp_input_tree_id demo_ve_inputs = 0"
    "tpp_output_tree_id demo_ve_inputs = 0" "out_blinding (tpp_destination_output demo_ve_inputs) = replicate 32 9"
    "ot_destination_mint (demo_terms 1) = replicate 32 1"
    by (simp_all add: demo_ve_inputs_def demo_terms_def demo_order_def demo_out_def)
  show ?thesis
    using u h hs c m
    by (simp add: take_ve_to_proof_inputs_def Let_def take_mode_verifiable_def
        order_terms_proof_input_of_def address_data_hash_def ext_def take_private_tx_hash_def
        destination_ciphertext_with_hash_def take_shared_secret_def take_ve_public_input_hash_def guardR_def)
qed

lemma demo_ve_builds: "\<exists>ix. take_ve_instruction (demo_with t) (demo_ve_params t) = Inr ix"
  by (simp add: take_ve_instruction_def demo_ve_params_def put_take_ve_ix_def put_take_ve_proof_def
      table_wire_def table_put_def ext_def Let_def)

lemma demo_ve_accounts:
  assumes "take_ve_instruction (demo_with t) (demo_ve_params t) = Inr ix"
  shows "swap_signed (demo_accepting now h t) (map view_of (tl (ix_accounts ix))) tb w (w @ [tb])"
  by (rule demo_signed)
    (use assms in \<open>auto simp: take_ve_instruction_def result_simps Let_def\<close>)

theorem take_ve_proof_lands_witness:
  "\<exists>q t ix. take_ve_to_proof_inputs (demo_with t) demo_ve_inputs = Inr q \<and>
     take_ve_instruction (demo_with t) (demo_ve_params t) = Inr ix \<and>
     swap_process_instruction (demo_accepting 1700000000 (vpi_public_input_hash q) t)
       (ix_program_id ix) (map view_of (ix_accounts ix)) (ix_data ix) [] = Inr ([] @ [[0]])"
proof -
  obtain q where q: "take_ve_to_proof_inputs demo_S demo_ve_inputs = Inr q"
    using demo_ve_proves by blast
  obtain ct where ct: "order_destination_ciphertext demo_S (demo_order 1)
      (tpp_destination_output demo_ve_inputs) = Inr ct"
    using demo_ve_ciphertext by blast
  obtain t where t: "t = demo_settlement (vpi_private_tx_hash q) [replicate 32 4] (Some ct)"
    by blast
  obtain ix where ix: "take_ve_instruction (demo_with t) (demo_ve_params t) = Inr ix"
    using demo_ve_builds by blast
  have q': "take_ve_to_proof_inputs (demo_with t) demo_ve_inputs = Inr q"
    using q demo_take_ve_tab [of "[t]"] by simp
  have o': "tpp_order_utxo demo_ve_inputs = demo_order 1"
    by (simp add: demo_ve_inputs_def)
  have ct': "order_destination_ciphertext (demo_with t) (tpp_order_utxo demo_ve_inputs)
      (tpp_destination_output demo_ve_inputs) = Inr ct"
    using ct demo_ciphertext_tab [of "[t]"] o' by simp
  have "swap_process_instruction (demo_accepting 1700000000 (vpi_public_input_hash q) t)
       (ix_program_id ix) (map view_of (ix_accounts ix)) (ix_data ix) [] = Inr ([] @ [[0]])"
    using take_ve_proof_lands [where w = "[]" and w' = "[] @ [[0]]", OF demo_account_checks
        demo_same_hashes _ _ _ ix q' refl _ _ _ ct'] demo_ve_accounts [OF ix, of _ _ "[0]" "[]"]
    by (simp add: demo_ve_params_def take_ve_proof_wf_def take_ve_points_def table_put_def
        demo_accepts_iff t o' demo_order_def demo_terms_def vk_commitments)
  with ix q' show ?thesis by blast
qed

text \<open>A withdraw made with the proof inputs of the SDK lands exactly when the clock is past the
  unlock time, the proof system accepts the SDK's own public input hash under the withdraw key,
  and SPP accepts the transaction signed by the escrow authority.\<close>

theorem withdraw_proof_lands:
  assumes "account_checks_ok E" "same_hashes E S" "wincode_ok (sdk_wire S)" "transact_ok (sdk_wire S)"
    and "withdraw_proof_wf (bw_withdraw_proof b)" "withdraw_instruction S b = Inr ix"
    and "withdraw_to_proof_inputs S P = Inr q" "terms = eu_terms (wpp_escrow_utxo P)"
    and "solana_owner_identity E (bw_creator b)
           = owner_proof_input_hash S (signing_pubkey (et_creator terms))"
    and "bw_unlock_timestamp b = et_unlock_timestamp terms"
    and "private_tx_hash (bw_spp_proof b) = wpi_private_tx_hash q"
  shows "escrow_process_instruction E (ix_program_id ix) (map view_of (ix_accounts ix)) (ix_data ix) w
           = Inr w' \<longleftrightarrow>
     (\<exists>now tb. clock_unix_timestamp E = Inr now \<and> uint (et_unlock_timestamp terms) < sint now \<and>
        groth16_accepts E (withdraw_points (bw_withdraw_proof b)) (wpi_public_input_hash q) withdraw_vk \<and>
        transact_serialize E (bw_spp_proof b) = Some tb \<and>
        escrow_signed E (map view_of (tl (tl (ix_accounts ix)))) tb w w')"
proof -
  obtain owner where
    "owner_proof_input_hash S (signing_pubkey (et_creator terms)) = Some owner"
    "sdk_hashv S [wpi_private_tx_hash q, escrow_u64_right_align (et_unlock_timestamp terms), owner]
       = Some (wpi_public_input_hash q)"
    using withdraw_to_proof_inputs_hash [OF assms(7)] assms(8) by blast
  then show ?thesis
    using withdraw_instruction_lands [where E = E and S = S and w = w and w' = w', OF assms(1) _ assms(3-6) refl]
      assms(2,9-11)
    by (auto simp: same_hashes_def)
qed

definition demo_escrow :: "(bytes, bytes \<times> u64) escrow_utxo" where
  "demo_escrow = \<lparr>eu_terms = \<lparr>et_creator = demo_address 2, et_unlock_timestamp = 1700000000\<rparr>,
     eu_blinding = replicate 32 6, eu_asset = (replicate 32 7, 2), eu_amount = 400\<rparr>"

definition demo_withdraw_inputs :: "(bytes, bytes \<times> u64, bytes option) withdraw_proof_params" where
  "demo_withdraw_inputs = \<lparr>wpp_escrow_utxo = demo_escrow,
     wpp_source_output = demo_out (demo_address 2) (replicate 32 7, 2) 400 (replicate 32 8),
     wpp_private_tx_blinding = replicate 32 1, wpp_input_tree_id = 0, wpp_output_tree_id = 0\<rparr>"

definition demo_withdraw_params :: "unit transact_ix_data \<Rightarrow> unit withdraw_ix_params" where
  "demo_withdraw_params t = \<lparr>bw_creator = replicate 32 2, bw_payer = replicate 32 3,
     bw_tree = replicate 32 8,
     bw_withdraw_proof = \<lparr>withdraw_proof_a = replicate 32 0, withdraw_proof_b = replicate 64 0,
       withdraw_proof_c = replicate 32 0\<rparr>,
     bw_unlock_timestamp = 1700000000, bw_spp_proof = t\<rparr>"

lemma demo_escrow_forms:
  "\<exists>u i. escrow_output_utxo demo_S demo_escrow = Inr u \<and>
     escrow_to_input_utxo demo_S demo_escrow t l = Inr i"
  by (simp add: escrow_output_utxo_def escrow_to_input_utxo_def escrow_terms_data_hash_def
      escrow_terms_proof_input_of_def escrow_input_data_hash_def ext_def Let_def demo_commit_def)

lemma demo_withdraw_proves: "\<exists>q. withdraw_to_proof_inputs demo_S demo_withdraw_inputs = Inr q"
proof -
  obtain u i where u: "escrow_output_utxo demo_S demo_escrow = Inr u"
    and i: "escrow_to_input_utxo demo_S demo_escrow 0 0 = Inr i"
    using demo_escrow_forms by blast
  have h: "demo_output_hash u 0 = Some (in_utxo_hash i)"
    using escrow_forms.forms_hash [where S = demo_S, OF demo_sdk_laws(1,2) u i] by simp
  obtain h2 where h2: "demo_output_hash (wpp_source_output demo_withdraw_inputs) 0 = Some h2"
    using demo_out_hash unfolding demo_withdraw_inputs_def withdraw_proof_params.simps by blast
  have c: "escrow_check_output_utxo demo_S ''source_output'' (wpp_source_output demo_withdraw_inputs)
      (fst (eu_asset demo_escrow)) (eu_amount demo_escrow) = Inr (demo_address 2)"
    by (simp add: escrow_check_output_utxo_ok demo_withdraw_inputs_def demo_escrow_def)
  show ?thesis
    using u h h2 c
    by (simp add: withdraw_to_proof_inputs_def Let_def demo_withdraw_inputs_def demo_escrow_def
        escrow_terms_proof_input_of_def ext_def withdraw_public_input_hash_def)
qed

lemma demo_withdraw_builds:
  "\<exists>ix. withdraw_instruction (demo_with t) (demo_withdraw_params t) = Inr ix"
  by (simp add: withdraw_instruction_def demo_withdraw_params_def put_withdraw_ix_def
      put_withdraw_proof_def table_wire_def table_put_def ext_def Let_def)

lemma demo_withdraw_accounts:
  assumes "withdraw_instruction (demo_with t) (demo_withdraw_params t) = Inr ix"
  shows "escrow_signed (demo_accepting now h t) (map view_of (tl (tl (ix_accounts ix)))) tb w (w @ [tb])"
  by (rule demo_signed)
    (use assms in \<open>auto simp: withdraw_instruction_def result_simps Let_def\<close>)

theorem withdraw_proof_lands_witness:
  "\<exists>q t ix. withdraw_to_proof_inputs (demo_with t) demo_withdraw_inputs = Inr q \<and>
     withdraw_instruction (demo_with t) (demo_withdraw_params t) = Inr ix \<and>
     escrow_process_instruction (demo_accepting 1700000001 (wpi_public_input_hash q) t)
       (ix_program_id ix) (map view_of (ix_accounts ix)) (ix_data ix) [] = Inr ([] @ [[0]])"
proof -
  obtain q where q: "withdraw_to_proof_inputs demo_S demo_withdraw_inputs = Inr q"
    using demo_withdraw_proves by blast
  obtain t where t: "t = demo_settlement (wpi_private_tx_hash q) [replicate 32 4] None"
    by blast
  obtain ix where ix: "withdraw_instruction (demo_with t) (demo_withdraw_params t) = Inr ix"
    using demo_withdraw_builds by blast
  have q': "withdraw_to_proof_inputs (demo_with t) demo_withdraw_inputs = Inr q"
    using q demo_withdraw_tab [of "[t]"] by simp
  have "escrow_process_instruction (demo_accepting 1700000001 (wpi_public_input_hash q) t)
       (ix_program_id ix) (map view_of (ix_accounts ix)) (ix_data ix) [] = Inr ([] @ [[0]])"
    using withdraw_proof_lands [where w = "[]" and w' = "[] @ [[0]]", OF demo_account_checks
        demo_same_hashes _ _ _ ix q' refl] demo_withdraw_accounts [OF ix, of _ _ "[0]" "[]"]
    by (simp add: demo_withdraw_params_def withdraw_proof_wf_def withdraw_points_def table_put_def
        demo_accepts_iff t demo_withdraw_inputs_def demo_escrow_def demo_address_def vk_commitments)
  with ix q' show ?thesis by blast
qed

end
