(* ===== verification/Circuit_Properties.thy ===== *)
theory Circuit_Properties
  imports Circuit_Soundness Demo_Gadgets Settlement_Properties
begin

text \<open>
  Properties that tie the Go circuits to the Rust code on both sides: the proof inputs of the SDK
  satisfy the circuits exactly for the orders and escrows one would expect, and a settlement that a
  program lets through has done what the order or the escrow says.
\<close>

section \<open>The SDK's inputs satisfy the circuits\<close>

text \<open>C20. The proof inputs of make satisfy the make circuit exactly when the order holds something, asks
  for something and has one of the two take modes; the SDK itself checks none of the three.\<close>

theorem make_inputs_satisfy:
  assumes "api_law G" "hashes_fit G fe S" "utxos_fit G fe S cu" "viewing_law S" "output_laws S"
    and "make_to_proof_inputs S P = Inr q"
  shows "(make_define G (make_assignment G fe cu q) = Some ()) =
     (ot_destination_amount (ou_terms (mpp_order_utxo P)) \<noteq> 0 \<and> ou_source_amount (mpp_order_utxo P) \<noteq> 0 \<and>
      (ot_take_mode (ou_terms (mpp_order_utxo P)) = take_mode_derived \<or>
       ot_take_mode (ou_terms (mpp_order_utxo P)) = take_mode_verifiable))"
  by (rule make_define_assignment [OF assms])

definition demo_make_params :: "u64 \<Rightarrow> (bytes, bytes \<times> u64, bytes option) make_proof_params" where
  "demo_make_params mode = \<lparr>mpp_order_utxo = demo_order mode,
     mpp_change = demo_out (ot_destination (demo_terms mode)) (replicate 32 7, 2) 600 (replicate 32 8),
     mpp_spp_tx_hashes = \<lparr>sth_source_input_hash = replicate 32 4,
       sth_private_tx_blinding = replicate 32 5, sth_output_tree_id = 0\<rparr>\<rparr>"

lemma demo_make_proves: "\<exists>q. make_to_proof_inputs demo_S (demo_make_params mode) = Inr q"
proof -
  let ?v = "viewing_pubkey (ot_destination (demo_terms mode))"
  obtain u i where u: "order_output_utxo demo_S (demo_order mode) ?v = Inr u"
    and i: "order_to_input_utxo demo_S (demo_order mode) 0 0 = Inr i"
    using demo_order_forms by blast
  have h: "demo_output_hash u 0 = Some (in_utxo_hash i)"
    using order_input_hash [where S = demo_S, OF demo_sdk_laws(1,2) u i] by simp
  obtain h2 where h2: "demo_output_hash (mpp_change (demo_make_params mode)) 0 = Some h2"
    using demo_out_hash unfolding demo_make_params_def make_proof_params.simps by blast
  show ?thesis
    using u h h2
    by (simp add: make_to_proof_inputs_def Let_def demo_make_params_def demo_order_def demo_out_def
        order_terms_proof_input_of_def address_data_hash_def ext_def)
qed

theorem make_inputs_satisfy_witness:
  "\<exists>p q. make_to_proof_inputs demo_S (demo_make_params 1) = Inr q \<and>
     make_define demo_gadgets (make_assignment demo_gadgets id id q) = Some () \<and>
     make_to_proof_inputs demo_S (demo_make_params 2) = Inr p \<and>
     make_define demo_gadgets (make_assignment demo_gadgets id id p) \<noteq> Some ()"
proof -
  obtain q p where q: "make_to_proof_inputs demo_S (demo_make_params 1) = Inr q"
    and p: "make_to_proof_inputs demo_S (demo_make_params 2) = Inr p"
    using demo_make_proves by blast
  show ?thesis
    using make_inputs_satisfy [OF demo_api demo_hashes_fit demo_utxos_fit demo_sdk_laws(6,1) q]
      make_inputs_satisfy [OF demo_api demo_hashes_fit demo_utxos_fit demo_sdk_laws(6,1) p] p q
    by (auto simp: demo_make_params_def demo_order_def demo_terms_def take_mode_derived_def
        take_mode_verifiable_def)
qed

text \<open>C19. A verifiable-encryption take can be proved exactly when the order holds and asks for something
  and the taker input belongs to the taker that the order names: the owner hash of the taker input
  is the hash of the named identity and the taker's nullifier key. The SDK does not compare them. The
  hash of the mint and the blinding of the output have to be encodings of field elements, as all
  hashes and blindings are.\<close>

theorem take_ve_inputs_satisfy:
  assumes "api_law G" "hashes_fit G fe S" "utxos_fit G fe S cu" "cipher_fit G fe S"
    "viewing_law S" "output_laws S" and "take_ve_to_proof_inputs S P = Inr q"
    and "hash_bytes S (ot_destination_mint (ou_terms (tpp_order_utxo P))) = Some asset"
    and "canonical asset" "canonical (out_blinding (tpp_destination_output P))"
    and "out_owner_address (tpp_taker_in P) = Some taker" "owner_hash S taker = Some taker_hash"
    and "owner_identity S (ot_taker (ou_terms (tpp_order_utxo P))) = Some named"
  shows "(take_ve_define G (take_ve_assignment G fe cu q) = Some ()) =
     (ot_destination_amount (ou_terms (tpp_order_utxo P)) \<noteq> 0 \<and> ou_source_amount (tpp_order_utxo P) \<noteq> 0 \<and>
      fe taker_hash = gposeidon G [fe named, fe (nullifier_pubkey taker)])"
  by (rule take_ve_define_assignment [OF assms])

lemma demo_ve_facts:
  "tpp_order_utxo demo_ve_inputs = demo_order 1" "ou_terms (demo_order 1) = demo_terms 1"
  "ot_destination_mint (demo_terms 1) = replicate 32 1" "ot_taker (demo_terms 1) = replicate 32 5"
  "ot_destination_amount (demo_terms 1) = 250" "ou_source_amount (demo_order 1) = 400"
  "out_blinding (tpp_destination_output demo_ve_inputs) = replicate 32 9"
  "out_owner_address (tpp_taker_in demo_ve_inputs) = Some (demo_address 5)"
  "signing_pubkey (demo_address 5) = replicate 32 5"
  by (simp_all add: demo_ve_inputs_def demo_terms_def demo_order_def demo_out_def demo_address_def)

theorem take_ve_inputs_satisfy_witness:
  "\<exists>q. take_ve_to_proof_inputs demo_S demo_ve_inputs = Inr q \<and>
     take_ve_define demo_gadgets (take_ve_assignment demo_gadgets id id q) = Some ()"
proof -
  obtain q where q: "take_ve_to_proof_inputs demo_S demo_ve_inputs = Inr q"
    using demo_ve_proves by blast
  show ?thesis
    using take_ve_inputs_satisfy [OF demo_api demo_hashes_fit demo_utxos_fit demo_cipher_fit
        demo_sdk_laws(6,1) q, where taker = "demo_address 5"] q
    by (simp add: demo_ve_facts demo_canonical)
qed

text \<open>C21. The proof inputs of escrow satisfy the escrow circuit exactly when the escrow holds something,
  and then, and only then, those of a withdraw from it satisfy the withdraw circuit: no escrow that
  was made is locked for want of a proof.\<close>

theorem escrow_inputs_satisfy:
  assumes "api_law G" "hashes_fit G fe S" "utxos_fit G fe S cu" "output_laws S"
    and "escrow_to_proof_inputs S P = Inr e" "withdraw_to_proof_inputs S Q = Inr q"
    and "wpp_escrow_utxo Q = epp_escrow_utxo P"
  shows "(escrow_define G (escrow_assignment fe cu e) = Some ()) = (eu_amount (epp_escrow_utxo P) \<noteq> 0) \<and>
    (withdraw_define G (withdraw_assignment fe cu q) = Some ()) = (eu_amount (epp_escrow_utxo P) \<noteq> 0)"
  using escrow_define_assignment [OF assms(1-5)] withdraw_define_assignment [OF assms(1-4,6)] assms(7)
  by simp

definition demo_escrow_params :: "(bytes, bytes \<times> u64, bytes option) escrow_proof_params" where
  "demo_escrow_params = \<lparr>epp_escrow_utxo = demo_escrow,
     epp_change = demo_out (demo_address 2) (replicate 32 7, 2) 600 (replicate 32 8),
     epp_spp_tx_hashes = \<lparr>eth_source_input_hash = replicate 32 4,
       eth_private_tx_blinding = replicate 32 5, eth_output_tree_id = 0\<rparr>\<rparr>"

lemma demo_escrow_proves: "\<exists>q. escrow_to_proof_inputs demo_S demo_escrow_params = Inr q"
proof -
  obtain u i where u: "escrow_output_utxo demo_S demo_escrow = Inr u"
    and i: "escrow_to_input_utxo demo_S demo_escrow 0 0 = Inr i"
    using demo_escrow_forms by blast
  have h: "demo_output_hash u 0 = Some (in_utxo_hash i)"
    using escrow_forms.forms_hash [where S = demo_S, OF demo_sdk_laws(1,2) u i] by simp
  obtain h2 where h2: "demo_output_hash (epp_change demo_escrow_params) 0 = Some h2"
    using demo_out_hash unfolding demo_escrow_params_def escrow_proof_params.simps by blast
  show ?thesis
    using u h h2
    by (simp add: escrow_to_proof_inputs_def Let_def demo_escrow_params_def demo_escrow_def demo_out_def
        escrow_terms_proof_input_of_def ext_def)
qed

theorem escrow_inputs_satisfy_witness:
  "\<exists>e q. escrow_to_proof_inputs demo_S demo_escrow_params = Inr e \<and>
     withdraw_to_proof_inputs demo_S demo_withdraw_inputs = Inr q \<and>
     escrow_define demo_gadgets (escrow_assignment id id e) = Some () \<and>
     withdraw_define demo_gadgets (withdraw_assignment id id q) = Some ()"
proof -
  obtain e q where e: "escrow_to_proof_inputs demo_S demo_escrow_params = Inr e"
    and q: "withdraw_to_proof_inputs demo_S demo_withdraw_inputs = Inr q"
    using demo_escrow_proves demo_withdraw_proves by blast
  show ?thesis
    using escrow_inputs_satisfy [OF demo_api demo_hashes_fit demo_utxos_fit demo_sdk_laws(1) e q] e q
    by (simp add: demo_escrow_params_def demo_withdraw_inputs_def demo_escrow_def)
qed

end
