(* ===== verification/Enforcement_Properties.thy ===== *)
theory Enforcement_Properties
  imports Circuit_Properties Swap_Properties Escrow_Properties
begin

text \<open>
  What a program, its verifying key and its circuit enforce together on a transaction that lands.
  The proof system is sound for the circuit behind the key; SPP has checked that the transaction
  hash is the one of its leaves. Collisions are not assumed away: each property names the two
  inputs that would collide.
\<close>

section \<open>Takes\<close>

lemma process_take_accepted:
  assumes "process_take_ix E as d w = Inr w'" "get_take_ix (wire_of E) d = Some (ix, [])"
  obtains now i0 h where "clock_unix_timestamp E = Inr now" "0 \<le> sint now"
    "sint now \<le> uint (expiry_unix_ts (tk_transact ix))" "first_opt (inputs (tk_transact ix)) = Some i0"
    "poseidon_hashv E [private_tx_hash (tk_transact ix),
       swap_u64_right_align (expiry_unix_ts (tk_transact ix)), nullifier_hash i0] = Some h"
    "groth16_accepts E (take_points (tk_proof ix)) h take_vk"
proof -
  obtain now i0 h where "clock_unix_timestamp E = Inr now"
    "0 \<le> sint now \<and> now \<le> expiry_unix_ts (tk_transact ix)"
    "first_opt (inputs (tk_transact ix)) = Some i0"
    "poseidon_hashv E [private_tx_hash (tk_transact ix),
       swap_u64_right_align (expiry_unix_ts (tk_transact ix)), nullifier_hash i0] = Some h"
    "groth16_accepts E (take_points (tk_proof ix)) h take_vk"
    using assms by (auto simp: process_take_ix_ok take_authorised_def)
  then show thesis
    using that within_as_int by blast
qed

text \<open>C1. Whoever takes an order pays for it. When the swap program lets a take through whose SPP
  transaction spends the leaf of an order, then its two output leaves are the source, for the owner
  of the spent taker input, and the destination: the amount and asset of the order, for the maker.
  It happened in the order's own window, on an order for derived settlement. Otherwise the
  extracted assignment holds a hash collision with the transaction or the order.\<close>

theorem take_pays_maker:
  assumes "api_law G" "hashes_fit G fe S" "viewing_law S" "poseidon_fit G fe (poseidon_hashv E)"
    and "proof_sound E take_vk fe (take_define G) tk_public_hash X"
    and "process_take_ix E as d w = Inr w'" "get_take_ix (wire_of E) d = Some (ix, [])"
    and "order_leaf G fe S terms t u"
    and "gprivate_tx_hash G [cu_hash G u, taker_leaf] [source_leaf, destination_leaf] b
           = fe (private_tx_hash (tk_transact ix))"
  shows "(\<exists>taker_in source destination now.
       exchanged G fe t u (taker_leaf, source_leaf, destination_leaf, b) taker_in source destination \<and>
       clock_unix_timestamp E = Inr now \<and> 0 \<le> sint now \<and> sint now \<le> uint (ot_expiry terms) \<and>
       ot_take_mode terms = take_mode_derived) \<or>
    (\<exists>i0 h. first_opt (inputs (tk_transact ix)) = Some i0 \<and>
       poseidon_hashv E [private_tx_hash (tk_transact ix),
         swap_u64_right_align (expiry_unix_ts (tk_transact ix)), nullifier_hash i0] = Some h \<and>
       take_clash G (X (take_points (tk_proof ix)) h)
         [fe (private_tx_hash (tk_transact ix)), gconst G (unat (expiry_unix_ts (tk_transact ix))),
          fe (nullifier_hash i0)]
         (order_assignment G fe t) u (taker_leaf, source_leaf, destination_leaf, b))"
proof -
  let ?tx = "tk_transact ix"
  obtain now i0 h where clock: "clock_unix_timestamp E = Inr now" "0 \<le> sint now"
      "sint now \<le> uint (expiry_unix_ts ?tx)"
    and i0: "first_opt (inputs ?tx) = Some i0"
    and h: "poseidon_hashv E [private_tx_hash ?tx, swap_u64_right_align (expiry_unix_ts ?tx),
        nullifier_hash i0] = Some h"
    and acc: "groth16_accepts E (take_points (tk_proof ix)) h take_vk"
    by (rule process_take_accepted [OF assms(6,7)])
  have "tk_public_hash (X (take_points (tk_proof ix)) h) = gposeidon G [fe (private_tx_hash ?tx),
      gconst G (unat (expiry_unix_ts ?tx)), fe (nullifier_hash i0)]"
    using proof_soundD(2) [OF assms(5) acc] poseidon_fitD [OF assms(4) h]
    by (simp add: fe_u64 [OF hashes_fitD(1) [OF assms(2)]])
  from take_define_binds [OF assms(1-3,8) proof_soundD(1) [OF assms(5) acc] this assms(9)]
  show ?thesis
    using clock i0 h by metis
qed

text \<open>The inputs that the SDK computes are about the leaf of the order, and their transaction hash is the
  one of their leaves.\<close>

lemma order_output_leaf:
  assumes "utxos_fit G fe S cu" "output_laws S" "order_terms_proof_input_of S (ou_terms order) = Inr t"
    and "order_output_utxo S order v = Inr o_utxo" "proof_input S o_utxo tree = Some i"
  shows "order_leaf G fe S (ou_terms order) t (cu i)"
proof -
  obtain h npk where "order_terms_data_hash S (ou_terms order) = Inr h" "out_data_hash o_utxo = Some h"
    by (rule order_output_utxo_fields [OF assms(2,4)])
  then show ?thesis
    using assms(3) utxos_fitD(1) [OF assms(1,5)]
    by (simp add: order_leaf_def order_terms_data_hash_def utxo_fits_def)
qed

lemma core_inputs_leaves:
  assumes "hashes_fit G fe S" "utxos_fit G fe S cu" "output_laws S"
    and "core_inputs S P taker t order_utxo taker_in source destination ptx"
  shows "order_leaf G fe S (ou_terms (tpp_order_utxo P)) t (cu order_utxo) \<and>
    gprivate_tx_hash G [cu_hash G (cu order_utxo), cu_hash G (cu taker_in)]
      [cu_hash G (cu source), cu_hash G (cu destination)] (fe (tpp_private_tx_blinding P)) = fe ptx"
proof -
  obtain u h1 h2 h3 h4 where t: "order_terms_proof_input_of S (ou_terms (tpp_order_utxo P)) = Inr t"
    and u: "order_output_utxo S (tpp_order_utxo P)
          (viewing_pubkey (ot_destination (ou_terms (tpp_order_utxo P)))) = Inr u"
      "proof_input S u (tpp_input_tree_id P) = Some order_utxo"
    and h: "proof_input_hash S order_utxo = Some h1" "proof_input_hash S taker_in = Some h2"
      "proof_input_hash S source = Some h3" "proof_input_hash S destination = Some h4"
      "private_tx_hash_of S [h1, h2] [h3, h4] (tpp_private_tx_blinding P) = Some ptx"
    using assms(4) by (auto simp: core_inputs_def take_private_tx_hash_def run_simps)
  have "cu_hash G (cu order_utxo) = fe h1" "cu_hash G (cu taker_in) = fe h2"
    "cu_hash G (cu source) = fe h3" "cu_hash G (cu destination) = fe h4"
    using utxos_fitD(2) [OF assms(2)] h by blast+
  then show ?thesis
    using order_output_leaf [OF assms(2,3) t u] hashes_fitD(7) [OF assms(1) h(5)] by simp
qed

lemma escrow_output_leaf:
  assumes "utxos_fit G fe S cu" "output_laws S" "escrow_terms_proof_input_of S (eu_terms e) = Inr t"
    and "escrow_output_utxo S e = Inr e_utxo" "proof_input S e_utxo tree = Some i"
  shows "escrow_leaf G fe S (eu_terms e) t (cu i)"
proof -
  obtain h npk where "escrow_terms_data_hash S (eu_terms e) = Inr h" "out_data_hash e_utxo = Some h"
    by (rule escrow_output_utxo_fields [OF assms(2,4)])
  then show ?thesis
    using assms(3) utxos_fitD(1) [OF assms(1,5)]
    by (simp add: escrow_leaf_def escrow_terms_data_hash_def utxo_fits_def)
qed

text \<open>A take of the demonstration order.\<close>

definition demo_take_ix :: "unit transact_ix_data \<Rightarrow> unit take_ix_data" where
  "demo_take_ix t = \<lparr>tk_proof = \<lparr>take_proof_a = replicate 32 0, take_proof_b = replicate 64 0,
     take_proof_c = replicate 32 0\<rparr>, tk_transact = t\<rparr>"

lemma demo_settled_take_ix:
  "get_take_ix (wire_of (demo_accepting now h t)) (demo_proof_bytes @ [0]) = Some (demo_take_ix t, [])"
  by (simp add: demo_get_take demo_take_ix_def)

lemma demo_settled_take_runs:
  "process_take_ix (demo_accepting 1700000000 (ptx @ swap_u64_right_align 1700000000 @ n)
       (demo_settlement ptx [n] None))
     [demo_signer 3, demo_swap_authority] (demo_proof_bytes @ [0]) [] = Inr [[0]]"
  by (simp add: process_take_ix_def demo_get_take [unfolded table_wire_def] demo_run_simps
      demo_swap_authority_def take_public_input_hash_def check_within_window_def)

lemma clash_self [simp]: "\<not> clash h x x"
  by (simp add: clash_def)

lemma order_clash_self [simp]: "\<not> order_clash G t u t u"
  by (simp add: order_clash_def)

text \<open>A proof system that accepts one public input is sound for a circuit with a satisfied assignment.\<close>

lemma demo_sound:
  assumes "define c = Some ()" "public c = h"
  shows "proof_sound (demo_accepting now h t) vk id define public (\<lambda>_ _. c)"
  using assms by (simp add: proof_sound_def demo_accepts_iff)

theorem take_pays_maker_witness:
  "\<exists>P q t taker_in source destination. take_to_proof_inputs demo_S P = Inr q \<and>
     t = demo_settlement (tpi_private_tx_hash q) [tpi_first_nullifier q] None \<and>
     process_take_ix (demo_accepting 1700000000 (tpi_public_input_hash q) t)
       [demo_signer 3, demo_swap_authority] (demo_proof_bytes @ [0]) [] = Inr [[0]] \<and>
     exchanged demo_gadgets id (tpi_order q) (tpi_order_utxo q)
       (cu_hash demo_gadgets (tpi_taker_in q), cu_hash demo_gadgets (tpi_source_output q),
        cu_hash demo_gadgets (tpi_destination_output q), tpp_private_tx_blinding P)
       taker_in source destination"
proof -
  obtain P q where q: "take_to_proof_inputs demo_S P = Inr q" and P: "tpp_order_utxo P = demo_order 0"
    using demo_take_inputs by blast
  let ?t = "demo_settlement (tpi_private_tx_hash q) [tpi_first_nullifier q] None"
  let ?E = "demo_accepting 1700000000 (tpi_public_input_hash q) ?t"
  let ?c = "take_assignment demo_gadgets id id q"
  obtain taker where core: "core_inputs demo_S P taker (tpi_order q) (tpi_order_utxo q) (tpi_taker_in q)
      (tpi_source_output q) (tpi_destination_output q) (tpi_private_tx_hash q)"
    and b: "tpi_private_tx_blinding q = tpp_private_tx_blinding P"
    and pub: "tpi_public_input_hash q
      = tpi_private_tx_hash q @ swap_u64_right_align 1700000000 @ tpi_first_nullifier q"
    by (rule take_core_inputs [OF q]) (simp add: P demo_order_def demo_terms_def)
  have "take_define demo_gadgets ?c = Some ()"
    using take_define_assignment [OF demo_api demo_hashes_fit demo_utxos_fit demo_blindings_fit
        demo_sdk_laws(6,1) q] by (simp add: P demo_order_def demo_terms_def)
  then have sound: "proof_sound ?E take_vk id (take_define demo_gadgets) tk_public_hash (\<lambda>_ _. ?c)"
    by (rule demo_sound) (simp add: take_assignment_def)
  have poseidon: "poseidon_fit demo_gadgets id (poseidon_hashv ?E)"
    using demo_poseidon_fit by simp
  have run: "process_take_ix ?E [demo_signer 3, demo_swap_authority] (demo_proof_bytes @ [0]) [] = Inr [[0]]"
    using demo_settled_take_runs [of "tpi_private_tx_hash q" "tpi_first_nullifier q"] pub by simp
  note leaves = core_inputs_leaves [where fe = id and cu = id, OF demo_hashes_fit demo_utxos_fit demo_sdk_laws(1) core]
  have expiry: "co_expiry (order_assignment demo_gadgets id (tpi_order q)) = gconst demo_gadgets (unat (1700000000 :: u64))"
    using core order_terms_inputs(2) [of demo_S "ou_terms (demo_order 0)" "tpi_order q"]
    by (simp add: core_inputs_def P order_assignment_def demo_order_def demo_terms_def
        fe_u64 [OF demo_fe, simplified])
  have "\<not> take_clash demo_gadgets ?c
      [id (private_tx_hash ?t), gconst demo_gadgets (unat (expiry_unix_ts ?t)), id (tpi_first_nullifier q)]
      (order_assignment demo_gadgets id (tpi_order q)) (tpi_order_utxo q)
      (cu_hash demo_gadgets (tpi_taker_in q), cu_hash demo_gadgets (tpi_source_output q),
       cu_hash demo_gadgets (tpi_destination_output q), tpp_private_tx_blinding P)"
    using expiry b by (simp add: take_clash_def core_clash_def take_assignment_def)
  with take_pays_maker [OF demo_api demo_hashes_fit demo_sdk_laws(6) poseidon sound run
      demo_settled_take_ix conjunct1 [OF leaves]] conjunct2 [OF leaves] q run
  show ?thesis
    by (fastforce simp: demo_take_ix_def)
qed

section \<open>Verifiable takes\<close>

lemma process_take_ve_accepted:
  assumes "process_take_ve_ix E as d w = Inr w'" "get_take_ve_ix (wire_of E) d = Some (ix, [])"
  obtains now o_last ct cth h where "clock_unix_timestamp E = Inr now" "0 \<le> sint now"
    "sint now \<le> uint (expiry_unix_ts (tv_transact ix))"
    "last_opt (outputs (tv_transact ix)) = Some o_last" "output_data o_last = Some ct"
    "ciphertext_hash E ct = Some cth"
    "poseidon_hashv E [private_tx_hash (tv_transact ix),
       swap_u64_right_align (expiry_unix_ts (tv_transact ix)), cth] = Some h"
    "groth16_accepts E (take_ve_points (tv_proof ix)) h take_ve_vk"
proof -
  obtain now o_last ct cth h where "clock_unix_timestamp E = Inr now"
    "0 \<le> sint now \<and> now \<le> expiry_unix_ts (tv_transact ix)"
    "last_opt (outputs (tv_transact ix)) = Some o_last" "output_data o_last = Some ct"
    "ciphertext_hash E ct = Some cth"
    "poseidon_hashv E [private_tx_hash (tv_transact ix),
       swap_u64_right_align (expiry_unix_ts (tv_transact ix)), cth] = Some h"
    "groth16_accepts E (take_ve_points (tv_proof ix)) h take_ve_vk"
    using assms by (auto simp: process_take_ve_ix_ok take_ve_authorised_def)
  then show thesis
    using that within_as_int by blast
qed

text \<open>C4. A verifiable take, too, pays the maker, and only the taker that the order names can make it:
  the spent taker input belongs to the named identity. The ciphertext that its last output publishes
  has the hash of the encryption, under the order's key, of the payout's amount, asset and blinding,
  so the maker can open the payout. Otherwise the extracted assignment holds a hash collision.\<close>

theorem take_ve_pays_maker:
  assumes "api_law G" "hashes_fit G fe S" "viewing_law S" "poseidon_fit G fe (poseidon_hashv E)"
    and "proof_sound E take_ve_vk fe (take_ve_define G) tv_public_hash X"
    and "process_take_ve_ix E as d w = Inr w'" "get_take_ve_ix (wire_of E) d = Some (ix, [])"
    and "order_leaf G fe S terms t u"
    and "gprivate_tx_hash G [cu_hash G u, taker_leaf] [source_leaf, destination_leaf] b
           = fe (private_tx_hash (tv_transact ix))"
  shows "\<exists>now o_last ct cth h c. clock_unix_timestamp E = Inr now \<and>
    last_opt (outputs (tv_transact ix)) = Some o_last \<and> output_data o_last = Some ct \<and>
    ciphertext_hash E ct = Some cth \<and>
    poseidon_hashv E [private_tx_hash (tv_transact ix),
      swap_u64_right_align (expiry_unix_ts (tv_transact ix)), cth] = Some h \<and>
    c = X (take_ve_points (tv_proof ix)) h \<and>
    (exchanged G fe t u (taker_leaf, source_leaf, destination_leaf, b)
       (tc_taker_in (tv_core c)) (tc_source_output (tv_core c)) (tc_destination_output (tv_core c)) \<and>
     cu_owner G (tc_taker_in (tv_core c)) = gposeidon G [fe (op_taker_pk_fe t), tv_taker_nullifier_pk c] \<and>
     check_verifiable_encryption G (tv_core c) = Some (fe cth) \<and>
     0 \<le> sint now \<and> sint now \<le> uint (ot_expiry terms) \<and> ot_take_mode terms = take_mode_verifiable \<or>
     take_ve_clash G c
       [fe (private_tx_hash (tv_transact ix)), gconst G (unat (expiry_unix_ts (tv_transact ix))), fe cth]
       (order_assignment G fe t) u (taker_leaf, source_leaf, destination_leaf, b))"
proof -
  let ?tx = "tv_transact ix"
  obtain now o_last ct cth h where clock: "clock_unix_timestamp E = Inr now" "0 \<le> sint now"
      "sint now \<le> uint (expiry_unix_ts ?tx)"
    and ct: "last_opt (outputs ?tx) = Some o_last" "output_data o_last = Some ct"
      "ciphertext_hash E ct = Some cth"
    and h: "poseidon_hashv E [private_tx_hash ?tx, swap_u64_right_align (expiry_unix_ts ?tx), cth] = Some h"
    and acc: "groth16_accepts E (take_ve_points (tv_proof ix)) h take_ve_vk"
    by (rule process_take_ve_accepted [OF assms(6,7)])
  have "tv_public_hash (X (take_ve_points (tv_proof ix)) h) = gposeidon G [fe (private_tx_hash ?tx),
      gconst G (unat (expiry_unix_ts ?tx)), fe cth]"
    using proof_soundD(2) [OF assms(5) acc] poseidon_fitD [OF assms(4) h]
    by (simp add: fe_u64 [OF hashes_fitD(1) [OF assms(2)]])
  note binds = take_ve_define_binds [OF assms(1-3,8) proof_soundD(1) [OF assms(5) acc] this assms(9)]
  show ?thesis
    by (intro exI [of _ now] exI [of _ o_last] exI [of _ ct] exI [of _ cth] exI [of _ h]
        exI [of _ "X (take_ve_points (tv_proof ix)) h"] conjI clock(1) ct h refl)
      (use binds clock in auto)
qed

definition demo_ve_data :: bytes where
  "demo_ve_data = demo_proof_bytes @ replicate 32 0 @ replicate 32 0 @ [0]"

lemma demo_settled_take_ve_ix:
  "get_take_ve_ix (wire_of (demo_accepting now h t)) demo_ve_data
     = Some (\<lparr>tv_proof = bv_take_proof (demo_ve_params t), tv_transact = t\<rparr>, [])"
  by (simp add: get_take_ve_ix_def get_take_ve_proof_def demo_ve_data_def demo_proof_bytes_def
      table_wire_def demo_ve_params_def)

lemma demo_settled_take_ve_runs:
  "length ct = 72 \<Longrightarrow>
   process_take_ve_ix (demo_accepting 1700000000 (ptx @ swap_u64_right_align 1700000000 @ ct)
       (demo_settlement ptx ns (Some ct)))
     [demo_signer 3, demo_swap_authority] demo_ve_data [] = Inr [[0]]"
  by (simp add: process_take_ve_ix_def demo_ve_data_def demo_proof_bytes_def get_take_ve_ix_def
      get_take_ve_proof_def demo_run_simps demo_swap_authority_def take_ve_public_input_hash_def
      check_within_window_def take_ve_vk_def)

text \<open>The facts about the verifiable take of the demo order that the enforcement rests on.\<close>

lemma demo_ve_enforced:
  assumes q: "take_ve_to_proof_inputs demo_S demo_ve_inputs = Inr q"
    and ct: "order_destination_ciphertext demo_S (tpp_order_utxo demo_ve_inputs)
      (tpp_destination_output demo_ve_inputs) = Inr ct"
  shows "length ct = 72"
    and "vpi_public_input_hash q = vpi_private_tx_hash q @ swap_u64_right_align 1700000000 @ ct"
    and "take_ve_define demo_gadgets (take_ve_assignment demo_gadgets id id q) = Some ()"
    and "order_leaf demo_gadgets id demo_S (ou_terms (tpp_order_utxo demo_ve_inputs)) (vpi_order q)
      (vpi_order_utxo q)"
    and "gprivate_tx_hash demo_gadgets
      [cu_hash demo_gadgets (vpi_order_utxo q), cu_hash demo_gadgets (vpi_taker_in q)]
      [cu_hash demo_gadgets (vpi_source_output q), cu_hash demo_gadgets (vpi_destination_output q)]
      (replicate 32 1) = id (vpi_private_tx_hash q)"
    and "tv_taker_nullifier_pk (take_ve_assignment demo_gadgets id id q) = replicate 32 3"
    and "\<not> take_ve_clash demo_gadgets (take_ve_assignment demo_gadgets id id q)
      [id (vpi_private_tx_hash q), gconst demo_gadgets (unat (1700000000 :: u64)), id ct]
      (order_assignment demo_gadgets id (vpi_order q)) (vpi_order_utxo q)
      (cu_hash demo_gadgets (vpi_taker_in q), cu_hash demo_gadgets (vpi_source_output q),
       cu_hash demo_gadgets (vpi_destination_output q), replicate 32 1)"
proof -
  have expiry: "ot_expiry (ou_terms (tpp_order_utxo demo_ve_inputs)) = 1700000000"
    by (simp add: demo_ve_inputs_def demo_order_def demo_terms_def)
  show len: "length ct = 72" and pub: "vpi_public_input_hash q = vpi_private_tx_hash q @ swap_u64_right_align 1700000000 @ ct"
    by (rule take_ve_to_proof_inputs_hash [OF q ct]; simp add: expiry)+
  obtain taker where core: "core_inputs demo_S demo_ve_inputs taker (vpi_order q) (vpi_order_utxo q)
      (vpi_taker_in q) (vpi_source_output q) (vpi_destination_output q) (vpi_private_tx_hash q)"
    and npk: "vpi_taker_nullifier_pk q = nullifier_pubkey taker"
    and b: "vpi_private_tx_blinding q = replicate 32 1"
    by (rule take_ve_core_inputs [OF q]) (simp add: demo_ve_inputs_def)
  have "taker = demo_address 5"
    using core by (simp add: core_inputs_def check_take_utxos_ok plain_output_def demo_ve_facts)
  then show "tv_taker_nullifier_pk (take_ve_assignment demo_gadgets id id q) = replicate 32 3"
    using npk by (simp add: take_ve_assignment_def demo_address_def)
  show ok: "take_ve_define demo_gadgets (take_ve_assignment demo_gadgets id id q) = Some ()"
    using take_ve_define_assignment [OF demo_api demo_hashes_fit demo_utxos_fit demo_cipher_fit
        demo_sdk_laws(6,1) q, where taker = "demo_address 5"]
    by (simp add: demo_ve_facts demo_canonical)
  note leaves = core_inputs_leaves [where fe = id and cu = id, OF demo_hashes_fit demo_utxos_fit
      demo_sdk_laws(1) core]
  show "order_leaf demo_gadgets id demo_S (ou_terms (tpp_order_utxo demo_ve_inputs)) (vpi_order q)
      (vpi_order_utxo q)"
    using leaves by simp
  show "gprivate_tx_hash demo_gadgets
      [cu_hash demo_gadgets (vpi_order_utxo q), cu_hash demo_gadgets (vpi_taker_in q)]
      [cu_hash demo_gadgets (vpi_source_output q), cu_hash demo_gadgets (vpi_destination_output q)]
      (replicate 32 1) = id (vpi_private_tx_hash q)"
    using leaves by (simp add: demo_ve_inputs_def)
  have "co_expiry (order_assignment demo_gadgets id (vpi_order q))
      = gconst demo_gadgets (unat (1700000000 :: u64))"
    using core order_terms_inputs(2) [of demo_S "ou_terms (tpp_order_utxo demo_ve_inputs)" "vpi_order q"] expiry
    by (simp add: core_inputs_def order_assignment_def fe_u64 [OF demo_fe, simplified])
  moreover have "gconst demo_gadgets (unat (1700000000 :: u64)) = swap_u64_right_align 1700000000"
    using fe_u64 [OF demo_fe, of 1700000000] by simp
  ultimately show "\<not> take_ve_clash demo_gadgets (take_ve_assignment demo_gadgets id id q)
      [id (vpi_private_tx_hash q), gconst demo_gadgets (unat (1700000000 :: u64)), id ct]
      (order_assignment demo_gadgets id (vpi_order q)) (vpi_order_utxo q)
      (cu_hash demo_gadgets (vpi_taker_in q), cu_hash demo_gadgets (vpi_source_output q),
       cu_hash demo_gadgets (vpi_destination_output q), replicate 32 1)"
    using ok pub b by (auto simp: swap_define_simps Let_def bind_eq_Some_conv api_simps(1) [OF demo_api]
        take_ve_clash_def core_clash_def take_ve_assignment_def)
qed

theorem take_ve_pays_maker_witness:
  "\<exists>q ct t taker_in source destination. take_ve_to_proof_inputs demo_S demo_ve_inputs = Inr q \<and>
     t = demo_settlement (vpi_private_tx_hash q) [] (Some ct) \<and>
     process_take_ve_ix (demo_accepting 1700000000 (vpi_public_input_hash q) t)
       [demo_signer 3, demo_swap_authority] demo_ve_data [] = Inr [[0]] \<and>
     exchanged demo_gadgets id (vpi_order q) (vpi_order_utxo q)
       (cu_hash demo_gadgets (vpi_taker_in q), cu_hash demo_gadgets (vpi_source_output q),
        cu_hash demo_gadgets (vpi_destination_output q), replicate 32 1)
       taker_in source destination \<and>
     cu_owner demo_gadgets taker_in = op_taker_pk_fe (vpi_order q) @ replicate 32 3"
proof -
  obtain q where q: "take_ve_to_proof_inputs demo_S demo_ve_inputs = Inr q"
    using demo_ve_proves by blast
  obtain ct where ct: "order_destination_ciphertext demo_S (tpp_order_utxo demo_ve_inputs)
      (tpp_destination_output demo_ve_inputs) = Inr ct"
    using demo_ve_ciphertext by (auto simp: demo_ve_facts)
  note enf = demo_ve_enforced [OF q ct]
  let ?t = "demo_settlement (vpi_private_tx_hash q) [] (Some ct)"
  let ?E = "demo_accepting 1700000000 (vpi_public_input_hash q) ?t"
  let ?c = "take_ve_assignment demo_gadgets id id q"
  have sound: "proof_sound ?E take_ve_vk id (take_ve_define demo_gadgets) tv_public_hash (\<lambda>_ _. ?c)"
    by (rule demo_sound, rule enf(3)) (simp add: take_ve_assignment_def)
  have poseidon: "poseidon_fit demo_gadgets id (poseidon_hashv ?E)"
    using demo_poseidon_fit by simp
  have run: "process_take_ve_ix ?E [demo_signer 3, demo_swap_authority] demo_ve_data [] = Inr [[0]]"
    using demo_settled_take_ve_runs [OF enf(1), of "vpi_private_tx_hash q" "[]"] enf(2) by simp
  have "exchanged demo_gadgets id (vpi_order q) (vpi_order_utxo q)
       (cu_hash demo_gadgets (vpi_taker_in q), cu_hash demo_gadgets (vpi_source_output q),
       cu_hash demo_gadgets (vpi_destination_output q), replicate 32 1)
       (tc_taker_in (tv_core ?c)) (tc_source_output (tv_core ?c)) (tc_destination_output (tv_core ?c)) \<and>
     cu_owner demo_gadgets (tc_taker_in (tv_core ?c)) = op_taker_pk_fe (vpi_order q) @ replicate 32 3"
    using take_ve_pays_maker [OF demo_api demo_hashes_fit demo_sdk_laws(6) poseidon sound run
      demo_settled_take_ve_ix enf(4)] enf(5-7) by auto
  with q run show ?thesis by blast
qed

section \<open>Refunds\<close>

text \<open>C2. A cancel gives the order back to its maker and to nobody else. When the swap program lets a
  cancel through whose SPP transaction spends the leaf of an order, then its output leaf holds the
  whole order for the maker's owner hash, that owner hash is the one of the identity of the account
  that signed as the maker, and the order had expired. Otherwise the extracted assignment holds a
  hash collision.\<close>

theorem cancel_refunds_maker:
  assumes "account_checks_ok E"
    and "api_law G" "hashes_fit G fe S" "viewing_law S" "poseidon_fit G fe (poseidon_hashv E)"
    and "proof_sound E cancel_vk fe (cancel_define G) cc_public_input_hash X"
    and "process_cancel_ix E as d w = Inr w'" "get_cancel_ix (wire_of E) d = Some (ix, [])"
    and "order_leaf G fe S terms t u"
    and "gprivate_tx_hash G [cu_hash G u] [source_leaf] b = fe (private_tx_hash (cn_transact ix))"
  shows "\<exists>payer maker rest owner now h. as = payer # maker # rest \<and> is_signer maker \<and>
    solana_owner_identity E (address maker) = Some owner \<and> clock_unix_timestamp E = Inr now \<and>
    poseidon_hashv E [private_tx_hash (cn_transact ix), swap_u64_right_align (cn_order_expiry ix), owner]
      = Some h \<and>
    ((\<exists>source npk. cu_hash G source = source_leaf \<and>
       pays G source (cu_asset G u) (cu_amount G u) (fe (op_maker_owner_hash t)) \<and>
       fe (op_maker_owner_hash t) = gposeidon G [fe owner, npk] \<and> uint (ot_expiry terms) < sint now) \<or>
     cancel_clash G (X (cancel_points (cn_proof ix)) h)
       [fe (private_tx_hash (cn_transact ix)), gconst G (unat (cn_order_expiry ix)), fe owner]
       (order_assignment G fe t) u (source_leaf, b))"
proof -
  obtain payer iter maker iter' rest owner now h where
    accts: "next_signer_mut E ''payer'' as = Inr (payer, iter)"
      "next_signer E ''maker'' iter = Inr (maker, iter')" "remaining E iter' = Inr rest"
    and owner: "solana_owner_identity E (address maker) = Some owner"
    and clock: "clock_unix_timestamp E = Inr now" "0 \<le> sint now \<and> cn_order_expiry ix < now"
    and h: "poseidon_hashv E [private_tx_hash (cn_transact ix),
        swap_u64_right_align (cn_order_expiry ix), owner] = Some h"
    and acc: "groth16_accepts E (cancel_points (cn_proof ix)) h cancel_vk"
    using assms(7,8) by (auto simp: process_cancel_ix_ok cancel_authorised_def)
  have as: "as = payer # maker # iter'" "is_signer maker"
    using next_signer_mutD [OF assms(1) accts(1)] next_signerD [OF assms(1) accts(2)] by auto
  have "cc_public_input_hash (X (cancel_points (cn_proof ix)) h) = gposeidon G
      [fe (private_tx_hash (cn_transact ix)), gconst G (unat (cn_order_expiry ix)), fe owner]"
    using proof_soundD(2) [OF assms(6) acc] poseidon_fitD [OF assms(5) h]
    by (simp add: fe_u64 [OF hashes_fitD(1) [OF assms(3)]])
  note binds = cancel_define_binds [OF assms(2-4,9) proof_soundD(1) [OF assms(6) acc] this assms(10)]
  have "uint (cn_order_expiry ix) < sint now"
    using clock(2) after_as_int by blast
  with binds have "(\<exists>source npk. cu_hash G source = source_leaf \<and>
       pays G source (cu_asset G u) (cu_amount G u) (fe (op_maker_owner_hash t)) \<and>
       fe (op_maker_owner_hash t) = gposeidon G [fe owner, npk] \<and> uint (ot_expiry terms) < sint now) \<or>
     cancel_clash G (X (cancel_points (cn_proof ix)) h)
       [fe (private_tx_hash (cn_transact ix)), gconst G (unat (cn_order_expiry ix)), fe owner]
       (order_assignment G fe t) u (source_leaf, b)"
    by metis
  then show ?thesis
    by (intro exI [of _ payer] exI [of _ maker] exI [of _ iter'] exI [of _ owner] exI [of _ now]
        exI [of _ h] conjI as owner clock(1) h)
qed

lemma demo_settled_cancel_ix:
  "get_cancel_ix (wire_of (demo_accepting now h t)) (demo_proof_bytes @ to_le_bytes 1700000000 @ [0])
     = Some (\<lparr>cn_proof = \<lparr>cancel_proof_a = replicate 32 0, cancel_proof_b = replicate 64 0,
         cancel_proof_c = replicate 32 0\<rparr>, cn_order_expiry = 1700000000, cn_transact = t\<rparr>, [])"
  by (simp add: demo_get_cancel)

lemma demo_settled_cancel_runs:
  "process_cancel_ix (demo_accepting 1700000001 (ptx @ swap_u64_right_align 1700000000 @ replicate 32 2)
       (demo_settlement ptx ns None))
     [demo_signer 3, demo_signer 2, demo_swap_authority] (demo_proof_bytes @ to_le_bytes 1700000000 @ [0])
     [] = Inr [[0]]"
  by (simp add: process_cancel_ix_def demo_get_cancel [unfolded table_wire_def] demo_run_simps
      demo_swap_authority_def cancel_public_input_hash_def check_after_window_def)

text \<open>The facts about the cancel of the demo order that the enforcement rests on.\<close>

lemma demo_cancel_enforced:
  assumes q: "cancel_to_proof_inputs demo_S demo_cancel_inputs = Inr q"
  shows "cancel_define demo_gadgets (cancel_assignment demo_gadgets id id q) = Some ()"
    and "cpi_public_input_hash q
      = cpi_private_tx_hash q @ swap_u64_right_align 1700000000 @ replicate 32 2"
    and "order_leaf demo_gadgets id demo_S (demo_terms 0) (cpi_order q) (cpi_order_utxo q)"
    and "gprivate_tx_hash demo_gadgets [cu_hash demo_gadgets (cpi_order_utxo q)]
      [cu_hash demo_gadgets (cpi_source_output q)] (cpi_private_tx_blinding q) = id (cpi_private_tx_hash q)"
    and "\<not> cancel_clash demo_gadgets (cancel_assignment demo_gadgets id id q)
      [id (cpi_private_tx_hash q), gconst demo_gadgets (unat (1700000000 :: u64)), id (replicate 32 2)]
      (order_assignment demo_gadgets id (cpi_order q)) (cpi_order_utxo q)
      (cu_hash demo_gadgets (cpi_source_output q), cpi_private_tx_blinding q)"
proof -
  have P: "cpp_order_utxo demo_cancel_inputs = demo_order 0" "ou_terms (demo_order 0) = demo_terms 0"
    "ou_source_amount (demo_order 0) = 400" "ot_expiry (demo_terms 0) = 1700000000"
    "signing_pubkey (ot_destination (demo_terms 0)) = replicate 32 2"
    by (simp_all add: demo_cancel_inputs_def demo_order_def demo_terms_def)
  obtain u h1 h2 where field: "cpi_maker_owner_pk_field q = replicate 32 2"
    and t: "order_terms_proof_input_of demo_S (demo_terms 0) = Inr (cpi_order q)"
    and u: "order_output_utxo demo_S (demo_order 0) (viewing_pubkey (ot_destination (demo_terms 0))) = Inr u"
      "proof_input demo_S u (cpp_input_tree_id demo_cancel_inputs) = Some (cpi_order_utxo q)"
    and h: "proof_input_hash demo_S (cpi_order_utxo q) = Some h1"
      "proof_input_hash demo_S (cpi_source_output q) = Some h2"
      "private_tx_hash_of demo_S [h1] [h2] (cpi_private_tx_blinding q) = Some (cpi_private_tx_hash q)"
    and pub: "cpi_public_input_hash q
      = cpi_private_tx_hash q @ swap_u64_right_align 1700000000 @ replicate 32 2"
    by (rule cancel_inputs [OF q]) (simp add: P)
  show "cancel_define demo_gadgets (cancel_assignment demo_gadgets id id q) = Some ()"
    using cancel_define_assignment [OF demo_api demo_hashes_fit demo_utxos_fit demo_sdk_laws(6,1) q]
    by (simp add: P)
  show "cpi_public_input_hash q
      = cpi_private_tx_hash q @ swap_u64_right_align 1700000000 @ replicate 32 2"
    by (rule pub)
  show "order_leaf demo_gadgets id demo_S (demo_terms 0) (cpi_order q) (cpi_order_utxo q)"
    using order_output_leaf [where cu = id, OF demo_utxos_fit demo_sdk_laws(1) _ u(1,2)] t
    by (simp add: P)
  show "gprivate_tx_hash demo_gadgets [cu_hash demo_gadgets (cpi_order_utxo q)]
      [cu_hash demo_gadgets (cpi_source_output q)] (cpi_private_tx_blinding q) = id (cpi_private_tx_hash q)"
    using h by (simp add: split_def)
  have "co_expiry (order_assignment demo_gadgets id (cpi_order q))
      = gconst demo_gadgets (unat (1700000000 :: u64))"
    using order_terms_inputs(2) [OF t]
    by (simp add: order_assignment_def P fe_u64 [OF demo_fe, simplified])
  then show "\<not> cancel_clash demo_gadgets (cancel_assignment demo_gadgets id id q)
      [id (cpi_private_tx_hash q), gconst demo_gadgets (unat (1700000000 :: u64)), id (replicate 32 2)]
      (order_assignment demo_gadgets id (cpi_order q)) (cpi_order_utxo q)
      (cu_hash demo_gadgets (cpi_source_output q), cpi_private_tx_blinding q)"
    using field by (simp add: cancel_clash_def cancel_assignment_def)
qed

theorem cancel_refunds_maker_witness:
  "\<exists>q t. cancel_to_proof_inputs demo_S demo_cancel_inputs = Inr q \<and>
     t = demo_settlement (cpi_private_tx_hash q) [replicate 32 4] None \<and>
     process_cancel_ix (demo_accepting 1700000001 (cpi_public_input_hash q) t)
       [demo_signer 3, demo_signer 2, demo_swap_authority] (demo_proof_bytes @ to_le_bytes 1700000000 @ [0])
       [] = Inr [[0]] \<and>
     (\<exists>source npk. cu_hash demo_gadgets source = cu_hash demo_gadgets (cpi_source_output q) \<and>
        pays demo_gadgets source (cu_asset demo_gadgets (cpi_order_utxo q))
          (cu_amount demo_gadgets (cpi_order_utxo q)) (op_maker_owner_hash (cpi_order q)) \<and>
        op_maker_owner_hash (cpi_order q) = replicate 32 2 @ npk)"
proof -
  obtain q where q: "cancel_to_proof_inputs demo_S demo_cancel_inputs = Inr q"
    using demo_cancel_proves by blast
  note enf = demo_cancel_enforced [OF q]
  let ?E = "demo_accepting 1700000001 (cpi_public_input_hash q)
    (demo_settlement (cpi_private_tx_hash q) [replicate 32 4] None)"
  have sound: "proof_sound ?E cancel_vk id (cancel_define demo_gadgets) cc_public_input_hash
      (\<lambda>_ _. cancel_assignment demo_gadgets id id q)"
    by (rule demo_sound, rule enf(1)) (simp add: cancel_assignment_def)
  have poseidon: "poseidon_fit demo_gadgets id (poseidon_hashv ?E)"
    using demo_poseidon_fit by simp
  have run: "process_cancel_ix ?E [demo_signer 3, demo_signer 2, demo_swap_authority]
      (demo_proof_bytes @ to_le_bytes 1700000000 @ [0]) [] = Inr [[0]]"
    using demo_settled_cancel_runs [of "cpi_private_tx_hash q" "[replicate 32 4]"] enf(2) by simp
  from cancel_refunds_maker [OF demo_account_checks demo_api demo_hashes_fit demo_sdk_laws(6) poseidon
      sound run demo_settled_cancel_ix enf(3)] enf(4,5) q run
  show ?thesis
    by (fastforce simp: demo_signer_def)
qed

text \<open>C3. A withdraw returns the escrow to its creator and to nobody else. When the escrow program lets a
  withdraw through whose SPP transaction spends the leaf of an escrow, then its output leaf holds
  the whole escrow for the creator's owner hash, that owner hash is the one of the identity of the
  account that signed as the creator, and the unlock time had passed. Otherwise the extracted
  assignment holds a hash collision.\<close>

theorem withdraw_pays_creator:
  assumes "account_checks_ok E"
    and "api_law G" "hashes_fit G fe S" "poseidon_fit G fe (poseidon_hashv E)"
    and "proof_sound E withdraw_vk fe (withdraw_define G) wc_public_input_hash X"
    and "process_withdraw_ix E as d w = Inr w'" "get_withdraw_ix (wire_of E) d = Some (ix, [])"
    and "escrow_leaf G fe S terms t u"
    and "gprivate_tx_hash G [cu_hash G u] [source_leaf] b = fe (private_tx_hash (wd_transact ix))"
  shows "\<exists>caller creator rest owner now h. as = caller # creator # rest \<and> is_signer creator \<and>
    solana_owner_identity E (address creator) = Some owner \<and> clock_unix_timestamp E = Inr now \<and>
    poseidon_hashv E [private_tx_hash (wd_transact ix), escrow_u64_right_align (wd_unlock_timestamp ix),
      owner] = Some h \<and>
    ((\<exists>source npk. cu_hash G source = source_leaf \<and>
       pays G source (cu_asset G u) (cu_amount G u) (fe (ep_owner_hash t)) \<and>
       fe (ep_owner_hash t) = gposeidon G [fe owner, npk] \<and>
       uint (et_unlock_timestamp terms) < sint now) \<or>
     withdraw_clash G (X (withdraw_points (wd_proof ix)) h)
       [fe (private_tx_hash (wd_transact ix)), gconst G (unat (wd_unlock_timestamp ix)), fe owner]
       (escrow_terms_assignment fe t) u (source_leaf, b))"
proof -
  obtain caller iter creator iter' rest owner now h where
    accts: "next_signer_mut E ''caller'' as = Inr (caller, iter)"
      "next_signer E ''creator'' iter = Inr (creator, iter')" "remaining E iter' = Inr rest"
    and owner: "solana_owner_identity E (address creator) = Some owner"
    and clock: "clock_unix_timestamp E = Inr now" "0 \<le> sint now \<and> wd_unlock_timestamp ix < now"
    and h: "poseidon_hashv E [private_tx_hash (wd_transact ix),
        escrow_u64_right_align (wd_unlock_timestamp ix), owner] = Some h"
    and acc: "groth16_accepts E (withdraw_points (wd_proof ix)) h withdraw_vk"
    using assms(6,7) by (auto simp: process_withdraw_ix_ok withdraw_authorised_def)
  have as: "as = caller # creator # iter'" "is_signer creator"
    using next_signer_mutD [OF assms(1) accts(1)] next_signerD [OF assms(1) accts(2)] by auto
  have "wc_public_input_hash (X (withdraw_points (wd_proof ix)) h) = gposeidon G
      [fe (private_tx_hash (wd_transact ix)), gconst G (unat (wd_unlock_timestamp ix)), fe owner]"
    using proof_soundD(2) [OF assms(5) acc] poseidon_fitD [OF assms(4) h]
    by (simp add: fe_escrow_u64 [OF hashes_fitD(1) [OF assms(3)]])
  note binds = withdraw_define_binds [OF assms(2,3,8) proof_soundD(1) [OF assms(5) acc] this assms(9)]
  have "uint (wd_unlock_timestamp ix) < sint now"
    using clock(2) after_as_int by blast
  with binds have "(\<exists>source npk. cu_hash G source = source_leaf \<and>
       pays G source (cu_asset G u) (cu_amount G u) (fe (ep_owner_hash t)) \<and>
       fe (ep_owner_hash t) = gposeidon G [fe owner, npk] \<and>
       uint (et_unlock_timestamp terms) < sint now) \<or>
     withdraw_clash G (X (withdraw_points (wd_proof ix)) h)
       [fe (private_tx_hash (wd_transact ix)), gconst G (unat (wd_unlock_timestamp ix)), fe owner]
       (escrow_terms_assignment fe t) u (source_leaf, b)"
    by metis
  then show ?thesis
    by (intro exI [of _ caller] exI [of _ creator] exI [of _ iter'] exI [of _ owner] exI [of _ now]
        exI [of _ h] conjI as owner clock(1) h)
qed

lemma demo_settled_withdraw_ix:
  "get_withdraw_ix (wire_of (demo_accepting now h t)) (demo_proof_bytes @ to_le_bytes 1700000000 @ [0])
     = Some (\<lparr>wd_proof = \<lparr>withdraw_proof_a = replicate 32 0, withdraw_proof_b = replicate 64 0,
         withdraw_proof_c = replicate 32 0\<rparr>, wd_unlock_timestamp = 1700000000, wd_transact = t\<rparr>, [])"
  by (simp add: get_withdraw_ix_def get_withdraw_proof_def demo_proof_bytes_def table_wire_def)

lemma demo_settled_withdraw_runs:
  "process_withdraw_ix (demo_accepting 1700000001 (ptx @ escrow_u64_right_align 1700000000 @ replicate 32 2)
       (demo_settlement ptx ns None))
     [demo_signer 3, demo_signer 2, demo_escrow_authority] (demo_proof_bytes @ to_le_bytes 1700000000 @ [0])
     [] = Inr [[0]]"
  by (simp add: process_withdraw_ix_def demo_settled_withdraw_ix [simplified] demo_simps Let_def
      deserialize_exact_def table_put_def escrow_cpi_spp_transact_signed_def escrow_verify_groth16_def
      demo_escrow_authority_def withdraw_public_input_hash_def escrow_check_after_window_def
      get_withdraw_ix_def get_withdraw_proof_def demo_proof_bytes_def table_wire_def)

text \<open>The facts about the withdraw of the demo escrow that the enforcement rests on.\<close>

lemma demo_withdraw_enforced:
  assumes q: "withdraw_to_proof_inputs demo_S demo_withdraw_inputs = Inr q"
  shows "withdraw_define demo_gadgets (withdraw_assignment id id q) = Some ()"
    and "wpi_public_input_hash q
      = wpi_private_tx_hash q @ escrow_u64_right_align 1700000000 @ replicate 32 2"
    and "escrow_leaf demo_gadgets id demo_S (eu_terms demo_escrow) (wpi_terms q) (wpi_escrow_utxo q)"
    and "gprivate_tx_hash demo_gadgets [cu_hash demo_gadgets (wpi_escrow_utxo q)]
      [cu_hash demo_gadgets (wpi_source_output q)] (wpi_private_tx_blinding q) = id (wpi_private_tx_hash q)"
    and "\<not> withdraw_clash demo_gadgets (withdraw_assignment id id q)
      [id (wpi_private_tx_hash q), gconst demo_gadgets (unat (1700000000 :: u64)), id (replicate 32 2)]
      (escrow_terms_assignment id (wpi_terms q)) (wpi_escrow_utxo q)
      (cu_hash demo_gadgets (wpi_source_output q), wpi_private_tx_blinding q)"
proof -
  have P: "wpp_escrow_utxo demo_withdraw_inputs = demo_escrow" "eu_amount demo_escrow = 400"
    "et_unlock_timestamp (eu_terms demo_escrow) = 1700000000"
    "signing_pubkey (et_creator (eu_terms demo_escrow)) = replicate 32 2"
    by (simp_all add: demo_withdraw_inputs_def demo_escrow_def demo_address_def)
  obtain u h1 h2 where field: "wpi_owner_pk_field q = replicate 32 2"
    and t: "escrow_terms_proof_input_of demo_S (eu_terms demo_escrow) = Inr (wpi_terms q)"
    and u: "escrow_output_utxo demo_S demo_escrow = Inr u"
      "proof_input demo_S u (wpp_input_tree_id demo_withdraw_inputs) = Some (wpi_escrow_utxo q)"
    and h: "proof_input_hash demo_S (wpi_escrow_utxo q) = Some h1"
      "proof_input_hash demo_S (wpi_source_output q) = Some h2"
      "private_tx_hash_of demo_S [h1] [h2] (wpi_private_tx_blinding q) = Some (wpi_private_tx_hash q)"
    and pub: "wpi_public_input_hash q
      = wpi_private_tx_hash q @ escrow_u64_right_align 1700000000 @ replicate 32 2"
    by (rule withdraw_inputs [OF q]) (simp add: P)
  show "withdraw_define demo_gadgets (withdraw_assignment id id q) = Some ()"
    using withdraw_define_assignment [OF demo_api demo_hashes_fit demo_utxos_fit demo_sdk_laws(1) q]
    by (simp add: P)
  show "wpi_public_input_hash q
      = wpi_private_tx_hash q @ escrow_u64_right_align 1700000000 @ replicate 32 2"
    by (rule pub)
  show "escrow_leaf demo_gadgets id demo_S (eu_terms demo_escrow) (wpi_terms q) (wpi_escrow_utxo q)"
    using escrow_output_leaf [where cu = id, OF demo_utxos_fit demo_sdk_laws(1) t u] by simp
  show "gprivate_tx_hash demo_gadgets [cu_hash demo_gadgets (wpi_escrow_utxo q)]
      [cu_hash demo_gadgets (wpi_source_output q)] (wpi_private_tx_blinding q) = id (wpi_private_tx_hash q)"
    using h by (simp add: split_def)
  have "ce_unlock (escrow_terms_assignment id (wpi_terms q))
      = gconst demo_gadgets (unat (1700000000 :: u64))"
    using escrow_terms_inputs(2) [OF t]
    by (simp add: escrow_terms_assignment_def P fe_escrow_u64 [OF demo_fe, simplified])
  then show "\<not> withdraw_clash demo_gadgets (withdraw_assignment id id q)
      [id (wpi_private_tx_hash q), gconst demo_gadgets (unat (1700000000 :: u64)), id (replicate 32 2)]
      (escrow_terms_assignment id (wpi_terms q)) (wpi_escrow_utxo q)
      (cu_hash demo_gadgets (wpi_source_output q), wpi_private_tx_blinding q)"
    using field by (simp add: withdraw_clash_def withdraw_assignment_def)
qed

theorem withdraw_pays_creator_witness:
  "\<exists>q t. withdraw_to_proof_inputs demo_S demo_withdraw_inputs = Inr q \<and>
     t = demo_settlement (wpi_private_tx_hash q) [replicate 32 4] None \<and>
     process_withdraw_ix (demo_accepting 1700000001 (wpi_public_input_hash q) t)
       [demo_signer 3, demo_signer 2, demo_escrow_authority] (demo_proof_bytes @ to_le_bytes 1700000000 @ [0])
       [] = Inr [[0]] \<and>
     (\<exists>source npk. cu_hash demo_gadgets source = cu_hash demo_gadgets (wpi_source_output q) \<and>
        pays demo_gadgets source (cu_asset demo_gadgets (wpi_escrow_utxo q))
          (cu_amount demo_gadgets (wpi_escrow_utxo q)) (ep_owner_hash (wpi_terms q)) \<and>
        ep_owner_hash (wpi_terms q) = replicate 32 2 @ npk)"
proof -
  obtain q where q: "withdraw_to_proof_inputs demo_S demo_withdraw_inputs = Inr q"
    using demo_withdraw_proves by blast
  note enf = demo_withdraw_enforced [OF q]
  let ?E = "demo_accepting 1700000001 (wpi_public_input_hash q)
    (demo_settlement (wpi_private_tx_hash q) [replicate 32 4] None)"
  have sound: "proof_sound ?E withdraw_vk id (withdraw_define demo_gadgets) wc_public_input_hash
      (\<lambda>_ _. withdraw_assignment id id q)"
    by (rule demo_sound, rule enf(1)) (simp add: withdraw_assignment_def)
  have poseidon: "poseidon_fit demo_gadgets id (poseidon_hashv ?E)"
    using demo_poseidon_fit by simp
  have run: "process_withdraw_ix ?E [demo_signer 3, demo_signer 2, demo_escrow_authority]
      (demo_proof_bytes @ to_le_bytes 1700000000 @ [0]) [] = Inr [[0]]"
    using demo_settled_withdraw_runs [of "wpi_private_tx_hash q" "[replicate 32 4]"] enf(2) by simp
  from withdraw_pays_creator [OF demo_account_checks demo_api demo_hashes_fit poseidon
      sound run demo_settled_withdraw_ix enf(3)] enf(4,5) q run
  show ?thesis
    by (fastforce simp: demo_signer_def)
qed

end
