(* ===== verification/Custody_Book.thy ===== *)
theory Custody_Book
  imports Program_History "HOL-Library.Sublist"
begin

text \<open>
  The abstract contract of custody, which both programs implement: a book of open entries (orders or
  escrows), each of which a settlement closes alone, under the rule of the contract. The last part
  is the refinement step from a history of program instructions to a run of the book.
\<close>

section \<open>Books\<close>

text \<open>
  \<open>book_run rule B l C\<close>: the settlements \<open>l\<close>, in this order, lead from the open entries \<open>B\<close> to \<open>C\<close>.
  Entries may be opened at any time; a settlement names the entry, how it was settled, and the
  instruction that did it, which \<open>rule\<close> judges.
\<close>

type_synonym ('k, 's) settlement = "'k \<times> 's \<times> chain_event"

inductive book_run ::
  "('k \<Rightarrow> 's \<Rightarrow> chain_event \<Rightarrow> bool) \<Rightarrow> 'k set \<Rightarrow> ('k, 's) settlement list \<Rightarrow> 'k set \<Rightarrow> bool"
  for rule where
  unchanged: "book_run rule B [] B"
| opened: "book_run rule B l C \<Longrightarrow> C \<subseteq> D \<Longrightarrow> book_run rule B l D"
| settled:
    "book_run rule B l C \<Longrightarrow> k \<in> C \<Longrightarrow> rule k s ev \<Longrightarrow> book_run rule B (l @ [(k, s, ev)]) (C - {k})"

text \<open>Every settlement follows the rule, and an entry that is open stays open until it is settled.\<close>

lemma book_run_rule: "book_run rule B l C \<Longrightarrow> (k, s, ev) \<in> set l \<Longrightarrow> rule k s ev"
  by (induction rule: book_run.induct) auto

lemma book_run_accounts: "book_run rule B l C \<Longrightarrow> B \<subseteq> C \<union> fst ` set l"
  by (induction rule: book_run.induct) auto

lemma book_run_mono:
  "book_run rule B l C \<Longrightarrow> (\<And>k s ev. rule k s ev \<Longrightarrow> rule' k s ev) \<Longrightarrow> book_run rule' B l C"
  by (induction rule: book_run.induct) (auto intro: book_run.intros)

lemma subseq_one: "subseq xs [y] \<Longrightarrow> xs = [] \<or> xs = [y]"
  by (cases xs) (auto split: if_splits)

section \<open>From a history to a book\<close>

text \<open>The event \<open>ev\<close> of a history took the leaf out of the pool.\<close>

definition spends_leaf ::
  "'w program_run \<Rightarrow> ('w \<Rightarrow> 'f set) \<Rightarrow> chain_event \<Rightarrow> 'f \<Rightarrow> 'w \<Rightarrow> 'w \<Rightarrow> bool" where
  "spends_leaf run pool ev x w w' \<longleftrightarrow>
     run (ev_time ev) (ev_accounts ev) (ev_data ev) w = Inr w' \<and> x \<in> pool w \<and> x \<notin> pool w'"

abbreviation open_in :: "('w \<Rightarrow> 'f set) \<Rightarrow> ('k \<Rightarrow> 'f) \<Rightarrow> 'k set \<Rightarrow> 'w \<Rightarrow> 'k set" where
  "open_in pool leaf K w \<equiv> {k \<in> K. leaf k \<in> pool w}"

text \<open>
  Leaves that are gone for good: none of them is in the pool, no step brings one back, and whatever an
  instruction takes out of the pool is gone.
\<close>

definition gone_for_good ::
  "'w program_run \<Rightarrow> ('w \<Rightarrow> 'w \<Rightarrow> bool) \<Rightarrow> ('w \<Rightarrow> 'f set) \<Rightarrow> ('w \<Rightarrow> 'f set) \<Rightarrow> bool" where
  "gone_for_good run other pool gone \<longleftrightarrow>
     (\<forall>v. pool v \<inter> gone v = {}) \<and> (\<forall>v v'. other v v' \<longrightarrow> gone v \<subseteq> gone v') \<and>
     (\<forall>t as d v v'. run t as d v = Inr v' \<longrightarrow> gone v \<subseteq> gone v' \<and> pool v - pool v' \<subseteq> gone v')"

text \<open>A book in which no entry was settled twice: the settled entries are different and gone.\<close>

definition settled_once :: "('w \<Rightarrow> 'f set) \<Rightarrow> ('k \<Rightarrow> 'f) \<Rightarrow> ('k, 's) settlement list \<Rightarrow> 'w \<Rightarrow> bool" where
  "settled_once gone leaf l w \<longleftrightarrow> distinct (map fst l) \<and> (\<forall>x \<in> set l. leaf (fst x) \<in> gone w)"

lemma settled_once_mono: "settled_once gone leaf l w \<Longrightarrow> gone w \<subseteq> gone w' \<Longrightarrow> settled_once gone leaf l w'"
  by (auto simp: settled_once_def)

lemma settled_once_snoc:
  assumes "settled_once gone leaf l w" "gone w \<subseteq> gone w'" "leaf k \<notin> gone w" "leaf k \<in> gone w'"
  shows "settled_once gone leaf (l @ [(k, x)]) w'"
  using assms by (auto simp: settled_once_def)

text \<open>
  One instruction settles at most one entry when all the entries that it settles agree on a leaf that
  depends on the instruction alone (\<open>proved\<close>); then a history of instructions is a run of the book, and
  no entry is settled twice if what leaves the pool is gone for good.
\<close>

lemma history_settles_once:
  assumes "chain_history run other w h w'" "inj_on leaf K"
    and others: "\<And>v v' k. other v v' \<Longrightarrow> k \<in> K \<Longrightarrow> leaf k \<in> pool v \<Longrightarrow> leaf k \<in> pool v'"
    and step: "\<And>ev v v' k. spends_leaf run pool ev (leaf k) v v' \<Longrightarrow> k \<in> K \<Longrightarrow>
      (\<exists>s. rule k s ev) \<and> proved ev = Some (leaf k) \<or> bad k ev"
  shows "(\<exists>l. book_run rule (open_in pool leaf K w) l (open_in pool leaf K w') \<and>
             subseq (map (snd \<circ> snd) l) h \<and>
             (gone_for_good run other pool gone \<longrightarrow> settled_once gone leaf l w')) \<or>
     (\<exists>ev \<in> set h. \<exists>k \<in> K. \<exists>v v'. spends_leaf run pool ev (leaf k) v v' \<and> bad k ev)"
  using assms(1)
proof (induction rule: chain_history.induct)
  case (start w)
  then show ?case
    by (auto simp: settled_once_def intro: book_run.unchanged exI [of _ "[]"])
next
  case (outside w h w1 w2)
  have "open_in pool leaf K w1 \<subseteq> open_in pool leaf K w2"
    using others [OF outside.hyps(2)] by blast
  moreover have "gone_for_good run other pool gone \<Longrightarrow> gone w1 \<subseteq> gone w2"
    using outside.hyps(2) unfolding gone_for_good_def by blast
  ultimately show ?case
    using outside.IH by (meson book_run.opened settled_once_mono)
next
  case (instruction w h w1 ev w2)
  show ?case
  proof (rule disjCI)
    assume no: "\<not> (\<exists>e \<in> set (h @ [ev]). \<exists>k \<in> K. \<exists>v v'. spends_leaf run pool e (leaf k) v v' \<and> bad k e)"
    then have good: "\<And>k v v'. k \<in> K \<Longrightarrow> spends_leaf run pool ev (leaf k) v v' \<Longrightarrow> \<not> bad k ev"
      by auto
    have "\<not> (\<exists>e \<in> set h. \<exists>k \<in> K. \<exists>v v'. spends_leaf run pool e (leaf k) v v' \<and> bad k e)"
      using no by auto
    then obtain l where l: "book_run rule (open_in pool leaf K w) l (open_in pool leaf K w1)"
      "subseq (map (snd \<circ> snd) l) h" "gone_for_good run other pool gone \<longrightarrow> settled_once gone leaf l w1"
      using instruction.IH by blast
    have keep: "gone w1 \<subseteq> gone w2" "pool w1 - pool w2 \<subseteq> gone w2" "pool w1 \<inter> gone w1 = {}"
      if "gone_for_good run other pool gone"
      using that instruction.hyps(3) unfolding gone_for_good_def by blast+
    have clean: "(\<exists>s. rule k s ev) \<and> proved ev = Some (leaf k)"
      if "k \<in> K" "leaf k \<in> pool w1" "leaf k \<notin> pool w2" for k
      using step [of ev k w1 w2] good [of k w1 w2] instruction.hyps(3) that by (simp add: spends_leaf_def)
    let ?lost = "{k \<in> K. leaf k \<in> pool w1 \<and> leaf k \<notin> pool w2}"
    show "\<exists>l. book_run rule (open_in pool leaf K w) l (open_in pool leaf K w2) \<and>
        subseq (map (snd \<circ> snd) l) (h @ [ev]) \<and>
        (gone_for_good run other pool gone \<longrightarrow> settled_once gone leaf l w2)"
    proof (cases "?lost = {}")
      case True
      then have "open_in pool leaf K w1 \<subseteq> open_in pool leaf K w2"
        by blast
      then show ?thesis
        using l keep(1)
        by (intro exI [of _ l]) (auto intro: book_run.opened list_emb_append2 settled_once_mono)
    next
      case False
      then obtain k where k: "k \<in> K" "leaf k \<in> pool w1" "leaf k \<notin> pool w2"
        by blast
      then obtain s where s: "rule k s ev"
        using clean by blast
      have "j = k" if "j \<in> ?lost" for j
      proof -
        have "proved ev = Some (leaf j)" "j \<in> K"
          using clean that by simp_all
        moreover have "proved ev = Some (leaf k)"
          using clean k by simp
        ultimately show ?thesis
          using inj_onD [OF assms(2), of j k] k(1) by simp
      qed
      then have "open_in pool leaf K w1 - {k} \<subseteq> open_in pool leaf K w2"
        by blast
      then have "book_run rule (open_in pool leaf K w) (l @ [(k, s, ev)]) (open_in pool leaf K w2)"
        using book_run.settled [OF l(1), of k] s k by (auto intro: book_run.opened)
      moreover have "subseq (map (snd \<circ> snd) (l @ [(k, s, ev)])) (h @ [ev])"
        using l(2) by simp
      moreover have "settled_once gone leaf (l @ [(k, s, ev)]) w2" if "gone_for_good run other pool gone"
        using l(3) keep k that by (intro settled_once_snoc [of gone leaf l w1]) auto
      ultimately show ?thesis
        by blast
    qed
  qed
qed

lemma history_is_book_run:
  assumes "chain_history run other w h w'" "inj_on leaf K"
    and "\<And>v v' k. other v v' \<Longrightarrow> k \<in> K \<Longrightarrow> leaf k \<in> pool v \<Longrightarrow> leaf k \<in> pool v'"
    and "\<And>ev v v' k. spends_leaf run pool ev (leaf k) v v' \<Longrightarrow> k \<in> K \<Longrightarrow>
      (\<exists>s. rule k s ev) \<and> proved ev = Some (leaf k) \<or> bad k ev"
  shows "(\<exists>l. book_run rule (open_in pool leaf K w) l (open_in pool leaf K w') \<and>
             subseq (map (snd \<circ> snd) l) h) \<or>
     (\<exists>ev \<in> set h. \<exists>k \<in> K. \<exists>v v'. spends_leaf run pool ev (leaf k) v v' \<and> bad k ev)"
proof -
  have "(\<exists>l. book_run rule (open_in pool leaf K w) l (open_in pool leaf K w') \<and>
             subseq (map (snd \<circ> snd) l) h \<and>
             (gone_for_good run other pool (\<lambda>_. {}) \<longrightarrow> settled_once (\<lambda>_. {}) leaf l w')) \<or>
     (\<exists>ev \<in> set h. \<exists>k \<in> K. \<exists>v v'. spends_leaf run pool ev (leaf k) v v' \<and> bad k ev)"
    by (rule history_settles_once [OF assms])
  then show ?thesis
    by blast
qed

end
