(* ===== verification/Swap_Custody.thy ===== *)
theory Swap_Custody
  imports Pool Enforcement_Properties Custody_Book
begin

text \<open>
  Custody of an order: what a swap instruction that spends its leaf in the shielded pool has done.
  \<open>Custody_Refinement\<close> extends this to whole histories.
\<close>

section \<open>The spent order of a core\<close>

text \<open>The collisions that the assignment of a take would show if it spent another leaf than its order.\<close>

definition core_collides ::
  "('f, 'u, 'k, 'n) gadgets \<Rightarrow> ('f, 'u) take_core \<Rightarrow> 'f circuit_order \<Rightarrow> 'u \<Rightarrow> 'f list \<times> 'f list \<times> 'f \<Rightarrow> bool" where
  "core_collides G c t u tx \<longleftrightarrow>
     order_clash G (tc_order c) (tc_order_utxo c) t u \<or> clash (cu_hash G) (tc_taker_in c) u \<or>
     tx_clash G
       ([cu_hash G (tc_order_utxo c), cu_hash G (tc_taker_in c)],
        [cu_hash G (tc_source_output c), cu_hash G (tc_destination_output c)],
        tc_private_tx_blinding c) tx"

lemma core_spends:
  assumes "api_law G" "pool_law G fe E call P" "call as tb w w'" "transact_serialize E tr = Some tb"
    and "check_core G c (fe (private_tx_hash tr)) = Some ()"
    and "cu_hash G u \<in> live P w" "cu_hash G u \<notin> live P w'" "cu_hash G u \<noteq> gconst G 0"
    and "cu_data_hash G u \<noteq> gconst G 0" "\<not> core_collides G c t u (leaves_of P tb)"
  shows "gprivate_tx_hash G [cu_hash G u, cu_hash G (tc_taker_in c)]
      [cu_hash G (tc_source_output c), cu_hash G (tc_destination_output c)] (tc_private_tx_blinding c)
        = fe (private_tx_hash tr)"
    "\<not> core_clash G c t u (cu_hash G (tc_taker_in c), cu_hash G (tc_source_output c),
       cu_hash G (tc_destination_output c), tc_private_tx_blinding c)"
    "cu_hash G (tc_source_output c) \<in> insert (gconst G 0) (live P w')"
    "cu_hash G (tc_destination_output c) \<in> insert (gconst G 0) (live P w')"
    "cu_hash G (tc_order_utxo c) = cu_hash G u"
proof -
  let ?ins = "[cu_hash G (tc_order_utxo c), cu_hash G (tc_taker_in c)]"
  let ?outs = "[cu_hash G (tc_source_output c), cu_hash G (tc_destination_output c)]"
  have hash: "tx_hash_of G (?ins, ?outs, tc_private_tx_blinding c) = fe (private_tx_hash tr)"
    and data: "cu_data_hash G (tc_taker_in c) = gconst G 0"
    using assms(5) by (auto simp: check_core_def check_order_utxo_def check_taker_input_def
        check_source_output_def check_destination_output_def bind_eq_Some_conv
        api_simps(1) [OF assms(1)] tx_hash_of_def)
  have no: "\<not> order_clash G (tc_order c) (tc_order_utxo c) t u" "\<not> clash (cu_hash G) (tc_taker_in c) u"
    "\<not> tx_clash G (?ins, ?outs, tc_private_tx_blinding c) (leaves_of P tb)"
    using assms(10) by (simp_all add: core_collides_def)
  note proved = proved_tx [OF assms(2-4) hash no(3) assms(6-8)]
  have "cu_hash G u \<noteq> cu_hash G (tc_taker_in c)"
    using clashD [OF no(2)] data assms(9) by metis
  then show order: "cu_hash G (tc_order_utxo c) = cu_hash G u"
    using proved(1) by simp
  then show "gprivate_tx_hash G [cu_hash G u, cu_hash G (tc_taker_in c)]
      [cu_hash G (tc_source_output c), cu_hash G (tc_destination_output c)] (tc_private_tx_blinding c)
        = fe (private_tx_hash tr)"
    using hash by (simp add: tx_hash_of_def)
  show "\<not> core_clash G c t u (cu_hash G (tc_taker_in c), cu_hash G (tc_source_output c),
       cu_hash G (tc_destination_output c), tc_private_tx_blinding c)"
    using no(1) order by (simp add: core_clash_def)
  show "cu_hash G (tc_source_output c) \<in> insert (gconst G 0) (live P w')"
    "cu_hash G (tc_destination_output c) \<in> insert (gconst G 0) (live P w')"
    using proved(2) by simp_all
qed

section \<open>What an instruction did\<close>

text \<open>The exchange and the refund of an order, with outputs that the pool holds afterwards.\<close>

definition order_exchanged ::
  "('f, 'u, 'k, 'n) gadgets \<Rightarrow> (bytes \<Rightarrow> 'f) \<Rightarrow> ('w, 'f) pool \<Rightarrow> order_terms_proof_input \<Rightarrow> 'u \<Rightarrow> 'w \<Rightarrow> bool" where
  "order_exchanged G fe P t u w \<longleftrightarrow>
     (\<exists>taker_in source destination b.
        exchanged G fe t u (cu_hash G taker_in, cu_hash G source, cu_hash G destination, b)
          taker_in source destination \<and>
        cu_hash G source \<in> insert (gconst G 0) (live P w) \<and>
        cu_hash G destination \<in> insert (gconst G 0) (live P w))"

lemma order_exchangedI:
  "exchanged G fe t u (cu_hash G taker_in, cu_hash G source, cu_hash G destination, b) taker_in source destination \<Longrightarrow>
   cu_hash G source \<in> insert (gconst G 0) (live P w) \<Longrightarrow>
   cu_hash G destination \<in> insert (gconst G 0) (live P w) \<Longrightarrow> order_exchanged G fe P t u w"
  unfolding order_exchanged_def by blast

definition order_refunded ::
  "('x, 'v, 's, 'w) chain_env \<Rightarrow> ('f, 'u, 'k, 'n) gadgets \<Rightarrow> (bytes \<Rightarrow> 'f) \<Rightarrow> ('w, 'f) pool \<Rightarrow>
   order_terms_proof_input \<Rightarrow> 'u \<Rightarrow> account_view list \<Rightarrow> 'w \<Rightarrow> bool" where
  "order_refunded E G fe P t u as w \<longleftrightarrow>
     (\<exists>payer maker rest owner npk source. as = payer # maker # rest \<and> is_signer maker \<and>
        solana_owner_identity E (address maker) = Some owner \<and>
        fe (op_maker_owner_hash t) = gposeidon G [fe owner, npk] \<and>
        pays G source (cu_asset G u) (cu_amount G u) (fe (op_maker_owner_hash t)) \<and>
        cu_hash G source \<in> insert (gconst G 0) (live P w))"

text \<open>The extractors of the three proof systems behind takes and cancels, and their soundness.\<close>

record ('f, 'u) extractors =
  ex_take :: "compressed_groth16_proof \<Rightarrow> bytes \<Rightarrow> ('f, 'u) take_circuit"
  ex_take_ve :: "compressed_groth16_proof \<Rightarrow> bytes \<Rightarrow> ('f, 'u) take_ve_circuit"
  ex_cancel :: "compressed_groth16_proof \<Rightarrow> bytes \<Rightarrow> ('f, 'u) cancel_circuit"

definition swap_sound ::
  "('x, 'v, 's, 'w) chain_env \<Rightarrow> ('f, 'u, 'k, 'n) gadgets \<Rightarrow> (bytes \<Rightarrow> 'f) \<Rightarrow> ('f, 'u) extractors \<Rightarrow> bool" where
  "swap_sound E G fe X \<longleftrightarrow>
     proof_sound E take_vk fe (take_define G) tk_public_hash (ex_take X) \<and>
     proof_sound E take_ve_vk fe (take_ve_define G) tv_public_hash (ex_take_ve X) \<and>
     proof_sound E cancel_vk fe (cancel_define G) cc_public_input_hash (ex_cancel X)"

text \<open>The leaf that the extracted assignment of an instruction spends as its order. It depends on the
  instruction alone, so that an instruction settles one order.\<close>

definition take_leaf ::
  "('x, 'v, 's, 'w) chain_env \<Rightarrow> ('f, 'u, 'k, 'n) gadgets \<Rightarrow> ('f, 'u) extractors \<Rightarrow> bytes \<Rightarrow> 'f option" where
  "take_leaf E G X d = do {
     (ix, _) \<leftarrow> get_take_ix (wire_of E) d;
     i0 \<leftarrow> first_opt (inputs (tk_transact ix));
     h \<leftarrow> poseidon_hashv E [private_tx_hash (tk_transact ix),
       swap_u64_right_align (expiry_unix_ts (tk_transact ix)), nullifier_hash i0];
     Some (cu_hash G (tc_order_utxo (tk_core (ex_take X (take_points (tk_proof ix)) h))))
   }"

definition take_ve_leaf ::
  "('x, 'v, 's, 'w) chain_env \<Rightarrow> ('f, 'u, 'k, 'n) gadgets \<Rightarrow> ('f, 'u) extractors \<Rightarrow> bytes \<Rightarrow> 'f option" where
  "take_ve_leaf E G X d = do {
     (ix, _) \<leftarrow> get_take_ve_ix (wire_of E) d;
     o_last \<leftarrow> last_opt (outputs (tv_transact ix));
     ct \<leftarrow> output_data o_last;
     cth \<leftarrow> ciphertext_hash E ct;
     h \<leftarrow> poseidon_hashv E [private_tx_hash (tv_transact ix),
       swap_u64_right_align (expiry_unix_ts (tv_transact ix)), cth];
     Some (cu_hash G (tc_order_utxo (tv_core (ex_take_ve X (take_ve_points (tv_proof ix)) h))))
   }"

definition cancel_leaf ::
  "('x, 'v, 's, 'w) chain_env \<Rightarrow> ('f, 'u, 'k, 'n) gadgets \<Rightarrow> ('f, 'u) extractors \<Rightarrow>
   account_view list \<Rightarrow> bytes \<Rightarrow> 'f option" where
  "cancel_leaf E G X as d = do {
     (ix, _) \<leftarrow> get_cancel_ix (wire_of E) d;
     maker \<leftarrow> first_opt (tl as);
     owner \<leftarrow> solana_owner_identity E (address maker);
     h \<leftarrow> poseidon_hashv E [private_tx_hash (cn_transact ix), swap_u64_right_align (cn_order_expiry ix), owner];
     Some (cu_hash G (cc_order_utxo (ex_cancel X (cancel_points (cn_proof ix)) h)))
   }"

text \<open>The collisions that the extracted assignment of an instruction holds, with the public input that
  the program computed and the leaves that SPP spent and created.\<close>

definition take_collision ::
  "('x, 'v, 's, 'w) chain_env \<Rightarrow> ('f, 'u, 'k, 'n) gadgets \<Rightarrow> (bytes \<Rightarrow> 'f) \<Rightarrow> ('f, 'u) extractors \<Rightarrow>
   ('w, 'f) pool \<Rightarrow> 'f circuit_order \<Rightarrow> 'u \<Rightarrow> bytes \<Rightarrow> bool" where
  "take_collision E G fe X P t u d \<longleftrightarrow>
     (\<exists>ix i0 h tb c. get_take_ix (wire_of E) d = Some (ix, []) \<and>
        first_opt (inputs (tk_transact ix)) = Some i0 \<and>
        poseidon_hashv E [private_tx_hash (tk_transact ix),
          swap_u64_right_align (expiry_unix_ts (tk_transact ix)), nullifier_hash i0] = Some h \<and>
        groth16_accepts E (take_points (tk_proof ix)) h take_vk \<and>
        transact_serialize E (tk_transact ix) = Some tb \<and>
        c = ex_take X (take_points (tk_proof ix)) h \<and>
        (clash (gposeidon G)
           [tk_public_tx_hash c, co_expiry (tc_order (tk_core c)), tk_public_nullifier c]
           [fe (private_tx_hash (tk_transact ix)), gconst G (unat (expiry_unix_ts (tk_transact ix))),
            fe (nullifier_hash i0)] \<or>
         core_collides G (tk_core c) t u (leaves_of P tb)))"

definition take_ve_collision ::
  "('x, 'v, 's, 'w) chain_env \<Rightarrow> ('f, 'u, 'k, 'n) gadgets \<Rightarrow> (bytes \<Rightarrow> 'f) \<Rightarrow> ('f, 'u) extractors \<Rightarrow>
   ('w, 'f) pool \<Rightarrow> 'f circuit_order \<Rightarrow> 'u \<Rightarrow> bytes \<Rightarrow> bool" where
  "take_ve_collision E G fe X P t u d \<longleftrightarrow>
     (\<exists>ix o_last ct cth h tb c ct_hash. get_take_ve_ix (wire_of E) d = Some (ix, []) \<and>
        last_opt (outputs (tv_transact ix)) = Some o_last \<and> output_data o_last = Some ct \<and>
        ciphertext_hash E ct = Some cth \<and>
        poseidon_hashv E [private_tx_hash (tv_transact ix),
          swap_u64_right_align (expiry_unix_ts (tv_transact ix)), cth] = Some h \<and>
        groth16_accepts E (take_ve_points (tv_proof ix)) h take_ve_vk \<and>
        transact_serialize E (tv_transact ix) = Some tb \<and>
        c = ex_take_ve X (take_ve_points (tv_proof ix)) h \<and>
        check_verifiable_encryption G (tv_core c) = Some ct_hash \<and>
        (clash (gposeidon G) [tv_public_tx_hash c, co_expiry (tc_order (tv_core c)), ct_hash]
           [fe (private_tx_hash (tv_transact ix)), gconst G (unat (expiry_unix_ts (tv_transact ix))),
            fe cth] \<or>
         core_collides G (tv_core c) t u (leaves_of P tb)))"

definition cancel_collision ::
  "('x, 'v, 's, 'w) chain_env \<Rightarrow> ('f, 'u, 'k, 'n) gadgets \<Rightarrow> (bytes \<Rightarrow> 'f) \<Rightarrow> ('f, 'u) extractors \<Rightarrow>
   ('w, 'f) pool \<Rightarrow> 'f circuit_order \<Rightarrow> 'u \<Rightarrow> account_view list \<Rightarrow> bytes \<Rightarrow> bool" where
  "cancel_collision E G fe X P t u as d \<longleftrightarrow>
     (\<exists>ix payer maker rest owner h tb c. get_cancel_ix (wire_of E) d = Some (ix, []) \<and>
        as = payer # maker # rest \<and> solana_owner_identity E (address maker) = Some owner \<and>
        poseidon_hashv E [private_tx_hash (cn_transact ix), swap_u64_right_align (cn_order_expiry ix),
          owner] = Some h \<and>
        groth16_accepts E (cancel_points (cn_proof ix)) h cancel_vk \<and>
        transact_serialize E (cn_transact ix) = Some tb \<and>
        c = ex_cancel X (cancel_points (cn_proof ix)) h \<and>
        (clash (gposeidon G) [cc_private_tx_hash c, co_expiry (cc_order c), cc_maker_owner_pk_field c]
           [fe (private_tx_hash (cn_transact ix)), gconst G (unat (cn_order_expiry ix)), fe owner] \<or>
         order_clash G (cc_order c) (cc_order_utxo c) t u \<or>
         tx_clash G ([cu_hash G (cc_order_utxo c)], [cu_hash G (cc_source_output c)],
           cc_private_tx_blinding c) (leaves_of P tb)))"

section \<open>One instruction\<close>

lemma take_custody:
  assumes "api_law G" "hashes_fit G fe S" "viewing_law S" "poseidon_fit G fe (poseidon_hashv E)"
    and "swap_sound E G fe X" "pool_law G fe E (swap_signed E) P"
    and "order_leaf G fe S terms t u" "cu_hash G u \<noteq> gconst G 0" "cu_data_hash G u \<noteq> gconst G 0"
    and "process_take_ix (at E now) as d w = Inr w'" "cu_hash G u \<in> live P w" "cu_hash G u \<notin> live P w'"
  shows "order_exchanged G fe P t u w' \<and> ot_take_mode terms = take_mode_derived \<and>
      0 \<le> sint now \<and> sint now \<le> uint (ot_expiry terms) \<and> take_leaf E G X d = Some (cu_hash G u) \<or>
    take_collision E G fe X P (order_assignment G fe t) u d"
proof -
  obtain ix i0 h rest tb where ix: "get_take_ix (wire_of E) d = Some (ix, [])"
      "0 \<le> sint now" "now \<le> expiry_unix_ts (tk_transact ix)"
      "first_opt (inputs (tk_transact ix)) = Some i0"
      "poseidon_hashv E [private_tx_hash (tk_transact ix),
         swap_u64_right_align (expiry_unix_ts (tk_transact ix)), nullifier_hash i0] = Some h"
      "groth16_accepts E (take_points (tk_proof ix)) h take_vk"
      "transact_serialize E (tk_transact ix) = Some tb" "swap_signed E rest tb w w'"
    using assms(10) by (auto simp: process_take_ix_ok take_authorised_def)
  let ?tx = "tk_transact ix" let ?c = "ex_take X (take_points (tk_proof ix)) h"
  let ?core = "tk_core ?c" let ?t = "order_assignment G fe t"
  let ?pub = "[fe (private_tx_hash ?tx), gconst G (unat (expiry_unix_ts ?tx)), fe (nullifier_hash i0)]"
  have sound: "proof_sound E take_vk fe (take_define G) tk_public_hash (ex_take X)"
    using assms(5) by (simp add: swap_sound_def)
  have def_c: "take_define G ?c = Some ()" "tk_public_hash ?c = gposeidon G ?pub"
    using proof_soundD [OF sound ix(6)] poseidon_fitD [OF assms(4) ix(5)]
    by (simp_all add: fe_u64 [OF hashes_fitD(1) [OF assms(2)]])
  then have circuit: "check_core G ?core (tk_public_tx_hash ?c) = Some ()"
    "gposeidon G [tk_public_tx_hash ?c, co_expiry (tc_order ?core), tk_public_nullifier ?c] = gposeidon G ?pub"
    by (auto simp: swap_define_simps Let_def bind_eq_Some_conv api_simps(1) [OF assms(1)])
  show ?thesis
  proof (rule disjCI)
    assume "\<not> take_collision E G fe X P ?t u d"
    then have no: "\<not> clash (gposeidon G)
        [tk_public_tx_hash ?c, co_expiry (tc_order ?core), tk_public_nullifier ?c] ?pub"
      "\<not> core_collides G ?core ?t u (leaves_of P tb)"
      using ix unfolding take_collision_def by blast+
    have core: "check_core G ?core (fe (private_tx_hash ?tx)) = Some ()"
      using circuit(1) clashD [OF no(1) circuit(2)] by simp
    note spends = core_spends [OF assms(1,6) ix(8,7) core assms(11,12,8,9) no(2)]
    have "\<not> take_clash G ?c ?pub ?t u (cu_hash G (tc_taker_in ?core), cu_hash G (tc_source_output ?core),
        cu_hash G (tc_destination_output ?core), tc_private_tx_blinding ?core)"
      using no(1) spends(2) by (simp add: take_clash_def)
    note binds = take_define_binds [OF assms(1-3,7) def_c spends(1) this]
    have "take_leaf E G X d = Some (cu_hash G u)"
      using ix(1,4,5) spends(5) by (simp add: take_leaf_def)
    then show "order_exchanged G fe P t u w' \<and> ot_take_mode terms = take_mode_derived \<and>
      0 \<le> sint now \<and> sint now \<le> uint (ot_expiry terms) \<and> take_leaf E G X d = Some (cu_hash G u)"
      using order_exchangedI [OF conjunct1 [OF binds] spends(3,4)] binds
        within_as_int [of now "expiry_unix_ts ?tx"] ix(2,3) by simp
  qed
qed

lemma take_ve_custody:
  assumes "api_law G" "hashes_fit G fe S" "viewing_law S" "poseidon_fit G fe (poseidon_hashv E)"
    and "swap_sound E G fe X" "pool_law G fe E (swap_signed E) P"
    and "order_leaf G fe S terms t u" "cu_hash G u \<noteq> gconst G 0" "cu_data_hash G u \<noteq> gconst G 0"
    and "process_take_ve_ix (at E now) as d w = Inr w'"
    "cu_hash G u \<in> live P w" "cu_hash G u \<notin> live P w'"
  shows "order_exchanged G fe P t u w' \<and> ot_take_mode terms = take_mode_verifiable \<and>
      0 \<le> sint now \<and> sint now \<le> uint (ot_expiry terms) \<and> take_ve_leaf E G X d = Some (cu_hash G u) \<or>
    take_ve_collision E G fe X P (order_assignment G fe t) u d"
proof -
  obtain ix o_last ct cth h rest tb where ix: "get_take_ve_ix (wire_of E) d = Some (ix, [])"
      "0 \<le> sint now" "now \<le> expiry_unix_ts (tv_transact ix)"
      "last_opt (outputs (tv_transact ix)) = Some o_last" "output_data o_last = Some ct"
      "ciphertext_hash E ct = Some cth"
      "poseidon_hashv E [private_tx_hash (tv_transact ix),
         swap_u64_right_align (expiry_unix_ts (tv_transact ix)), cth] = Some h"
      "groth16_accepts E (take_ve_points (tv_proof ix)) h take_ve_vk"
      "transact_serialize E (tv_transact ix) = Some tb" "swap_signed E rest tb w w'"
    using assms(10) by (auto simp: process_take_ve_ix_ok take_ve_authorised_def)
  let ?tx = "tv_transact ix" let ?c = "ex_take_ve X (take_ve_points (tv_proof ix)) h"
  let ?core = "tv_core ?c" let ?t = "order_assignment G fe t"
  let ?pub = "[fe (private_tx_hash ?tx), gconst G (unat (expiry_unix_ts ?tx)), fe cth]"
  have sound: "proof_sound E take_ve_vk fe (take_ve_define G) tv_public_hash (ex_take_ve X)"
    using assms(5) by (simp add: swap_sound_def)
  have def_c: "take_ve_define G ?c = Some ()" "tv_public_hash ?c = gposeidon G ?pub"
    using proof_soundD [OF sound ix(8)] poseidon_fitD [OF assms(4) ix(7)]
    by (simp_all add: fe_u64 [OF hashes_fitD(1) [OF assms(2)]])
  then obtain ct_hash where circuit: "check_core G ?core (tv_public_tx_hash ?c) = Some ()"
    "check_verifiable_encryption G ?core = Some ct_hash"
    "gposeidon G [tv_public_tx_hash ?c, co_expiry (tc_order ?core), ct_hash] = gposeidon G ?pub"
    by (auto simp: swap_define_simps Let_def bind_eq_Some_conv api_simps(1) [OF assms(1)])
  show ?thesis
  proof (rule disjCI)
    assume "\<not> take_ve_collision E G fe X P ?t u d"
    then have no: "\<not> clash (gposeidon G) [tv_public_tx_hash ?c, co_expiry (tc_order ?core), ct_hash] ?pub"
      "\<not> core_collides G ?core ?t u (leaves_of P tb)"
      using ix circuit(2) unfolding take_ve_collision_def by blast+
    have core: "check_core G ?core (fe (private_tx_hash ?tx)) = Some ()"
      using circuit(1) clashD [OF no(1) circuit(3)] by simp
    note spends = core_spends [OF assms(1,6) ix(10,9) core assms(11,12,8,9) no(2)]
    have "\<not> take_ve_clash G ?c ?pub ?t u (cu_hash G (tc_taker_in ?core),
        cu_hash G (tc_source_output ?core), cu_hash G (tc_destination_output ?core),
        tc_private_tx_blinding ?core)"
      using no(1) spends(2) circuit(2) by (simp add: take_ve_clash_def)
    note binds = take_ve_define_binds [OF assms(1-3,7) def_c spends(1) this]
    have "take_ve_leaf E G X d = Some (cu_hash G u)"
      using ix(1,4-7) spends(5) by (simp add: take_ve_leaf_def)
    then show "order_exchanged G fe P t u w' \<and> ot_take_mode terms = take_mode_verifiable \<and>
      0 \<le> sint now \<and> sint now \<le> uint (ot_expiry terms) \<and> take_ve_leaf E G X d = Some (cu_hash G u)"
      using order_exchangedI [OF conjunct1 [OF binds] spends(3,4)] binds
        within_as_int [of now "expiry_unix_ts ?tx"] ix(2,3) by simp
  qed
qed

lemma cancel_custody:
  assumes "account_checks_ok E"
    and "api_law G" "hashes_fit G fe S" "viewing_law S" "poseidon_fit G fe (poseidon_hashv E)"
    and "swap_sound E G fe X" "pool_law G fe E (swap_signed E) P"
    and "order_leaf G fe S terms t u" "cu_hash G u \<noteq> gconst G 0"
    and "process_cancel_ix (at E now) as d w = Inr w'" "cu_hash G u \<in> live P w" "cu_hash G u \<notin> live P w'"
  shows "order_refunded E G fe P t u as w' \<and> uint (ot_expiry terms) < sint now \<and>
      cancel_leaf E G X as d = Some (cu_hash G u) \<or>
    cancel_collision E G fe X P (order_assignment G fe t) u as d"
proof -
  obtain payer iter maker iter' owner ix h rest tb where
    accts: "next_signer_mut (at E now) ''payer'' as = Inr (payer, iter)"
      "next_signer (at E now) ''maker'' iter = Inr (maker, iter')"
    and ix: "solana_owner_identity E (address maker) = Some owner"
      "get_cancel_ix (wire_of E) d = Some (ix, [])" "0 \<le> sint now \<and> cn_order_expiry ix < now"
      "poseidon_hashv E [private_tx_hash (cn_transact ix), swap_u64_right_align (cn_order_expiry ix), owner]
         = Some h"
      "groth16_accepts E (cancel_points (cn_proof ix)) h cancel_vk"
      "transact_serialize E (cn_transact ix) = Some tb" "swap_signed E rest tb w w'"
    using assms(10) by (auto simp: process_cancel_ix_ok cancel_authorised_def)
  have as: "as = payer # maker # iter'" "is_signer maker"
    using next_signer_mutD [OF _ accts(1)] next_signerD [OF _ accts(2)] assms(1) by auto
  let ?tx = "cn_transact ix" let ?c = "ex_cancel X (cancel_points (cn_proof ix)) h"
  let ?t = "order_assignment G fe t" let ?source = "cc_source_output ?c"
  let ?pub = "[fe (private_tx_hash ?tx), gconst G (unat (cn_order_expiry ix)), fe owner]"
  let ?proved = "([cu_hash G (cc_order_utxo ?c)], [cu_hash G ?source], cc_private_tx_blinding ?c)"
  have sound: "proof_sound E cancel_vk fe (cancel_define G) cc_public_input_hash (ex_cancel X)"
    using assms(6) by (simp add: swap_sound_def)
  have def_c: "cancel_define G ?c = Some ()" "cc_public_input_hash ?c = gposeidon G ?pub"
    using proof_soundD [OF sound ix(5)] poseidon_fitD [OF assms(5) ix(4)]
    by (simp_all add: fe_u64 [OF hashes_fitD(1) [OF assms(3)]])
  then have circuit: "tx_hash_of G ?proved = cc_private_tx_hash ?c"
    "gposeidon G [cc_private_tx_hash ?c, co_expiry (cc_order ?c), cc_maker_owner_pk_field ?c] = gposeidon G ?pub"
    by (auto simp: swap_define_simps check_order_utxo_def bind_eq_Some_conv api_simps(1) [OF assms(2)]
        tx_hash_of_def)
  show ?thesis
  proof (rule disjCI)
    assume "\<not> cancel_collision E G fe X P ?t u as d"
    then have no: "\<not> clash (gposeidon G)
        [cc_private_tx_hash ?c, co_expiry (cc_order ?c), cc_maker_owner_pk_field ?c] ?pub"
      "\<not> order_clash G (cc_order ?c) (cc_order_utxo ?c) ?t u" "\<not> tx_clash G ?proved (leaves_of P tb)"
      using ix as unfolding cancel_collision_def by blast+
    have hash: "tx_hash_of G ?proved = fe (private_tx_hash ?tx)"
      using circuit(1) clashD [OF no(1) circuit(2)] by simp
    note spends = proved_tx [OF assms(7) ix(7,6) hash no(3) assms(11,12,9)]
    have order: "cu_hash G (cc_order_utxo ?c) = cu_hash G u"
      using spends(1) by simp
    have tx: "gprivate_tx_hash G [cu_hash G u] [cu_hash G ?source] (cc_private_tx_blinding ?c)
        = fe (private_tx_hash ?tx)"
      using hash order by (simp add: tx_hash_of_def)
    have "\<not> cancel_clash G ?c ?pub ?t u (cu_hash G ?source, cc_private_tx_blinding ?c)"
      using no order by (simp add: cancel_clash_def)
    note binds = cancel_define_binds [OF assms(2-4,8) def_c tx this]
    have "uint (ot_expiry terms) < sint now"
      using binds ix(3) after_as_int [of now "cn_order_expiry ix"] by simp
    moreover have "order_refunded E G fe P t u as w'"
      unfolding order_refunded_def
      by (rule exI [of _ payer], rule exI [of _ maker], rule exI [of _ iter'], rule exI [of _ owner],
          rule exI [of _ "cc_maker_nullifier_pk ?c"], rule exI [of _ ?source], intro conjI as ix(1))
        (use binds spends(2) in auto)
    moreover have "cancel_leaf E G X as d = Some (cu_hash G u)"
      using ix(1,2,4) as(1) order by (simp add: cancel_leaf_def)
    ultimately show "order_refunded E G fe P t u as w' \<and> uint (ot_expiry terms) < sint now \<and>
      cancel_leaf E G X as d = Some (cu_hash G u)"
      by simp
  qed
qed

section \<open>Any instruction\<close>

text \<open>
  An order is settled by an exchange of its kind in its window or by a refund to its maker after it.
  \<open>order_settled \<dots> s ev w\<close>: the instruction \<open>ev\<close>, which ends in \<open>w\<close>, is such a settlement.
\<close>

datatype order_outcome = Exchanged | Refunded

fun order_settled ::
  "('x, 'v, 's, 'w) chain_env \<Rightarrow> ('f, 'u, 'k, 'n) gadgets \<Rightarrow> (bytes \<Rightarrow> 'f) \<Rightarrow> ('w, 'f) pool \<Rightarrow>
   'p order_terms \<Rightarrow> order_terms_proof_input \<Rightarrow> 'u \<Rightarrow> order_outcome \<Rightarrow> chain_event \<Rightarrow> 'w \<Rightarrow> bool" where
  "order_settled E G fe P terms t u Exchanged ev w \<longleftrightarrow>
     order_exchanged G fe P t u w \<and> 0 \<le> sint (ev_time ev) \<and> sint (ev_time ev) \<le> uint (ot_expiry terms) \<and>
     (\<exists>d. ev_data ev = swap_tag_take # d \<and> ot_take_mode terms = take_mode_derived \<or>
          ev_data ev = swap_tag_take_ve # d \<and> ot_take_mode terms = take_mode_verifiable)"
| "order_settled E G fe P terms t u Refunded ev w \<longleftrightarrow>
     order_refunded E G fe P t u (ev_accounts ev) w \<and> uint (ot_expiry terms) < sint (ev_time ev) \<and>
     (\<exists>d. ev_data ev = swap_tag_cancel # d)"

definition settlement_collision ::
  "('x, 'v, 's, 'w) chain_env \<Rightarrow> ('f, 'u, 'k, 'n) gadgets \<Rightarrow> (bytes \<Rightarrow> 'f) \<Rightarrow> ('f, 'u) extractors \<Rightarrow>
   ('w, 'f) pool \<Rightarrow> order_terms_proof_input \<Rightarrow> 'u \<Rightarrow> chain_event \<Rightarrow> bool" where
  "settlement_collision E G fe X P t u ev \<longleftrightarrow>
     (\<exists>d. ev_data ev = swap_tag_take # d \<and> take_collision E G fe X P (order_assignment G fe t) u d \<or>
          ev_data ev = swap_tag_take_ve # d \<and> take_ve_collision E G fe X P (order_assignment G fe t) u d \<or>
          ev_data ev = swap_tag_cancel # d \<and>
            cancel_collision E G fe X P (order_assignment G fe t) u (ev_accounts ev) d)"

definition settled_leaf ::
  "('x, 'v, 's, 'w) chain_env \<Rightarrow> ('f, 'u, 'k, 'n) gadgets \<Rightarrow> ('f, 'u) extractors \<Rightarrow> chain_event \<Rightarrow> 'f option" where
  "settled_leaf E G X ev =
     (case ev_data ev of
        [] \<Rightarrow> None
      | tag # d \<Rightarrow> if tag = swap_tag_take then take_leaf E G X d
                   else if tag = swap_tag_take_ve then take_ve_leaf E G X d
                   else if tag = swap_tag_cancel then cancel_leaf E G X (ev_accounts ev) d else None)"

definition is_make :: "chain_event \<Rightarrow> bool" where
  "is_make ev \<longleftrightarrow> (\<exists>d. ev_data ev = swap_tag_make # d)"

abbreviation swap_run :: "('x, 'v, 's, 'w) chain_env \<Rightarrow> 'w program_run" where
  "swap_run E \<equiv> \<lambda>t. swap_process_instruction (at E t) swap_id"

lemma instruction_custody:
  assumes "account_checks_ok E"
    and "api_law G" "hashes_fit G fe S" "viewing_law S" "poseidon_fit G fe (poseidon_hashv E)"
    and "swap_sound E G fe X" "pool_law G fe E (swap_signed E) P"
    and "order_leaf G fe S terms t u" "cu_hash G u \<noteq> gconst G 0" "cu_data_hash G u \<noteq> gconst G 0"
    and "spends_leaf (swap_run E) (live P) ev (cu_hash G u) w w'"
  shows "(\<exists>s. order_settled E G fe P terms t u s ev w') \<and> settled_leaf E G X ev = Some (cu_hash G u) \<or>
    is_make ev \<or> settlement_collision E G fe X P t u ev"
proof -
  have run: "swap_run E (ev_time ev) (ev_accounts ev) (ev_data ev) w = Inr w'"
    and spent: "cu_hash G u \<in> live P w" "cu_hash G u \<notin> live P w'"
    using assms(11) by (simp_all add: spends_leaf_def)
  then obtain tag d where ev: "ev_data ev = tag # d"
    by (cases "ev_data ev") (simp_all add: swap_process_instruction_def)
  consider "is_make ev"
    | "tag = swap_tag_take" "process_take_ix (at E (ev_time ev)) (ev_accounts ev) d w = Inr w'"
    | "tag = swap_tag_take_ve" "process_take_ve_ix (at E (ev_time ev)) (ev_accounts ev) d w = Inr w'"
    | "tag = swap_tag_cancel" "process_cancel_ix (at E (ev_time ev)) (ev_accounts ev) d w = Inr w'"
    using run ev by (auto simp: swap_process_instruction_def is_make_def split: if_splits)
  then show ?thesis
  proof cases
    case 2
    have "settlement_collision E G fe X P t u ev" if "take_collision E G fe X P (order_assignment G fe t) u d"
      using that ev 2(1) by (auto simp: settlement_collision_def)
    moreover have "settled_leaf E G X ev = take_leaf E G X d"
      using ev 2(1) by (simp add: settled_leaf_def)
    ultimately show ?thesis
      using take_custody [OF assms(2-10) 2(2) spent] ev 2(1) order_settled.simps(1) by metis
  next
    case 3
    have "settlement_collision E G fe X P t u ev" if "take_ve_collision E G fe X P (order_assignment G fe t) u d"
      using that ev 3(1) by (auto simp: settlement_collision_def)
    moreover have "settled_leaf E G X ev = take_ve_leaf E G X d"
      using ev 3(1) by (simp add: settled_leaf_def swap_tag_defs)
    ultimately show ?thesis
      using take_ve_custody [OF assms(2-10) 3(2) spent] ev 3(1) order_settled.simps(1) by metis
  next
    case 4
    have "settlement_collision E G fe X P t u ev"
      if "cancel_collision E G fe X P (order_assignment G fe t) u (ev_accounts ev) d"
      using that ev 4(1) by (auto simp: settlement_collision_def)
    moreover have "settled_leaf E G X ev = cancel_leaf E G X (ev_accounts ev) d"
      using ev 4(1) by (simp add: settled_leaf_def swap_tag_defs)
    ultimately show ?thesis
      using cancel_custody [OF assms(1-9) 4(2) spent] ev 4(1) order_settled.simps(2) by metis
  qed simp
qed

section \<open>The refund of a concrete order\<close>

text \<open>The cancel of the demo order.\<close>

definition demo_refund_event :: chain_event where
  "demo_refund_event = \<lparr>ev_time = 1700000001,
     ev_accounts = [demo_signer 3, demo_signer 2, demo_swap_authority],
     ev_data = swap_tag_cancel # demo_proof_bytes @ to_le_bytes 1700000000 @ [0]\<rparr>"

lemma demo_refund_history:
  assumes "E = demo_env 0 (\<lambda>vk pis. vk = cancel_vk \<and>
      pis = [ptx @ swap_u64_right_align 1700000000 @ replicate 32 2]) [demo_settlement ptx ns None]"
  shows "swap_history E (\<lambda>_ _. False) [] [demo_refund_event] [[0]]"
proof -
  have "process_cancel_ix (at E 1700000001) [demo_signer 3, demo_signer 2, demo_swap_authority]
     (demo_proof_bytes @ to_le_bytes 1700000000 @ [0]) [] = Inr [[0]]"
    unfolding assms at_demo_env
    by (simp add: process_cancel_ix_def demo_get_cancel [unfolded table_wire_def] demo_run_simps
      demo_swap_authority_def cancel_public_input_hash_def check_after_window_def)
  then have "swap_history E (\<lambda>_ _. False) [] ([] @ [demo_refund_event]) [[0]]"
    by (intro chain_history.instruction [OF chain_history.start])
      (simp_all add: demo_refund_event_def swap_process_instruction_def swap_tag_defs)
  then show ?thesis
    by simp
qed

lemma demo_order_marks:
  assumes "order_output_utxo demo_S (demo_order 0) v = Inr u" "demo_output_hash u 0 = Some leaf"
    and "demo_output_hash (demo_out (demo_address b) m n k) 0 = Some refund" "b \<noteq> 111"
  shows "leaf \<noteq> demo_const 0" "leaf \<noteq> refund" "out_data_hash u \<noteq> Some (demo_const 0)"
proof -
  obtain h npk where u: "order_terms_data_hash demo_S (ou_terms (demo_order 0)) = Inr h"
    "out_owner_address u = Some \<lparr>signing_pubkey = order_pda_owner demo_S, nullifier_pubkey = npk, viewing_pubkey = v\<rparr>"
    "out_data_hash u = Some h"
    by (rule order_output_utxo_fields [OF demo_sdk_laws(1) assms(1)])
  have "hd leaf = 111"
    using assms(2) u(2) by (auto simp: demo_output_hash_def demo_commit_def order_pda_owner_def demo_pda_def
        order_authority_pda_seed_def byte_string_def)
  moreover have "hd refund = b"
    using assms(3) by (auto simp: demo_output_hash_def demo_commit_def demo_out_def demo_address_def)
  ultimately show "leaf \<noteq> demo_const 0" "leaf \<noteq> refund"
    using assms(4) by (auto simp: demo_const_0)
  have "length h > 32"
    using u(1) by (auto simp: order_terms_data_hash_def order_terms_proof_input_of_def
        order_input_data_hash_def address_data_hash_def ext_def demo_order_def demo_terms_def)
  then show "out_data_hash u \<noteq> Some (demo_const 0)"
    using u(3) by (auto simp: demo_const_0)
qed

definition demo_custody_env ::
  "demo_input cancel_proof_inputs \<Rightarrow> (unit, bool, account_view list, bytes list) chain_env" where
  "demo_custody_env q = demo_env 0
     (\<lambda>vk pis. vk = cancel_vk \<and>
        pis = [cpi_private_tx_hash q @ swap_u64_right_align 1700000000 @ replicate 32 2])
     [demo_settlement (cpi_private_tx_hash q) [] None]"

definition demo_custody_pool :: "demo_input cancel_proof_inputs \<Rightarrow> (bytes list, bytes) pool" where
  "demo_custody_pool q = demo_pool (cu_hash demo_gadgets (cpi_order_utxo q))
     (cu_hash demo_gadgets (cpi_source_output q)) (cpi_private_tx_blinding q)"

definition demo_custody_extractors :: "demo_input cancel_proof_inputs \<Rightarrow> (bytes, demo_input) extractors" where
  "demo_custody_extractors q = \<lparr>ex_take = \<lambda>_ _. undefined, ex_take_ve = \<lambda>_ _. undefined,
     ex_cancel = \<lambda>_ _. cancel_assignment demo_gadgets id id q\<rparr>"

lemma demo_custody_facts:
  assumes q: "cancel_to_proof_inputs demo_S demo_cancel_inputs = Inr q"
  shows "swap_sound (demo_custody_env q) demo_gadgets id (demo_custody_extractors q)"
    "pool_law demo_gadgets id (demo_custody_env q) (swap_signed (demo_custody_env q)) (demo_custody_pool q)"
    "order_leaf demo_gadgets id demo_S (demo_terms 0) (cpi_order q) (cpi_order_utxo q)"
    "cu_hash demo_gadgets (cpi_order_utxo q) \<noteq> gconst demo_gadgets 0"
    "cu_data_hash demo_gadgets (cpi_order_utxo q) \<noteq> gconst demo_gadgets 0"
    "swap_history (demo_custody_env q) (\<lambda>_ _. False) [] [demo_refund_event] [[0]]"
    "cu_hash demo_gadgets (cpi_order_utxo q) \<in> live (demo_custody_pool q) []"
    "cu_hash demo_gadgets (cpi_order_utxo q) \<notin> live (demo_custody_pool q) [[0]]"
    "\<not> settlement_collision (demo_custody_env q) demo_gadgets id (demo_custody_extractors q)
       (demo_custody_pool q) (cpi_order q) (cpi_order_utxo q) demo_refund_event"
proof -
  note enf = demo_cancel_enforced [OF q]
  let ?leaf = "cu_hash demo_gadgets (cpi_order_utxo q)" let ?t = "demo_settlement (cpi_private_tx_hash q) [] None"
  let ?E = "demo_custody_env q" let ?P = "demo_custody_pool q" let ?X = "demo_custody_extractors q"
  let ?refund = "cu_hash demo_gadgets (cpi_source_output q)"
  have vks: "take_vk \<noteq> cancel_vk" "take_ve_vk \<noteq> cancel_vk"
    using vk_distinct by auto
  note defs = demo_custody_env_def demo_custody_pool_def demo_custody_extractors_def
  show "swap_sound ?E demo_gadgets id ?X"
    using enf(1,2) vks
    by (simp add: defs swap_sound_def proof_sound_def demo_accepts_iff cancel_assignment_def)
  show "pool_law demo_gadgets id ?E (swap_signed ?E) ?P"
    unfolding defs by (rule demo_pool_law) (use enf(4) in simp)
  show "swap_history ?E (\<lambda>_ _. False) [] [demo_refund_event] [[0]]"
    by (rule demo_refund_history) (simp add: defs)
  show "order_leaf demo_gadgets id demo_S (demo_terms 0) (cpi_order q) (cpi_order_utxo q)"
    by (rule enf(3))
  obtain maker u h1 h2 where u: "order_output_utxo demo_S (demo_order 0)
        (viewing_pubkey (ot_destination (demo_terms 0))) = Inr u"
      "proof_input demo_S u 0 = Some (cpi_order_utxo q)"
    and source: "proof_input demo_S (cpp_source_output demo_cancel_inputs) 0 = Some (cpi_source_output q)"
    and h: "proof_input_hash demo_S (cpi_order_utxo q) = Some h1"
      "proof_input_hash demo_S (cpi_source_output q) = Some h2"
    by (rule cancel_inputs [OF q]) (simp add: demo_cancel_inputs_def demo_order_def)
  have utxos: "cpi_order_utxo q = (u, 0)"
    "cpi_source_output q = (demo_out (demo_address 2) (replicate 32 7, 2) 400 (replicate 32 8), 0)"
    using u(2) source
    by (simp_all add: demo_proof_input_def demo_cancel_inputs_def demo_address_def demo_terms_def split: if_splits)
  then have leaf: "?leaf = h1" "?refund = h2" "cpi_order_utxo q = (u, 0)" "demo_output_hash u 0 = Some h1"
    "demo_output_hash (demo_out (demo_address 2) (replicate 32 7, 2) 400 (replicate 32 8)) 0 = Some h2"
    using h by simp_all
  note marks = demo_order_marks [OF u(1) leaf(4,5), simplified]
  show "?leaf \<noteq> gconst demo_gadgets 0"
    using marks(1) leaf(1) by (simp add: demo_gadgets_def)
  show "cu_data_hash demo_gadgets (cpi_order_utxo q) \<noteq> gconst demo_gadgets 0"
    using marks(3) leaf(3) order_output_utxo_fields [OF demo_sdk_laws(1) u(1)]
    by (force simp: demo_gadgets_def)
  show "?leaf \<in> live ?P []" "?leaf \<notin> live ?P [[0]]"
    using marks(2) leaf(1,2) by (simp_all add: defs demo_pool_def)
  have ix: "get_cancel_ix (wire_of ?E) (demo_proof_bytes @ to_le_bytes 1700000000 @ [0])
      = Some (\<lparr>cn_proof = \<lparr>cancel_proof_a = replicate 32 0, cancel_proof_b = replicate 64 0,
          cancel_proof_c = replicate 32 0\<rparr>, cn_order_expiry = 1700000000, cn_transact = ?t\<rparr>, [])"
    by (simp add: defs demo_get_cancel)
  have "\<not> cancel_collision ?E demo_gadgets id ?X ?P (order_assignment demo_gadgets id (cpi_order q))
      (cpi_order_utxo q) (ev_accounts demo_refund_event) (demo_proof_bytes @ to_le_bytes 1700000000 @ [0])"
    using enf(5) unfolding cancel_collision_def ix
    by (auto simp: defs demo_refund_event_def demo_signer_def cancel_clash_def demo_pool_def
        cancel_assignment_def)
  then show "\<not> settlement_collision ?E demo_gadgets id ?X ?P (cpi_order q) (cpi_order_utxo q) demo_refund_event"
    by (auto simp: settlement_collision_def demo_refund_event_def swap_tag_defs)
qed

lemma demo_custody_poseidon: "poseidon_fit demo_gadgets id (poseidon_hashv (demo_custody_env q))"
  using demo_poseidon_fit by (simp add: demo_custody_env_def)

lemma demo_custody_accounts: "account_checks_ok (demo_custody_env q)"
  by (simp add: demo_custody_env_def)

end
