(* ===== verification/Escrow_Custody.thy ===== *)
theory Escrow_Custody
  imports Pool Enforcement_Properties Custody_Book
begin

text \<open>
  Custody of an escrow: what an escrow instruction that spends its leaf in the shielded pool has done.
  \<open>Custody_Refinement\<close> extends this to whole histories.
\<close>

text \<open>The return of an escrow to its creator, with an output that the pool holds afterwards.\<close>

definition escrow_returned ::
  "('x, 'v, 's, 'w) chain_env \<Rightarrow> ('f, 'u, 'k, 'n) gadgets \<Rightarrow> (bytes \<Rightarrow> 'f) \<Rightarrow> ('w, 'f) pool \<Rightarrow>
   escrow_terms_proof_input \<Rightarrow> 'u \<Rightarrow> account_view list \<Rightarrow> 'w \<Rightarrow> bool" where
  "escrow_returned E G fe P t u as w \<longleftrightarrow>
     (\<exists>caller creator rest owner npk source. as = caller # creator # rest \<and> is_signer creator \<and>
        solana_owner_identity E (address creator) = Some owner \<and>
        fe (ep_owner_hash t) = gposeidon G [fe owner, npk] \<and>
        pays G source (cu_asset G u) (cu_amount G u) (fe (ep_owner_hash t)) \<and>
        cu_hash G source \<in> insert (gconst G 0) (live P w))"

text \<open>The collisions that the extracted assignment of a withdraw holds, with the public input that the
  program computed and the leaves that SPP spent and created.\<close>

definition withdraw_collision ::
  "('x, 'v, 's, 'w) chain_env \<Rightarrow> ('f, 'u, 'k, 'n) gadgets \<Rightarrow> (bytes \<Rightarrow> 'f) \<Rightarrow>
   (compressed_groth16_proof \<Rightarrow> bytes \<Rightarrow> ('f, 'u) withdraw_circuit) \<Rightarrow>
   ('w, 'f) pool \<Rightarrow> 'f circuit_escrow_terms \<Rightarrow> 'u \<Rightarrow> account_view list \<Rightarrow> bytes \<Rightarrow> bool" where
  "withdraw_collision E G fe X P t u as d \<longleftrightarrow>
     (\<exists>ix caller creator rest owner h tb c. get_withdraw_ix (wire_of E) d = Some (ix, []) \<and>
        as = caller # creator # rest \<and> solana_owner_identity E (address creator) = Some owner \<and>
        poseidon_hashv E [private_tx_hash (wd_transact ix),
          escrow_u64_right_align (wd_unlock_timestamp ix), owner] = Some h \<and>
        groth16_accepts E (withdraw_points (wd_proof ix)) h withdraw_vk \<and>
        transact_serialize E (wd_transact ix) = Some tb \<and>
        c = X (withdraw_points (wd_proof ix)) h \<and>
        (clash (gposeidon G) [wc_private_tx_hash c, ce_unlock (wc_terms c), wc_owner_pk_field c]
           [fe (private_tx_hash (wd_transact ix)), gconst G (unat (wd_unlock_timestamp ix)), fe owner] \<or>
         clash (cu_hash G) (wc_escrow_utxo c) u \<or>
         clash (gposeidon G) [ce_owner_hash (wc_terms c), ce_unlock (wc_terms c)]
           [ce_owner_hash t, ce_unlock t] \<or>
         tx_clash G ([cu_hash G (wc_escrow_utxo c)], [cu_hash G (wc_source_output c)],
           wc_private_tx_blinding c) (leaves_of P tb)))"

text \<open>The leaf that the extracted assignment of a withdraw spends as its escrow.\<close>

definition withdraw_leaf ::
  "('x, 'v, 's, 'w) chain_env \<Rightarrow> ('f, 'u, 'k, 'n) gadgets \<Rightarrow>
   (compressed_groth16_proof \<Rightarrow> bytes \<Rightarrow> ('f, 'u) withdraw_circuit) \<Rightarrow> account_view list \<Rightarrow> bytes \<Rightarrow>
   'f option" where
  "withdraw_leaf E G X as d = do {
     (ix, _) \<leftarrow> get_withdraw_ix (wire_of E) d;
     creator \<leftarrow> first_opt (tl as);
     owner \<leftarrow> solana_owner_identity E (address creator);
     h \<leftarrow> poseidon_hashv E [private_tx_hash (wd_transact ix),
       escrow_u64_right_align (wd_unlock_timestamp ix), owner];
     Some (cu_hash G (wc_escrow_utxo (X (withdraw_points (wd_proof ix)) h)))
   }"

lemma withdraw_custody:
  assumes "account_checks_ok E"
    and "api_law G" "hashes_fit G fe S" "poseidon_fit G fe (poseidon_hashv E)"
    and "proof_sound E withdraw_vk fe (withdraw_define G) wc_public_input_hash X"
    and "pool_law G fe E (escrow_signed E) P"
    and "escrow_leaf G fe S terms t u" "cu_hash G u \<noteq> gconst G 0"
    and "process_withdraw_ix (at E now) as d w = Inr w'" "cu_hash G u \<in> live P w" "cu_hash G u \<notin> live P w'"
  shows "escrow_returned E G fe P t u as w' \<and> uint (et_unlock_timestamp terms) < sint now \<and>
      withdraw_leaf E G X as d = Some (cu_hash G u) \<or>
    withdraw_collision E G fe X P (escrow_terms_assignment fe t) u as d"
proof -
  obtain caller iter creator iter' owner ix h rest tb where
    accts: "next_signer_mut (at E now) ''caller'' as = Inr (caller, iter)"
      "next_signer (at E now) ''creator'' iter = Inr (creator, iter')"
    and ix: "solana_owner_identity E (address creator) = Some owner"
      "get_withdraw_ix (wire_of E) d = Some (ix, [])" "0 \<le> sint now \<and> wd_unlock_timestamp ix < now"
      "poseidon_hashv E [private_tx_hash (wd_transact ix),
         escrow_u64_right_align (wd_unlock_timestamp ix), owner] = Some h"
      "groth16_accepts E (withdraw_points (wd_proof ix)) h withdraw_vk"
      "transact_serialize E (wd_transact ix) = Some tb" "escrow_signed E rest tb w w'"
    using assms(9) by (auto simp: process_withdraw_ix_ok withdraw_authorised_def)
  have as: "as = caller # creator # iter'" "is_signer creator"
    using next_signer_mutD [OF _ accts(1)] next_signerD [OF _ accts(2)] assms(1) by auto
  let ?tx = "wd_transact ix" let ?c = "X (withdraw_points (wd_proof ix)) h"
  let ?t = "escrow_terms_assignment fe t" let ?source = "wc_source_output ?c"
  let ?pub = "[fe (private_tx_hash ?tx), gconst G (unat (wd_unlock_timestamp ix)), fe owner]"
  let ?proved = "([cu_hash G (wc_escrow_utxo ?c)], [cu_hash G ?source], wc_private_tx_blinding ?c)"
  have def_c: "withdraw_define G ?c = Some ()" "wc_public_input_hash ?c = gposeidon G ?pub"
    using proof_soundD [OF assms(5) ix(5)] poseidon_fitD [OF assms(4) ix(4)]
    by (simp_all add: fe_escrow_u64 [OF hashes_fitD(1) [OF assms(3)]])
  then have circuit: "tx_hash_of G ?proved = wc_private_tx_hash ?c"
    "gposeidon G [wc_private_tx_hash ?c, ce_unlock (wc_terms ?c), wc_owner_pk_field ?c] = gposeidon G ?pub"
    by (auto simp: escrow_define_simps check_escrow_utxo_def bind_eq_Some_conv api_simps(1) [OF assms(2)]
        tx_hash_of_def)
  show ?thesis
  proof (rule disjCI)
    assume "\<not> withdraw_collision E G fe X P ?t u as d"
    then have no: "\<not> clash (gposeidon G)
        [wc_private_tx_hash ?c, ce_unlock (wc_terms ?c), wc_owner_pk_field ?c] ?pub"
      "\<not> clash (cu_hash G) (wc_escrow_utxo ?c) u"
      "\<not> clash (gposeidon G) [ce_owner_hash (wc_terms ?c), ce_unlock (wc_terms ?c)]
         [ce_owner_hash ?t, ce_unlock ?t]" "\<not> tx_clash G ?proved (leaves_of P tb)"
      using ix as unfolding withdraw_collision_def by blast+
    have hash: "tx_hash_of G ?proved = fe (private_tx_hash ?tx)"
      using circuit(1) clashD [OF no(1) circuit(2)] by simp
    note spends = proved_tx [OF assms(6) ix(7,6) hash no(4) assms(10,11,8)]
    have order: "cu_hash G (wc_escrow_utxo ?c) = cu_hash G u"
      using spends(1) by simp
    have tx: "gprivate_tx_hash G [cu_hash G u] [cu_hash G ?source] (wc_private_tx_blinding ?c)
        = fe (private_tx_hash ?tx)"
      using hash order by (simp add: tx_hash_of_def)
    have "\<not> withdraw_clash G ?c ?pub ?t u (cu_hash G ?source, wc_private_tx_blinding ?c)"
      using no order by (simp add: withdraw_clash_def)
    note binds = withdraw_define_binds [OF assms(2,3,7) def_c tx this]
    have "uint (et_unlock_timestamp terms) < sint now"
      using binds ix(3) after_as_int [of now "wd_unlock_timestamp ix"] by simp
    moreover have "escrow_returned E G fe P t u as w'"
      unfolding escrow_returned_def
      by (rule exI [of _ caller], rule exI [of _ creator], rule exI [of _ iter'], rule exI [of _ owner],
          rule exI [of _ "wc_nullifier_pk ?c"], rule exI [of _ ?source], intro conjI as ix(1))
        (use binds spends(2) in auto)
    moreover have "withdraw_leaf E G X as d = Some (cu_hash G u)"
      using ix(1,2,4) as(1) order by (simp add: withdraw_leaf_def)
    ultimately show "escrow_returned E G fe P t u as w' \<and> uint (et_unlock_timestamp terms) < sint now \<and>
      withdraw_leaf E G X as d = Some (cu_hash G u)"
      by simp
  qed
qed

text \<open>An escrow is settled by its return to its creator after the unlock time.\<close>

definition escrow_settled ::
  "('x, 'v, 's, 'w) chain_env \<Rightarrow> ('f, 'u, 'k, 'n) gadgets \<Rightarrow> (bytes \<Rightarrow> 'f) \<Rightarrow> ('w, 'f) pool \<Rightarrow>
   'p escrow_terms \<Rightarrow> escrow_terms_proof_input \<Rightarrow> 'u \<Rightarrow> chain_event \<Rightarrow> 'w \<Rightarrow> bool" where
  "escrow_settled E G fe P terms t u ev w \<longleftrightarrow>
     escrow_returned E G fe P t u (ev_accounts ev) w \<and>
     uint (et_unlock_timestamp terms) < sint (ev_time ev) \<and> (\<exists>d. ev_data ev = escrow_tag_withdraw # d)"

definition escrow_collision ::
  "('x, 'v, 's, 'w) chain_env \<Rightarrow> ('f, 'u, 'k, 'n) gadgets \<Rightarrow> (bytes \<Rightarrow> 'f) \<Rightarrow>
   (compressed_groth16_proof \<Rightarrow> bytes \<Rightarrow> ('f, 'u) withdraw_circuit) \<Rightarrow> ('w, 'f) pool \<Rightarrow>
   escrow_terms_proof_input \<Rightarrow> 'u \<Rightarrow> chain_event \<Rightarrow> bool" where
  "escrow_collision E G fe X P t u ev \<longleftrightarrow>
     (\<exists>d. ev_data ev = escrow_tag_withdraw # d \<and>
        withdraw_collision E G fe X P (escrow_terms_assignment fe t) u (ev_accounts ev) d)"

definition returned_leaf ::
  "('x, 'v, 's, 'w) chain_env \<Rightarrow> ('f, 'u, 'k, 'n) gadgets \<Rightarrow>
   (compressed_groth16_proof \<Rightarrow> bytes \<Rightarrow> ('f, 'u) withdraw_circuit) \<Rightarrow> chain_event \<Rightarrow> 'f option" where
  "returned_leaf E G X ev =
     (case ev_data ev of [] \<Rightarrow> None
      | tag # d \<Rightarrow> if tag = escrow_tag_withdraw then withdraw_leaf E G X (ev_accounts ev) d else None)"

definition is_escrow :: "chain_event \<Rightarrow> bool" where
  "is_escrow ev \<longleftrightarrow> (\<exists>d. ev_data ev = escrow_tag_escrow # d)"

abbreviation escrow_run :: "('x, 'v, 's, 'w) chain_env \<Rightarrow> 'w program_run" where
  "escrow_run E \<equiv> \<lambda>t. escrow_process_instruction (at E t) escrow_id"

lemma escrow_instruction_custody:
  assumes "account_checks_ok E"
    and "api_law G" "hashes_fit G fe S" "poseidon_fit G fe (poseidon_hashv E)"
    and "proof_sound E withdraw_vk fe (withdraw_define G) wc_public_input_hash X"
    and "pool_law G fe E (escrow_signed E) P"
    and "escrow_leaf G fe S terms t u" "cu_hash G u \<noteq> gconst G 0"
    and "spends_leaf (escrow_run E) (live P) ev (cu_hash G u) w w'"
  shows "escrow_settled E G fe P terms t u ev w' \<and> returned_leaf E G X ev = Some (cu_hash G u) \<or>
    is_escrow ev \<or> escrow_collision E G fe X P t u ev"
proof -
  have run: "escrow_run E (ev_time ev) (ev_accounts ev) (ev_data ev) w = Inr w'"
    and spent: "cu_hash G u \<in> live P w" "cu_hash G u \<notin> live P w'"
    using assms(9) by (simp_all add: spends_leaf_def)
  then obtain tag d where ev: "ev_data ev = tag # d"
    by (cases "ev_data ev") (simp_all add: escrow_process_instruction_def)
  consider "is_escrow ev"
    | "tag = escrow_tag_withdraw" "process_withdraw_ix (at E (ev_time ev)) (ev_accounts ev) d w = Inr w'"
    using run ev by (auto simp: escrow_process_instruction_def is_escrow_def split: if_splits)
  then show ?thesis
  proof cases
    case 2
    have "escrow_collision E G fe X P t u ev"
      if "withdraw_collision E G fe X P (escrow_terms_assignment fe t) u (ev_accounts ev) d"
      using that ev 2(1) by (auto simp: escrow_collision_def)
    moreover have "returned_leaf E G X ev = withdraw_leaf E G X (ev_accounts ev) d"
      using ev 2(1) by (simp add: returned_leaf_def)
    ultimately show ?thesis
      using withdraw_custody [OF assms(1-8) 2(2) spent] ev 2(1) escrow_settled_def by metis
  qed simp
qed

text \<open>The withdraw of the demo escrow.\<close>

definition demo_return_event :: chain_event where
  "demo_return_event = \<lparr>ev_time = 1700000001,
     ev_accounts = [demo_signer 3, demo_signer 2, demo_escrow_authority],
     ev_data = escrow_tag_withdraw # demo_proof_bytes @ to_le_bytes 1700000000 @ [0]\<rparr>"

lemma demo_return_history:
  assumes "E = demo_accepting 0 (ptx @ escrow_u64_right_align 1700000000 @ replicate 32 2)
      (demo_settlement ptx ns None)"
  shows "escrow_history E (\<lambda>_ _. False) [] [demo_return_event] [[0]]"
proof -
  have "process_withdraw_ix (at E 1700000001) [demo_signer 3, demo_signer 2, demo_escrow_authority]
     (demo_proof_bytes @ to_le_bytes 1700000000 @ [0]) [] = Inr [[0]]"
    unfolding assms at_demo_env by (rule demo_settled_withdraw_runs)
  then have "escrow_history E (\<lambda>_ _. False) [] ([] @ [demo_return_event]) [[0]]"
    by (intro chain_history.instruction [OF chain_history.start])
      (simp_all add: demo_return_event_def escrow_process_instruction_def escrow_tag_defs)
  then show ?thesis
    by simp
qed

lemma demo_escrow_marks:
  assumes "escrow_output_utxo demo_S e = Inr u" "demo_output_hash u 0 = Some leaf"
    and "demo_output_hash (demo_out (demo_address b) m n k) 0 = Some refund" "b \<noteq> 101"
  shows "leaf \<noteq> demo_const 0" "leaf \<noteq> refund"
proof -
  obtain npk v where u: "out_owner_address u =
      Some \<lparr>signing_pubkey = escrow_pda_owner demo_S, nullifier_pubkey = npk, viewing_pubkey = v\<rparr>"
    by (rule escrow_output_utxo_fields [OF demo_sdk_laws(1) assms(1)])
  have "hd leaf = 101"
    using assms(2) u by (auto simp: demo_output_hash_def demo_commit_def escrow_pda_owner_def demo_pda_def
        escrow_authority_pda_seed_def byte_string_def)
  moreover have "hd refund = b"
    using assms(3) by (auto simp: demo_output_hash_def demo_commit_def demo_out_def demo_address_def)
  ultimately show "leaf \<noteq> demo_const 0" "leaf \<noteq> refund"
    using assms(4) by (auto simp: demo_const_0)
qed

definition demo_return_env ::
  "demo_input withdraw_proof_inputs \<Rightarrow> (unit, bool, account_view list, bytes list) chain_env" where
  "demo_return_env q = demo_accepting 0
     (wpi_private_tx_hash q @ escrow_u64_right_align 1700000000 @ replicate 32 2)
     (demo_settlement (wpi_private_tx_hash q) [] None)"

definition demo_return_pool :: "demo_input withdraw_proof_inputs \<Rightarrow> (bytes list, bytes) pool" where
  "demo_return_pool q = demo_pool (cu_hash demo_gadgets (wpi_escrow_utxo q))
     (cu_hash demo_gadgets (wpi_source_output q)) (wpi_private_tx_blinding q)"

abbreviation demo_return_extractor ::
  "demo_input withdraw_proof_inputs \<Rightarrow> compressed_groth16_proof \<Rightarrow> bytes \<Rightarrow> (bytes, demo_input) withdraw_circuit" where
  "demo_return_extractor q \<equiv> \<lambda>_ _. withdraw_assignment id id q"

lemma demo_return_facts:
  assumes q: "withdraw_to_proof_inputs demo_S demo_withdraw_inputs = Inr q"
  shows "proof_sound (demo_return_env q) withdraw_vk id (withdraw_define demo_gadgets) wc_public_input_hash
      (demo_return_extractor q)"
    "pool_law demo_gadgets id (demo_return_env q) (escrow_signed (demo_return_env q)) (demo_return_pool q)"
    "escrow_leaf demo_gadgets id demo_S (eu_terms demo_escrow) (wpi_terms q) (wpi_escrow_utxo q)"
    "cu_hash demo_gadgets (wpi_escrow_utxo q) \<noteq> gconst demo_gadgets 0"
    "escrow_history (demo_return_env q) (\<lambda>_ _. False) [] [demo_return_event] [[0]]"
    "cu_hash demo_gadgets (wpi_escrow_utxo q) \<in> live (demo_return_pool q) []"
    "cu_hash demo_gadgets (wpi_escrow_utxo q) \<notin> live (demo_return_pool q) [[0]]"
    "\<not> escrow_collision (demo_return_env q) demo_gadgets id (demo_return_extractor q) (demo_return_pool q)
       (wpi_terms q) (wpi_escrow_utxo q) demo_return_event"
proof -
  note enf = demo_withdraw_enforced [OF q]
  let ?leaf = "cu_hash demo_gadgets (wpi_escrow_utxo q)" let ?t = "demo_settlement (wpi_private_tx_hash q) [] None"
  let ?refund = "cu_hash demo_gadgets (wpi_source_output q)"
  let ?E = "demo_return_env q" let ?P = "demo_return_pool q" let ?X = "demo_return_extractor q"
  note defs = demo_return_env_def demo_return_pool_def
  show "proof_sound ?E withdraw_vk id (withdraw_define demo_gadgets) wc_public_input_hash ?X"
    unfolding defs by (rule demo_sound, rule enf(1)) (simp add: withdraw_assignment_def enf(2))
  show "pool_law demo_gadgets id ?E (escrow_signed ?E) ?P"
    unfolding defs by (rule demo_pool_law) (use enf(4) in simp)
  show "escrow_leaf demo_gadgets id demo_S (eu_terms demo_escrow) (wpi_terms q) (wpi_escrow_utxo q)"
    by (rule enf(3))
  show "escrow_history ?E (\<lambda>_ _. False) [] [demo_return_event] [[0]]"
    by (rule demo_return_history) (simp add: defs)
  obtain u h1 h2 where u: "escrow_output_utxo demo_S demo_escrow = Inr u"
      "proof_input demo_S u 0 = Some (wpi_escrow_utxo q)"
    and source: "proof_input demo_S (wpp_source_output demo_withdraw_inputs) 0 = Some (wpi_source_output q)"
    and h: "proof_input_hash demo_S (wpi_escrow_utxo q) = Some h1"
      "proof_input_hash demo_S (wpi_source_output q) = Some h2"
    by (rule withdraw_inputs [OF q]) (simp add: demo_withdraw_inputs_def)
  have utxos: "wpi_escrow_utxo q = (u, 0)"
    "wpi_source_output q = (demo_out (demo_address 2) (replicate 32 7, 2) 400 (replicate 32 8), 0)"
    using u(2) source by (simp_all add: demo_proof_input_def demo_withdraw_inputs_def split: if_splits)
  then have leaf: "?leaf = h1" "?refund = h2" "demo_output_hash u 0 = Some h1"
    "demo_output_hash (demo_out (demo_address 2) (replicate 32 7, 2) 400 (replicate 32 8)) 0 = Some h2"
    using h by simp_all
  note marks = demo_escrow_marks [OF u(1) leaf(3,4), simplified]
  show "?leaf \<noteq> gconst demo_gadgets 0"
    using marks(1) leaf(1) by (simp add: demo_gadgets_def)
  show "?leaf \<in> live ?P []" "?leaf \<notin> live ?P [[0]]"
    using marks(2) leaf(1,2) by (simp_all add: defs demo_pool_def)
  have "\<not> withdraw_collision ?E demo_gadgets id ?X ?P (escrow_terms_assignment id (wpi_terms q))
      (wpi_escrow_utxo q) (ev_accounts demo_return_event) (demo_proof_bytes @ to_le_bytes 1700000000 @ [0])"
    using enf(5) unfolding withdraw_collision_def defs demo_settled_withdraw_ix
    by (auto simp: demo_return_event_def demo_signer_def withdraw_clash_def demo_pool_def withdraw_assignment_def)
  then show "\<not> escrow_collision ?E demo_gadgets id ?X ?P (wpi_terms q) (wpi_escrow_utxo q) demo_return_event"
    by (auto simp: escrow_collision_def demo_return_event_def)
qed

lemma demo_return_poseidon: "poseidon_fit demo_gadgets id (poseidon_hashv (demo_return_env q))"
  using demo_poseidon_fit by (simp add: demo_return_env_def)

lemma demo_return_accounts: "account_checks_ok (demo_return_env q)"
  by (simp add: demo_return_env_def)

end
