(* ===== verification/Custody_Refinement.thy ===== *)
theory Custody_Refinement
  imports Swap_Custody Escrow_Custody
begin

text \<open>
  Both programs refine the abstract contract of custody (\<open>Custody_Book\<close>): a history of instructions,
  seen through the pool, is a run of a book of orders or of escrows, in which every settlement is a
  transaction of its own and settles one entry. With the nullifiers of SPP no order is settled twice.
\<close>

section \<open>The order book of the swap program\<close>

record ('p, 'u) known_order =
  ko_terms :: "'p order_terms"
  ko_inputs :: order_terms_proof_input
  ko_utxo :: 'u

abbreviation order_leaf_of :: "('f, 'u, 'k, 'n) gadgets \<Rightarrow> ('p, 'u) known_order \<Rightarrow> 'f" where
  "order_leaf_of G k \<equiv> cu_hash G (ko_utxo k)"

definition known_orders ::
  "('f, 'u, 'k, 'n) gadgets \<Rightarrow> (bytes \<Rightarrow> 'f) \<Rightarrow> ('x, 'p, 'm, 'd, 'r, 'i) sdk_env \<Rightarrow>
   ('p, 'u) known_order set \<Rightarrow> bool" where
  "known_orders G fe S K \<longleftrightarrow> inj_on (order_leaf_of G) K \<and>
     (\<forall>k \<in> K. order_leaf G fe S (ko_terms k) (ko_inputs k) (ko_utxo k) \<and>
        order_leaf_of G k \<noteq> gconst G 0 \<and> cu_data_hash G (ko_utxo k) \<noteq> gconst G 0)"

text \<open>The rule of the book: the instruction took the order out of the pool and exchanged it in its
  window, paying its maker, or refunded it to its maker after it.\<close>

definition order_rule ::
  "('x, 'v, 's, 'w) chain_env \<Rightarrow> ('f, 'u, 'k, 'n) gadgets \<Rightarrow> (bytes \<Rightarrow> 'f) \<Rightarrow> ('w, 'f) pool \<Rightarrow>
   ('p, 'u) known_order \<Rightarrow> order_outcome \<Rightarrow> chain_event \<Rightarrow> bool" where
  "order_rule E G fe P k s ev \<longleftrightarrow>
     (\<exists>w w'. spends_leaf (swap_run E) (live P) ev (order_leaf_of G k) w w' \<and>
        order_settled E G fe P (ko_terms k) (ko_inputs k) (ko_utxo k) s ev w')"

abbreviation open_orders ::
  "('f, 'u, 'k, 'n) gadgets \<Rightarrow> ('w, 'f) pool \<Rightarrow> ('p, 'u) known_order set \<Rightarrow> 'w \<Rightarrow> ('p, 'u) known_order set" where
  "open_orders G P \<equiv> open_in (live P) (order_leaf_of G)"


lemma spent_order:
  assumes "account_checks_ok E"
    and "api_law G" "hashes_fit G fe S" "viewing_law S" "poseidon_fit G fe (poseidon_hashv E)"
    and "swap_sound E G fe X" "pool_law G fe E (swap_signed E) P" "known_orders G fe S K"
    and "spends_leaf (swap_run E) (live P) ev (order_leaf_of G k) v v'" "k \<in> K"
  shows "(\<exists>s. order_rule E G fe P k s ev) \<and> settled_leaf E G X ev = Some (order_leaf_of G k) \<or>
    is_make ev \<or> settlement_collision E G fe X P (ko_inputs k) (ko_utxo k) ev"
proof -
  have leaf: "order_leaf G fe S (ko_terms k) (ko_inputs k) (ko_utxo k)"
    "order_leaf_of G k \<noteq> gconst G 0" "cu_data_hash G (ko_utxo k) \<noteq> gconst G 0"
    using assms(8,10) by (simp_all add: known_orders_def)
  show ?thesis
    using instruction_custody [OF assms(1-7) leaf assms(9)] assms(9) unfolding order_rule_def by blast
qed

lemma known_orders_inj: "known_orders G fe S K \<Longrightarrow> inj_on (order_leaf_of G) K"
  by (simp add: known_orders_def)

text \<open>C5. The swap program implements an order book. Take any set of orders with different leaves, and any
  sequence of swap instructions, with whatever other parties do in between as long as they leave
  these orders alone. Then the orders in the pool go through a run of the book: orders may appear at
  any time, each settlement closes exactly one of them, by an exchange in its window that pays its
  maker or by a refund to its maker after it, and the settlements are different transactions of the
  history in its order. So one payment never settles two orders, and no order disappears unsettled.
  Otherwise a make spent one of the orders, or the transaction that spent one shows a hash collision.\<close>

theorem swap_refines_order_book:
  assumes "account_checks_ok E"
    and "api_law G" "hashes_fit G fe S" "viewing_law S" "poseidon_fit G fe (poseidon_hashv E)"
    and "swap_sound E G fe X" "pool_law G fe E (swap_signed E) P"
    and "known_orders G fe S K" "swap_history E other w h w'"
    and "\<And>v v' k. other v v' \<Longrightarrow> k \<in> K \<Longrightarrow> order_leaf_of G k \<in> live P v \<Longrightarrow> order_leaf_of G k \<in> live P v'"
  shows "(\<exists>l. book_run (order_rule E G fe P) (open_orders G P K w) l (open_orders G P K w') \<and>
       subseq (map (snd \<circ> snd) l) h) \<or>
     (\<exists>ev \<in> set h. \<exists>k \<in> K. \<exists>v v'. spends_leaf (swap_run E) (live P) ev (order_leaf_of G k) v v' \<and>
       (is_make ev \<or> settlement_collision E G fe X P (ko_inputs k) (ko_utxo k) ev))"
  by (rule history_is_book_run [OF assms(9) known_orders_inj [OF assms(8)] assms(10) spent_order [OF assms(1-8)]])

text \<open>The refund of the demo order is a run of the book.\<close>

theorem swap_refines_order_book_witness:
  "\<exists>q P k. cancel_to_proof_inputs demo_S demo_cancel_inputs = Inr q \<and>
     ko_terms k = demo_terms 0 \<and> open_orders demo_gadgets P {k} [] = {k} \<and> open_orders demo_gadgets P {k} [[0]] = {} \<and>
     swap_history (demo_custody_env q) (\<lambda>_ _. False) [] [demo_refund_event] [[0]] \<and>
     book_run (order_rule (demo_custody_env q) demo_gadgets id P) {k}
       [(k, Refunded, demo_refund_event)] {}"
proof -
  obtain q where q: "cancel_to_proof_inputs demo_S demo_cancel_inputs = Inr q"
    using demo_cancel_proves by blast
  note facts = demo_custody_facts [OF q]
  let ?k = "\<lparr>ko_terms = demo_terms 0, ko_inputs = cpi_order q, ko_utxo = cpi_order_utxo q\<rparr>"
  let ?P = "demo_custody_pool q" let ?rule = "order_rule (demo_custody_env q) demo_gadgets id ?P"
  have known: "known_orders demo_gadgets id demo_S {?k}"
    using facts(3-5) by (simp add: known_orders_def)
  have opens: "open_orders demo_gadgets ?P {?k} [] = {?k}" "open_orders demo_gadgets ?P {?k} [[0]] = {}"
    using facts(7,8) by auto
  have "\<not> (is_make ev \<or> settlement_collision (demo_custody_env q) demo_gadgets id (demo_custody_extractors q)
      ?P (ko_inputs k) (ko_utxo k) ev)" if "ev \<in> set [demo_refund_event]" "k \<in> {?k}" for ev k
    using that facts(9) by (auto simp: is_make_def demo_refund_event_def swap_tag_defs)
  then obtain l where run: "book_run ?rule {?k} l {}" and sub: "subseq (map (snd \<circ> snd) l) [demo_refund_event]"
    using swap_refines_order_book [OF demo_custody_accounts demo_api demo_hashes_fit demo_sdk_laws(6)
        demo_custody_poseidon facts(1,2) known facts(6)] unfolding opens by blast
  obtain s ev where s: "(?k, s, ev) \<in> set l"
    using book_run_accounts [OF run] by force
  then have l: "l = [(?k, s, demo_refund_event)]"
    using subseq_one [OF sub] by (auto simp: Cons_eq_map_conv)
  then have "?rule ?k s demo_refund_event"
    using book_run_rule [OF run] by simp
  then have "s = Refunded"
    by (cases s) (auto simp: order_rule_def demo_refund_event_def swap_tag_defs)
  with run l have "book_run ?rule {?k} [(?k, Refunded, demo_refund_event)] {}"
    by simp
  then show ?thesis
    by (intro exI [of _ q] exI [of _ ?P] exI [of _ ?k] conjI q opens facts(6)) simp
qed



section \<open>The book of escrows\<close>

record ('p, 'u) known_escrow =
  ke_terms :: "'p escrow_terms"
  ke_inputs :: escrow_terms_proof_input
  ke_utxo :: 'u

abbreviation escrow_leaf_of :: "('f, 'u, 'k, 'n) gadgets \<Rightarrow> ('p, 'u) known_escrow \<Rightarrow> 'f" where
  "escrow_leaf_of G k \<equiv> cu_hash G (ke_utxo k)"

definition known_escrows ::
  "('f, 'u, 'k, 'n) gadgets \<Rightarrow> (bytes \<Rightarrow> 'f) \<Rightarrow> ('x, 'p, 'm, 'd, 'r, 'i) sdk_env \<Rightarrow>
   ('p, 'u) known_escrow set \<Rightarrow> bool" where
  "known_escrows G fe S K \<longleftrightarrow> inj_on (escrow_leaf_of G) K \<and>
     (\<forall>k \<in> K. escrow_leaf G fe S (ke_terms k) (ke_inputs k) (ke_utxo k) \<and> escrow_leaf_of G k \<noteq> gconst G 0)"

text \<open>An escrow has one outcome, its return to its creator.\<close>

definition escrow_rule ::
  "('x, 'v, 's, 'w) chain_env \<Rightarrow> ('f, 'u, 'k, 'n) gadgets \<Rightarrow> (bytes \<Rightarrow> 'f) \<Rightarrow> ('w, 'f) pool \<Rightarrow>
   ('p, 'u) known_escrow \<Rightarrow> unit \<Rightarrow> chain_event \<Rightarrow> bool" where
  "escrow_rule E G fe P k s ev \<longleftrightarrow>
     (\<exists>w w'. spends_leaf (escrow_run E) (live P) ev (escrow_leaf_of G k) w w' \<and>
        escrow_settled E G fe P (ke_terms k) (ke_inputs k) (ke_utxo k) ev w')"

abbreviation open_escrows ::
  "('f, 'u, 'k, 'n) gadgets \<Rightarrow> ('w, 'f) pool \<Rightarrow> ('p, 'u) known_escrow set \<Rightarrow> 'w \<Rightarrow>
   ('p, 'u) known_escrow set" where
  "open_escrows G P \<equiv> open_in (live P) (escrow_leaf_of G)"

text \<open>C6. The escrow program implements a time vault. Over any sequence of escrow instructions, with other
  parties leaving a set of escrows with different leaves alone, these escrows go through a run of
  the book in which each settlement returns exactly one escrow to its creator, after its unlock
  time, in a transaction of its own; otherwise an escrow instruction spent one of them, or the
  transaction that spent one shows a hash collision.\<close>

theorem escrow_refines_vault:
  assumes "account_checks_ok E"
    and "api_law G" "hashes_fit G fe S" "poseidon_fit G fe (poseidon_hashv E)"
    and "proof_sound E withdraw_vk fe (withdraw_define G) wc_public_input_hash X"
    and "pool_law G fe E (escrow_signed E) P"
    and "known_escrows G fe S K" "escrow_history E other w h w'"
    and "\<And>v v' k. other v v' \<Longrightarrow> k \<in> K \<Longrightarrow> escrow_leaf_of G k \<in> live P v \<Longrightarrow> escrow_leaf_of G k \<in> live P v'"
  shows "(\<exists>l. book_run (escrow_rule E G fe P) (open_escrows G P K w) l (open_escrows G P K w') \<and>
       subseq (map (snd \<circ> snd) l) h) \<or>
     (\<exists>ev \<in> set h. \<exists>k \<in> K. \<exists>v v'. spends_leaf (escrow_run E) (live P) ev (escrow_leaf_of G k) v v' \<and>
       (is_escrow ev \<or> escrow_collision E G fe X P (ke_inputs k) (ke_utxo k) ev))"
proof (rule history_is_book_run [OF assms(8) _ assms(9), where proved = "returned_leaf E G X"])
  show "inj_on (escrow_leaf_of G) K"
    using assms(7) by (simp add: known_escrows_def)
  fix ev v v' k
  assume spends: "spends_leaf (escrow_run E) (live P) ev (escrow_leaf_of G k) v v'" and k: "k \<in> K"
  have leaf: "escrow_leaf G fe S (ke_terms k) (ke_inputs k) (ke_utxo k)" "escrow_leaf_of G k \<noteq> gconst G 0"
    using assms(7) k by (simp_all add: known_escrows_def)
  show "(\<exists>s. escrow_rule E G fe P k s ev) \<and> returned_leaf E G X ev = Some (escrow_leaf_of G k) \<or>
    is_escrow ev \<or> escrow_collision E G fe X P (ke_inputs k) (ke_utxo k) ev"
    using escrow_instruction_custody [OF assms(1-6) leaf spends] spends unfolding escrow_rule_def by blast
qed

theorem escrow_refines_vault_witness:
  "\<exists>q P k. withdraw_to_proof_inputs demo_S demo_withdraw_inputs = Inr q \<and>
     ke_terms k = eu_terms demo_escrow \<and> open_escrows demo_gadgets P {k} [] = {k} \<and> open_escrows demo_gadgets P {k} [[0]] = {} \<and>
     escrow_history (demo_return_env q) (\<lambda>_ _. False) [] [demo_return_event] [[0]] \<and>
     book_run (escrow_rule (demo_return_env q) demo_gadgets id P) {k} [(k, (), demo_return_event)] {}"
proof -
  obtain q where q: "withdraw_to_proof_inputs demo_S demo_withdraw_inputs = Inr q"
    using demo_withdraw_proves by blast
  note facts = demo_return_facts [OF q]
  let ?k = "\<lparr>ke_terms = eu_terms demo_escrow, ke_inputs = wpi_terms q, ke_utxo = wpi_escrow_utxo q\<rparr>"
  let ?P = "demo_return_pool q" let ?rule = "escrow_rule (demo_return_env q) demo_gadgets id ?P"
  have known: "known_escrows demo_gadgets id demo_S {?k}"
    using facts(3,4) by (simp add: known_escrows_def)
  have opens: "open_escrows demo_gadgets ?P {?k} [] = {?k}" "open_escrows demo_gadgets ?P {?k} [[0]] = {}"
    using facts(6,7) by auto
  have "\<not> (is_escrow ev \<or> escrow_collision (demo_return_env q) demo_gadgets id (demo_return_extractor q)
      ?P (ke_inputs k) (ke_utxo k) ev)" if "ev \<in> set [demo_return_event]" "k \<in> {?k}" for ev k
    using that facts(8) by (auto simp: is_escrow_def demo_return_event_def escrow_tag_defs)
  then obtain l where run: "book_run ?rule {?k} l {}" and sub: "subseq (map (snd \<circ> snd) l) [demo_return_event]"
    using escrow_refines_vault [OF demo_return_accounts demo_api demo_hashes_fit demo_return_poseidon
        facts(1,2) known facts(5)] unfolding opens by blast
  obtain s ev where "(?k, s, ev) \<in> set l"
    using book_run_accounts [OF run] by force
  then have "l = [(?k, (), demo_return_event)]"
    using subseq_one [OF sub] by (auto simp: Cons_eq_map_conv)
  with run have "book_run ?rule {?k} [(?k, (), demo_return_event)] {}"
    by simp
  then show ?thesis
    by (intro exI [of _ q] exI [of _ ?P] exI [of _ ?k] conjI q opens facts(5)) simp
qed

end
