(* ===== verification/Prover_Witness.thy ===== *)
theory Prover_Witness
  imports Sdk_Env "HOL-Library.Sublist"
begin

text \<open>
  What the prover crates of both programs share: the witness maps they hand to the Go prover
  (\<open>ProofInputMap\<close>, a \<open>HashMap<String, Vec<String>>\<close>), the calls into the FFI crate
  (\<open>prove\<close>, \<open>compress\<close>) and the layout argument that no entry of a witness shadows another one.
\<close>

section \<open>Witness maps\<close>

type_synonym entries = "(string \<times> string list) list"
type_synonym witness = "string \<rightharpoonup> string list"

text \<open>\<open>u8::to_string\<close>.\<close>

fun show_dec :: "nat \<Rightarrow> string" where
  "show_dec n =
     (if n < 10 then [char_of (48 + n)] else show_dec (n div 10) @ [char_of (48 + n mod 10)])"

declare show_dec.simps [simp del]

text \<open>\<open>format!("{prefix}_{suffix}")\<close> and the insertion of entries one after the other.\<close>

definition key_of :: "string \<Rightarrow> string \<Rightarrow> string" where
  "key_of pre suf = pre @ ''_'' @ suf"

definition insert_all :: "entries \<Rightarrow> witness \<Rightarrow> witness" where
  "insert_all es m = foldl (\<lambda>m (k, v). m(k \<mapsto> v)) m es"

section \<open>The FFI crate\<close>

record compressed_proof =
  cpr_a :: bytes
  cpr_b :: bytes
  cpr_c :: bytes
  cpr_commitment :: "(bytes \<times> bytes) option"

datatype prover_error = MissingCommitment | OtherProverError

text \<open>
  \<open>decimal\<close> prints a field element, \<open>utxo_proof_inputs\<close> lists the entries of a UTXO under a prefix,
  \<open>prove\<close> runs the circuit of a name on a witness, \<open>compress\<close> compresses the proof of type \<open>'f\<close>.
\<close>

record ('i, 'f) prover_env =
  decimal :: "bytes \<Rightarrow> string"
  utxo_proof_inputs :: "'i \<Rightarrow> string \<Rightarrow> entries"
  ffi_prove :: "string \<Rightarrow> witness \<Rightarrow> 'f option"
  ffi_compress :: "'f \<Rightarrow> compressed_proof option"

definition scalar_entries :: "('i, 'f) prover_env \<Rightarrow> (string \<times> bytes) list \<Rightarrow> entries" where
  "scalar_entries P scalars = map (\<lambda>(key, value). (key, [decimal P value])) scalars"

text \<open>\<open>PROVER.prove(circuit, &witness)?.compress()?\<close>.\<close>

definition run_prover ::
  "('i, 'f) prover_env \<Rightarrow> string \<Rightarrow> witness \<Rightarrow> prover_error + compressed_proof" where
  "run_prover P name w =
     bindR (ok_or OtherProverError (ffi_prove P name w)) (\<lambda>proof.
     ok_or OtherProverError (ffi_compress P proof))"

text \<open>The documented behaviour of \<open>utxo_proof_inputs\<close>: each entry of a UTXO has a key of its own, the
  prefix followed by an underscore and the name of a field.\<close>

definition under :: "string \<Rightarrow> entries \<Rightarrow> bool" where
  "under pre es \<longleftrightarrow> distinct (map fst es) \<and> (\<forall>e \<in> set es. prefix (pre @ ''_'') (fst e))"

definition utxo_keys_law :: "('i, 'f) prover_env \<Rightarrow> bool" where
  "utxo_keys_law P \<longleftrightarrow> (\<forall>u pre. under pre (utxo_proof_inputs P u pre))"

section \<open>Layout\<close>

text \<open>Two prefixes are apart when no key can begin with both.\<close>

definition apart :: "string \<Rightarrow> string \<Rightarrow> bool" where
  "apart p q \<longleftrightarrow> \<not> prefix (p @ ''_'') (q @ ''_'') \<and> \<not> prefix (q @ ''_'') (p @ ''_'')"

definition layout :: "entries \<Rightarrow> (string \<times> entries) list \<Rightarrow> bool" where
  "layout scalars groups \<longleftrightarrow>
     distinct (map fst scalars) \<and> (\<forall>g \<in> set groups. under (fst g) (snd g)) \<and>
     sorted_wrt (\<lambda>g h. apart (fst g) (fst h)) groups \<and>
     (\<forall>e \<in> set scalars. \<forall>g \<in> set groups. \<not> prefix (fst g @ ''_'') (fst e))"

text \<open>A witness carries entries when it has exactly their keys, each with its own value.\<close>

definition carries :: "witness \<Rightarrow> entries \<Rightarrow> bool" where
  "carries w es \<longleftrightarrow> dom w = fst ` set es \<and> (\<forall>e \<in> set es. w (fst e) = Some (snd e))"

lemma insert_all_eq: "insert_all es m = m ++ map_of (rev es)"
proof (induction es arbitrary: m)
  case Nil
  then show ?case by (simp add: insert_all_def)
next
  case (Cons e es)
  then show ?case
    by (cases e) (auto simp: insert_all_def map_add_def fun_eq_iff split: option.splits)
qed

lemma insert_all_append: "insert_all (es @ fs) m = insert_all fs (insert_all es m)"
  by (simp add: insert_all_def)

lemma insert_all_carries:
  assumes "distinct (map fst es)"
  shows "carries (insert_all es Map.empty) es"
proof -
  have w: "insert_all es Map.empty = map_of (rev es)"
    by (simp add: insert_all_eq)
  have "map_of (rev es) (fst e) = Some (snd e)" if "e \<in> set es" for e
    using that assms by (intro map_of_is_SomeI) (simp_all add: rev_map [symmetric])
  then show ?thesis
    by (simp add: carries_def w dom_map_of_conv_image_fst)
qed

lemma apart_under:
  assumes "apart p q" "under p es" "under q fs"
  shows "fst ` set es \<inter> fst ` set fs = {}"
proof -
  have False if "e \<in> set es" "f \<in> set fs" "fst e = fst f" for e f
  proof -
    have "prefix (p @ ''_'') (fst e)" "prefix (q @ ''_'') (fst e)"
      using assms(2,3) that by (auto simp: under_def)
    then show False
      using assms(1) prefix_same_cases unfolding apart_def by blast
  qed
  then show ?thesis by blast
qed

lemma groups_distinct:
  "\<forall>g \<in> set groups. under (fst g) (snd g) \<Longrightarrow>
   sorted_wrt (\<lambda>g h. apart (fst g) (fst h)) groups \<Longrightarrow>
   distinct (map fst (concat (map snd groups)))"
proof (induction groups)
  case Nil
  then show ?case by simp
next
  case (Cons g groups)
  have "fst ` set (snd g) \<inter> fst ` set (snd h) = {}" if "h \<in> set groups" for h
    using that Cons.prems by (intro apart_under [of "fst g" "fst h"]) auto
  then have "fst ` set (snd g) \<inter> (\<Union>h \<in> set groups. fst ` set (snd h)) = {}"
    by blast
  then have "fst ` set (snd g) \<inter> fst ` set (concat (map snd groups)) = {}"
    by (simp add: image_UN)
  moreover have "distinct (map fst (concat (map snd groups)))" "distinct (map fst (snd g))"
    using Cons.IH Cons.prems by (simp_all add: under_def)
  ultimately show ?case
    by simp
qed

lemma layout_distinct:
  assumes "layout scalars groups"
  shows "distinct (map fst (scalars @ concat (map snd groups)))"
proof -
  have "fst ` set scalars \<inter> fst ` set (concat (map snd groups)) = {}"
    using assms unfolding layout_def under_def by fastforce
  then show ?thesis
    using assms groups_distinct [of groups] unfolding layout_def by simp
qed

text \<open>The witness of a well laid out set of entries shadows nothing.\<close>

lemma layout_carries:
  assumes "layout scalars groups"
  shows "carries (insert_all (concat (map snd groups)) (insert_all scalars Map.empty))
     (scalars @ concat (map snd groups))"
  using insert_all_carries [OF layout_distinct [OF assms]] by (simp add: insert_all_append)

lemma map_fst_scalar_entries [simp]: "map fst (scalar_entries P ss) = map fst ss"
  by (simp add: scalar_entries_def comp_def case_prod_beta)

lemma set_scalar_entries [simp]:
  "set (scalar_entries P ss) = (\<lambda>(k, v). (k, [decimal P v])) ` set ss"
  by (simp add: scalar_entries_def)

end
