(* ===== verification/Swap_Prover.thy ===== *)
theory Swap_Prover
  imports Prover_Witness Swap_Proof_Inputs Swap_Make
begin

text \<open>
  The prover crate of the swap program (\<open>swap-program/prover/src/\<close>): the circuits, the witness map
  of each kind of proof inputs, the conversions from the prover's proof to the four proofs of the
  program crate, and the prover client of the SDK (\<open>swap-program/sdk/src/prover.rs\<close>).
\<close>

section \<open>Circuits (lib.rs)\<close>

datatype circuit_id = Circuit_Make | Circuit_Cancel | Circuit_Take | Circuit_TakeVerifiableEncryption

definition circuit_all :: "circuit_id list" where
  "circuit_all = [Circuit_Make, Circuit_Cancel, Circuit_Take, Circuit_TakeVerifiableEncryption]"

fun circuit_name :: "circuit_id \<Rightarrow> string" where
  "circuit_name Circuit_Make = ''make''"
| "circuit_name Circuit_Cancel = ''cancel''"
| "circuit_name Circuit_Take = ''take''"
| "circuit_name Circuit_TakeVerifiableEncryption = ''take_verifiable_encryption''"

section \<open>Proofs (proof.rs)\<close>

record order_proof =
  op_proof_a :: bytes
  op_proof_b :: bytes
  op_proof_c :: bytes
  op_commitment :: "(bytes \<times> bytes) option"

definition order_proof_of :: "compressed_proof \<Rightarrow> order_proof" where
  "order_proof_of p =
     \<lparr>op_proof_a = cpr_a p, op_proof_b = cpr_b p, op_proof_c = cpr_c p,
      op_commitment = cpr_commitment p\<rparr>"

definition make_proof_of_order :: "order_proof \<Rightarrow> make_proof" where
  "make_proof_of_order p =
     \<lparr>make_proof_a = op_proof_a p, make_proof_b = op_proof_b p, make_proof_c = op_proof_c p\<rparr>"

definition take_proof_of_order :: "order_proof \<Rightarrow> take_proof" where
  "take_proof_of_order p =
     \<lparr>take_proof_a = op_proof_a p, take_proof_b = op_proof_b p, take_proof_c = op_proof_c p\<rparr>"

definition cancel_proof_of_order :: "order_proof \<Rightarrow> cancel_proof" where
  "cancel_proof_of_order p =
     \<lparr>cancel_proof_a = op_proof_a p, cancel_proof_b = op_proof_b p, cancel_proof_c = op_proof_c p\<rparr>"

definition take_ve_proof_of_order :: "order_proof \<Rightarrow> prover_error + take_ve_proof" where
  "take_ve_proof_of_order p =
     bindR (ok_or MissingCommitment (op_commitment p)) (\<lambda>(commitment, commitment_pok).
     Inr \<lparr>take_ve_proof_a = op_proof_a p, take_ve_proof_b = op_proof_b p,
          take_ve_proof_c = op_proof_c p, take_ve_proof_commitment = commitment,
          take_ve_proof_commitment_pok = commitment_pok\<rparr>)"

section \<open>Witnesses\<close>

definition order_scalars :: "order_terms_proof_input \<Rightarrow> (string \<times> bytes) list" where
  "order_scalars t =
     [(''DestinationAsset'', op_destination_asset t),
      (''DestinationAmount'', swap_u64_right_align (op_destination_amount t)),
      (''MakerOwnerHash'', op_maker_owner_hash t),
      (''Expiry'', swap_u64_right_align (op_expiry t)),
      (''TakerPkFe'', op_taker_pk_fe t),
      (''TakeMode'', swap_u64_right_align (op_take_mode t))]"

definition order_witness_entries ::
  "('i, 'f) prover_env \<Rightarrow> order_terms_proof_input \<Rightarrow> string \<Rightarrow> entries" where
  "order_witness_entries P t pre =
     map (\<lambda>(suffix, value). (key_of pre suffix, [decimal P value])) (order_scalars t) @
     [(key_of pre ''MakerViewingPk'', map (\<lambda>b. show_dec (unat b)) (op_maker_viewing_pk t))]"

definition make_scalars :: "'i make_proof_inputs \<Rightarrow> (string \<times> bytes) list" where
  "make_scalars q =
     [(''PrivateTxHash'', mpi_private_tx_hash q),
      (''SourceInputHash'', mpi_source_input_hash q),
      (''PrivateTxBlinding'', mpi_private_tx_blinding q)]"

definition make_witness :: "('i, 'f) prover_env \<Rightarrow> 'i make_proof_inputs \<Rightarrow> witness" where
  "make_witness P q =
     insert_all
       (order_witness_entries P (mpi_order q) ''Order'' @
        utxo_proof_inputs P (mpi_order_utxo q) ''OrderUtxo'' @
        utxo_proof_inputs P (mpi_change q) ''Change'')
       (insert_all (scalar_entries P (make_scalars q)) Map.empty)"

definition cancel_scalars :: "'i cancel_proof_inputs \<Rightarrow> (string \<times> bytes) list" where
  "cancel_scalars q =
     [(''Public_PublicInputHash'', cpi_public_input_hash q),
      (''Public_PrivateTxHash'', cpi_private_tx_hash q),
      (''MakerOwnerPkField'', cpi_maker_owner_pk_field q),
      (''MakerNullifierPk'', cpi_maker_nullifier_pk q),
      (''PrivateTxBlinding'', cpi_private_tx_blinding q)]"

definition cancel_witness :: "('i, 'f) prover_env \<Rightarrow> 'i cancel_proof_inputs \<Rightarrow> witness" where
  "cancel_witness P q =
     insert_all
       (order_witness_entries P (cpi_order q) ''Order'' @
        utxo_proof_inputs P (cpi_order_utxo q) ''OrderUtxo'' @
        utxo_proof_inputs P (cpi_source_output q) ''SourceOutput'')
       (insert_all (scalar_entries P (cancel_scalars q)) Map.empty)"

definition take_scalars :: "'i take_proof_inputs \<Rightarrow> (string \<times> bytes) list" where
  "take_scalars q =
     [(''Public_PublicInputHash'', tpi_public_input_hash q),
      (''Public_PrivateTxHash'', tpi_private_tx_hash q),
      (''Public_FirstNullifier'', tpi_first_nullifier q),
      (''Core_PrivateTxBlinding'', tpi_private_tx_blinding q)]"

definition take_witness :: "('i, 'f) prover_env \<Rightarrow> 'i take_proof_inputs \<Rightarrow> witness" where
  "take_witness P q =
     insert_all
       (order_witness_entries P (tpi_order q) ''Core_Order'' @
        utxo_proof_inputs P (tpi_order_utxo q) ''Core_OrderUtxo'' @
        utxo_proof_inputs P (tpi_taker_in q) ''Core_TakerIn'' @
        utxo_proof_inputs P (tpi_source_output q) ''Core_SourceOutput'' @
        utxo_proof_inputs P (tpi_destination_output q) ''Core_DestinationOutput'')
       (insert_all (scalar_entries P (take_scalars q)) Map.empty)"

definition take_ve_scalars :: "'i take_ve_proof_inputs \<Rightarrow> (string \<times> bytes) list" where
  "take_ve_scalars q =
     [(''Public_PublicInputHash'', vpi_public_input_hash q),
      (''Public_PrivateTxHash'', vpi_private_tx_hash q),
      (''Core_PrivateTxBlinding'', vpi_private_tx_blinding q),
      (''TakerNullifierPk'', vpi_taker_nullifier_pk q)]"

definition take_ve_witness :: "('i, 'f) prover_env \<Rightarrow> 'i take_ve_proof_inputs \<Rightarrow> witness" where
  "take_ve_witness P q =
     insert_all
       (order_witness_entries P (vpi_order q) ''Core_Order'' @
        utxo_proof_inputs P (vpi_order_utxo q) ''Core_OrderUtxo'' @
        utxo_proof_inputs P (vpi_taker_in q) ''Core_TakerIn'' @
        utxo_proof_inputs P (vpi_source_output q) ''Core_SourceOutput'' @
        utxo_proof_inputs P (vpi_destination_output q) ''Core_DestinationOutput'')
       (insert_all (scalar_entries P (take_ve_scalars q)) Map.empty)"

section \<open>Proving\<close>

definition make_prove :: "('i, 'f) prover_env \<Rightarrow> 'i make_proof_inputs \<Rightarrow> prover_error + order_proof" where
  "make_prove P q =
     bindR (run_prover P (circuit_name Circuit_Make) (make_witness P q)) (\<lambda>p. Inr (order_proof_of p))"

definition cancel_prove :: "('i, 'f) prover_env \<Rightarrow> 'i cancel_proof_inputs \<Rightarrow> prover_error + order_proof" where
  "cancel_prove P q =
     bindR (run_prover P (circuit_name Circuit_Cancel) (cancel_witness P q)) (\<lambda>p. Inr (order_proof_of p))"

definition take_prove :: "('i, 'f) prover_env \<Rightarrow> 'i take_proof_inputs \<Rightarrow> prover_error + order_proof" where
  "take_prove P q =
     bindR (run_prover P (circuit_name Circuit_Take) (take_witness P q)) (\<lambda>p. Inr (order_proof_of p))"

definition take_ve_prove :: "('i, 'f) prover_env \<Rightarrow> 'i take_ve_proof_inputs \<Rightarrow> prover_error + order_proof" where
  "take_ve_prove P q =
     bindR (run_prover P (circuit_name Circuit_TakeVerifiableEncryption) (take_ve_witness P q))
       (\<lambda>p. Inr (order_proof_of p))"

text \<open>\<open>SwapProverClient\<close> wraps the error.\<close>

definition client_prove_make :: "('i, 'f) prover_env \<Rightarrow> 'i make_proof_inputs \<Rightarrow> sdk_error + order_proof" where
  "client_prove_make P q = map_errR (\<lambda>_. External) (make_prove P q)"

definition client_prove_take :: "('i, 'f) prover_env \<Rightarrow> 'i take_proof_inputs \<Rightarrow> sdk_error + order_proof" where
  "client_prove_take P q = map_errR (\<lambda>_. External) (take_prove P q)"

definition client_prove_cancel :: "('i, 'f) prover_env \<Rightarrow> 'i cancel_proof_inputs \<Rightarrow> sdk_error + order_proof" where
  "client_prove_cancel P q = map_errR (\<lambda>_. External) (cancel_prove P q)"

definition client_prove_take_ve :: "('i, 'f) prover_env \<Rightarrow> 'i take_ve_proof_inputs \<Rightarrow> sdk_error + order_proof" where
  "client_prove_take_ve P q = map_errR (\<lambda>_. External) (take_ve_prove P q)"

section \<open>Facts\<close>

lemma order_entries_under: "under pre (order_witness_entries P t pre)"
  by (simp add: under_def order_witness_entries_def order_scalars_def key_of_def prefix_def)

lemma order_witness_keys:
  "map fst (order_witness_entries P t pre) =
     map (key_of pre) [''DestinationAsset'', ''DestinationAmount'', ''MakerOwnerHash'', ''Expiry'',
       ''TakerPkFe'', ''TakeMode'', ''MakerViewingPk'']"
  by (simp add: order_witness_entries_def order_scalars_def)

text \<open>The layouts of the four witnesses.\<close>

lemma make_layout:
  "utxo_keys_law P \<Longrightarrow> layout (scalar_entries P (make_scalars q))
     [(''Order'', order_witness_entries P (mpi_order q) ''Order''),
      (''OrderUtxo'', utxo_proof_inputs P (mpi_order_utxo q) ''OrderUtxo''),
      (''Change'', utxo_proof_inputs P (mpi_change q) ''Change'')]"
  by (simp add: layout_def order_entries_under utxo_keys_law_def apart_def make_scalars_def)

lemma cancel_layout:
  "utxo_keys_law P \<Longrightarrow> layout (scalar_entries P (cancel_scalars q))
     [(''Order'', order_witness_entries P (cpi_order q) ''Order''),
      (''OrderUtxo'', utxo_proof_inputs P (cpi_order_utxo q) ''OrderUtxo''),
      (''SourceOutput'', utxo_proof_inputs P (cpi_source_output q) ''SourceOutput'')]"
  by (simp add: layout_def order_entries_under utxo_keys_law_def apart_def cancel_scalars_def)

lemma take_layout:
  "utxo_keys_law P \<Longrightarrow> layout (scalar_entries P (take_scalars q))
     [(''Core_Order'', order_witness_entries P (tpi_order q) ''Core_Order''),
      (''Core_OrderUtxo'', utxo_proof_inputs P (tpi_order_utxo q) ''Core_OrderUtxo''),
      (''Core_TakerIn'', utxo_proof_inputs P (tpi_taker_in q) ''Core_TakerIn''),
      (''Core_SourceOutput'', utxo_proof_inputs P (tpi_source_output q) ''Core_SourceOutput''),
      (''Core_DestinationOutput'', utxo_proof_inputs P (tpi_destination_output q) ''Core_DestinationOutput'')]"
  by (simp add: layout_def order_entries_under utxo_keys_law_def apart_def take_scalars_def)

lemma take_ve_layout:
  "utxo_keys_law P \<Longrightarrow> layout (scalar_entries P (take_ve_scalars q))
     [(''Core_Order'', order_witness_entries P (vpi_order q) ''Core_Order''),
      (''Core_OrderUtxo'', utxo_proof_inputs P (vpi_order_utxo q) ''Core_OrderUtxo''),
      (''Core_TakerIn'', utxo_proof_inputs P (vpi_taker_in q) ''Core_TakerIn''),
      (''Core_SourceOutput'', utxo_proof_inputs P (vpi_source_output q) ''Core_SourceOutput''),
      (''Core_DestinationOutput'', utxo_proof_inputs P (vpi_destination_output q) ''Core_DestinationOutput'')]"
  by (simp add: layout_def order_entries_under utxo_keys_law_def apart_def take_ve_scalars_def)

end
