(* ===== verification/Escrow_Prover.thy ===== *)
theory Escrow_Prover
  imports Prover_Witness Escrow_Proof_Inputs Escrow_Create
begin

text \<open>
  The prover crate of the timelock escrow program (\<open>escrow-program/prover/src/\<close>): the circuits, the
  witness maps, the conversions of the proof, and the prover client of the SDK
  (\<open>escrow-program/sdk/src/prover.rs\<close>).
\<close>

section \<open>Circuits (lib.rs)\<close>

datatype timelock_circuit = Circuit_Escrow | Circuit_Withdraw

definition timelock_circuit_all :: "timelock_circuit list" where
  "timelock_circuit_all = [Circuit_Escrow, Circuit_Withdraw]"

fun timelock_circuit_name :: "timelock_circuit \<Rightarrow> string" where
  "timelock_circuit_name Circuit_Escrow = ''escrow''"
| "timelock_circuit_name Circuit_Withdraw = ''withdraw''"

section \<open>Proofs (proof.rs)\<close>

record timelock_proof =
  tl_proof_a :: bytes
  tl_proof_b :: bytes
  tl_proof_c :: bytes

text \<open>A commitment in the compressed proof is dropped.\<close>

definition timelock_proof_of :: "compressed_proof \<Rightarrow> timelock_proof" where
  "timelock_proof_of p = \<lparr>tl_proof_a = cpr_a p, tl_proof_b = cpr_b p, tl_proof_c = cpr_c p\<rparr>"

definition escrow_proof_of_timelock :: "timelock_proof \<Rightarrow> escrow_proof" where
  "escrow_proof_of_timelock p =
     \<lparr>escrow_proof_a = tl_proof_a p, escrow_proof_b = tl_proof_b p, escrow_proof_c = tl_proof_c p\<rparr>"

definition withdraw_proof_of_timelock :: "timelock_proof \<Rightarrow> withdraw_proof" where
  "withdraw_proof_of_timelock p =
     \<lparr>withdraw_proof_a = tl_proof_a p, withdraw_proof_b = tl_proof_b p, withdraw_proof_c = tl_proof_c p\<rparr>"

section \<open>Witnesses\<close>

definition escrow_term_scalars :: "escrow_terms_proof_input \<Rightarrow> (string \<times> bytes) list" where
  "escrow_term_scalars t =
     [(''OwnerHash'', ep_owner_hash t), (''Unlock'', escrow_u64_right_align (ep_unlock t))]"

definition escrow_witness_entries ::
  "('i, 'f) prover_env \<Rightarrow> escrow_terms_proof_input \<Rightarrow> string \<Rightarrow> entries" where
  "escrow_witness_entries P t pre =
     map (\<lambda>(suffix, value). (key_of pre suffix, [decimal P value])) (escrow_term_scalars t)"

definition escrow_scalars :: "'i escrow_proof_inputs \<Rightarrow> (string \<times> bytes) list" where
  "escrow_scalars q =
     [(''PrivateTxHash'', epi_private_tx_hash q),
      (''SourceInputHash'', epi_source_input_hash q),
      (''PrivateTxBlinding'', epi_private_tx_blinding q)]"

definition escrow_witness :: "('i, 'f) prover_env \<Rightarrow> 'i escrow_proof_inputs \<Rightarrow> witness" where
  "escrow_witness P q =
     insert_all
       (escrow_witness_entries P (epi_terms q) ''Terms'' @
        utxo_proof_inputs P (epi_escrow_utxo q) ''EscrowUtxo'' @
        utxo_proof_inputs P (epi_change q) ''Change'')
       (insert_all (scalar_entries P (escrow_scalars q)) Map.empty)"

definition withdraw_scalars :: "'i withdraw_proof_inputs \<Rightarrow> (string \<times> bytes) list" where
  "withdraw_scalars q =
     [(''Public_PublicInputHash'', wpi_public_input_hash q),
      (''Public_PrivateTxHash'', wpi_private_tx_hash q),
      (''OwnerPkField'', wpi_owner_pk_field q),
      (''NullifierPk'', wpi_nullifier_pk q),
      (''PrivateTxBlinding'', wpi_private_tx_blinding q)]"

definition withdraw_witness :: "('i, 'f) prover_env \<Rightarrow> 'i withdraw_proof_inputs \<Rightarrow> witness" where
  "withdraw_witness P q =
     insert_all
       (escrow_witness_entries P (wpi_terms q) ''Terms'' @
        utxo_proof_inputs P (wpi_escrow_utxo q) ''EscrowUtxo'' @
        utxo_proof_inputs P (wpi_source_output q) ''SourceOutput'')
       (insert_all (scalar_entries P (withdraw_scalars q)) Map.empty)"

section \<open>Proving\<close>

definition escrow_prove ::
  "('i, 'f) prover_env \<Rightarrow> 'i escrow_proof_inputs \<Rightarrow> prover_error + timelock_proof" where
  "escrow_prove P q =
     bindR (run_prover P (timelock_circuit_name Circuit_Escrow) (escrow_witness P q))
       (\<lambda>p. Inr (timelock_proof_of p))"

definition withdraw_prove ::
  "('i, 'f) prover_env \<Rightarrow> 'i withdraw_proof_inputs \<Rightarrow> prover_error + timelock_proof" where
  "withdraw_prove P q =
     bindR (run_prover P (timelock_circuit_name Circuit_Withdraw) (withdraw_witness P q))
       (\<lambda>p. Inr (timelock_proof_of p))"

text \<open>\<open>EscrowProverClient\<close> wraps the error.\<close>

definition client_prove_escrow ::
  "('i, 'f) prover_env \<Rightarrow> 'i escrow_proof_inputs \<Rightarrow> sdk_error + timelock_proof" where
  "client_prove_escrow P q = map_errR (\<lambda>_. External) (escrow_prove P q)"

definition client_prove_withdraw ::
  "('i, 'f) prover_env \<Rightarrow> 'i withdraw_proof_inputs \<Rightarrow> sdk_error + timelock_proof" where
  "client_prove_withdraw P q = map_errR (\<lambda>_. External) (withdraw_prove P q)"

section \<open>Facts\<close>

lemma escrow_entries_under: "under pre (escrow_witness_entries P t pre)"
  by (simp add: under_def escrow_witness_entries_def escrow_term_scalars_def key_of_def prefix_def)

lemma escrow_layout:
  "utxo_keys_law P \<Longrightarrow> layout (scalar_entries P (escrow_scalars q))
     [(''Terms'', escrow_witness_entries P (epi_terms q) ''Terms''),
      (''EscrowUtxo'', utxo_proof_inputs P (epi_escrow_utxo q) ''EscrowUtxo''),
      (''Change'', utxo_proof_inputs P (epi_change q) ''Change'')]"
  by (simp add: layout_def escrow_entries_under utxo_keys_law_def apart_def escrow_scalars_def)

lemma withdraw_layout:
  "utxo_keys_law P \<Longrightarrow> layout (scalar_entries P (withdraw_scalars q))
     [(''Terms'', escrow_witness_entries P (wpi_terms q) ''Terms''),
      (''EscrowUtxo'', utxo_proof_inputs P (wpi_escrow_utxo q) ''EscrowUtxo''),
      (''SourceOutput'', utxo_proof_inputs P (wpi_source_output q) ''SourceOutput'')]"
  by (simp add: layout_def escrow_entries_under utxo_keys_law_def apart_def withdraw_scalars_def)

end
