(* ===== verification/Prover_Properties.thy ===== *)
theory Prover_Properties
  imports Swap_Prover Escrow_Prover Settlement_Properties
begin

text \<open>
  Properties of the prover crates: no witness map loses or shadows an input, the proofs they return
  have the shape that the program's verifying keys need, and a proof that the prover returns for
  the SDK's inputs lets the settlement land.
\<close>

section \<open>Witness maps\<close>

text \<open>The four witness maps of the swap prover have exactly the fields of their circuit: every scalar,
  every order term and every UTXO entry is there under its own key with its own value, and
  nothing else is.\<close>

theorem swap_witnesses_carry:
  assumes "utxo_keys_law P"
  shows "carries (make_witness P m)
      (scalar_entries P (make_scalars m) @ order_witness_entries P (mpi_order m) ''Order'' @
       utxo_proof_inputs P (mpi_order_utxo m) ''OrderUtxo'' @ utxo_proof_inputs P (mpi_change m) ''Change'') \<and>
    carries (cancel_witness P c)
      (scalar_entries P (cancel_scalars c) @ order_witness_entries P (cpi_order c) ''Order'' @
       utxo_proof_inputs P (cpi_order_utxo c) ''OrderUtxo'' @
       utxo_proof_inputs P (cpi_source_output c) ''SourceOutput'') \<and>
    carries (take_witness P t)
      (scalar_entries P (take_scalars t) @ order_witness_entries P (tpi_order t) ''Core_Order'' @
       utxo_proof_inputs P (tpi_order_utxo t) ''Core_OrderUtxo'' @
       utxo_proof_inputs P (tpi_taker_in t) ''Core_TakerIn'' @
       utxo_proof_inputs P (tpi_source_output t) ''Core_SourceOutput'' @
       utxo_proof_inputs P (tpi_destination_output t) ''Core_DestinationOutput'') \<and>
    carries (take_ve_witness P v)
      (scalar_entries P (take_ve_scalars v) @ order_witness_entries P (vpi_order v) ''Core_Order'' @
       utxo_proof_inputs P (vpi_order_utxo v) ''Core_OrderUtxo'' @
       utxo_proof_inputs P (vpi_taker_in v) ''Core_TakerIn'' @
       utxo_proof_inputs P (vpi_source_output v) ''Core_SourceOutput'' @
       utxo_proof_inputs P (vpi_destination_output v) ''Core_DestinationOutput'')"
  using layout_carries [OF make_layout [OF assms, of m]] layout_carries [OF cancel_layout [OF assms, of c]]
    layout_carries [OF take_layout [OF assms, of t]] layout_carries [OF take_ve_layout [OF assms, of v]]
  by (simp add: make_witness_def cancel_witness_def take_witness_def take_ve_witness_def)

text \<open>A prover whose field elements print as their bytes and whose UTXOs have one field.\<close>

definition demo_prover :: "(bytes \<times> bytes) option \<Rightarrow> (demo_input, unit) prover_env" where
  "demo_prover commitment =
     \<lparr>decimal = map (\<lambda>b. char_of (unat b)), utxo_proof_inputs = (\<lambda>u pre. [(key_of pre ''Blinding'', [map (\<lambda>b. char_of (unat b)) (out_blinding (fst u))])]),
      ffi_prove = (\<lambda>name w. Some ()),
      ffi_compress = (\<lambda>f. Some \<lparr>cpr_a = replicate 32 0, cpr_b = replicate 64 0, cpr_c = replicate 32 0,
         cpr_commitment = commitment\<rparr>)\<rparr>"

lemma demo_prover_keys: "utxo_keys_law (demo_prover c)"
  by (simp add: utxo_keys_law_def under_def demo_prover_def key_of_def prefix_def)

definition demo_note :: "byte \<Rightarrow> demo_input" where
  "demo_note b = (demo_out (demo_address b) (replicate 32 7, 2) 400 (replicate 32 b), 0)"

definition demo_make_inputs :: "demo_input make_proof_inputs" where
  "demo_make_inputs = \<lparr>mpi_private_tx_hash = replicate 32 1,
     mpi_order = \<lparr>op_destination_asset = replicate 32 2, op_destination_amount = 7,
       op_maker_owner_hash = replicate 32 3, op_maker_viewing_pk = replicate 33 4, op_expiry = 9,
       op_taker_pk_fe = replicate 32 5, op_take_mode = 0\<rparr>,
     mpi_order_utxo = demo_note 1, mpi_change = demo_note 2, mpi_source_input_hash = replicate 32 6,
     mpi_private_tx_blinding = replicate 32 8\<rparr>"

theorem swap_witnesses_carry_witness:
  "carries (make_witness (demo_prover None) demo_make_inputs)
      (scalar_entries (demo_prover None) (make_scalars demo_make_inputs) @
       order_witness_entries (demo_prover None) (mpi_order demo_make_inputs) ''Order'' @
       utxo_proof_inputs (demo_prover None) (mpi_order_utxo demo_make_inputs) ''OrderUtxo'' @
       utxo_proof_inputs (demo_prover None) (mpi_change demo_make_inputs) ''Change'')"
  using swap_witnesses_carry [OF demo_prover_keys] by blast

text \<open>The two witness maps of the escrow prover have exactly the fields of their circuit, each with
  its own value.\<close>

theorem escrow_witnesses_carry:
  assumes "utxo_keys_law P"
  shows "carries (escrow_witness P e)
      (scalar_entries P (escrow_scalars e) @ escrow_witness_entries P (epi_terms e) ''Terms'' @
       utxo_proof_inputs P (epi_escrow_utxo e) ''EscrowUtxo'' @
       utxo_proof_inputs P (epi_change e) ''Change'') \<and>
    carries (withdraw_witness P d)
      (scalar_entries P (withdraw_scalars d) @ escrow_witness_entries P (wpi_terms d) ''Terms'' @
       utxo_proof_inputs P (wpi_escrow_utxo d) ''EscrowUtxo'' @
       utxo_proof_inputs P (wpi_source_output d) ''SourceOutput'')"
  using layout_carries [OF escrow_layout [OF assms, of e]] layout_carries [OF withdraw_layout [OF assms, of d]]
  by (simp add: escrow_witness_def withdraw_witness_def)

definition demo_escrow_inputs :: "demo_input escrow_proof_inputs" where
  "demo_escrow_inputs = \<lparr>epi_private_tx_hash = replicate 32 1,
     epi_terms = \<lparr>ep_owner_hash = replicate 32 2, ep_unlock = 42\<rparr>, epi_escrow_utxo = demo_note 1,
     epi_change = demo_note 2, epi_source_input_hash = replicate 32 3, epi_private_tx_blinding = replicate 32 5\<rparr>"

theorem escrow_witnesses_carry_witness:
  "carries (escrow_witness (demo_prover None) demo_escrow_inputs)
      (scalar_entries (demo_prover None) (escrow_scalars demo_escrow_inputs) @
       escrow_witness_entries (demo_prover None) (epi_terms demo_escrow_inputs) ''Terms'' @
       utxo_proof_inputs (demo_prover None) (epi_escrow_utxo demo_escrow_inputs) ''EscrowUtxo'' @
       utxo_proof_inputs (demo_prover None) (epi_change demo_escrow_inputs) ''Change'')"
  using escrow_witnesses_carry [OF demo_prover_keys] by blast

section \<open>Proofs\<close>

text \<open>The proof that the prover returns, as the verifiers take it.\<close>

definition raw_points :: "compressed_proof \<Rightarrow> compressed_groth16_proof" where
  "raw_points c = \<lparr>cp_a = cpr_a c, cp_b = cpr_b c, cp_c = cpr_c c, cp_commitment = cpr_commitment c\<rparr>"

lemma accepted_shape: "groth16_accepts E p h vk \<Longrightarrow> (cp_commitment p = None) = (vk_commitment vk = None)"
  by (cases "cp_commitment p") (auto simp: groth16_accepts_def)

text \<open>C37. The conversions keep every proof that can be used. Whatever proof of the prover is good for one of
  the six committed keys, the instruction data made of it holds the same points in the same
  places, and a commitment exactly if the key wants one, so the program accepts it for the same public
  input; and the conversion for a verifiable take fails, with \<open>MissingCommitment\<close>, exactly for proofs
  without a commitment, none of which its key accepts.\<close>

theorem converted_proofs_fit_keys:
  "(groth16_accepts E (raw_points c) h make_vk \<longrightarrow>
      make_points (make_proof_of_order (order_proof_of c)) = raw_points c) \<and>
   (groth16_accepts E (raw_points c) h take_vk \<longrightarrow>
      take_points (take_proof_of_order (order_proof_of c)) = raw_points c) \<and>
   (groth16_accepts E (raw_points c) h cancel_vk \<longrightarrow>
      cancel_points (cancel_proof_of_order (order_proof_of c)) = raw_points c) \<and>
   (groth16_accepts E (raw_points c) h escrow_vk \<longrightarrow>
      escrow_points (escrow_proof_of_timelock (timelock_proof_of c)) = raw_points c) \<and>
   (groth16_accepts E (raw_points c) h withdraw_vk \<longrightarrow>
      withdraw_points (withdraw_proof_of_timelock (timelock_proof_of c)) = raw_points c) \<and>
   (groth16_accepts E (raw_points c) h take_ve_vk \<longrightarrow>
      (\<exists>p. take_ve_proof_of_order (order_proof_of c) = Inr p \<and> take_ve_points p = raw_points c)) \<and>
   (\<forall>e. take_ve_proof_of_order (order_proof_of c) = Inl e \<longleftrightarrow>
      e = MissingCommitment \<and> cpr_commitment c = None)"
  by (cases "cpr_commitment c")
    (auto simp: raw_points_def make_points_def take_points_def cancel_points_def escrow_points_def
      withdraw_points_def take_ve_points_def make_proof_of_order_def take_proof_of_order_def
      cancel_proof_of_order_def escrow_proof_of_timelock_def withdraw_proof_of_timelock_def
      take_ve_proof_of_order_def order_proof_of_def timelock_proof_of_def
      dest!: accepted_shape [where h = h])

definition demo_ffi_proof :: "(bytes \<times> bytes) option \<Rightarrow> compressed_proof" where
  "demo_ffi_proof commitment = \<lparr>cpr_a = replicate 32 1, cpr_b = replicate 64 2, cpr_c = replicate 32 3,
     cpr_commitment = commitment\<rparr>"

theorem converted_proofs_fit_keys_witness:
  "take_points (take_proof_of_order (order_proof_of (demo_ffi_proof None))) = raw_points (demo_ffi_proof None) \<and>
   (\<exists>p. take_ve_proof_of_order (order_proof_of (demo_ffi_proof (Some ([4], [5])))) = Inr p \<and>
      take_ve_points p = raw_points (demo_ffi_proof (Some ([4], [5]))))"
proof -
  let ?E = "demo_env 0 (\<lambda>_ _. True) ([] :: unit transact_ix_data list)"
  have "groth16_accepts ?E (raw_points (demo_ffi_proof None)) [] take_vk"
    "groth16_accepts ?E (raw_points (demo_ffi_proof (Some ([4], [5])))) [] take_ve_vk"
    by (simp_all add: raw_points_def demo_ffi_proof_def)
  then show ?thesis
    using converted_proofs_fit_keys [of ?E "demo_ffi_proof None" "[]"]
      converted_proofs_fit_keys [of ?E "demo_ffi_proof (Some ([4], [5]))" "[]"] by blast
qed

section \<open>From proof inputs to a settlement\<close>

text \<open>
  Completeness of the proof system for one circuit: when the prover returns a proof for a witness,
  the verifier accepts that proof, under the circuit's key, for the public input of the witness.
\<close>

definition prover_complete ::
  "('x, 'v, 's, 'w) chain_env \<Rightarrow> ('i, 'f) prover_env \<Rightarrow> string \<Rightarrow> string \<Rightarrow> groth16_vk \<Rightarrow> bool" where
  "prover_complete E P name public vk \<longleftrightarrow>
     (\<forall>w f c h. ffi_prove P name w = Some f \<and> ffi_compress P f = Some c \<and>
        w public = Some [decimal P h] \<longrightarrow>
        groth16_accepts E \<lparr>cp_a = cpr_a c, cp_b = cpr_b c, cp_c = cpr_c c,
          cp_commitment = cpr_commitment c\<rparr> h vk)"

lemma run_prover_accepted:
  assumes "prover_complete E P name public vk" "run_prover P name w = Inr c"
    and "carries w (scalar_entries P scalars @ rest)" "(public, h) \<in> set scalars"
  shows "groth16_accepts E \<lparr>cp_a = cpr_a c, cp_b = cpr_b c, cp_c = cpr_c c,
     cp_commitment = cpr_commitment c\<rparr> h vk"
proof -
  obtain f where f: "ffi_prove P name w = Some f" "ffi_compress P f = Some c"
    using assms(2) by (auto simp: run_prover_def result_simps)
  have "(public, [decimal P h]) \<in> set (scalar_entries P scalars @ rest)"
    using assms(4) by force
  then have "w public = Some [decimal P h]"
    using assms(3) unfolding carries_def by fastforce
  with f assms(1) show ?thesis
    unfolding prover_complete_def by blast
qed

lemma take_ve_proof_points:
  "take_ve_proof_of_order p = Inr v \<Longrightarrow> take_ve_points v =
     \<lparr>cp_a = op_proof_a p, cp_b = op_proof_b p, cp_c = op_proof_c p, cp_commitment = op_commitment p\<rparr>"
  by (auto simp: take_ve_proof_of_order_def take_ve_points_def result_simps)

text \<open>C35. The whole pipeline of a verifiable-encryption take: proof inputs from the SDK, witness map,
  prover, conversion of the proof, instruction, program. When the prover returns a proof, the
  settlement lands exactly when the clock is in the window of the order and SPP accepts the
  transaction; no step between loses the proof.\<close>

theorem proved_take_ve_lands:
  assumes "account_checks_ok E" "same_hashes E S" "wincode_ok (sdk_wire S)" "transact_ok (sdk_wire S)"
    and "utxo_keys_law P"
    and "prover_complete E P (circuit_name Circuit_TakeVerifiableEncryption) ''Public_PublicInputHash'' take_ve_vk"
    and "take_ve_to_proof_inputs S Q = Inr q" "terms = ou_terms (tpp_order_utxo Q)"
    and "client_prove_take_ve P q = Inr p" "take_ve_proof_of_order p = Inr (bv_take_proof b)"
    and "take_ve_proof_wf (bv_take_proof b)" "take_ve_instruction S b = Inr ix"
    and "expiry_unix_ts (bv_spp_proof b) = ot_expiry terms"
    and "private_tx_hash (bv_spp_proof b) = vpi_private_tx_hash q"
    and "last_opt (outputs (bv_spp_proof b)) = Some o_last" "output_data o_last = Some ct"
    and "order_destination_ciphertext S (tpp_order_utxo Q) (tpp_destination_output Q) = Inr ct"
  shows "swap_process_instruction E (ix_program_id ix) (map view_of (ix_accounts ix)) (ix_data ix) w
           = Inr w' \<longleftrightarrow>
     (\<exists>now tb. clock_unix_timestamp E = Inr now \<and>
        0 \<le> sint now \<and> sint now \<le> uint (ot_expiry terms) \<and>
        transact_serialize E (bv_spp_proof b) = Some tb \<and>
        swap_signed E (map view_of (tl (ix_accounts ix))) tb w w')"
proof -
  obtain c where run: "run_prover P (circuit_name Circuit_TakeVerifiableEncryption) (take_ve_witness P q) = Inr c"
    and p: "p = order_proof_of c"
    using assms(9) by (auto simp: client_prove_take_ve_def take_ve_prove_def result_simps)
  have "groth16_accepts E \<lparr>cp_a = cpr_a c, cp_b = cpr_b c, cp_c = cpr_c c,
      cp_commitment = cpr_commitment c\<rparr> (vpi_public_input_hash q) take_ve_vk"
    by (rule run_prover_accepted [OF assms(6) run, where scalars = "take_ve_scalars q"])
      (use layout_carries [OF take_ve_layout [OF assms(5), of q]] in
        \<open>simp_all add: take_ve_witness_def take_ve_scalars_def\<close>)
  then have acc: "groth16_accepts E (take_ve_points (bv_take_proof b)) (vpi_public_input_hash q) take_ve_vk"
    using take_ve_proof_points [OF assms(10)] p by (simp add: order_proof_of_def)
  obtain cth where "length ct = 72" "sdk_ciphertext_hash S ct = Some cth"
    "sdk_hashv S [vpi_private_tx_hash q, swap_u64_right_align (ot_expiry terms), cth]
       = Some (vpi_public_input_hash q)"
    by (rule take_ve_to_proof_inputs_hash [OF assms(7,17)]) (use assms(8) in simp)
  then show ?thesis
    using take_ve_instruction_lands [where E = E and S = S and w = w and w' = w', OF assms(1) _ assms(3,4,11,12) refl]
      assms(2,13-16) acc
    by (auto simp: same_hashes_def)
qed

text \<open>The runs of the witnesses, on a proof system that accepts.\<close>

abbreviation demo_any :: "i64 \<Rightarrow> unit transact_ix_data \<Rightarrow> (unit, bool, account_view list, bytes list) chain_env" where
  "demo_any now t \<equiv> demo_env now (\<lambda>_ _. True) [t]"

lemma demo_prover_complete:
  "(commitment = None) = (vk_commitment vk = None) \<Longrightarrow>
   prover_complete (demo_any now t) (demo_prover commitment) name public vk"
  by (simp add: prover_complete_def demo_prover_def)

theorem proved_take_ve_lands_witness:
  "\<exists>q p t ix. take_ve_to_proof_inputs (demo_with t) demo_ve_inputs = Inr q \<and>
     client_prove_take_ve (demo_prover (Some (replicate 32 0, replicate 32 0))) q = Inr p \<and>
     take_ve_proof_of_order p = Inr (bv_take_proof (demo_ve_params t)) \<and>
     take_ve_instruction (demo_with t) (demo_ve_params t) = Inr ix \<and>
     swap_process_instruction (demo_any 1700000000 t)
       (ix_program_id ix) (map view_of (ix_accounts ix)) (ix_data ix) [] = Inr ([] @ [[0]])"
proof -
  let ?P = "demo_prover (Some (replicate 32 0, replicate 32 0))"
  obtain q where q: "take_ve_to_proof_inputs demo_S demo_ve_inputs = Inr q"
    using demo_ve_proves by blast
  obtain ct where ct: "order_destination_ciphertext demo_S (demo_order 1)
      (tpp_destination_output demo_ve_inputs) = Inr ct"
    using demo_ve_ciphertext by blast
  obtain t where t: "t = demo_settlement (vpi_private_tx_hash q) [replicate 32 4] (Some ct)"
    by blast
  obtain ix where ix: "take_ve_instruction (demo_with t) (demo_ve_params t) = Inr ix"
    using demo_ve_builds by blast
  have q': "take_ve_to_proof_inputs (demo_with t) demo_ve_inputs = Inr q"
    using q demo_take_ve_tab [of "[t]"] by simp
  have o': "tpp_order_utxo demo_ve_inputs = demo_order 1"
    by (simp add: demo_ve_inputs_def)
  have ct': "order_destination_ciphertext (demo_with t) (tpp_order_utxo demo_ve_inputs)
      (tpp_destination_output demo_ve_inputs) = Inr ct"
    using ct demo_ciphertext_tab [of "[t]"] o' by simp
  have "\<exists>p. client_prove_take_ve ?P q = Inr p \<and> take_ve_proof_of_order p = Inr (bv_take_proof (demo_ve_params t))"
    by (simp add: client_prove_take_ve_def take_ve_prove_def run_prover_def demo_prover_def
        order_proof_of_def take_ve_proof_of_order_def demo_ve_params_def)
  then obtain p where p: "client_prove_take_ve ?P q = Inr p"
    "take_ve_proof_of_order p = Inr (bv_take_proof (demo_ve_params t))"
    by blast
  have complete: "prover_complete (demo_any 1700000000 t) ?P
      (circuit_name Circuit_TakeVerifiableEncryption) ''Public_PublicInputHash'' take_ve_vk"
    by (rule demo_prover_complete) (simp add: vk_commitments)
  have facts: "take_ve_proof_wf (bv_take_proof (demo_ve_params t))" "bv_spp_proof (demo_ve_params s) = s" for s
    by (simp_all add: demo_ve_params_def take_ve_proof_wf_def)
  have signed: "swap_signed (demo_any 1700000000 t) (map view_of (tl (ix_accounts ix))) [0] [] ([] @ [[0]])"
    by (rule demo_signed) (use ix in \<open>auto simp: take_ve_instruction_def result_simps Let_def\<close>)
  have "swap_process_instruction (demo_any 1700000000 t)
       (ix_program_id ix) (map view_of (ix_accounts ix)) (ix_data ix) [] = Inr ([] @ [[0]])"
    using proved_take_ve_lands [where w = "[]" and w' = "[] @ [[0]]", OF demo_account_checks
        demo_same_hashes _ _ demo_prover_keys complete q' refl p facts(1) ix _ _ _ _ ct'] signed
    by (simp add: facts(2) table_put_def t o' demo_order_def demo_terms_def)
  with ix q' p show ?thesis by blast
qed

end
