(* ===== verification/Swap_Index.thy ===== *)
theory Swap_Index
  imports Swap_Make Swap_Order
begin

text \<open>
  The indexer of the swap SDK (\<open>swap-program/sdk/src/index/\<close>): the ciphertext slots of a
  transaction, the scans by which the maker and the taker rediscover an order, the paging loop
  over the RPC and the polling loop around it. The RPC, the clock and the registry lookups read
  and change the outside world \<open>'w\<close>, which the loops thread.
\<close>

section \<open>Transactions as the indexer returns them\<close>

text \<open>\<open>OutputDataEncoding\<close> and \<open>DataRecord\<close>, with the one variant the code reads.\<close>

datatype 'e output_data_encoding = Encrypted bytes | OtherEncoding 'e

datatype 'e data_record = UtxoData bytes | OtherRecord 'e

record 'e output_slot =
  slot_output_data :: "'e output_data_encoding option"
  slot_hash :: bytes

record 'e shielded_transaction =
  st_tx_viewing_pk :: "bytes option"
  st_salt :: "bytes option"
  st_nullifiers :: "bytes list"
  st_messages :: "message_data list"
  st_output_slots :: "'e output_slot list"

record 'e confidential_plaintext =
  pl_amount :: u64
  pl_asset_id :: u64
  pl_blinding :: bytes
  pl_records :: "'e data_record list"

text \<open>
  The external functions of the scans: \<open>'k\<close> is the keypair and \<open>'t\<close> a per-transaction viewing
  key; the registry of assets is the function \<open>registry_resolve\<close>. \<open>max_instant\<close> is the last instant
  that the platform's \<open>Instant\<close> can hold.
\<close>

record ('k, 't, 'p, 'm, 'e) index_env =
  max_instant :: nat
  is_confidential :: "byte \<Rightarrow> bool option"
  sol_asset_id :: u64
  registry_resolve :: "u64 \<Rightarrow> 'm option"
  kp_signing_pubkey :: "'k \<Rightarrow> 'p"
  kp_viewing_pubkey :: "'k \<Rightarrow> bytes"
  kp_shielded_address :: "'k \<Rightarrow> 'p shielded_address option"
  transaction_viewing_key :: "'k \<Rightarrow> bytes \<Rightarrow> 't option"
  viewing_key_pubkey :: "'t \<Rightarrow> bytes"
  embedded_viewing_pk :: "bytes \<Rightarrow> bytes option"
  decrypt_with_tx_key :: "'t \<Rightarrow> bytes \<Rightarrow> bytes \<Rightarrow> u32 \<Rightarrow> 'e confidential_plaintext option"
  confidential_decode ::
    "'k \<Rightarrow> 'e shielded_transaction \<Rightarrow> u32 \<Rightarrow> bytes \<Rightarrow> 'e confidential_plaintext option"

section \<open>Slots and notes (scan.rs)\<close>

definition resolve_mint ::
  "('x, 'p, 'm, 'd, 'r, 'i) sdk_env \<Rightarrow> ('k, 't, 'p, 'm, 'e) index_env \<Rightarrow> u64 \<Rightarrow> sdk_error + 'm" where
  "resolve_mint S X asset_id =
     (if asset_id = sol_asset_id X then Inr (mint_sol S) else ext (registry_resolve X asset_id))"

text \<open>\<open>is_confidential b\<close> is \<open>EncryptedScheme::from_byte(b)\<close> followed by the comparison with
  \<open>Confidential\<close>. The index counts the slots that carry data.\<close>

fun unified_slots_from ::
  "('k, 't, 'p, 'm, 'e) index_env \<Rightarrow> u32 \<Rightarrow> 'e output_slot list \<Rightarrow> (u32 \<times> 'e output_slot \<times> bytes) list" where
  "unified_slots_from X next_index [] = []"
| "unified_slots_from X next_index (slot # slots) =
     (case slot_output_data slot of
        None \<Rightarrow> unified_slots_from X next_index slots
      | Some data \<Rightarrow>
          (case data of
             OtherEncoding _ \<Rightarrow> unified_slots_from X (next_index + 1) slots
           | Encrypted blob \<Rightarrow>
               (case blob of
                  [] \<Rightarrow> unified_slots_from X (next_index + 1) slots
                | b # body \<Rightarrow>
                    (if is_confidential X b = Some True
                     then (next_index, slot, body) # unified_slots_from X (next_index + 1) slots
                     else unified_slots_from X (next_index + 1) slots))))"

definition unified_slots ::
  "('k, 't, 'p, 'm, 'e) index_env \<Rightarrow> 'e shielded_transaction \<Rightarrow> (u32 \<times> 'e output_slot \<times> bytes) list" where
  "unified_slots X tx = unified_slots_from X 0 (st_output_slots tx)"

definition parse_order_data ::
  "('x, 'p, 'm, 'd, 'r, 'i) sdk_env \<Rightarrow> 'e data_record list \<Rightarrow> sdk_error + plain_text_data" where
  "parse_order_data S records =
     bindR (ok_or (Msg ''order plaintext carries no utxo data record'')
              (find_map (\<lambda>r. case r of UtxoData bs \<Rightarrow> Some bs | OtherRecord _ \<Rightarrow> None) records))
       (\<lambda>order_bytes. plaintext_deserialize S order_bytes)"

section \<open>The maker's scan (maker.rs)\<close>

record ('p, 'm) maker_order =
  mo_order_utxo :: "('p, 'm) order_utxo"
  mo_taker_viewing_pubkey :: bytes

definition order_of_note ::
  "'p shielded_address \<Rightarrow> bytes \<Rightarrow> 'm \<Rightarrow> u64 \<Rightarrow> bytes \<Rightarrow> plain_text_data \<Rightarrow> ('p, 'm) order_utxo" where
  "order_of_note destination blinding source_mint source_amount destination_mint order_data =
     \<lparr>ou_terms = \<lparr>ot_destination_mint = destination_mint,
                  ot_destination_amount = pt_destination_amount order_data,
                  ot_destination = destination, ot_taker = pt_taker order_data,
                  ot_expiry = pt_expiry order_data, ot_take_mode = pt_take_mode order_data\<rparr>,
      ou_blinding = blinding, ou_source_mint = source_mint, ou_source_amount = source_amount,
      ou_destination_asset_id = pt_destination_asset_id order_data\<rparr>"

definition maker_order_candidate ::
  "('x, 'p, 'm, 'd, 'r, 'i) sdk_env \<Rightarrow> ('k, 't, 'p, 'm, 'e) index_env \<Rightarrow> 'p shielded_address \<Rightarrow>
   'e confidential_plaintext \<Rightarrow> bytes \<Rightarrow> ('p, 'm) maker_order option" where
  "maker_order_candidate S X maker_address plaintext taker_viewing_pubkey =
     do {
       order_data \<leftarrow> ok_of (parse_order_data S (pl_records plaintext));
       source_mint \<leftarrow> ok_of (resolve_mint S X (pl_asset_id plaintext));
       destination_mint \<leftarrow> ok_of (resolve_mint S X (pt_destination_asset_id order_data));
       Some \<lparr>mo_order_utxo = order_of_note maker_address (pl_blinding plaintext) source_mint
               (pl_amount plaintext) (mint_asset S destination_mint) order_data,
             mo_taker_viewing_pubkey = taker_viewing_pubkey\<rparr>
     }"

text \<open>One iteration of the loop over the slots: \<open>None\<close> is \<open>continue\<close>.\<close>

definition scan_maker_slot ::
  "('x, 'p, 'm, 'd, 'r, 'i) sdk_env \<Rightarrow> ('k, 't, 'p, 'm, 'e) index_env \<Rightarrow> 't \<Rightarrow> bytes \<Rightarrow>
   'p shielded_address \<Rightarrow> u32 \<times> 'e output_slot \<times> bytes \<Rightarrow> ('p, 'm) maker_order option" where
  "scan_maker_slot S X tx_viewing_key salt maker_address =
     (\<lambda>(slot_index, slot, body). do {
        taker_viewing_pubkey \<leftarrow> embedded_viewing_pk X body;
        plaintext \<leftarrow> decrypt_with_tx_key X tx_viewing_key body salt slot_index;
        order \<leftarrow> maker_order_candidate S X maker_address plaintext taker_viewing_pubkey;
        output \<leftarrow> ok_of (order_output_utxo S (mo_order_utxo order) taker_viewing_pubkey);
        order_utxo_hash \<leftarrow> output_hash S output indexed_tree_id;
        if order_utxo_hash \<noteq> slot_hash slot then None else Some order
      })"

definition scan_maker ::
  "('x, 'p, 'm, 'd, 'r, 'i) sdk_env \<Rightarrow> ('k, 't, 'p, 'm, 'e) index_env \<Rightarrow> 'k \<Rightarrow>
   'e shielded_transaction \<Rightarrow> sdk_error + ('p, 'm) maker_order option" where
  "scan_maker S X keypair tx =
     (case (st_tx_viewing_pk tx, st_salt tx) of
        (Some tx_viewing_pk, Some salt) \<Rightarrow>
          (case find_map (\<lambda>nullifier. case transaction_viewing_key X keypair nullifier of
                    None \<Rightarrow> None
                  | Some key \<Rightarrow> if viewing_key_pubkey X key = tx_viewing_pk then Some key else None)
                (st_nullifiers tx) of
             None \<Rightarrow> Inr None
           | Some tx_viewing_key \<Rightarrow>
               bindR (ext (kp_shielded_address X keypair)) (\<lambda>maker_address.
               Inr (find_map (scan_maker_slot S X tx_viewing_key salt maker_address)
                      (unified_slots X tx))))
      | _ \<Rightarrow> Inr None)"

section \<open>The taker's scan (taker.rs)\<close>

record ('p, 'm) taker_order =
  to_order_utxo :: "('p, 'm) order_utxo"
  to_maker_pubkey :: bytes

record 'm taker_order_candidate =
  tc_source_amount :: u64
  tc_source_mint :: 'm
  tc_destination_mint :: bytes
  tc_order_utxo_blinding :: bytes
  tc_order_data :: plain_text_data
  tc_maker_pubkey :: bytes
  tc_order_utxo_hash :: bytes

definition scan_taker ::
  "('x, 'p, 'm, 'd, 'r, 'i) sdk_env \<Rightarrow> ('k, 't, 'p, 'm, 'e) index_env \<Rightarrow> 'k \<Rightarrow>
   'e shielded_transaction \<Rightarrow> sdk_error + 'm taker_order_candidate option" where
  "scan_taker S X keypair tx =
     bindR (ext (confidential_view_tag S (kp_signing_pubkey X keypair))) (\<lambda>taker_tag.
     case find (\<lambda>message. view_tag message = taker_tag) (st_messages tx) of
       None \<Rightarrow> Inr None
     | Some marker_message \<Rightarrow>
         bindR (ext (deserialize_exact (get_marker (sdk_wire S)) (message_bytes marker_message))) (\<lambda>marker.
         bindR (ok_or (Msg ''marker without a unified order ciphertext in the same transaction'')
                  (find (\<lambda>(_, slot, _). slot_hash slot = order_utxo_hash marker) (unified_slots X tx)))
           (\<lambda>(slot_index, _, body).
         bindR (ext (confidential_decode X keypair tx slot_index body)) (\<lambda>plaintext.
         bindR (parse_order_data S (pl_records plaintext)) (\<lambda>order_data.
         bindR (resolve_mint S X (pl_asset_id plaintext)) (\<lambda>source_mint.
         bindR (resolve_mint S X (pt_destination_asset_id order_data)) (\<lambda>destination_mint.
         Inr (Some \<lparr>tc_source_amount = pl_amount plaintext, tc_source_mint = source_mint,
                    tc_destination_mint = mint_asset S destination_mint,
                    tc_order_utxo_blinding = pl_blinding plaintext, tc_order_data = order_data,
                    tc_maker_pubkey = maker_pubkey marker,
                    tc_order_utxo_hash = order_utxo_hash marker\<rparr>))))))))"

definition into_order ::
  "('x, 'p, 'm, 'd, 'r, 'i) sdk_env \<Rightarrow> 'm taker_order_candidate \<Rightarrow> 'p shielded_address \<Rightarrow> bytes \<Rightarrow>
   sdk_error + ('p, 'm) taker_order" where
  "into_order S c destination taker_viewing_pubkey =
     (let order_utxo = order_of_note destination (tc_order_utxo_blinding c) (tc_source_mint c)
            (tc_source_amount c) (tc_destination_mint c) (tc_order_data c) in
      bindR (order_output_utxo S order_utxo taker_viewing_pubkey) (\<lambda>u.
      bindR (ext (output_hash S u indexed_tree_id)) (\<lambda>h.
      if h \<noteq> tc_order_utxo_hash c
      then Inl (Msg ''reconstructed order utxo hash does not match the committed leaf'')
      else Inr \<lparr>to_order_utxo = order_utxo, to_maker_pubkey = tc_maker_pubkey c\<rparr>)))"

end
