(* ===== verification/Swap_Poll.thy ===== *)
theory Swap_Poll
  imports Swap_Index
begin

text \<open>
  The two loops of the indexer (\<open>swap-program/sdk/src/index/poll.rs\<close>) and the entry points of
  \<open>maker.rs\<close> and \<open>taker.rs\<close> on top of them. A loop that may not end is a partial function whose
  value is \<open>None\<close> when it does not; the RPC, the clock and \<open>sleep\<close> act on the world \<open>'w\<close>.
\<close>

section \<open>Paging\<close>

record ('tx, 'c) tx_page =
  page_transactions :: "'tx list"
  page_next_cursor :: "'c option"

type_synonym ('tx, 'c, 'w) fetch = "bytes list \<Rightarrow> 'c option \<Rightarrow> 'w \<Rightarrow> ('tx, 'c) tx_page option \<times> 'w"
type_synonym ('tx, 'a, 'w) scanner = "'tx \<Rightarrow> 'w \<Rightarrow> (sdk_error + 'a option) \<times> 'w"

text \<open>The inner loop over the transactions of a page.\<close>

fun collect_page ::
  "('tx, 'a, 'w) scanner \<Rightarrow> 'tx list \<Rightarrow> 'a list \<Rightarrow> 'w \<Rightarrow> (sdk_error + 'a list) \<times> 'w" where
  "collect_page scan [] found w = (Inr found, w)"
| "collect_page scan (tx # txs) found w =
     (case scan tx w of
        (Inl e, w) \<Rightarrow> (Inl e, w)
      | (Inr None, w) \<Rightarrow> collect_page scan txs found w
      | (Inr (Some item), w) \<Rightarrow> collect_page scan txs (found @ [item]) w)"

partial_function (option) collect_loop ::
  "('tx, 'c, 'w) fetch \<Rightarrow> ('tx, 'a, 'w) scanner \<Rightarrow> bytes \<Rightarrow> 'c option \<Rightarrow> 'a list \<Rightarrow> 'w \<Rightarrow>
   ((sdk_error + 'a list) \<times> 'w) option" where
  "collect_loop fetch scan owner_tag cursor found w =
     (case fetch [owner_tag] cursor w of
        (None, w) \<Rightarrow> Some (Inl External, w)
      | (Some page, w) \<Rightarrow>
          (case collect_page scan (page_transactions page) found w of
             (Inl e, w) \<Rightarrow> Some (Inl e, w)
           | (Inr found, w) \<Rightarrow>
               (case page_next_cursor page of
                  None \<Rightarrow> Some (Inr found, w)
                | Some next_cursor \<Rightarrow> collect_loop fetch scan owner_tag (Some next_cursor) found w)))"

definition collect_tagged ::
  "('x, 'p, 'm, 'd, 'r, 'i) sdk_env \<Rightarrow> ('k, 't, 'p, 'm, 'e) index_env \<Rightarrow> 'k \<Rightarrow>
   ('tx, 'c, 'w) fetch \<Rightarrow> ('tx, 'a, 'w) scanner \<Rightarrow> 'w \<Rightarrow> ((sdk_error + 'a list) \<times> 'w) option" where
  "collect_tagged S X keypair fetch scan w =
     (case confidential_view_tag S (kp_signing_pubkey X keypair) of
        None \<Rightarrow> Some (Inl External, w)
      | Some owner_tag \<Rightarrow> collect_loop fetch scan owner_tag None [] w)"

section \<open>Polling\<close>

text \<open>Durations and instants are counted in milliseconds. \<open>Instant::now() + timeout\<close> panics when the sum
  is no instant of the platform; then there is no result.\<close>

definition index_poll :: nat where
  "index_poll = 500"

partial_function (option) index_loop ::
  "('w \<Rightarrow> nat \<times> 'w) \<Rightarrow> (nat \<Rightarrow> 'w \<Rightarrow> 'w) \<Rightarrow> nat \<Rightarrow> string \<Rightarrow>
   ('w \<Rightarrow> ((sdk_error + 'a list) \<times> 'w) option) \<Rightarrow> 'w \<Rightarrow> ((sdk_error + 'a list) \<times> 'w) option" where
  "index_loop now sleep deadline what collect w =
     Option.bind (collect w) (\<lambda>(r, w). case r of
        Inl e \<Rightarrow> Some (Inl e, w)
      | Inr found \<Rightarrow>
          if found \<noteq> [] then Some (Inr found, w)
          else case now w of (t, w) \<Rightarrow>
            if deadline \<le> t then Some (Inl (Msg (''timed out discovering '' @ what)), w)
            else index_loop now sleep deadline what collect (sleep index_poll w))"

definition index_until ::
  "nat \<Rightarrow> ('w \<Rightarrow> nat \<times> 'w) \<Rightarrow> (nat \<Rightarrow> 'w \<Rightarrow> 'w) \<Rightarrow> nat \<Rightarrow> string \<Rightarrow>
   ('w \<Rightarrow> ((sdk_error + 'a list) \<times> 'w) option) \<Rightarrow> 'w \<Rightarrow> ((sdk_error + 'a list) \<times> 'w) option" where
  "index_until latest now sleep timeout what collect w =
     (case now w of (t, w) \<Rightarrow>
        if t + timeout \<le> latest then index_loop now sleep (t + timeout) what collect w else None)"

section \<open>Entry points\<close>

definition index_maker ::
  "('x, 'p, 'm, 'd, 'r, 'i) sdk_env \<Rightarrow> ('k, 't, 'p, 'm, 'e) index_env \<Rightarrow> ('w \<Rightarrow> nat \<times> 'w) \<Rightarrow>
   (nat \<Rightarrow> 'w \<Rightarrow> 'w) \<Rightarrow> 'k \<Rightarrow> ('e shielded_transaction, 'c, 'w) fetch \<Rightarrow> nat \<Rightarrow> 'w \<Rightarrow>
   ((sdk_error + ('p, 'm) maker_order list) \<times> 'w) option" where
  "index_maker S X now sleep keypair fetch timeout =
     index_until (max_instant X) now sleep timeout ''maker orders''
       (collect_tagged S X keypair fetch (\<lambda>tx w. (scan_maker S X keypair tx, w)))"

text \<open>\<open>resolve\<close> is \<open>resolve_registered_address\<close>, a lookup over the RPC.\<close>

definition scan_taker_order ::
  "('x, 'p, 'm, 'd, 'r, 'i) sdk_env \<Rightarrow> ('k, 't, 'p, 'm, 'e) index_env \<Rightarrow>
   (bytes \<Rightarrow> 'w \<Rightarrow> 'p shielded_address option \<times> 'w) \<Rightarrow> 'k \<Rightarrow>
   ('e shielded_transaction, ('p, 'm) taker_order, 'w) scanner" where
  "scan_taker_order S X resolve keypair tx w =
     (case scan_taker S X keypair tx of
        Inl e \<Rightarrow> (Inl e, w)
      | Inr None \<Rightarrow> (Inr None, w)
      | Inr (Some candidate) \<Rightarrow>
          (case resolve (tc_maker_pubkey candidate) w of
             (None, w) \<Rightarrow> (Inl External, w)
           | (Some maker, w) \<Rightarrow>
               (bindR (into_order S candidate maker (kp_viewing_pubkey X keypair))
                  (\<lambda>order. Inr (Some order)), w)))"

definition index_taker ::
  "('x, 'p, 'm, 'd, 'r, 'i) sdk_env \<Rightarrow> ('k, 't, 'p, 'm, 'e) index_env \<Rightarrow> ('w \<Rightarrow> nat \<times> 'w) \<Rightarrow>
   (nat \<Rightarrow> 'w \<Rightarrow> 'w) \<Rightarrow> (bytes \<Rightarrow> 'w \<Rightarrow> 'p shielded_address option \<times> 'w) \<Rightarrow> 'k \<Rightarrow>
   ('e shielded_transaction, 'c, 'w) fetch \<Rightarrow> nat \<Rightarrow> 'w \<Rightarrow>
   ((sdk_error + ('p, 'm) taker_order list) \<times> 'w) option" where
  "index_taker S X now sleep resolve keypair fetch timeout =
     index_until (max_instant X) now sleep timeout ''taker orders''
       (collect_tagged S X keypair fetch (scan_taker_order S X resolve keypair))"

section \<open>Facts\<close>

text \<open>What a scan of a list of transactions returns when the scanner has no effect: the first error,
  or the items found, in order.\<close>

fun scan_all :: "('tx \<Rightarrow> sdk_error + 'a option) \<Rightarrow> 'tx list \<Rightarrow> sdk_error + 'a list" where
  "scan_all f [] = Inr []"
| "scan_all f (tx # txs) =
     bindR (f tx) (\<lambda>r. bindR (scan_all f txs) (\<lambda>items.
       Inr (case r of None \<Rightarrow> items | Some item \<Rightarrow> item # items)))"

lemma collect_page_scan_all:
  "collect_page (\<lambda>tx w. (f tx, w)) txs found w =
     (bindR (scan_all f txs) (\<lambda>items. Inr (found @ items)), w)"
proof (induction txs arbitrary: found)
  case Nil
  then show ?case by simp
next
  case (Cons tx txs)
  show ?case
  proof (cases "f tx")
    case (Inl e)
    then show ?thesis by simp
  next
    case (Inr r)
    then show ?thesis
      by (cases r; cases "scan_all f txs") (simp_all add: Cons.IH)
  qed
qed

lemma scan_all_append:
  "scan_all f (xs @ ys) = bindR (scan_all f xs) (\<lambda>a. bindR (scan_all f ys) (\<lambda>b. Inr (a @ b)))"
proof (induction xs)
  case Nil
  then show ?case by (cases "scan_all f ys") simp_all
next
  case (Cons x xs)
  show ?case
  proof (cases "f x")
    case (Inl e)
    then show ?thesis by simp
  next
    case (Inr r)
    with Cons.IH show ?thesis
      by (cases "scan_all f xs"; cases "scan_all f ys"; cases r) simp_all
  qed
qed

lemma scan_all_Inl:
  "scan_all f (xs @ tx # ys) = Inl e" if "scan_all f xs = Inr a" "f tx = Inl e"
  using that by (simp add: scan_all_append)

text \<open>The pages the indexer serves from a cursor on, all of their transactions in order.\<close>

inductive page_chain ::
  "('tx, 'c, 'w) fetch \<Rightarrow> bytes \<Rightarrow> 'c option \<Rightarrow> 'w \<Rightarrow> 'tx list \<Rightarrow> 'w \<Rightarrow> bool" for fetch tag where
  last_page:
    "fetch [tag] c w = (Some p, w') \<Longrightarrow> page_next_cursor p = None \<Longrightarrow>
     page_chain fetch tag c w (page_transactions p) w'"
| more_pages:
    "fetch [tag] c w = (Some p, w1) \<Longrightarrow> page_next_cursor p = Some c' \<Longrightarrow>
     page_chain fetch tag (Some c') w1 txs w' \<Longrightarrow>
     page_chain fetch tag c w (page_transactions p @ txs) w'"

lemma collect_loop_chain:
  assumes "page_chain fetch tag c w txs w'"
    and mono: "\<And>ts c w p w'. fetch ts c w = (p, w') \<Longrightarrow> time w \<le> (time w' :: nat)"
  shows "\<exists>w''. collect_loop fetch (\<lambda>tx w. (f tx, w)) tag c found w =
     Some (bindR (scan_all f txs) (\<lambda>items. Inr (found @ items)), w'') \<and> time w \<le> time w''"
  using assms(1)
proof (induction arbitrary: found rule: page_chain.induct)
  case (last_page c w p w')
  then show ?case
    using mono [OF last_page(1)]
    by (cases "scan_all f (page_transactions p)")
      (simp_all add: collect_loop.simps [of fetch] collect_page_scan_all)
next
  case (more_pages c w p w1 c' txs w')
  note t = mono [OF more_pages.hyps(1)]
  show ?case
  proof (cases "scan_all f (page_transactions p)")
    case (Inl e)
    with more_pages.hyps t show ?thesis
      by (simp add: collect_loop.simps [of fetch] collect_page_scan_all scan_all_append)
  next
    case (Inr items)
    obtain w'' where
      "collect_loop fetch (\<lambda>tx w. (f tx, w)) tag (Some c') (found @ items) w1 =
         Some (bindR (scan_all f txs) (\<lambda>b. Inr ((found @ items) @ b)), w'')" "time w1 \<le> time w''"
      using more_pages.IH by blast
    with more_pages.hyps Inr t show ?thesis
      by (subst collect_loop.simps)
        (cases "scan_all f txs"; simp add: collect_page_scan_all scan_all_append)
  qed
qed

text \<open>A call that scans all the pages of the keypair's tag.\<close>

lemma collect_tagged_chain:
  assumes "confidential_view_tag S (kp_signing_pubkey X kp) = Some tag"
    and "page_chain fetch tag None w txs w'"
    and "\<And>ts c w p w'. fetch ts c w = (p, w') \<Longrightarrow> time w \<le> (time w' :: nat)"
  shows "\<exists>w''. collect_tagged S X kp fetch (\<lambda>tx w. (f tx, w)) w = Some (scan_all f txs, w'') \<and>
     time w \<le> time w''"
proof -
  obtain w'' where "collect_loop fetch (\<lambda>tx w. (f tx, w)) tag None [] w =
      Some (bindR (scan_all f txs) (\<lambda>items. Inr ([] @ items)), w'')" "time w \<le> time w''"
    using collect_loop_chain [where time = time and f = f and found = "[]", OF assms(2)] assms(3)
    by blast
  then show ?thesis
    using assms(1) by (cases "scan_all f txs") (simp_all add: collect_tagged_def)
qed

text \<open>Every round of the polling loop takes at least the poll interval, so the deadline is reached.\<close>

lemma index_loop_ends:
  assumes collect: "\<And>w. \<exists>r w'. collect w = Some (r, w') \<and> time w \<le> time w'"
    and now: "\<And>w. now w = (time w, w)"
    and sleep: "\<And>n w. time w + n \<le> time (sleep n w)"
  shows "\<exists>r w'. index_loop now sleep deadline what collect w = Some (r, w') \<and> r \<noteq> Inr []"
proof (induction "deadline - time w" arbitrary: w rule: less_induct)
  case less
  obtain r w1 where c: "collect w = Some (r, w1)" "time w \<le> time w1"
    using collect by blast
  show ?case
  proof (cases r)
    case (Inl e)
    with c show ?thesis by (subst index_loop.simps) simp
  next
    case (Inr found)
    show ?thesis
    proof (cases "found \<noteq> [] \<or> deadline \<le> time w1")
      case True
      with c Inr now show ?thesis by (subst index_loop.simps) auto
    next
      case False
      then have "deadline - time (sleep index_poll w1) < deadline - time w"
        using c(2) sleep [of w1 index_poll] by (auto simp: index_poll_def)
      from less [OF this] show ?thesis
        using c(1) Inr False now by (subst index_loop.simps) simp
    qed
  qed
qed

text \<open>Nothing is returned that no scan returned.\<close>

lemma collect_page_items:
  "collect_page scan txs found w = (Inr items, w') \<Longrightarrow> x \<in> set items \<Longrightarrow>
   x \<in> set found \<or> (\<exists>tx w w'. tx \<in> set txs \<and> scan tx w = (Inr (Some x), w'))"
proof (induction scan txs found w rule: collect_page.induct)
  case (1 scan found w)
  then show ?case by simp
next
  case (2 scan tx txs found w)
  show ?case
  proof (cases "scan tx w")
    case (Pair r w1)
    show ?thesis
    proof (cases r)
      case (Inl e)
      with 2 Pair show ?thesis by simp
    next
      case (Inr i)
      show ?thesis
      proof (cases i)
        case None
        have "x \<in> set found \<or> (\<exists>tx w w'. tx \<in> set txs \<and> scan tx w = (Inr (Some x), w'))"
          by (rule 2(1)) (use 2(3,4) Pair Inr None in simp_all)
        then show ?thesis by auto
      next
        case (Some item)
        have "x \<in> set (found @ [item]) \<or> (\<exists>tx w w'. tx \<in> set txs \<and> scan tx w = (Inr (Some x), w'))"
          by (rule 2(2)) (use 2(3,4) Pair Inr Some in simp_all)
        with Pair Inr Some show ?thesis by auto
      qed
    qed
  qed
qed

text \<open>The transactions of the pages that a fetch can return for a tag.\<close>

definition served :: "('tx, 'c, 'w) fetch \<Rightarrow> bytes \<Rightarrow> 'tx \<Rightarrow> bool" where
  "served fetch tag tx \<longleftrightarrow>
     (\<exists>c w p w'. fetch [tag] c w = (Some p, w') \<and> tx \<in> set (page_transactions p))"

lemma collect_loop_items:
  "collect_loop fetch scan tag c found w = Some res \<Longrightarrow>
   \<forall>items x. fst res = Inr items \<longrightarrow> x \<in> set items \<longrightarrow>
     x \<in> set found \<or> (\<exists>tx w w'. served fetch tag tx \<and> scan tx w = (Inr (Some x), w'))"
  apply (erule collect_loop.raw_induct [rotated, where P = "\<lambda>fetch scan tag c found w res.
      \<forall>items x. fst res = Inr items \<longrightarrow> x \<in> set items \<longrightarrow>
        x \<in> set found \<or> (\<exists>tx w w'. served fetch tag tx \<and> scan tx w = (Inr (Some x), w'))"])
  subgoal premises prems for loop fetch scan tag c found w res
  proof (intro allI impI)
    fix items x
    assume res: "fst res = Inr items" "x \<in> set items"
    obtain p w1 where f: "fetch [tag] c w = (Some p, w1)"
      using prems(2) res(1) by (cases "fetch [tag] c w"; cases "fst (fetch [tag] c w)") auto
    obtain pitems w2 where pg: "collect_page scan (page_transactions p) found w1 = (Inr pitems, w2)"
      using prems(2) res(1) f
      by (cases "collect_page scan (page_transactions p) found w1";
          cases "fst (collect_page scan (page_transactions p) found w1)") auto
    have "x \<in> set pitems \<or> (\<exists>tx w w'. served fetch tag tx \<and> scan tx w = (Inr (Some x), w'))"
    proof (cases "page_next_cursor p")
      case None
      with prems(2) res f pg show ?thesis by auto
    next
      case (Some c')
      then have "loop fetch scan tag (Some c') pitems w2 = Some res"
        using prems(2) f pg by simp
      from prems(1) [OF this] res show ?thesis by blast
    qed
    then show "x \<in> set found \<or> (\<exists>tx w w'. served fetch tag tx \<and> scan tx w = (Inr (Some x), w'))"
      using collect_page_items [OF pg] f unfolding served_def by blast
  qed
  done

lemma index_loop_items:
  "index_loop now sleep deadline what collect w = Some res \<Longrightarrow>
   \<forall>items. fst res = Inr items \<longrightarrow> (\<exists>w w'. collect w = Some (Inr items, w'))"
  apply (erule index_loop.raw_induct [rotated, where P = "\<lambda>now sleep deadline what collect w res.
      \<forall>items. fst res = Inr items \<longrightarrow> (\<exists>w w'. collect w = Some (Inr items, w'))"])
  subgoal premises prems for loop now sleep deadline what collect w res
  proof (intro allI impI)
    fix items
    assume res: "fst res = Inr items"
    obtain r w1 where c: "collect w = Some (r, w1)"
      using prems(2) by (cases "collect w") auto
    obtain found where r: "r = Inr found"
      using prems(2) res c by (cases r) auto
    show "\<exists>w w'. collect w = Some (Inr items, w')"
    proof (cases "found = []")
      case False
      with prems(2) res c r show ?thesis
        by (intro exI [of _ w] exI [of _ w1]) auto
    next
      case True
      obtain t w2 where n: "now w1 = (t, w2)"
        by (cases "now w1") auto
      have "\<not> deadline \<le> t"
        using prems(2) res c r True n by auto
      then have "loop now sleep deadline what collect (sleep index_poll w2) = Some res"
        using prems(2) c r True n by simp
      from prems(1) [OF this] res show ?thesis by blast
    qed
  qed
  done

lemma index_tagged_items:
  assumes "index_until latest now sleep timeout what (collect_tagged S X kp fetch scan) w
             = Some (Inr items, w')" "x \<in> set items"
  shows "\<exists>tag tx w w'. confidential_view_tag S (kp_signing_pubkey X kp) = Some tag \<and>
     served fetch tag tx \<and> scan tx w = (Inr (Some x), w')"
proof -
  obtain t w0 where "index_loop now sleep (t + timeout) what (collect_tagged S X kp fetch scan) w0
      = Some (Inr items, w')"
    using assms(1) by (cases "now w") (auto simp: index_until_def split: if_splits)
  from index_loop_items [OF this]
  obtain w1 w2 where c: "collect_tagged S X kp fetch scan w1 = Some (Inr items, w2)"
    by auto
  then obtain tag where tag: "confidential_view_tag S (kp_signing_pubkey X kp) = Some tag"
    and "collect_loop fetch scan tag None [] w1 = Some (Inr items, w2)"
    by (auto simp: collect_tagged_def split: option.splits)
  from collect_loop_items [OF this(2)] assms(2) tag show ?thesis
    by auto
qed

end
