(* ===== verification/Index_Properties.thy ===== *)
theory Index_Properties
  imports Swap_Poll Demo_Sdk
begin

text \<open>
  Properties of the indexer: the orders it returns are committed in the transaction they were
  found in, the paging loop visits every transaction once and in order and stops at the first
  error, and the polling loop ends.
\<close>

section \<open>Slots\<close>

lemma unified_slots_from_index:
  "(i, slot, body) \<in> set (unified_slots_from X k slots) \<Longrightarrow>
   \<exists>pre post. slots = pre @ slot # post \<and>
     i = k + of_nat (length (filter (\<lambda>s. slot_output_data s \<noteq> None) pre)) \<and>
     (\<exists>b. slot_output_data slot = Some (Encrypted (b # body)) \<and> is_confidential X b = Some True)"
proof (induction slots arbitrary: k)
  case Nil
  then show ?case by simp
next
  case (Cons s slots)
  have "?case" if h: "(i, slot, body) \<in> set (unified_slots_from X k slots)" "slot_output_data s = None"
  proof -
    obtain pre post where "slots = pre @ slot # post"
      "i = k + of_nat (length (filter (\<lambda>s. slot_output_data s \<noteq> None) pre))"
      "\<exists>b. slot_output_data slot = Some (Encrypted (b # body)) \<and> is_confidential X b = Some True"
      using Cons.IH [OF h(1)] by blast
    then show ?thesis
      using h(2) by (intro exI [of _ "s # pre"] exI [of _ post]) simp
  qed
  moreover have "?case"
    if h: "(i, slot, body) \<in> set (unified_slots_from X (k + 1) slots)" "slot_output_data s \<noteq> None"
  proof -
    obtain pre post where "slots = pre @ slot # post"
      "i = k + 1 + of_nat (length (filter (\<lambda>s. slot_output_data s \<noteq> None) pre))"
      "\<exists>b. slot_output_data slot = Some (Encrypted (b # body)) \<and> is_confidential X b = Some True"
      using Cons.IH [OF h(1)] by blast
    then show ?thesis
      using h(2) by (intro exI [of _ "s # pre"] exI [of _ post]) simp
  qed
  moreover have "?case"
    if "i = k" "slot = s" "slot_output_data s = Some (Encrypted (b # body))"
      "is_confidential X b = Some True" for b
    using that by (intro exI [of _ "[]"] exI [of _ slots]) simp
  ultimately show ?case
    using Cons.prems by (auto split: option.splits output_data_encoding.splits list.splits if_splits)
qed

text \<open>Every slot that the scans look at is an output slot of the transaction with a confidential
  ciphertext, its body is the ciphertext without the scheme byte, and its decryption index is the
  number of data-bearing slots before it (counted in 32 bits).\<close>

theorem unified_slots_indexed:
  assumes "(i, slot, body) \<in> set (unified_slots X tx)"
  shows "\<exists>pre post b. st_output_slots tx = pre @ slot # post \<and>
     slot_output_data slot = Some (Encrypted (b # body)) \<and> is_confidential X b = Some True \<and>
     i = of_nat (length (filter (\<lambda>s. slot_output_data s \<noteq> None) pre))"
  using unified_slots_from_index [OF assms [unfolded unified_slots_def]] by auto

definition demo_index :: "(bytes, bytes, bytes, bytes \<times> u64, unit) index_env" where
  "demo_index =
     \<lparr>max_instant = 2 ^ 63, is_confidential = (\<lambda>b. Some (b = 1)), sol_asset_id = 1,
      registry_resolve = (\<lambda>n. Some (replicate 32 (of_nat (unat n)), n)),
      kp_signing_pubkey = id, kp_viewing_pubkey = (\<lambda>k. replicate 33 4),
      kp_shielded_address = (\<lambda>k. Some \<lparr>signing_pubkey = k, nullifier_pubkey = replicate 32 3,
         viewing_pubkey = replicate 33 4\<rparr>),
      transaction_viewing_key = (\<lambda>k n. Some n), viewing_key_pubkey = id,
      embedded_viewing_pk = Some,
      decrypt_with_tx_key = (\<lambda>t body s i. Some \<lparr>pl_amount = 400, pl_asset_id = 2,
         pl_blinding = replicate 32 6, pl_records = [UtxoData body]\<rparr>),
      confidential_decode = (\<lambda>k tx i body. Some \<lparr>pl_amount = 400, pl_asset_id = 2,
         pl_blinding = replicate 32 6, pl_records = [UtxoData body]\<rparr>)\<rparr>"

definition demo_slots :: "unit output_slot list" where
  "demo_slots = [\<lparr>slot_output_data = Some (OtherEncoding ()), slot_hash = [1]\<rparr>,
     \<lparr>slot_output_data = None, slot_hash = [2]\<rparr>,
     \<lparr>slot_output_data = Some (Encrypted [1, 42]), slot_hash = [3]\<rparr>]"

definition demo_tx :: "message_data list \<Rightarrow> unit shielded_transaction" where
  "demo_tx ms = \<lparr>st_tx_viewing_pk = None, st_salt = None, st_nullifiers = [], st_messages = ms,
     st_output_slots = demo_slots\<rparr>"

theorem unified_slots_indexed_witness:
  "\<exists>pre post b. demo_slots = pre @ (demo_slots ! 2) # post \<and>
     slot_output_data (demo_slots ! 2) = Some (Encrypted (b # [42])) \<and>
     is_confidential demo_index b = Some True \<and>
     (1 :: u32) = of_nat (length (filter (\<lambda>s. slot_output_data s \<noteq> None) pre))"
proof -
  have "(1, demo_slots ! 2, [42]) \<in> set (unified_slots demo_index (demo_tx []))"
    by (simp add: unified_slots_def demo_tx_def demo_slots_def demo_index_def)
  then show ?thesis
    using unified_slots_indexed [of 1 "demo_slots ! 2" "[42]" demo_index "demo_tx []"]
    by (simp add: demo_tx_def)
qed

section \<open>Orders that are found\<close>

lemma unified_slots_member:
  "(i, slot, body) \<in> set (unified_slots X tx) \<Longrightarrow> slot \<in> set (st_output_slots tx)"
  unfolding unified_slots_def using unified_slots_from_index by fastforce

text \<open>An order is committed in a transaction under a viewing key when its output form has the hash
  of one of the output slots.\<close>

definition committed_in ::
  "('x, 'p, 'm, 'd, 'r, 'i) sdk_env \<Rightarrow> ('p, 'm) order_utxo \<Rightarrow> bytes \<Rightarrow> bytes \<Rightarrow>
   'e shielded_transaction \<Rightarrow> bool" where
  "committed_in S order v h tx \<longleftrightarrow>
     h \<in> slot_hash ` set (st_output_slots tx) \<and>
     (\<exists>u. order_output_utxo S order v = Inr u \<and> output_hash S u indexed_tree_id = Some h)"

text \<open>The taker's orders are also announced: a message with the taker's tag names the hash and the
  maker.\<close>

definition announced ::
  "('x, 'p, 'm, 'd, 'r, 'i) sdk_env \<Rightarrow> bytes \<Rightarrow> bytes \<Rightarrow> bytes \<Rightarrow> 'e shielded_transaction \<Rightarrow> bool" where
  "announced S tag h maker tx \<longleftrightarrow>
     (\<exists>m \<in> set (st_messages tx). view_tag m = tag \<and>
        deserialize_exact (get_marker (sdk_wire S)) (message_bytes m)
          = Some \<lparr>order_utxo_hash = h, maker_pubkey = maker\<rparr>)"

lemma find_Some_set: "find p xs = Some x \<Longrightarrow> x \<in> set xs \<and> p x"
  by (induction xs) (auto split: if_splits)

lemma scan_taker_announced:
  assumes "scan_taker S X kp tx = Inr (Some c)"
  obtains tag where "confidential_view_tag S (kp_signing_pubkey X kp) = Some tag"
    "announced S tag (tc_order_utxo_hash c) (tc_maker_pubkey c) tx"
    "tc_order_utxo_hash c \<in> slot_hash ` set (st_output_slots tx)"
proof -
  obtain tag m where tag: "confidential_view_tag S (kp_signing_pubkey X kp) = Some tag"
    and m: "find (\<lambda>message. view_tag message = tag) (st_messages tx) = Some m"
    using assms by (auto simp: scan_taker_def result_simps split: option.splits)
  obtain mk i slot body where
    mk: "deserialize_exact (get_marker (sdk_wire S)) (message_bytes m) = Some mk" and
    slot: "find (\<lambda>(_, slot, _). slot_hash slot = order_utxo_hash mk) (unified_slots X tx)
             = Some (i, slot, body)" and
    c: "tc_order_utxo_hash c = order_utxo_hash mk" "tc_maker_pubkey c = maker_pubkey mk"
    using assms by (auto simp: scan_taker_def result_simps tag m)
  have "slot \<in> set (st_output_slots tx)" "slot_hash slot = order_utxo_hash mk"
    using find_Some_set [OF slot] unified_slots_member by fastforce+
  moreover have "announced S tag (tc_order_utxo_hash c) (tc_maker_pubkey c) tx"
    using find_Some_set [OF m] mk c unfolding announced_def by (auto intro!: bexI [of _ m])
  ultimately show thesis
    using that [OF tag] c by (metis imageI)
qed

lemma into_order_committed:
  assumes "into_order S c destination v = Inr ord"
  shows "\<exists>u. order_output_utxo S (to_order_utxo ord) v = Inr u \<and>
     output_hash S u indexed_tree_id = Some (tc_order_utxo_hash c) \<and>
     to_maker_pubkey ord = tc_maker_pubkey c \<and>
     ot_destination (ou_terms (to_order_utxo ord)) = destination"
  using assms by (auto simp: into_order_def result_simps Let_def order_of_note_def split: if_splits)

text \<open>A transaction that carries one order for the taker with signing key \<open>[5, \<dots>]\<close>: its hash is its
  blinding, its ciphertext is the note itself, and the RPC serves one page.\<close>

definition demo_hash_S :: "(unit, bytes, bytes \<times> u64, unit, bytes option, demo_input) sdk_env" where
  "demo_hash_S = demo_S\<lparr>output_hash := (\<lambda>u t. Some (out_blinding u))\<rparr>"

definition demo_note :: plain_text_data where
  "demo_note = \<lparr>pt_destination_asset_id = 3, pt_destination_amount = 250, pt_expiry = 1700000000,
     pt_taker = replicate 32 5, pt_take_mode = 0\<rparr>"

definition demo_order_tx :: "bytes \<Rightarrow> bytes \<Rightarrow> unit shielded_transaction" where
  "demo_order_tx note_bytes marker_bytes =
     \<lparr>st_tx_viewing_pk = Some [8], st_salt = Some [], st_nullifiers = [[7], [8]],
      st_messages = [\<lparr>view_tag = replicate 32 5, message_bytes = marker_bytes\<rparr>],
      st_output_slots = [\<lparr>slot_output_data = Some (Encrypted (1 # note_bytes)),
                          slot_hash = replicate 32 6\<rparr>]\<rparr>"

definition demo_fetch :: "'tx list \<Rightarrow> ('tx, unit, unit) fetch" where
  "demo_fetch txs = (\<lambda>tags cursor w. (Some \<lparr>page_transactions = txs, page_next_cursor = None\<rparr>, w))"

definition demo_maker_address :: "bytes shielded_address" where
  "demo_maker_address = \<lparr>signing_pubkey = replicate 32 2, nullifier_pubkey = replicate 32 3,
     viewing_pubkey = replicate 33 4\<rparr>"

lemma demo_hash_S_simps:
  "plaintext_deserialize demo_hash_S = plaintext_deserialize demo_S"
  "confidential_view_tag demo_hash_S = Some" "mint_asset demo_hash_S = fst"
  "sdk_wire demo_hash_S = table_wire []" "output_hash demo_hash_S u t = Some (out_blinding u)"
  by (simp_all add: demo_hash_S_def fun_eq_iff plaintext_deserialize_def)

lemma demo_output_utxo:
  "\<exists>u. order_output_utxo demo_hash_S order v = Inr u \<and> out_blinding u = ou_blinding order"
  by (simp add: order_output_utxo_def order_terms_data_hash_def order_terms_proof_input_of_def
      order_input_data_hash_def ext_def address_data_hash_def Let_def plaintext_serialize_def
      put_plaintext_def table_wire_def demo_hash_S_def)

lemma demo_note_bytes: "\<exists>bs. plaintext_deserialize demo_S bs = Inr demo_note"
proof -
  obtain bs where "put_plaintext (table_wire ([] :: unit transact_ix_data list)) demo_note = Some bs"
    by (simp add: put_plaintext_def table_wire_def)
  from plaintext.exact_put [OF _ this] show ?thesis
    by (intro exI [of _ bs]) (simp add: plaintext_deserialize_def ext_def demo_note_def)
qed

text \<open>The order that both sides find in the transaction.\<close>

definition demo_found :: "bytes shielded_address \<Rightarrow> (bytes, bytes \<times> u64) order_utxo" where
  "demo_found maker = order_of_note maker (replicate 32 6) (replicate 32 2, 2) 400 (replicate 32 3) demo_note"

lemma demo_found_output:
  "\<exists>u. order_output_utxo demo_hash_S (demo_found maker) v = Inr u \<and> out_blinding u = replicate 32 6"
  using demo_output_utxo [of "demo_found maker" v] by (simp add: demo_found_def order_of_note_def)

lemma demo_note_asset: "pt_destination_asset_id demo_note = 3"
  by (simp add: demo_note_def)

lemma demo_marker_bytes:
  "\<exists>bs. deserialize_exact (get_marker (table_wire ([] :: unit transact_ix_data list))) bs =
     Some \<lparr>order_utxo_hash = replicate 32 6, maker_pubkey = replicate 32 2\<rparr>"
proof -
  let ?m = "\<lparr>order_utxo_hash = replicate 32 6, maker_pubkey = replicate 32 2\<rparr> :: marker_data"
  obtain bs where "put_marker (table_wire ([] :: unit transact_ix_data list)) ?m = Some bs"
    by (simp add: put_marker_def table_wire_def)
  from marker.exact_put [OF _ this] show ?thesis
    by (intro exI [of _ bs]) (simp add: marker_wf_def)
qed

text \<open>C24. Every order that \<open>index_taker\<close> returns was found in a transaction that the RPC served for the
  taker's tag and where a message with the
  taker's own tag announces it: the announced hash is the hash of one of the output slots and of
  the order reconstructed with the maker's registered address, and the maker's key is the
  announced one. An order with changed terms is never returned.\<close>

theorem index_taker_sound:
  assumes "index_taker S X now sleep resolve kp fetch timeout w = Some (Inr orders, w')"
    and "ord \<in> set orders"
  shows "\<exists>tx tag h maker w1 w2.
     confidential_view_tag S (kp_signing_pubkey X kp) = Some tag \<and> served fetch tag tx \<and>
     announced S tag h (to_maker_pubkey ord) tx \<and>
     committed_in S (to_order_utxo ord) (kp_viewing_pubkey X kp) h tx \<and>
     resolve (to_maker_pubkey ord) w1 = (Some maker, w2) \<and>
     ot_destination (ou_terms (to_order_utxo ord)) = maker"
proof -
  obtain tag tx w1 w2 where tag: "confidential_view_tag S (kp_signing_pubkey X kp) = Some tag"
    and srv: "served fetch tag tx"
    and sc: "scan_taker_order S X resolve kp tx w1 = (Inr (Some ord), w2)"
    using index_tagged_items [OF assms(1) [unfolded index_taker_def] assms(2)] by blast
  obtain c where c: "scan_taker S X kp tx = Inr (Some c)"
    using sc by (auto simp: scan_taker_order_def split: sum.splits option.splits)
  obtain maker w3 where r: "resolve (tc_maker_pubkey c) w1 = (Some maker, w3)"
    using sc c by (auto simp: scan_taker_order_def split: prod.splits option.splits)
  have io: "into_order S c maker (kp_viewing_pubkey X kp) = Inr ord"
    using sc c r by (auto simp: scan_taker_order_def result_simps)
  have ann: "announced S tag (tc_order_utxo_hash c) (tc_maker_pubkey c) tx"
    and h: "tc_order_utxo_hash c \<in> slot_hash ` set (st_output_slots tx)"
    using scan_taker_announced [OF c] tag by auto
  obtain u where u: "order_output_utxo S (to_order_utxo ord) (kp_viewing_pubkey X kp) = Inr u"
    "output_hash S u indexed_tree_id = Some (tc_order_utxo_hash c)"
    "to_maker_pubkey ord = tc_maker_pubkey c" "ot_destination (ou_terms (to_order_utxo ord)) = maker"
    using into_order_committed [OF io] by blast
  have "committed_in S (to_order_utxo ord) (kp_viewing_pubkey X kp) (tc_order_utxo_hash c) tx"
    using h u(1,2) by (simp add: committed_in_def)
  then show ?thesis
    using tag srv ann r u(3,4) by (metis (no_types))
qed

theorem index_taker_sound_witness:
  "\<exists>note_bytes marker_bytes ord tx tag h maker w1 w2.
     index_taker demo_hash_S demo_index (\<lambda>w. (0, w)) (\<lambda>n w. w) (\<lambda>k w. (Some demo_maker_address, w))
       (replicate 32 5) (demo_fetch [demo_order_tx note_bytes marker_bytes]) 0 () = Some (Inr [ord], ()) \<and>
     confidential_view_tag demo_hash_S (kp_signing_pubkey demo_index (replicate 32 5)) = Some tag \<and>
     served (demo_fetch [demo_order_tx note_bytes marker_bytes]) tag tx \<and>
     announced demo_hash_S tag h (to_maker_pubkey ord) tx \<and>
     committed_in demo_hash_S (to_order_utxo ord) (kp_viewing_pubkey demo_index (replicate 32 5)) h tx \<and>
     (Some demo_maker_address, w1) = (Some maker, w2 :: unit) \<and>
     ot_destination (ou_terms (to_order_utxo ord)) = maker"
proof -
  obtain n m where n: "plaintext_deserialize demo_S n = Inr demo_note"
    and m: "deserialize_exact (get_marker (table_wire ([] :: unit transact_ix_data list))) m =
     Some \<lparr>order_utxo_hash = replicate 32 6, maker_pubkey = replicate 32 2\<rparr>"
    using demo_note_bytes demo_marker_bytes by blast
  obtain u where u: "order_output_utxo demo_hash_S (demo_found demo_maker_address) (replicate 33 4) = Inr u"
    "out_blinding u = replicate 32 6"
    using demo_found_output by blast
  have "\<exists>ord. index_taker demo_hash_S demo_index (\<lambda>w. (0, w)) (\<lambda>n w. w)
      (\<lambda>k w. (Some demo_maker_address, w)) (replicate 32 5) (demo_fetch [demo_order_tx n m]) 0 ()
      = Some (Inr [ord], ())"
    using u n m
    by (simp add: index_taker_def index_until_def index_loop.simps collect_tagged_def
        collect_loop.simps demo_fetch_def scan_taker_order_def scan_taker_def demo_order_tx_def
        unified_slots_def demo_index_def demo_hash_S_simps parse_order_data_def resolve_mint_def
        ext_def into_order_def Let_def demo_note_asset demo_found_def)
  then obtain ord where r: "index_taker demo_hash_S demo_index (\<lambda>w. (0, w)) (\<lambda>n w. w)
      (\<lambda>k w. (Some demo_maker_address, w)) (replicate 32 5) (demo_fetch [demo_order_tx n m]) 0 ()
      = Some (Inr [ord], ())"
    by blast
  from index_taker_sound [OF this, of ord] show ?thesis
    using r by (simp only: list.set insert_iff simp_thms) blast
qed

text \<open>C25. Every order that \<open>index_maker\<close> returns is committed in one of the output slots of a
  transaction that the RPC served for the maker's tag, under the embedded viewing key of its taker, pays out to the maker's own address,
  and that transaction has a viewing key that the maker derives from one of its nullifiers.\<close>

theorem index_maker_sound:
  assumes "index_maker S X now sleep kp fetch timeout w = Some (Inr orders, w')"
    and "ord \<in> set orders"
  shows "\<exists>tag tx h n key.
     confidential_view_tag S (kp_signing_pubkey X kp) = Some tag \<and> served fetch tag tx \<and>
     committed_in S (mo_order_utxo ord) (mo_taker_viewing_pubkey ord) h tx \<and>
     kp_shielded_address X kp = Some (ot_destination (ou_terms (mo_order_utxo ord))) \<and>
     n \<in> set (st_nullifiers tx) \<and> transaction_viewing_key X kp n = Some key \<and>
     st_tx_viewing_pk tx = Some (viewing_key_pubkey X key)"
proof -
  obtain tag tx where tag: "confidential_view_tag S (kp_signing_pubkey X kp) = Some tag"
    and srv: "served fetch tag tx" and sc: "scan_maker S X kp tx = Inr (Some ord)"
    using index_tagged_items [OF assms(1) [unfolded index_maker_def] assms(2)] by auto
  obtain pk salt key addr where pk: "st_tx_viewing_pk tx = Some pk"
    and key: "find_map (\<lambda>nullifier. case transaction_viewing_key X kp nullifier of None \<Rightarrow> None
        | Some key \<Rightarrow> if viewing_key_pubkey X key = pk then Some key else None) (st_nullifiers tx)
        = Some key"
    and addr: "kp_shielded_address X kp = Some addr"
    and slot: "find_map (scan_maker_slot S X key salt addr) (unified_slots X tx) = Some ord"
    using sc by (auto simp: scan_maker_def result_simps split: option.splits prod.splits)
  obtain n where n: "n \<in> set (st_nullifiers tx)" "transaction_viewing_key X kp n = Some key"
    "viewing_key_pubkey X key = pk"
    using find_map_Some [OF key] by (auto split: option.splits if_splits)
  obtain i s body where s: "(i, s, body) \<in> set (unified_slots X tx)"
    "scan_maker_slot S X key salt addr (i, s, body) = Some ord"
    using find_map_Some [OF slot] by auto
  have "committed_in S (mo_order_utxo ord) (mo_taker_viewing_pubkey ord) (slot_hash s) tx \<and>
      ot_destination (ou_terms (mo_order_utxo ord)) = addr"
    using s(2) unified_slots_member [OF s(1)]
    by (auto simp: scan_maker_slot_def bind_eq_Some_conv committed_in_def maker_order_candidate_def
        order_of_note_def result_simps split: if_splits)
  then show ?thesis
    using tag srv n addr pk
    by (intro exI [of _ tag] exI [of _ tx] exI [of _ "slot_hash s"] exI [of _ n] exI [of _ key]) auto
qed

theorem index_maker_sound_witness:
  "\<exists>note_bytes ord tag tx h n key.
     index_maker demo_hash_S demo_index (\<lambda>w. (0, w)) (\<lambda>n w. w) (replicate 32 2)
       (demo_fetch [demo_order_tx note_bytes []]) 0 () = Some (Inr [ord], ()) \<and>
     confidential_view_tag demo_hash_S (kp_signing_pubkey demo_index (replicate 32 2)) = Some tag \<and>
     served (demo_fetch [demo_order_tx note_bytes []]) tag tx \<and>
     committed_in demo_hash_S (mo_order_utxo ord) (mo_taker_viewing_pubkey ord) h tx \<and>
     kp_shielded_address demo_index (replicate 32 2)
       = Some (ot_destination (ou_terms (mo_order_utxo ord))) \<and>
     n \<in> set (st_nullifiers tx) \<and> transaction_viewing_key demo_index (replicate 32 2) n = Some key \<and>
     st_tx_viewing_pk tx = Some (viewing_key_pubkey demo_index key)"
proof -
  obtain n where n: "plaintext_deserialize demo_S n = Inr demo_note"
    using demo_note_bytes by blast
  obtain u where u: "order_output_utxo demo_hash_S (demo_found demo_maker_address) n = Inr u"
    "out_blinding u = replicate 32 6"
    using demo_found_output by blast
  have "\<exists>ord. index_maker demo_hash_S demo_index (\<lambda>w. (0, w)) (\<lambda>n w. w) (replicate 32 2)
      (demo_fetch [demo_order_tx n []]) 0 () = Some (Inr [ord], ())"
    using u n
    by (simp add: index_maker_def index_until_def index_loop.simps collect_tagged_def
        collect_loop.simps demo_fetch_def scan_maker_def scan_maker_slot_def demo_order_tx_def
        unified_slots_def demo_index_def demo_hash_S_simps parse_order_data_def resolve_mint_def
        ext_def maker_order_candidate_def demo_maker_address_def demo_note_asset demo_found_def)
  then obtain ord where r: "index_maker demo_hash_S demo_index (\<lambda>w. (0, w)) (\<lambda>n w. w) (replicate 32 2)
      (demo_fetch [demo_order_tx n []]) 0 () = Some (Inr [ord], ())"
    by blast
  from index_maker_sound [OF this, of ord] show ?thesis
    using r by (simp only: list.set insert_iff simp_thms) blast
qed

section \<open>The loops\<close>

text \<open>C32. When the indexer serves a finite chain of pages for the keypair's tag, \<open>collect_tagged\<close>
  returns, and its result is that of scanning the transactions of all the pages once each and in
  order: the first error, or every item found in the order of its transaction.\<close>

theorem collect_tagged_visits_all:
  assumes "confidential_view_tag S (kp_signing_pubkey X kp) = Some tag"
    and "page_chain fetch tag None w txs w'"
  shows "\<exists>w''. collect_tagged S X kp fetch (\<lambda>tx w. (scan tx, w)) w = Some (scan_all scan txs, w'')"
  using collect_tagged_chain [where time = "\<lambda>_. 0", OF assms] by simp

text \<open>Two pages: the second one is requested with the cursor of the first.\<close>

definition demo_pages :: "(nat, unit, unit) fetch" where
  "demo_pages = (\<lambda>tags cursor w. (Some (case cursor of
       None \<Rightarrow> \<lparr>page_transactions = [1, 2], page_next_cursor = Some ()\<rparr>
     | Some _ \<Rightarrow> \<lparr>page_transactions = [3], page_next_cursor = None\<rparr>), w))"

lemma demo_chain: "page_chain demo_pages tag None () [1, 2, 3] ()"
proof -
  have "page_chain demo_pages tag (Some ())
      () (page_transactions \<lparr>page_transactions = [3], page_next_cursor = None :: unit option\<rparr>) ()"
    by (rule page_chain.last_page) (simp_all add: demo_pages_def)
  then have "page_chain demo_pages tag None ()
      (page_transactions \<lparr>page_transactions = [1, 2], page_next_cursor = Some ()\<rparr> @ [3]) ()"
    by (intro page_chain.more_pages [where c' = "()" and ?w1.0 = "()"])
      (simp_all add: demo_pages_def)
  then show ?thesis by simp
qed

theorem collect_tagged_visits_all_witness:
  "collect_tagged demo_S demo_index [5] demo_pages
     (\<lambda>tx w. (Inr (if tx = 2 then None else Some tx), w)) () = Some (Inr [1, 3], ())"
  using collect_tagged_visits_all [where S = demo_S and X = demo_index and kp = "[5]" and tag = "[5]"
      and fetch = demo_pages and w = "()" and w' = "()" and txs = "[1, 2, 3]"
      and scan = "\<lambda>tx. Inr (if tx = 2 then None else Some tx)", OF _ demo_chain]
  by (simp add: demo_index_def)

text \<open>C33. One bad transaction stops the whole index: when a transaction with the taker's tag carries a
  message under that tag that is not a marker, \<open>index_taker\<close> fails with that error as soon as it
  reaches the transaction, whatever orders the transactions before and after it hold.\<close>

theorem bad_marker_blocks_index:
  assumes "confidential_view_tag S (kp_signing_pubkey X kp) = Some tag"
    and "now w0 = (t, w)" "t + timeout \<le> max_instant X" "page_chain fetch tag None w (pre @ tx # post) w'"
    and "scan_all (\<lambda>tx. fst (scan_taker_order S X (\<lambda>k w. (resolve k, w)) kp tx ())) pre = Inr orders"
    and "find (\<lambda>m. view_tag m = tag) (st_messages tx) = Some m"
    and "deserialize_exact (get_marker (sdk_wire S)) (message_bytes m) = None"
  shows "\<exists>w''. index_taker S X now sleep (\<lambda>k w. (resolve k, w)) kp fetch timeout w0
     = Some (Inl External, w'')"
proof -
  let ?g = "\<lambda>tx. fst (scan_taker_order S X (\<lambda>k w. (resolve k, w)) kp tx ())"
  have pure: "scan_taker_order S X (\<lambda>k w. (resolve k, w)) kp = (\<lambda>tx w. (?g tx, w))"
    by (auto simp: fun_eq_iff scan_taker_order_def split: sum.splits option.splits)
  have "?g tx = Inl External"
    using assms(1,6,7) by (simp add: scan_taker_order_def scan_taker_def ext_def)
  then have "scan_all ?g (pre @ tx # post) = Inl External"
    by (rule scan_all_Inl [OF assms(5)])
  then obtain w'' where
    "collect_tagged S X kp fetch (\<lambda>tx w. (?g tx, w)) w = Some (Inl External, w'')"
    using collect_tagged_chain [where time = "\<lambda>_. 0" and f = ?g, OF assms(1,4)] by auto
  then have "collect_tagged S X kp fetch (scan_taker_order S X (\<lambda>k w. (resolve k, w)) kp) w
      = Some (Inl External, w'')"
    by (simp only: pure [symmetric])
  then show ?thesis
    unfolding index_taker_def index_until_def assms(2) prod.case using assms(3)
    by (subst index_loop.simps) simp
qed

theorem bad_marker_blocks_index_witness:
  "\<exists>w''. index_taker demo_S demo_index (\<lambda>w. (0, w)) (\<lambda>n w. w) (\<lambda>k w. (None, w)) (replicate 32 5)
     (demo_fetch [demo_tx [], demo_order_tx [] [1, 2, 3]]) 60000 () = Some (Inl External, w'')"
proof -
  let ?txs = "[demo_tx []] @ demo_order_tx [] [1, 2, 3] # []"
  have c: "page_chain (demo_fetch ?txs) (replicate 32 5) None () ?txs ()"
    using page_chain.last_page [where fetch = "demo_fetch ?txs" and c = None and w = "()"]
    by (simp add: demo_fetch_def)
  have tag: "confidential_view_tag demo_S (kp_signing_pubkey demo_index (replicate 32 5)) = Some (replicate 32 5)"
    by (simp add: demo_index_def)
  have pre: "scan_all (\<lambda>tx. fst (scan_taker_order demo_S demo_index (\<lambda>k w. (None, w)) (replicate 32 5)
      tx ())) [demo_tx []] = Inr []"
    using tag by (simp add: scan_taker_order_def scan_taker_def ext_def demo_tx_def)
  have m: "find (\<lambda>m. view_tag m = replicate 32 5) (st_messages (demo_order_tx [] [1, 2, 3]))
      = Some \<lparr>view_tag = replicate 32 5, message_bytes = [1, 2, 3]\<rparr>"
    by (simp add: demo_order_tx_def)
  have bad: "deserialize_exact (get_marker (sdk_wire demo_S))
      (message_bytes \<lparr>view_tag = replicate 32 5, message_bytes = [1, 2, 3]\<rparr>) = None"
    by (simp add: get_marker_def table_wire_def take_array_def deserialize_exact_def)
  show ?thesis
    using bad_marker_blocks_index [where now = "\<lambda>w. (0, w)" and timeout = 60000, OF tag refl _ c pre m bad]
    by (simp add: demo_index_def)
qed

text \<open>C34. The maker's polling ends: when every fetch returns, the pages of the tag are finite and the
  clock follows \<open>sleep\<close>, \<open>index_maker\<close> returns a non-empty list of orders or an error, never the
  empty list and never nothing, unless the deadline is no instant of the platform, where it
  panics.\<close>

theorem index_maker_returns:
  assumes "confidential_view_tag S (kp_signing_pubkey X kp) = Some tag"
    and "\<And>w. \<exists>txs w'. page_chain fetch tag None w txs w'"
    and "\<And>ts c w p w'. fetch ts c w = (p, w') \<Longrightarrow> time w \<le> (time w' :: nat)"
    and "\<And>w. now w = (time w, w)" "\<And>n w. time w + n \<le> time (sleep n w)"
  shows "if time w + timeout \<le> max_instant X
     then \<exists>r w'. index_maker S X now sleep kp fetch timeout w = Some (r, w') \<and> r \<noteq> Inr []
     else index_maker S X now sleep kp fetch timeout w = None"
proof -
  have "\<exists>r w'. collect_tagged S X kp fetch (\<lambda>tx w. (scan_maker S X kp tx, w)) w = Some (r, w') \<and>
      time w \<le> time w'" for w
    using assms(2) [of w] collect_tagged_chain [where time = time, OF assms(1)] assms(3) by blast
  from index_loop_ends [where now = now, OF this assms(4,5)] show ?thesis
    unfolding index_maker_def index_until_def using assms(4) [of w] by simp
qed

text \<open>A world that is its clock.\<close>

definition demo_clock_fetch :: "(unit shielded_transaction, unit, nat) fetch" where
  "demo_clock_fetch = (\<lambda>tags cursor w. (Some \<lparr>page_transactions = [], page_next_cursor = None\<rparr>, w + 3))"

theorem index_maker_returns_witness:
  "\<exists>r w'. index_maker demo_S demo_index (\<lambda>w. (w, w)) (\<lambda>n w. w + n) [5] demo_clock_fetch 2000 10
     = Some (r, w') \<and> r \<noteq> Inr []"
proof -
  have "\<exists>txs w'. page_chain demo_clock_fetch [5] None w txs w'" for w
    using page_chain.last_page [where fetch = demo_clock_fetch and c = None and w = w]
    by (auto simp: demo_clock_fetch_def)
  from index_maker_returns [where time = id and tag = "[5]" and S = demo_S and X = demo_index
      and kp = "[5]" and now = "\<lambda>w. (w, w)" and sleep = "\<lambda>n w. w + n" and timeout = 2000 and w = 10,
      OF _ this]
  show ?thesis
    by (simp add: demo_index_def demo_clock_fetch_def)
qed

end
