(* ===== verification/Discovery_Properties.thy ===== *)
theory Discovery_Properties
  imports Sdk_Properties Key_Facts Index_Properties
begin

text \<open>
  From the maker to the taker: the marker that the SDK prepares, the stamp that the make
  instruction puts on it, and the scan by which the taker finds the order again.
\<close>

section \<open>What the taker sees of an order\<close>

text \<open>
  A transaction delivers an order under a hash when its first ciphertext slot with that hash
  decodes, for the taker, to the source amount and asset, the blinding and the note of the order,
  and the taker's registry knows both mints.
\<close>

definition delivers ::
  "('x, 'p, 'm, 'd, 'r, 'i) sdk_env \<Rightarrow> ('k, 't, 'p, 'm, 'e) index_env \<Rightarrow> 'k \<Rightarrow>
   ('p, 'm) order_utxo \<Rightarrow> bytes \<Rightarrow> 'e shielded_transaction \<Rightarrow> bool" where
  "delivers S X kp order h tx \<longleftrightarrow>
     (\<exists>i slot body asset_id note records m.
        find (\<lambda>(_, slot, _). slot_hash slot = h) (unified_slots X tx) = Some (i, slot, body) \<and>
        confidential_decode X kp tx i body =
          Some \<lparr>pl_amount = ou_source_amount order, pl_asset_id = asset_id,
                pl_blinding = ou_blinding order, pl_records = UtxoData note # records\<rparr> \<and>
        plaintext_serialize S (to_plaintext (ou_terms order) (ou_destination_asset_id order)) = Inr note \<and>
        resolve_mint S X asset_id = Inr (ou_source_mint order) \<and>
        resolve_mint S X (ou_destination_asset_id order) = Inr m \<and>
        mint_asset S m = ot_destination_mint (ou_terms order))"

lemma note_read_back:
  assumes "wincode_ok (sdk_wire S)" "length (ot_taker terms) = 32"
    and "plaintext_serialize S (to_plaintext terms asset_id) = Inr note"
  shows "plaintext_deserialize S note = Inr (to_plaintext terms asset_id)"
proof -
  have "put_plaintext (sdk_wire S) (to_plaintext terms asset_id) = Some note"
    using assms(3) by (simp add: plaintext_serialize_def result_simps)
  from plaintext.exact_put [OF _ this] show ?thesis
    using assms(1,2) by (simp add: plaintext_deserialize_def ext_def to_plaintext_def)
qed

lemma delivered_order_found:
  assumes "wincode_ok (sdk_wire S)" "length (ot_taker (ou_terms order)) = 32"
    and "order_output_utxo S order (kp_viewing_pubkey X kp) = Inr u"
    and "output_hash S u indexed_tree_id = Some h"
    and "confidential_view_tag S (kp_signing_pubkey X kp) = Some tag"
    and "st_messages tx = [\<lparr>view_tag = tag, message_bytes = mb\<rparr>]"
    and "deserialize_exact (get_marker (sdk_wire S)) mb = Some \<lparr>order_utxo_hash = h, maker_pubkey = k\<rparr>"
    and "delivers S X kp order h tx"
  shows "\<exists>c. scan_taker S X kp tx = Inr (Some c) \<and> tc_maker_pubkey c = k \<and>
     into_order S c (ot_destination (ou_terms order)) (kp_viewing_pubkey X kp)
       = Inr \<lparr>to_order_utxo = order, to_maker_pubkey = k\<rparr>"
proof -
  obtain i slot body asset_id nb records m where d:
    "find (\<lambda>(_, slot, _). slot_hash slot = h) (unified_slots X tx) = Some (i, slot, body)"
    "confidential_decode X kp tx i body =
       Some \<lparr>pl_amount = ou_source_amount order, pl_asset_id = asset_id,
             pl_blinding = ou_blinding order, pl_records = UtxoData nb # records\<rparr>"
    "resolve_mint S X asset_id = Inr (ou_source_mint order)"
    "resolve_mint S X (ou_destination_asset_id order) = Inr m"
    "mint_asset S m = ot_destination_mint (ou_terms order)"
    and nb: "plaintext_serialize S (to_plaintext (ou_terms order) (ou_destination_asset_id order)) = Inr nb"
    using assms(8) unfolding delivers_def by blast
  have n: "plaintext_deserialize S nb = Inr (to_plaintext (ou_terms order) (ou_destination_asset_id order))"
    by (rule note_read_back [OF assms(1,2) nb])
  let ?c = "\<lparr>tc_source_amount = ou_source_amount order, tc_source_mint = ou_source_mint order,
     tc_destination_mint = ot_destination_mint (ou_terms order),
     tc_order_utxo_blinding = ou_blinding order,
     tc_order_data = to_plaintext (ou_terms order) (ou_destination_asset_id order),
     tc_maker_pubkey = k, tc_order_utxo_hash = h\<rparr>"
  have "scan_taker S X kp tx = Inr (Some ?c)"
    using assms(5-7) d n
    by (simp add: scan_taker_def ext_def parse_order_data_def to_plaintext_def)
  moreover have "order_of_note (ot_destination (ou_terms order)) (ou_blinding order) (ou_source_mint order)
      (ou_source_amount order) (ot_destination_mint (ou_terms order))
      (to_plaintext (ou_terms order) (ou_destination_asset_id order)) = order"
    by (simp add: order_of_note_def to_plaintext_def)
  ultimately show ?thesis
    using assms(3,4) by (intro exI [of _ ?c]) (simp add: into_order_def ext_def)
qed

section \<open>From make to discovery\<close>

text \<open>A made order is found: when a make that the SDK built with its marker message for a taker
  lands, SPP was handed a transaction whose stamped marker announces the order to that taker. Any
  indexed transaction that has this message and delivers the order's output makes the taker's
  scan return a candidate which, with the maker's registered address, becomes exactly the order
  that was made, together with the key of its maker.\<close>

lemma made_order_is_found:
  assumes "account_checks_ok E" "wire_of E = sdk_wire S" "wincode_ok (sdk_wire S)"
    and "transact_ok (sdk_wire S)" "borsh_ok (sdk_wire S)" "make_proof_wf (bm_make_proof b)"
    and "make_instruction S b = Inr ix"
    and "swap_process_instruction E (ix_program_id ix) (map view_of (ix_accounts ix)) (ix_data ix) w
           = Inr w'"
    and "order_marker_message S M = Inr msg" "messages (bm_spp_proof b) = [msg]"
    and "signing_pubkey (om_taker_address M) = kp_signing_pubkey X kp"
    and "order_output_utxo S order (kp_viewing_pubkey X kp) = Inr u"
    and "output_hash S u indexed_tree_id = Some h" "utxo_hash (outputs (bm_spp_proof b) ! 1) = h"
    and "length h = 32" "length (bm_payer b) = 32" "length (ot_taker (ou_terms order)) = 32"
  shows "\<exists>t tb. transact_serialize E t = Some tb \<and>
     swap_signed E (map view_of (tl (ix_accounts ix))) tb w w' \<and>
     (\<forall>tx. st_messages tx = messages t \<and> delivers S X kp order h tx \<longrightarrow>
        (\<exists>c. scan_taker S X kp tx = Inr (Some c) \<and> tc_maker_pubkey c = bm_payer b \<and>
           into_order S c (ot_destination (ou_terms order)) (kp_viewing_pubkey X kp)
             = Inr \<lparr>to_order_utxo = order, to_maker_pubkey = bm_payer b\<rparr>))"
proof -
  let ?t = "clear_first_message (bm_spp_proof b)"
  obtain tag bs where tag: "confidential_view_tag S (kp_signing_pubkey X kp) = Some tag"
    and msg: "msg = \<lparr>view_tag = tag, message_bytes = bs\<rparr>"
    using assms(9,11) by (auto simp: order_marker_message_def result_simps)
  have cleared: "messages ?t = [\<lparr>view_tag = tag, message_bytes = []\<rparr>]"
    "outputs ?t = outputs (bm_spp_proof b)"
    using assms(10) msg by (simp_all add: clear_first_message_def)
  obtain mb tb where mb: "put_marker (sdk_wire S) \<lparr>order_utxo_hash = h, maker_pubkey = bm_payer b\<rparr> = Some mb"
    and tb: "transact_serialize E (?t\<lparr>messages := [\<lparr>view_tag = tag, message_bytes = mb\<rparr>]\<rparr>) = Some tb"
    "swap_signed E (map view_of (tl (ix_accounts ix))) tb w w'"
    using make_instruction_lands [OF assms(1-4,6,7) refl, of w w'] assms(8,14) cleared by auto
  have "deserialize_exact (get_marker (sdk_wire S)) mb =
      Some \<lparr>order_utxo_hash = h, maker_pubkey = bm_payer b\<rparr>"
    by (rule marker.exact_put [OF _ mb]) (simp add: assms(5,15,16) marker_wf_def)
  then have "\<exists>c. scan_taker S X kp tx = Inr (Some c) \<and> tc_maker_pubkey c = bm_payer b \<and>
      into_order S c (ot_destination (ou_terms order)) (kp_viewing_pubkey X kp)
        = Inr \<lparr>to_order_utxo = order, to_maker_pubkey = bm_payer b\<rparr>"
    if "st_messages tx = [\<lparr>view_tag = tag, message_bytes = mb\<rparr>]" "delivers S X kp order h tx" for tx
    using delivered_order_found [OF assms(3,17,12,13) tag that(1) _ that(2)] by blast
  with tb show ?thesis
    by (intro exI [of _ "?t\<lparr>messages := [\<lparr>view_tag = tag, message_bytes = mb\<rparr>]\<rparr>"] exI [of _ tb]) auto
qed

text \<open>A make by the maker with key \<open>[3, \<dots>]\<close> for the taker with key \<open>[5]\<close>; the hash of an output is its
  blinding.\<close>

definition demo_made_order :: "(bytes, bytes \<times> u64) order_utxo" where
  "demo_made_order = order_of_note demo_maker_address (replicate 32 2) (replicate 32 2, 2) 400
     (replicate 32 3) demo_note"

definition demo_made_S :: "(unit, bytes, bytes \<times> u64, unit, bytes option, demo_input) sdk_env" where
  "demo_made_S = (demo_sdk [demo_make_in, demo_make_out])\<lparr>output_hash := (\<lambda>u t. Some (out_blinding u))\<rparr>"

definition demo_order_marker :: "bytes order_marker" where
  "demo_order_marker = \<lparr>om_order_utxo_hash = replicate 32 2, om_maker_pubkey = replicate 32 3,
     om_taker_address = \<lparr>signing_pubkey = [5], nullifier_pubkey = [], viewing_pubkey = []\<rparr>\<rparr>"

definition demo_made_params :: "unit make_ix_params" where
  "demo_made_params = \<lparr>bm_payer = replicate 32 3, bm_tree = replicate 32 8,
     bm_make_proof = \<lparr>make_proof_a = replicate 32 0, make_proof_b = replicate 64 0,
       make_proof_c = replicate 32 0\<rparr>,
     bm_spp_proof = demo_make_in\<lparr>messages :=
       [\<lparr>view_tag = [5], message_bytes = replicate 32 2 @ replicate 32 3\<rparr>]\<rparr>\<rparr>"

definition demo_made_tx :: "bytes \<Rightarrow> message_data list \<Rightarrow> unit shielded_transaction" where
  "demo_made_tx note_bytes ms = (demo_order_tx note_bytes [])\<lparr>st_messages := ms,
     st_output_slots := [\<lparr>slot_output_data = Some (Encrypted (1 # note_bytes)), slot_hash = replicate 32 2\<rparr>]\<rparr>"

definition demo_made_index :: "(bytes, bytes, bytes, bytes \<times> u64, unit) index_env" where
  "demo_made_index = demo_index\<lparr>confidential_decode := (\<lambda>k tx i body. Some \<lparr>pl_amount = 400, pl_asset_id = 2,
     pl_blinding = replicate 32 2, pl_records = [UtxoData body]\<rparr>)\<rparr>"

lemma demo_made_S_simps [simp]:
  "sdk_wire demo_made_S = table_wire [demo_make_in, demo_make_out]"
  "confidential_view_tag demo_made_S = Some"
  "output_hash demo_made_S = (\<lambda>u t. Some (out_blinding u))" "mint_asset demo_made_S = fst"
  "nullifier_pda_accounts demo_made_S = (\<lambda>tree ns. map (\<lambda>n. meta_new n False) ns)"
  "order_authority_pda demo_made_S = fst (demo_pda [order_authority_pda_seed] swap_id)"
  by (simp_all add: demo_made_S_def order_authority_pda_def)

lemma demo_made_output:
  "\<exists>u. order_output_utxo demo_made_S demo_made_order v = Inr u \<and> out_blinding u = replicate 32 2"
  by (simp add: order_output_utxo_def order_terms_data_hash_def order_terms_proof_input_of_def
      order_input_data_hash_def ext_def address_data_hash_def Let_def plaintext_serialize_def
      put_plaintext_def table_wire_def demo_made_S_def demo_made_order_def order_of_note_def)

lemma demo_made_cleared: "clear_first_message (bm_spp_proof demo_made_params) = demo_make_in"
  by (simp add: clear_first_message_def demo_made_params_def demo_make_in_def demo_transact_def)

lemma demo_made_builds: "\<exists>ix. make_instruction demo_made_S demo_made_params = Inr ix"
  using demo_made_cleared
  by (simp add: make_instruction_def put_make_ix_def put_make_proof_def table_wire_def
      table_put_def ext_def Let_def)

lemma demo_made_lands:
  assumes "make_instruction demo_made_S demo_made_params = Inr ix"
  shows "swap_process_instruction demo_make_env (ix_program_id ix) (map view_of (ix_accounts ix))
     (ix_data ix) [] = Inr ([] @ [[1]])"
proof -
  have "swap_signed demo_make_env (map view_of (tl (ix_accounts ix))) [1] [] ([] @ [[1]])"
    by (rule demo_signed) (use assms in \<open>auto simp: make_instruction_def result_simps Let_def\<close>)
  moreover have "put_marker (table_wire tab) m = Some (order_utxo_hash m @ maker_pubkey m)"
    for tab :: "unit transact_ix_data list" and m
    by (simp add: put_marker_def table_wire_def)
  moreover have "private_tx_hash demo_make_in = replicate 32 7" "length (outputs demo_make_in) = 2"
    "messages demo_make_in = [\<lparr>view_tag = [5], message_bytes = []\<rparr>]"
    "utxo_hash (outputs demo_make_in ! Suc 0) = replicate 32 2"
    "demo_make_in\<lparr>messages := [\<lparr>view_tag = [5], message_bytes = replicate 32 2 @ replicate 32 3\<rparr>]\<rparr>
       = demo_make_out" "demo_make_out \<noteq> demo_make_in"
    by (simp_all add: demo_make_in_def demo_make_out_def demo_transact_def stamped_def)
  moreover have "bm_payer demo_made_params = replicate 32 3" "make_proof_wf (bm_make_proof demo_made_params)"
    by (simp_all add: demo_made_params_def make_proof_wf_def)
  ultimately show ?thesis
    using make_instruction_lands [where E = demo_make_env and S = demo_made_S and w = "[]" and
        w' = "[] @ [[1]]", OF demo_account_checks _ _ _ _ assms refl]
    by (simp add: demo_made_cleared demo_accepts_iff make_points_def vk_commitments table_put_def)
qed

lemma demo_made_delivers:
  assumes "plaintext_serialize demo_made_S (to_plaintext (ou_terms demo_made_order) 3) = Inr n"
  shows "delivers demo_made_S demo_made_index [5] demo_made_order (replicate 32 2) (demo_made_tx n ms)"
  unfolding delivers_def
  by (rule exI [of _ 0], rule exI, rule exI [of _ n], rule exI [of _ 2], rule exI [of _ n],
      rule exI [of _ "[]"], rule exI [of _ "(replicate 32 3, 3)"], intro conjI)
    (use assms in \<open>auto simp: unified_slots_def demo_made_tx_def demo_made_index_def demo_index_def
      demo_made_order_def order_of_note_def resolve_mint_def ext_def demo_note_asset\<close>)

end
