(* ===== verification/Authority_Properties.thy ===== *)
theory Authority_Properties
  imports Enforcement_Properties Discovery_Properties
begin

text \<open>
  What the signature of an authority is worth. Both programs sign every call of SPP that they forward
  with their authority, makes and escrows included, and the circuits of these two take the hash of
  the spent input as it comes. So a new order can be funded with the UTXO of another one, before its
  expiry and without paying its maker, and an escrow can be released before its unlock time.
\<close>

section \<open>A make on the UTXO of another order\<close>

text \<open>The transaction that the inputs of a make prove: the given input leaf and an empty slot in, the
  change of the new order's owner and the new order out.\<close>

lemma make_inputs_tx:
  assumes "hashes_fit G fe S" "utxos_fit G fe S cu" "make_to_proof_inputs S P = Inr q"
  shows "gprivate_tx_hash G [fe (sth_source_input_hash (mpp_spp_tx_hashes P)), gconst G 0]
      [cu_hash G (cu (mpi_change q)), cu_hash G (cu (mpi_order_utxo q))]
      (fe (sth_private_tx_blinding (mpp_spp_tx_hashes P))) = fe (mpi_private_tx_hash q) \<and>
    (\<exists>k. owner_hash S (ot_destination (ou_terms (mpp_order_utxo P))) = Some k \<and>
       cu_owner G (cu (mpi_change q)) = fe k \<and>
       cu_amount G (cu (mpi_change q)) = gconst G (unat (out_amount (mpp_change P))))"
proof -
  let ?h = "mpp_spp_tx_hashes P" let ?o = "mpp_order_utxo P"
  obtain h1 h2 where plain: "plain_output S (mpp_change P)
      (mint_asset S (ou_source_mint ?o)) (out_amount (mpp_change P)) (ot_destination (ou_terms ?o))"
    and change: "proof_input S (mpp_change P) (sth_output_tree_id ?h) = Some (mpi_change q)"
    and h: "proof_input_hash S (mpi_order_utxo q) = Some h1" "proof_input_hash S (mpi_change q) = Some h2"
      "private_tx_hash_of S [sth_source_input_hash ?h, replicate 32 0] [h2, h1]
         (sth_private_tx_blinding ?h) = Some (mpi_private_tx_hash q)"
    using assms(3) unfolding make_to_proof_inputs_def Let_def
    by (simp only: run_simps de_Morgan_disj not_not) (elim exE conjE, auto simp: plain_output_def)
  note fits = utxos_fitD(1) [OF assms(2) change]
  obtain k where "owner_hash S (ot_destination (ou_terms ?o)) = Some k"
    using plain_output_fits(7) [OF fits plain] by blast
  then show ?thesis
    using plain_output_fits(1,5) [OF fits plain] hashes_fitD(7) [OF assms(1) h(3)]
      utxos_fitD(2) [OF assms(2) h(1)] utxos_fitD(2) [OF assms(2) h(2)]
      fe_zeros [OF hashes_fitD(1) [OF assms(1)]]
    by simp
qed

text \<open>C8. An order can be spent by a make, by anybody who knows it and at any time. Take a new order, of
  whoever wants the assets, whose make is funded with the leaf of an existing order. Its inputs
  satisfy the make circuit, they prove the transaction that spends the existing leaf, and the change
  of a freely chosen amount belongs to the owner of the new order. The program forwards this
  transaction under the signature of the order authority, which owns the existing order, at every
  time, before and after the expiry alike: it asks for no signature of the old order's maker and no
  payment. (Whether SPP spends a UTXO whose owner has signed is then SPP's decision.)\<close>

theorem make_spends_other_orders:
  assumes "account_checks_ok E" "wire_of E = sdk_wire S" "wincode_ok (sdk_wire S)"
    "transact_ok (sdk_wire S)" "make_proof_wf (bm_make_proof b)" "make_instruction S b = Inr ix"
    and "api_law G" "hashes_fit G fe S" "utxos_fit G fe S cu" "viewing_law S" "output_laws S"
    and "order_output_utxo S existing v = Inr u" "output_hash S u tree = Some leaf"
    and "make_to_proof_inputs S P = Inr q" "mpp_order_utxo P = new"
    "sth_source_input_hash (mpp_spp_tx_hashes P) = leaf"
    and "ot_destination_amount (ou_terms new) \<noteq> 0" "ou_source_amount new \<noteq> 0"
    "ot_take_mode (ou_terms new) = take_mode_derived"
    and "private_tx_hash (bm_spp_proof b) = mpi_private_tx_hash q"
    "1 < length (outputs (bm_spp_proof b))" "messages (bm_spp_proof b) = [m]"
    and "put_marker (sdk_wire S) \<lparr>order_utxo_hash = utxo_hash (outputs (bm_spp_proof b) ! 1),
           maker_pubkey = bm_payer b\<rparr> = Some mb"
    and "transact_serialize E ((bm_spp_proof b)\<lparr>messages := [m\<lparr>message_bytes := mb\<rparr>]\<rparr>) = Some tb"
  shows "(\<exists>h. order_terms_data_hash S (ou_terms existing) = Inr h \<and> out_data_hash u = Some h) \<and>
    make_define G (make_assignment G fe cu q) = Some () \<and>
    mc_private_tx_hash (make_assignment G fe cu q) = fe (private_tx_hash (bm_spp_proof b)) \<and>
    gprivate_tx_hash G [fe leaf, gconst G 0]
      [cu_hash G (cu (mpi_change q)), cu_hash G (cu (mpi_order_utxo q))]
      (fe (sth_private_tx_blinding (mpp_spp_tx_hashes P))) = fe (private_tx_hash (bm_spp_proof b)) \<and>
    (\<exists>k. owner_hash S (ot_destination (ou_terms new)) = Some k \<and>
       cu_owner G (cu (mpi_change q)) = fe k \<and>
       cu_amount G (cu (mpi_change q)) = gconst G (unat (out_amount (mpp_change P)))) \<and>
    (\<forall>now w w'. (swap_process_instruction (at E now) (ix_program_id ix) (map view_of (ix_accounts ix))
         (ix_data ix) w = Inr w') =
       (groth16_accepts E (make_points (bm_make_proof b)) (mpi_private_tx_hash q) make_vk \<and>
        swap_signed E (map view_of (tl (ix_accounts ix))) tb w w'))"
proof -
  let ?t = "clear_first_message (bm_spp_proof b)"
  obtain h npk where "order_terms_data_hash S (ou_terms existing) = Inr h" "out_data_hash u = Some h"
    by (rule order_output_utxo_fields [OF assms(11,12)])
  moreover have "make_define G (make_assignment G fe cu q) = Some ()"
    using make_define_assignment [OF assms(7-11,14)] assms(15,17-19) by simp
  moreover have "mc_private_tx_hash (make_assignment G fe cu q) = fe (private_tx_hash (bm_spp_proof b))"
    using assms(20) by (simp add: make_assignment_def)
  moreover note make_inputs_tx [OF assms(8,9,14), unfolded assms(15,16)]
  moreover have cleared: "messages ?t = [m\<lparr>message_bytes := []\<rparr>]" "outputs ?t = outputs (bm_spp_proof b)"
    "private_tx_hash ?t = mpi_private_tx_hash q"
    "?t\<lparr>messages := [m\<lparr>message_bytes := mb\<rparr>]\<rparr> = (bm_spp_proof b)\<lparr>messages := [m\<lparr>message_bytes := mb\<rparr>]\<rparr>"
    using assms(20,22) by (simp_all add: clear_first_message_def)
  have "swap_process_instruction (at E now) (ix_program_id ix) (map view_of (ix_accounts ix)) (ix_data ix) w
       = Inr w' \<longleftrightarrow>
     groth16_accepts E (make_points (bm_make_proof b)) (mpi_private_tx_hash q) make_vk \<and>
     swap_signed E (map view_of (tl (ix_accounts ix))) tb w w'" for now w w'
    using make_instruction_lands [where E = "at E now" and w = w and w' = w',
        simplified, OF assms(1-6) refl] assms(21,23,24) cleared
    by simp
  ultimately show ?thesis
    using assms(20) by auto
qed


text \<open>The taker of the demo order makes an order of its own on it: one unit for sale, the other 399 as
  change.\<close>

definition demo_own_order :: "(bytes, bytes \<times> u64) order_utxo" where
  "demo_own_order = (demo_order 0)\<lparr>ou_terms := (demo_terms 0)\<lparr>ot_destination := demo_address 5\<rparr>,
     ou_source_amount := 1\<rparr>"

definition demo_own_make :: "bytes \<Rightarrow> (bytes, bytes \<times> u64, bytes option) make_proof_params" where
  "demo_own_make leaf = \<lparr>mpp_order_utxo = demo_own_order,
     mpp_change = demo_out (demo_address 5) (replicate 32 7, 2) 399 (replicate 32 8),
     mpp_spp_tx_hashes = \<lparr>sth_source_input_hash = leaf,
       sth_private_tx_blinding = replicate 32 5, sth_output_tree_id = 0\<rparr>\<rparr>"

definition demo_own_in :: "bytes \<Rightarrow> unit transact_ix_data" where
  "demo_own_in ptx = demo_make_in\<lparr>private_tx_hash := ptx\<rparr>"

definition demo_own_out :: "bytes \<Rightarrow> unit transact_ix_data" where
  "demo_own_out ptx = stamped (demo_own_in ptx) (replicate 32 2 @ replicate 32 5)"

definition demo_own_params :: "bytes \<Rightarrow> unit make_ix_params" where
  "demo_own_params ptx = \<lparr>bm_payer = replicate 32 5, bm_tree = replicate 32 8,
     bm_make_proof = \<lparr>make_proof_a = replicate 32 0, make_proof_b = replicate 64 0,
       make_proof_c = replicate 32 0\<rparr>, bm_spp_proof = demo_own_in ptx\<rparr>"

lemma demo_own_simps [simp]:
  "ou_terms demo_own_order = (demo_terms 0)\<lparr>ot_destination := demo_address 5\<rparr>"
  "ou_source_amount demo_own_order = 1" "ot_destination_amount (demo_terms 0) = 250"
  "ot_take_mode (demo_terms 0) = 0" "mpp_order_utxo (demo_own_make leaf) = demo_own_order"
  "sth_source_input_hash (mpp_spp_tx_hashes (demo_own_make leaf)) = leaf"
  "private_tx_hash (demo_own_in ptx) = ptx" "length (outputs (demo_own_in ptx)) = 2"
  "messages (demo_own_in ptx) = [\<lparr>view_tag = [5], message_bytes = []\<rparr>]"
  "utxo_hash (outputs (demo_own_in ptx) ! Suc 0) = replicate 32 2"
  "(demo_own_in ptx)\<lparr>messages := [\<lparr>view_tag = [5], message_bytes = replicate 32 2 @ replicate 32 5\<rparr>]\<rparr>
     = demo_own_out ptx"
  "demo_own_out ptx \<noteq> demo_own_in ptx" "clear_first_message (demo_own_in ptx) = demo_own_in ptx"
  "bm_payer (demo_own_params ptx) = replicate 32 5" "bm_spp_proof (demo_own_params ptx) = demo_own_in ptx"
  "make_proof_wf (bm_make_proof (demo_own_params ptx))"
  by (simp_all add: demo_own_order_def demo_order_def demo_terms_def demo_own_make_def demo_own_in_def
      demo_own_out_def demo_make_in_def demo_transact_def stamped_def clear_first_message_def
      demo_own_params_def make_proof_wf_def)

lemma demo_make_tab: "make_to_proof_inputs (demo_sdk tab) P = make_to_proof_inputs demo_S P"
  by (simp add: make_to_proof_inputs_def Let_def demo_order_output_tab [of tab]
      order_terms_proof_input_of_def address_data_hash_def cong: if_cong)

lemma demo_own_make_proves: "\<exists>q. make_to_proof_inputs demo_S (demo_own_make leaf) = Inr q"
proof -
  have "\<exists>u h. order_output_utxo demo_S demo_own_order v = Inr u \<and> demo_output_hash u 0 = Some h" for v
    by (simp add: order_output_utxo_def order_terms_data_hash_def order_terms_proof_input_of_def
      order_input_data_hash_def ext_def address_data_hash_def Let_def plaintext_serialize_def
      put_plaintext_def table_wire_def demo_own_order_def demo_order_def demo_terms_def
      demo_output_hash_def demo_commit_def order_pda_owner_def)
  then obtain u h where "order_output_utxo demo_S demo_own_order (viewing_pubkey (demo_address 5)) = Inr u"
    "demo_output_hash u 0 = Some h"
    by blast
  moreover obtain h2 where "demo_output_hash (mpp_change (demo_own_make leaf)) 0 = Some h2"
    using demo_out_hash unfolding demo_own_make_def make_proof_params.simps by blast
  ultimately show ?thesis
    by (simp add: make_to_proof_inputs_def Let_def demo_own_make_def demo_own_order_def demo_order_def
        demo_out_def order_terms_proof_input_of_def address_data_hash_def ext_def)
qed

theorem make_spends_other_orders_witness:
  "\<exists>u leaf q ix. order_output_utxo demo_S (demo_order 0) (replicate 33 4) = Inr u \<and>
     output_hash demo_S u 0 = Some leaf \<and>
     make_to_proof_inputs demo_S (demo_own_make leaf) = Inr q \<and>
     make_define demo_gadgets (make_assignment demo_gadgets id id q) = Some () \<and>
     make_instruction (demo_sdk [demo_own_in (mpi_private_tx_hash q), demo_own_out (mpi_private_tx_hash q)])
       (demo_own_params (mpi_private_tx_hash q)) = Inr ix \<and>
     swap_process_instruction
       (at (demo_env 0 (\<lambda>vk pis. pis = [mpi_private_tx_hash q])
          [demo_own_in (mpi_private_tx_hash q), demo_own_out (mpi_private_tx_hash q)]) 1600000000)
       (ix_program_id ix) (map view_of (ix_accounts ix)) (ix_data ix) [] = Inr ([] @ [[1]])"
proof -
  obtain u i where u: "order_output_utxo demo_S (demo_order 0) (replicate 33 4) = Inr u"
    and i: "order_to_input_utxo demo_S (demo_order 0) 0 0 = Inr i"
    using demo_order_forms by blast
  have leaf: "output_hash demo_S u 0 = Some (in_utxo_hash i)"
    by (rule order_input_hash [where S = demo_S, OF demo_sdk_laws(1,2) u i])
  obtain q where q: "make_to_proof_inputs demo_S (demo_own_make (in_utxo_hash i)) = Inr q"
    using demo_own_make_proves by blast
  let ?p = "mpi_private_tx_hash q" let ?tab = "[demo_own_in ?p, demo_own_out ?p]"
  let ?E = "demo_env 0 (\<lambda>vk pis. pis = [?p]) ?tab"
  obtain ix where ix: "make_instruction (demo_sdk ?tab) (demo_own_params ?p) = Inr ix"
    by (simp add: make_instruction_def put_make_ix_def put_make_proof_def table_wire_def
        table_put_def ext_def Let_def)
  have signed: "swap_signed ?E (map view_of (tl (ix_accounts ix))) [1] [] ([] @ [[1]])"
    by (rule demo_signed) (use ix in \<open>auto simp: make_instruction_def result_simps Let_def\<close>)
  have marker: "put_marker (sdk_wire (demo_sdk ?tab)) \<lparr>order_utxo_hash = replicate 32 2,
      maker_pubkey = replicate 32 5\<rparr> = Some (replicate 32 2 @ replicate 32 5)"
    by (simp add: put_marker_def table_wire_def)
  have out: "order_output_utxo (demo_sdk ?tab) (demo_order 0) (replicate 33 4) = Inr u"
    "make_to_proof_inputs (demo_sdk ?tab) (demo_own_make (in_utxo_hash i)) = Inr q"
    "output_hash (demo_sdk ?tab) u 0 = Some (in_utxo_hash i)"
    using u q leaf by (simp_all add: demo_order_output_tab [of ?tab] demo_make_tab [of ?tab])
  note spends = make_spends_other_orders [where E = ?E and S = "demo_sdk ?tab" and G = demo_gadgets
      and fe = id and cu = id and new = demo_own_order and b = "demo_own_params ?p" and tb = "[1]"
      and m = "\<lparr>view_tag = [5], message_bytes = []\<rparr>" and mb = "replicate 32 2 @ replicate 32 5",
      OF demo_account_checks _ _ _ _ ix demo_api demo_hashes_fit demo_utxos_fit demo_sdk_laws(6,1)
      out(1,3,2)]
  have "make_define demo_gadgets (make_assignment demo_gadgets id id q) = Some ()" "swap_process_instruction (at ?E 1600000000)
       (ix_program_id ix) (map view_of (ix_accounts ix)) (ix_data ix) [] = Inr ([] @ [[1]])"
    using spends marker signed
    by (simp_all add: take_mode_derived_def table_put_def demo_accepts_iff make_points_def vk_commitments)
  with u leaf q ix show ?thesis
    by blast
qed

section \<open>An escrow on the UTXO of another escrow\<close>

text \<open>An escrow built by the SDK lands exactly when its proof is accepted and SPP accepts the
  transaction, whoever submits it and whenever.\<close>

lemma escrow_instruction_lands:
  assumes "account_checks_ok E" "wire_of E = sdk_wire S" "wincode_ok (sdk_wire S)"
    and "transact_ok (sdk_wire S)" "escrow_proof_wf (be_escrow_proof b)"
    and "escrow_instruction S b = Inr ix" "t = be_spp_proof b"
  shows "escrow_process_instruction E (ix_program_id ix) (map view_of (ix_accounts ix)) (ix_data ix) w
           = Inr w' \<longleftrightarrow>
     groth16_accepts E (escrow_points (be_escrow_proof b)) (private_tx_hash t) escrow_vk \<and>
     (\<exists>tb. transact_serialize E t = Some tb \<and>
        escrow_signed E (map view_of (tl (ix_accounts ix))) tb w w')"
proof -
  let ?as = "map view_of (tl (ix_accounts ix))"
  obtain d where put: "put_escrow_ix (sdk_wire S) \<lparr>es_proof = be_escrow_proof b, es_transact = t\<rparr> = Some d"
    and ix: "ix_program_id ix = escrow_id" "ix_data ix = escrow_tag_escrow # d"
      "map view_of (ix_accounts ix) =
         \<lparr>address = be_payer b, is_signer = True, is_writable = True\<rparr> # ?as" "?as \<noteq> []"
    using assms(6,7) by (auto simp: escrow_instruction_def result_simps Let_def)
  have dec: "get_escrow_ix (wire_of E) d = Some (\<lparr>es_proof = be_escrow_proof b, es_transact = t\<rparr>, [])"
    using escrow_ix.get_put [OF _ put, of "[]"] assms(2-5) by simp
  have "escrow_process_instruction E (ix_program_id ix) (map view_of (ix_accounts ix)) (ix_data ix) w
           = Inr w' \<longleftrightarrow>
     (\<exists>rest tb. escrow_authorised E (map view_of (ix_accounts ix)) d rest tb \<and>
        escrow_signed E rest tb w w')"
    unfolding ix(1,2) escrow_process_ok by (simp add: escrow_program_authorised_def escrow_tag_defs)
  then show ?thesis
    using dec
    unfolding escrow_authorised_def ix(3)
    by (auto simp: next_signer_mut_payer [OF assms(1)] remaining_Cons [OF assms(1) ix(4)])
qed

lemma escrow_inputs_tx:
  assumes "hashes_fit G fe S" "utxos_fit G fe S cu" "escrow_to_proof_inputs S P = Inr q"
  shows "gprivate_tx_hash G [fe (eth_source_input_hash (epp_spp_tx_hashes P)), gconst G 0]
      [cu_hash G (cu (epi_change q)), cu_hash G (cu (epi_escrow_utxo q))]
      (fe (eth_private_tx_blinding (epp_spp_tx_hashes P))) = fe (epi_private_tx_hash q) \<and>
    (\<exists>k. owner_hash S (et_creator (eu_terms (epp_escrow_utxo P))) = Some k \<and>
       cu_owner G (cu (epi_change q)) = fe k \<and>
       cu_amount G (cu (epi_change q)) = gconst G (unat (out_amount (epp_change P))))"
proof -
  let ?h = "epp_spp_tx_hashes P" let ?e = "epp_escrow_utxo P"
  obtain h1 h2 where plain: "plain_output S (epp_change P)
      (mint_asset S (eu_asset ?e)) (out_amount (epp_change P)) (et_creator (eu_terms ?e))"
    and change: "proof_input S (epp_change P) (eth_output_tree_id ?h) = Some (epi_change q)"
    and h: "proof_input_hash S (epi_escrow_utxo q) = Some h1" "proof_input_hash S (epi_change q) = Some h2"
      "private_tx_hash_of S [eth_source_input_hash ?h, replicate 32 0] [h2, h1]
         (eth_private_tx_blinding ?h) = Some (epi_private_tx_hash q)"
    using assms(3) unfolding escrow_to_proof_inputs_def Let_def
    by (simp only: run_simps de_Morgan_disj not_not) (elim exE conjE, auto simp: plain_output_def)
  note fits = utxos_fitD(1) [OF assms(2) change]
  obtain k where "owner_hash S (et_creator (eu_terms ?e)) = Some k"
    using plain_output_fits(7) [OF fits plain] by blast
  then show ?thesis
    using plain_output_fits(1,5) [OF fits plain] hashes_fitD(7) [OF assms(1) h(3)]
      utxos_fitD(2) [OF assms(2) h(1)] utxos_fitD(2) [OF assms(2) h(2)]
      fe_zeros [OF hashes_fitD(1) [OF assms(1)]]
    by simp
qed

text \<open>C9. An escrow can be released before its unlock time, through the escrow instruction itself. Take a
  new escrow, with any unlock time, that is funded with the leaf of a locked one. Its inputs satisfy
  the escrow circuit, they prove the transaction that spends the locked leaf, and the change of a
  freely chosen amount belongs to the creator of the new escrow, free of any lock. The program
  forwards this transaction under the signature of the escrow authority, which owns the locked
  escrow, at every time: it reads no clock and asks for no signature of the old creator.\<close>

theorem escrow_spends_locked_escrows:
  assumes "account_checks_ok E" "wire_of E = sdk_wire S" "wincode_ok (sdk_wire S)"
    "transact_ok (sdk_wire S)" "escrow_proof_wf (be_escrow_proof b)" "escrow_instruction S b = Inr ix"
    and "api_law G" "hashes_fit G fe S" "utxos_fit G fe S cu" "output_laws S"
    and "escrow_output_utxo S locked = Inr u" "output_hash S u tree = Some leaf"
    and "escrow_to_proof_inputs S P = Inr q" "epp_escrow_utxo P = new"
    "eth_source_input_hash (epp_spp_tx_hashes P) = leaf" "eu_amount new \<noteq> 0"
    and "private_tx_hash (be_spp_proof b) = epi_private_tx_hash q"
    and "transact_serialize E (be_spp_proof b) = Some tb"
  shows "(\<exists>h. escrow_terms_data_hash S (eu_terms locked) = Inr h \<and> out_data_hash u = Some h) \<and>
    escrow_define G (escrow_assignment fe cu q) = Some () \<and>
    ec_private_tx_hash (escrow_assignment fe cu q) = fe (private_tx_hash (be_spp_proof b)) \<and>
    gprivate_tx_hash G [fe leaf, gconst G 0]
      [cu_hash G (cu (epi_change q)), cu_hash G (cu (epi_escrow_utxo q))]
      (fe (eth_private_tx_blinding (epp_spp_tx_hashes P))) = fe (private_tx_hash (be_spp_proof b)) \<and>
    (\<exists>k. owner_hash S (et_creator (eu_terms new)) = Some k \<and> cu_owner G (cu (epi_change q)) = fe k \<and>
       cu_amount G (cu (epi_change q)) = gconst G (unat (out_amount (epp_change P)))) \<and>
    (\<forall>now w w'. (escrow_process_instruction (at E now) (ix_program_id ix) (map view_of (ix_accounts ix))
         (ix_data ix) w = Inr w') =
       (groth16_accepts E (escrow_points (be_escrow_proof b)) (epi_private_tx_hash q) escrow_vk \<and>
        escrow_signed E (map view_of (tl (ix_accounts ix))) tb w w'))"
proof -
  obtain h npk where "escrow_terms_data_hash S (eu_terms locked) = Inr h" "out_data_hash u = Some h"
    by (rule escrow_output_utxo_fields [OF assms(10,11)])
  moreover have "escrow_define G (escrow_assignment fe cu q) = Some ()"
    using escrow_define_assignment [OF assms(7-10,13)] assms(14,16) by simp
  moreover have "ec_private_tx_hash (escrow_assignment fe cu q) = fe (private_tx_hash (be_spp_proof b))"
    using assms(17) by (simp add: escrow_assignment_def)
  moreover note escrow_inputs_tx [OF assms(8,9,13), unfolded assms(14,15)]
  moreover have "escrow_process_instruction (at E now) (ix_program_id ix) (map view_of (ix_accounts ix))
       (ix_data ix) w = Inr w' \<longleftrightarrow>
     groth16_accepts E (escrow_points (be_escrow_proof b)) (epi_private_tx_hash q) escrow_vk \<and>
     escrow_signed E (map view_of (tl (ix_accounts ix))) tb w w'" for now w w'
    using escrow_instruction_lands [where E = "at E now" and w = w and w' = w',
        simplified, OF assms(1-6) refl] assms(17,18)
    by simp
  ultimately show ?thesis
    using assms(17) by auto
qed

text \<open>The creator of the demo escrow releases all but one unit of it before the unlock time.\<close>

definition demo_relock :: "bytes \<Rightarrow> (bytes, bytes \<times> u64, bytes option) escrow_proof_params" where
  "demo_relock leaf = \<lparr>epp_escrow_utxo = demo_escrow\<lparr>eu_amount := 1\<rparr>,
     epp_change = demo_out (demo_address 2) (replicate 32 7, 2) 399 (replicate 32 8),
     epp_spp_tx_hashes = \<lparr>eth_source_input_hash = leaf,
       eth_private_tx_blinding = replicate 32 5, eth_output_tree_id = 0\<rparr>\<rparr>"

definition demo_relock_params :: "bytes \<Rightarrow> unit escrow_ix_params" where
  "demo_relock_params ptx = \<lparr>be_payer = replicate 32 2, be_tree = replicate 32 8,
     be_escrow_proof = \<lparr>escrow_proof_a = replicate 32 0, escrow_proof_b = replicate 64 0,
       escrow_proof_c = replicate 32 0\<rparr>, be_spp_proof = demo_settlement ptx [] None\<rparr>"

lemma demo_relock_simps [simp]:
  "epp_escrow_utxo (demo_relock leaf) = demo_escrow\<lparr>eu_amount := 1\<rparr>"
  "eth_source_input_hash (epp_spp_tx_hashes (demo_relock leaf)) = leaf"
  "be_spp_proof (demo_relock_params ptx) = demo_settlement ptx [] None"
  "escrow_proof_wf (be_escrow_proof (demo_relock_params ptx))"
  by (simp_all add: demo_relock_def demo_relock_params_def escrow_proof_wf_def)

lemma demo_escrow_tab: "escrow_to_proof_inputs (demo_sdk tab) P = escrow_to_proof_inputs demo_S P"
  by (simp add: escrow_to_proof_inputs_def Let_def demo_escrow_output_tab [of tab]
      escrow_terms_proof_input_of_def cong: if_cong)

lemma demo_relock_proves: "\<exists>q. escrow_to_proof_inputs demo_S (demo_relock leaf) = Inr q"
proof -
  have "\<exists>u h. escrow_output_utxo demo_S (demo_escrow\<lparr>eu_amount := 1\<rparr>) = Inr u \<and> demo_output_hash u 0 = Some h"
    by (simp add: escrow_output_utxo_def escrow_terms_data_hash_def escrow_terms_proof_input_of_def
      escrow_input_data_hash_def ext_def Let_def demo_escrow_def
      demo_output_hash_def demo_commit_def escrow_pda_owner_def)
  moreover obtain h2 where "demo_output_hash (epp_change (demo_relock leaf)) 0 = Some h2"
    using demo_out_hash unfolding demo_relock_def escrow_proof_params.simps by blast
  ultimately show ?thesis
    by (auto simp add: escrow_to_proof_inputs_def Let_def demo_relock_def demo_escrow_def
        demo_out_def escrow_terms_proof_input_of_def ext_def)
qed

theorem escrow_spends_locked_escrows_witness:
  "\<exists>u leaf q ix. escrow_output_utxo demo_S demo_escrow = Inr u \<and> output_hash demo_S u 0 = Some leaf \<and>
     escrow_to_proof_inputs demo_S (demo_relock leaf) = Inr q \<and>
     escrow_define demo_gadgets (escrow_assignment id id q) = Some () \<and>
     escrow_instruction (demo_with (demo_settlement (epi_private_tx_hash q) [] None))
       (demo_relock_params (epi_private_tx_hash q)) = Inr ix \<and>
     escrow_process_instruction
       (at (demo_accepting 0 (epi_private_tx_hash q) (demo_settlement (epi_private_tx_hash q) [] None)) 1600000000)
       (ix_program_id ix) (map view_of (ix_accounts ix)) (ix_data ix) [] = Inr ([] @ [[0]])"
proof -
  obtain u i where u: "escrow_output_utxo demo_S demo_escrow = Inr u"
    and i: "escrow_to_input_utxo demo_S demo_escrow 0 0 = Inr i"
    using demo_escrow_forms by blast
  have leaf: "output_hash demo_S u 0 = Some (in_utxo_hash i)"
    using escrow_forms.forms_hash [where S = demo_S, OF demo_sdk_laws(1,2) u i] by simp
  obtain q where q: "escrow_to_proof_inputs demo_S (demo_relock (in_utxo_hash i)) = Inr q"
    using demo_relock_proves by blast
  let ?p = "epi_private_tx_hash q" let ?t = "demo_settlement ?p [] None"
  let ?E = "demo_accepting 0 ?p ?t"
  obtain ix where ix: "escrow_instruction (demo_with ?t) (demo_relock_params ?p) = Inr ix"
    by (simp add: escrow_instruction_def put_escrow_ix_def put_escrow_proof_def table_wire_def
        table_put_def ext_def Let_def)
  have signed: "escrow_signed ?E (map view_of (tl (ix_accounts ix))) [0] [] ([] @ [[0]])"
    by (rule demo_signed) (use ix in \<open>auto simp: escrow_instruction_def result_simps Let_def\<close>)
  have out: "escrow_output_utxo (demo_with ?t) demo_escrow = Inr u"
    "escrow_to_proof_inputs (demo_with ?t) (demo_relock (in_utxo_hash i)) = Inr q"
    "output_hash (demo_with ?t) u 0 = Some (in_utxo_hash i)"
    using u q leaf by (simp_all add: demo_escrow_output_tab [of "[?t]"] demo_escrow_tab [of "[?t]"])
  note spends = escrow_spends_locked_escrows [where E = ?E and S = "demo_with ?t" and G = demo_gadgets
      and fe = id and cu = id and new = "demo_escrow\<lparr>eu_amount := 1\<rparr>" and b = "demo_relock_params ?p"
      and tb = "[0]", OF demo_account_checks _ _ _ _ ix demo_api demo_hashes_fit demo_utxos_fit
      demo_sdk_laws(1) out(1,3,2)]
  have "escrow_define demo_gadgets (escrow_assignment id id q) = Some ()" "escrow_process_instruction
      (at ?E 1600000000) (ix_program_id ix) (map view_of (ix_accounts ix)) (ix_data ix) [] = Inr ([] @ [[0]])"
    using spends signed
    by (simp_all add: table_put_def demo_accepts_iff escrow_points_def vk_commitments)
  with u leaf q ix show ?thesis
    by blast
qed

end
