(* ===== verification/Lifecycle_Properties.thy ===== *)
theory Lifecycle_Properties
  imports Prover_Properties Authority_Properties
begin

text \<open>
  From the creation of an order or an escrow to its end: whatever was made can be proved, the proof
  takes the order up to the deadline, and gets the funds back from the deadline on. The gates of a deadline that lies
  beyond the last instant of the clock never open.
\<close>

section \<open>Provers that find proofs\<close>

text \<open>The prover returns a proof for the witness of all proof inputs that satisfy the circuit.\<close>

definition prover_total ::
  "('i, 'f) prover_env \<Rightarrow> string \<Rightarrow> ('q \<Rightarrow> witness) \<Rightarrow> ('q \<Rightarrow> bool) \<Rightarrow> bool" where
  "prover_total P name wit satisfied \<longleftrightarrow> (\<forall>q. satisfied q \<longrightarrow> (\<exists>c. run_prover P name (wit q) = Inr c))"

lemma same_hashes_at [simp]: "same_hashes (at E now) S = same_hashes E S"
  by (simp add: same_hashes_def)

lemma prover_complete_at [simp]: "prover_complete (at E now) P name public vk = prover_complete E P name public vk"
  by (simp add: prover_complete_def)

lemma cancel_proof_accepted:
  assumes "utxo_keys_law P"
    and "prover_complete E P (circuit_name Circuit_Cancel) ''Public_PublicInputHash'' cancel_vk"
    and run: "run_prover P (circuit_name Circuit_Cancel) (cancel_witness P q) = Inr c"
  shows "groth16_accepts E (cancel_points (cancel_proof_of_order (order_proof_of c)))
    (cpi_public_input_hash q) cancel_vk"
proof -
  have acc: "groth16_accepts E \<lparr>cp_a = cpr_a c, cp_b = cpr_b c, cp_c = cpr_c c,
      cp_commitment = cpr_commitment c\<rparr> (cpi_public_input_hash q) cancel_vk"
    by (rule run_prover_accepted [OF assms(2) run, where scalars = "cancel_scalars q"])
      (use layout_carries [OF cancel_layout [OF assms(1), of q]] in
        \<open>simp_all add: cancel_witness_def cancel_scalars_def\<close>)
  moreover have "cpr_commitment c = None"
    using acc by (cases "cpr_commitment c") (auto simp: groth16_accepts_def vk_commitments)
  ultimately show ?thesis
    by (simp add: cancel_proof_of_order_def order_proof_of_def cancel_points_def)
qed

lemma take_proof_accepted:
  assumes "utxo_keys_law P"
    and "prover_complete E P (circuit_name Circuit_Take) ''Public_PublicInputHash'' take_vk"
    and run: "run_prover P (circuit_name Circuit_Take) (take_witness P q) = Inr c"
  shows "groth16_accepts E (take_points (take_proof_of_order (order_proof_of c))) (tpi_public_input_hash q) take_vk"
proof -
  have acc: "groth16_accepts E \<lparr>cp_a = cpr_a c, cp_b = cpr_b c, cp_c = cpr_c c,
      cp_commitment = cpr_commitment c\<rparr> (tpi_public_input_hash q) take_vk"
    by (rule run_prover_accepted [OF assms(2) run, where scalars = "take_scalars q"])
      (use layout_carries [OF take_layout [OF assms(1), of q]] in
        \<open>simp_all add: take_witness_def take_scalars_def\<close>)
  moreover have "cpr_commitment c = None"
    using acc by (cases "cpr_commitment c") (auto simp: groth16_accepts_def vk_commitments)
  ultimately show ?thesis
    by (simp add: take_proof_of_order_def order_proof_of_def take_points_def)
qed

lemma withdraw_proof_accepted:
  assumes "utxo_keys_law P"
    and "prover_complete E P (timelock_circuit_name Circuit_Withdraw) ''Public_PublicInputHash'' withdraw_vk"
    and run: "run_prover P (timelock_circuit_name Circuit_Withdraw) (withdraw_witness P q) = Inr c"
  shows "groth16_accepts E (withdraw_points (withdraw_proof_of_timelock (timelock_proof_of c)))
    (wpi_public_input_hash q) withdraw_vk"
proof -
  have acc: "groth16_accepts E \<lparr>cp_a = cpr_a c, cp_b = cpr_b c, cp_c = cpr_c c,
      cp_commitment = cpr_commitment c\<rparr> (wpi_public_input_hash q) withdraw_vk"
    by (rule run_prover_accepted [OF assms(2) run, where scalars = "withdraw_scalars q"])
      (use layout_carries [OF withdraw_layout [OF assms(1), of q]] in
        \<open>simp_all add: withdraw_witness_def withdraw_scalars_def\<close>)
  moreover have "cpr_commitment c = None"
    using acc by (cases "cpr_commitment c") (auto simp: groth16_accepts_def vk_commitments)
  ultimately show ?thesis
    by (simp add: withdraw_proof_of_timelock_def timelock_proof_of_def withdraw_points_def)
qed

section \<open>Orders\<close>

text \<open>A request of the maker for the refund of an order, with a proof for the transaction hash \<open>ptx\<close>.\<close>

definition refund_request ::
  "('x, 'v, 's, 'w) chain_env \<Rightarrow> ('x, 'p, 'm, 'd, 'r, 'i) sdk_env \<Rightarrow> 'p order_terms \<Rightarrow> bytes \<Rightarrow>
   order_proof \<Rightarrow> 'x cancel_ix_params \<Rightarrow> bool" where
  "refund_request E S terms ptx p b \<longleftrightarrow>
     bc_cancel_proof b = cancel_proof_of_order p \<and> cancel_proof_wf (bc_cancel_proof b) \<and>
     solana_owner_identity E (bc_maker b) = owner_proof_input_hash S (signing_pubkey (ot_destination terms)) \<and>
     bc_order_expiry b = ot_expiry terms \<and> private_tx_hash (bc_spp_proof b) = ptx"

text \<open>C12. No order gets stuck. Take an order whose make inputs satisfied the make circuit. For every
  refund whose inputs the SDK accepts, the prover returns a proof; and the cancel instruction that
  the SDK builds from this proof for the maker lands at every time after the expiry at which SPP
  accepts the transaction, and at no other time.\<close>

theorem made_order_refundable:
  assumes "account_checks_ok E" "same_hashes E S" "wincode_ok (sdk_wire S)" "transact_ok (sdk_wire S)"
    and "utxo_keys_law P"
    and "prover_complete E P (circuit_name Circuit_Cancel) ''Public_PublicInputHash'' cancel_vk"
    and "prover_total P (circuit_name Circuit_Cancel) (cancel_witness P)
           (\<lambda>q. cancel_define G (cancel_assignment G fe cu q) = Some ())"
    and "api_law G" "hashes_fit G fe S" "utxos_fit G fe S cu" "viewing_law S" "output_laws S"
    and "make_to_proof_inputs S M = Inr m" "make_define G (make_assignment G fe cu m) = Some ()"
    and "cancel_to_proof_inputs S C = Inr q" "cpp_order_utxo C = mpp_order_utxo M"
    and "terms = ou_terms (mpp_order_utxo M)"
  shows "\<exists>p. client_prove_cancel P q = Inr p \<and>
     (\<forall>b ix now w w'. refund_request E S terms (cpi_private_tx_hash q) p b \<and> cancel_instruction S b = Inr ix \<longrightarrow>
        (swap_process_instruction (at E now) (ix_program_id ix) (map view_of (ix_accounts ix)) (ix_data ix) w
           = Inr w') =
        (uint (ot_expiry terms) < sint now \<and>
         (\<exists>tb. transact_serialize E (bc_spp_proof b) = Some tb \<and>
            swap_signed E (map view_of (tl (tl (ix_accounts ix)))) tb w w')))"
proof -
  have "cancel_define G (cancel_assignment G fe cu q) = Some ()"
    using make_define_assignment [OF assms(8-13)] cancel_define_assignment [OF assms(8-12,15)] assms(14,16)
    by simp
  then obtain c where run: "run_prover P (circuit_name Circuit_Cancel) (cancel_witness P q) = Inr c"
    using assms(7) by (auto simp: prover_total_def)
  let ?p = "order_proof_of c"
  have acc: "groth16_accepts E (cancel_points (cancel_proof_of_order ?p)) (cpi_public_input_hash q) cancel_vk"
    by (rule cancel_proof_accepted [OF assms(5,6) run])
  have "(swap_process_instruction (at E now) (ix_program_id ix) (map view_of (ix_accounts ix)) (ix_data ix) w
           = Inr w') =
        (uint (ot_expiry terms) < sint now \<and>
         (\<exists>tb. transact_serialize E (bc_spp_proof b) = Some tb \<and>
            swap_signed E (map view_of (tl (tl (ix_accounts ix)))) tb w w'))"
    if b: "refund_request E S terms (cpi_private_tx_hash q) ?p b" "cancel_instruction S b = Inr ix" for b ix now w w'
  proof -
    have "cancel_proof_wf (cancel_proof_of_order ?p)"
      using b(1) by (auto simp: refund_request_def)
    then show ?thesis
      using cancel_proof_lands [where E = "at E now" and w = w and w' = w' and terms = terms, OF _ _ assms(3,4) _ b(2) assms(15)]
        assms(1,2,16,17) b(1) acc by (simp add: refund_request_def)
  qed
  moreover have "client_prove_cancel P q = Inr ?p"
    using run by (simp add: client_prove_cancel_def cancel_prove_def)
  ultimately show ?thesis
    by blast
qed

lemma demo_prover_total: "prover_total (demo_prover None) name wit satisfied"
  by (simp add: prover_total_def run_prover_def demo_prover_def)

theorem made_order_refundable_witness:
  "\<exists>t m q p ix. make_to_proof_inputs (demo_with t) (demo_make_params 0) = Inr m \<and>
     cancel_to_proof_inputs (demo_with t) demo_cancel_inputs = Inr q \<and>
     client_prove_cancel (demo_prover None) q = Inr p \<and>
     cancel_instruction (demo_with t) (demo_cancel_params t) = Inr ix \<and>
     swap_process_instruction (at (demo_any 0 t) 1700000001)
       (ix_program_id ix) (map view_of (ix_accounts ix)) (ix_data ix) [] = Inr ([] @ [[0]])"
proof -
  obtain m where m: "make_to_proof_inputs demo_S (demo_make_params 0) = Inr m"
    using demo_make_proves by blast
  obtain q where q: "cancel_to_proof_inputs demo_S demo_cancel_inputs = Inr q"
    using demo_cancel_proves by blast
  let ?t = "demo_settlement (cpi_private_tx_hash q) [replicate 32 4] None" let ?E = "demo_any 0 ?t"
  obtain ix where ix: "cancel_instruction (demo_with ?t) (demo_cancel_params ?t) = Inr ix"
    using demo_cancel_builds by blast
  have order: "mpp_order_utxo (demo_make_params 0) = demo_order 0" "cpp_order_utxo demo_cancel_inputs = demo_order 0"
    by (simp_all add: demo_make_params_def demo_cancel_inputs_def)
  have m': "make_to_proof_inputs (demo_with ?t) (demo_make_params 0) = Inr m"
    and q': "cancel_to_proof_inputs (demo_with ?t) demo_cancel_inputs = Inr q"
    using m q demo_make_tab [of "[?t]"] demo_cancel_tab [of "[?t]"] by simp_all
  have sat: "make_define demo_gadgets (make_assignment demo_gadgets id id m) = Some ()"
    using make_define_assignment [OF demo_api demo_hashes_fit demo_utxos_fit demo_sdk_laws(6,1) m]
    by (simp add: order demo_order_def demo_terms_def take_mode_derived_def)
  have complete: "prover_complete ?E (demo_prover None) (circuit_name Circuit_Cancel) ''Public_PublicInputHash'' cancel_vk"
    by (rule demo_prover_complete) (simp add: vk_commitments)
  have wires: "wincode_ok (sdk_wire (demo_with ?t))" "transact_ok (sdk_wire (demo_with ?t))"
    by simp_all
  have terms: "demo_terms 0 = ou_terms (mpp_order_utxo (demo_make_params 0))"
    by (simp add: order demo_order_def)
  obtain p where p: "client_prove_cancel (demo_prover None) q = Inr p"
    and lands: "\<And>b ix now w w'. refund_request ?E (demo_with ?t) (demo_terms 0) (cpi_private_tx_hash q) p b \<and>
        cancel_instruction (demo_with ?t) b = Inr ix \<Longrightarrow>
      (swap_process_instruction (at ?E now) (ix_program_id ix) (map view_of (ix_accounts ix)) (ix_data ix) w
           = Inr w') =
        (uint (ot_expiry (demo_terms 0)) < sint now \<and>
         (\<exists>tb. transact_serialize ?E (bc_spp_proof b) = Some tb \<and>
            swap_signed ?E (map view_of (tl (tl (ix_accounts ix)))) tb w w'))"
    using made_order_refundable [OF demo_account_checks demo_same_hashes wires demo_prover_keys complete
        demo_prover_total demo_api demo_hashes_fit demo_utxos_fit demo_sdk_laws(6,1) m' sat q' _ terms] order
    by auto
  have request: "refund_request ?E (demo_with ?t) (demo_terms 0) (cpi_private_tx_hash q) p (demo_cancel_params ?t)"
    using p by (auto simp: refund_request_def demo_cancel_params_def cancel_proof_wf_def demo_terms_def demo_address_def
        client_prove_cancel_def cancel_prove_def run_prover_def demo_prover_def order_proof_of_def
        cancel_proof_of_order_def)
  have "swap_signed ?E (map view_of (tl (tl (ix_accounts ix)))) [0] [] ([] @ [[0]])"
    by (rule demo_signed) (use ix in \<open>auto simp: cancel_instruction_def result_simps Let_def\<close>)
  then have "swap_process_instruction (at ?E 1700000001)
       (ix_program_id ix) (map view_of (ix_accounts ix)) (ix_data ix) [] = Inr ([] @ [[0]])"
    using lands [of "demo_cancel_params ?t" ix 1700000001 "[]" "[] @ [[0]]"] request ix
    by (simp add: demo_terms_def demo_cancel_params_def table_put_def)
  with m' q' p ix show ?thesis
    by blast
qed

text \<open>A request of a taker for an order, with a proof for the transaction hash \<open>ptx\<close> and the first nullifier.\<close>

definition take_request ::
  "'p order_terms \<Rightarrow> bytes \<Rightarrow> bytes \<Rightarrow> order_proof \<Rightarrow> 'x take_ix_params \<Rightarrow> bool" where
  "take_request terms ptx nullifier p b \<longleftrightarrow>
     bt_take_proof b = take_proof_of_order p \<and> take_proof_wf (bt_take_proof b) \<and>
     expiry_unix_ts (bt_spp_proof b) = ot_expiry terms \<and> private_tx_hash (bt_spp_proof b) = ptx \<and>
     (\<exists>i is. inputs (bt_spp_proof b) = i # is \<and> nullifier_hash i = nullifier)"

text \<open>C38. Every order can be taken. Take an order whose make inputs satisfied the make circuit. For every
  derived take of it whose inputs the SDK accepts, the prover returns a proof; and the take
  instruction that the SDK builds from this proof lands at every time up to the expiry at which SPP
  accepts the transaction, and at no other time.\<close>

theorem made_order_takeable:
  assumes "account_checks_ok E" "same_hashes E S" "wincode_ok (sdk_wire S)" "transact_ok (sdk_wire S)"
    and "utxo_keys_law P"
    and "prover_complete E P (circuit_name Circuit_Take) ''Public_PublicInputHash'' take_vk"
    and "prover_total P (circuit_name Circuit_Take) (take_witness P)
           (\<lambda>q. take_define G (take_assignment G fe cu q) = Some ())"
    and "api_law G" "hashes_fit G fe S" "utxos_fit G fe S cu" "blindings_fit G fe S"
    and "viewing_law S" "output_laws S"
    and "make_to_proof_inputs S M = Inr m" "make_define G (make_assignment G fe cu m) = Some ()"
    and "take_to_proof_inputs S T = Inr q" "tpp_order_utxo T = mpp_order_utxo M"
    and "terms = ou_terms (mpp_order_utxo M)"
  shows "\<exists>p. client_prove_take P q = Inr p \<and>
     (\<forall>b ix now w w'. take_request terms (tpi_private_tx_hash q) (tpi_first_nullifier q) p b \<and>
          take_instruction S b = Inr ix \<longrightarrow>
        (swap_process_instruction (at E now) (ix_program_id ix) (map view_of (ix_accounts ix)) (ix_data ix) w
           = Inr w') =
        (0 \<le> sint now \<and> sint now \<le> uint (ot_expiry terms) \<and>
         (\<exists>tb. transact_serialize E (bt_spp_proof b) = Some tb \<and>
            swap_signed E (map view_of (tl (ix_accounts ix))) tb w w')))"
proof -
  have "take_define G (take_assignment G fe cu q) = Some ()"
    using make_define_assignment [OF assms(8-10,12-14)] take_define_assignment [OF assms(8-13,16)] assms(15,17)
    by simp
  then obtain c where run: "run_prover P (circuit_name Circuit_Take) (take_witness P q) = Inr c"
    using assms(7) by (auto simp: prover_total_def)
  let ?p = "order_proof_of c"
  have acc: "groth16_accepts E (take_points (take_proof_of_order ?p)) (tpi_public_input_hash q) take_vk"
    by (rule take_proof_accepted [OF assms(5,6) run])
  have "(swap_process_instruction (at E now) (ix_program_id ix) (map view_of (ix_accounts ix)) (ix_data ix) w
           = Inr w') =
        (0 \<le> sint now \<and> sint now \<le> uint (ot_expiry terms) \<and>
         (\<exists>tb. transact_serialize E (bt_spp_proof b) = Some tb \<and>
            swap_signed E (map view_of (tl (ix_accounts ix))) tb w w'))"
    if b: "take_request terms (tpi_private_tx_hash q) (tpi_first_nullifier q) ?p b" "take_instruction S b = Inr ix"
    for b ix now w w'
  proof -
    obtain i0 "is" where i0: "inputs (bt_spp_proof b) = i0 # is" "nullifier_hash i0 = tpi_first_nullifier q"
      using b(1) by (auto simp: take_request_def)
    have "take_proof_wf (take_proof_of_order ?p)"
      using b(1) by (auto simp: take_request_def)
    then show ?thesis
      using take_instruction_lands [where E = "at E now" and S = S and w = w and w' = w', OF _ _ assms(3,4) _ b(2) refl]
        take_to_proof_inputs_hash [OF assms(16)] assms(1,2,17,18) b(1) acc i0
      by (auto simp: same_hashes_def take_request_def)
  qed
  moreover have "client_prove_take P q = Inr ?p"
    using run by (simp add: client_prove_take_def take_prove_def)
  ultimately show ?thesis
    by blast
qed

theorem made_order_takeable_witness:
  "\<exists>t m T q p ix. make_to_proof_inputs (demo_with t) (demo_make_params 0) = Inr m \<and>
     take_to_proof_inputs (demo_with t) T = Inr q \<and> tpp_order_utxo T = demo_order 0 \<and>
     client_prove_take (demo_prover None) q = Inr p \<and>
     take_instruction (demo_with t) (demo_take_params t) = Inr ix \<and>
     swap_process_instruction (at (demo_any 0 t) 1700000000)
       (ix_program_id ix) (map view_of (ix_accounts ix)) (ix_data ix) [] = Inr ([] @ [[0]])"
proof -
  obtain m where m: "make_to_proof_inputs demo_S (demo_make_params 0) = Inr m"
    using demo_make_proves by blast
  obtain T q where q: "take_to_proof_inputs demo_S T = Inr q" "tpp_order_utxo T = demo_order 0"
    using demo_take_inputs by blast
  let ?t = "demo_settlement (tpi_private_tx_hash q) [tpi_first_nullifier q] None" let ?E = "demo_any 0 ?t"
  obtain ix where ix: "take_instruction (demo_with ?t) (demo_take_params ?t) = Inr ix"
    using demo_take_builds by blast
  have order: "mpp_order_utxo (demo_make_params 0) = demo_order 0"
    by (simp add: demo_make_params_def)
  have m': "make_to_proof_inputs (demo_with ?t) (demo_make_params 0) = Inr m"
    and q': "take_to_proof_inputs (demo_with ?t) T = Inr q"
    using m q demo_make_tab [of "[?t]"] demo_take_tab [of "[?t]"] by simp_all
  have sat: "make_define demo_gadgets (make_assignment demo_gadgets id id m) = Some ()"
    using make_define_assignment [OF demo_api demo_hashes_fit demo_utxos_fit demo_sdk_laws(6,1) m]
    by (simp add: order demo_order_def demo_terms_def take_mode_derived_def)
  have complete: "prover_complete ?E (demo_prover None) (circuit_name Circuit_Take) ''Public_PublicInputHash'' take_vk"
    by (rule demo_prover_complete) (simp add: vk_commitments)
  have wires: "wincode_ok (sdk_wire (demo_with ?t))" "transact_ok (sdk_wire (demo_with ?t))"
    by simp_all
  have terms: "demo_terms 0 = ou_terms (mpp_order_utxo (demo_make_params 0))"
    by (simp add: order demo_order_def)
  obtain p where p: "client_prove_take (demo_prover None) q = Inr p"
    and lands: "\<And>b ix now w w'. take_request (demo_terms 0) (tpi_private_tx_hash q) (tpi_first_nullifier q) p b \<and>
        take_instruction (demo_with ?t) b = Inr ix \<Longrightarrow>
      (swap_process_instruction (at ?E now) (ix_program_id ix) (map view_of (ix_accounts ix)) (ix_data ix) w
           = Inr w') =
        (0 \<le> sint now \<and> sint now \<le> uint (ot_expiry (demo_terms 0)) \<and>
         (\<exists>tb. transact_serialize ?E (bt_spp_proof b) = Some tb \<and>
            swap_signed ?E (map view_of (tl (ix_accounts ix))) tb w w'))"
    using made_order_takeable [OF demo_account_checks demo_same_hashes wires demo_prover_keys complete
        demo_prover_total demo_api demo_hashes_fit demo_utxos_fit demo_blindings_fit demo_sdk_laws(6,1) m' sat q' _ terms]
      order q(2) by auto
  have request: "take_request (demo_terms 0) (tpi_private_tx_hash q) (tpi_first_nullifier q) p (demo_take_params ?t)"
    using p by (auto simp: take_request_def demo_take_params_def take_proof_wf_def demo_terms_def
        client_prove_take_def take_prove_def run_prover_def demo_prover_def order_proof_of_def take_proof_of_order_def)
  have "swap_signed ?E (map view_of (tl (ix_accounts ix))) [0] [] ([] @ [[0]])"
    by (rule demo_signed) (use ix in \<open>auto simp: take_instruction_def result_simps Let_def\<close>)
  then have "swap_process_instruction (at ?E 1700000000)
       (ix_program_id ix) (map view_of (ix_accounts ix)) (ix_data ix) [] = Inr ([] @ [[0]])"
    using lands [of "demo_take_params ?t" ix 1700000000 "[]" "[] @ [[0]]"] request ix
    by (simp add: demo_terms_def demo_take_params_def table_put_def)
  with m' q' q(2) p ix show ?thesis
    by blast
qed

section \<open>Escrows\<close>

definition return_request ::
  "('x, 'v, 's, 'w) chain_env \<Rightarrow> ('x, 'p, 'm, 'd, 'r, 'i) sdk_env \<Rightarrow> 'p escrow_terms \<Rightarrow> bytes \<Rightarrow>
   timelock_proof \<Rightarrow> 'x withdraw_ix_params \<Rightarrow> bool" where
  "return_request E S terms ptx p b \<longleftrightarrow>
     bw_withdraw_proof b = withdraw_proof_of_timelock p \<and> withdraw_proof_wf (bw_withdraw_proof b) \<and>
     solana_owner_identity E (bw_creator b) = owner_proof_input_hash S (signing_pubkey (et_creator terms)) \<and>
     bw_unlock_timestamp b = et_unlock_timestamp terms \<and> private_tx_hash (bw_spp_proof b) = ptx"

text \<open>C13. No escrow gets stuck. For an escrow whose inputs satisfied the escrow circuit, the prover
  returns a proof for every withdraw whose inputs the SDK accepts; and the withdraw instruction built
  from it for the creator lands at every time after the unlock time at which SPP accepts the
  transaction, and at no other time.\<close>

theorem made_escrow_returnable:
  assumes "account_checks_ok E" "same_hashes E S" "wincode_ok (sdk_wire S)" "transact_ok (sdk_wire S)"
    and "utxo_keys_law P"
    and "prover_complete E P (timelock_circuit_name Circuit_Withdraw) ''Public_PublicInputHash'' withdraw_vk"
    and "prover_total P (timelock_circuit_name Circuit_Withdraw) (withdraw_witness P)
           (\<lambda>q. withdraw_define G (withdraw_assignment fe cu q) = Some ())"
    and "api_law G" "hashes_fit G fe S" "utxos_fit G fe S cu" "output_laws S"
    and "escrow_to_proof_inputs S M = Inr m" "escrow_define G (escrow_assignment fe cu m) = Some ()"
    and "withdraw_to_proof_inputs S C = Inr q" "wpp_escrow_utxo C = epp_escrow_utxo M"
    and "terms = eu_terms (epp_escrow_utxo M)"
  shows "\<exists>p. client_prove_withdraw P q = Inr p \<and>
     (\<forall>b ix now w w'. return_request E S terms (wpi_private_tx_hash q) p b \<and> withdraw_instruction S b = Inr ix \<longrightarrow>
        (escrow_process_instruction (at E now) (ix_program_id ix) (map view_of (ix_accounts ix)) (ix_data ix) w
           = Inr w') =
        (uint (et_unlock_timestamp terms) < sint now \<and>
         (\<exists>tb. transact_serialize E (bw_spp_proof b) = Some tb \<and>
            escrow_signed E (map view_of (tl (tl (ix_accounts ix)))) tb w w')))"
proof -
  have "withdraw_define G (withdraw_assignment fe cu q) = Some ()"
    using escrow_define_assignment [OF assms(8-12)] withdraw_define_assignment [OF assms(8-11,14)] assms(13,15)
    by simp
  then obtain c where run: "run_prover P (timelock_circuit_name Circuit_Withdraw) (withdraw_witness P q) = Inr c"
    using assms(7) by (auto simp: prover_total_def)
  let ?p = "timelock_proof_of c"
  have acc: "groth16_accepts E (withdraw_points (withdraw_proof_of_timelock ?p)) (wpi_public_input_hash q) withdraw_vk"
    by (rule withdraw_proof_accepted [OF assms(5,6) run])
  have "(escrow_process_instruction (at E now) (ix_program_id ix) (map view_of (ix_accounts ix)) (ix_data ix) w
           = Inr w') =
        (uint (et_unlock_timestamp terms) < sint now \<and>
         (\<exists>tb. transact_serialize E (bw_spp_proof b) = Some tb \<and>
            escrow_signed E (map view_of (tl (tl (ix_accounts ix)))) tb w w'))"
    if b: "return_request E S terms (wpi_private_tx_hash q) ?p b" "withdraw_instruction S b = Inr ix" for b ix now w w'
  proof -
    have "withdraw_proof_wf (withdraw_proof_of_timelock ?p)"
      using b(1) by (auto simp: return_request_def)
    then show ?thesis
      using withdraw_proof_lands [where E = "at E now" and w = w and w' = w' and terms = terms,
          OF _ _ assms(3,4) _ b(2) assms(14)] assms(1,2,15,16) b(1) acc by (simp add: return_request_def)
  qed
  moreover have "client_prove_withdraw P q = Inr ?p"
    using run by (simp add: client_prove_withdraw_def withdraw_prove_def)
  ultimately show ?thesis
    by blast
qed

theorem made_escrow_returnable_witness:
  "\<exists>t m q p ix. escrow_to_proof_inputs (demo_with t) demo_escrow_params = Inr m \<and>
     withdraw_to_proof_inputs (demo_with t) demo_withdraw_inputs = Inr q \<and>
     client_prove_withdraw (demo_prover None) q = Inr p \<and>
     withdraw_instruction (demo_with t) (demo_withdraw_params t) = Inr ix \<and>
     escrow_process_instruction (at (demo_any 0 t) 1700000001)
       (ix_program_id ix) (map view_of (ix_accounts ix)) (ix_data ix) [] = Inr ([] @ [[0]])"
proof -
  obtain m where m: "escrow_to_proof_inputs demo_S demo_escrow_params = Inr m"
    using demo_escrow_proves by blast
  obtain q where q: "withdraw_to_proof_inputs demo_S demo_withdraw_inputs = Inr q"
    using demo_withdraw_proves by blast
  let ?t = "demo_settlement (wpi_private_tx_hash q) [replicate 32 4] None" let ?E = "demo_any 0 ?t"
  obtain ix where ix: "withdraw_instruction (demo_with ?t) (demo_withdraw_params ?t) = Inr ix"
    using demo_withdraw_builds by blast
  have escrow: "epp_escrow_utxo demo_escrow_params = demo_escrow" "wpp_escrow_utxo demo_withdraw_inputs = demo_escrow"
    by (simp_all add: demo_escrow_params_def demo_withdraw_inputs_def)
  have m': "escrow_to_proof_inputs (demo_with ?t) demo_escrow_params = Inr m"
    and q': "withdraw_to_proof_inputs (demo_with ?t) demo_withdraw_inputs = Inr q"
    using m q demo_escrow_tab [of "[?t]"] demo_withdraw_tab [of "[?t]"] by simp_all
  have sat: "escrow_define demo_gadgets (escrow_assignment id id m) = Some ()"
    using escrow_define_assignment [OF demo_api demo_hashes_fit demo_utxos_fit demo_sdk_laws(1) m]
    by (simp add: escrow demo_escrow_def)
  have complete: "prover_complete ?E (demo_prover None) (timelock_circuit_name Circuit_Withdraw)
      ''Public_PublicInputHash'' withdraw_vk"
    by (rule demo_prover_complete) (simp add: vk_commitments)
  have wires: "wincode_ok (sdk_wire (demo_with ?t))" "transact_ok (sdk_wire (demo_with ?t))"
    by simp_all
  let ?terms = "eu_terms (epp_escrow_utxo demo_escrow_params)"
  obtain p where p: "client_prove_withdraw (demo_prover None) q = Inr p"
    and lands: "\<And>b ix now w w'. return_request ?E (demo_with ?t) ?terms (wpi_private_tx_hash q) p b \<and>
        withdraw_instruction (demo_with ?t) b = Inr ix \<Longrightarrow>
      (escrow_process_instruction (at ?E now) (ix_program_id ix) (map view_of (ix_accounts ix)) (ix_data ix) w
           = Inr w') =
        (uint (et_unlock_timestamp ?terms) < sint now \<and>
         (\<exists>tb. transact_serialize ?E (bw_spp_proof b) = Some tb \<and>
            escrow_signed ?E (map view_of (tl (tl (ix_accounts ix)))) tb w w'))"
    using made_escrow_returnable [OF demo_account_checks demo_same_hashes wires demo_prover_keys complete
        demo_prover_total demo_api demo_hashes_fit demo_utxos_fit demo_sdk_laws(1) m' sat q' _ refl] escrow
    by auto
  have request: "return_request ?E (demo_with ?t) ?terms (wpi_private_tx_hash q) p (demo_withdraw_params ?t)"
    using p by (auto simp: return_request_def demo_withdraw_params_def withdraw_proof_wf_def escrow
        demo_escrow_def demo_address_def client_prove_withdraw_def withdraw_prove_def run_prover_def
        demo_prover_def timelock_proof_of_def withdraw_proof_of_timelock_def)
  have "escrow_signed ?E (map view_of (tl (tl (ix_accounts ix)))) [0] [] ([] @ [[0]])"
    by (rule demo_signed) (use ix in \<open>auto simp: withdraw_instruction_def result_simps Let_def\<close>)
  then have "escrow_process_instruction (at ?E 1700000001)
       (ix_program_id ix) (map view_of (ix_accounts ix)) (ix_data ix) [] = Inr ([] @ [[0]])"
    using lands [of "demo_withdraw_params ?t" ix 1700000001 "[]" "[] @ [[0]]"] request ix
    by (simp add: escrow demo_escrow_def demo_withdraw_params_def table_put_def)
  with m' q' p ix show ?thesis
    by blast
qed

section \<open>Deadlines beyond the clock\<close>

text \<open>The clock is signed and deadlines are unsigned.\<close>

lemma after_reachable: "(\<exists>now :: i64. uint (d :: u64) < sint now) \<longleftrightarrow> uint d < 2 ^ 63 - 1"
proof
  assume "\<exists>now :: i64. uint d < sint now"
  then obtain now :: i64 where "uint d < sint now"
    by blast
  moreover have "sint now < 2 ^ 63"
    using sint_lt [of now] by simp
  ultimately show "uint d < 2 ^ 63 - 1"
    by simp
next
  assume d: "uint d < 2 ^ 63 - 1"
  have "sint (word_of_int (2 ^ 63 - 1) :: i64) = 2 ^ 63 - 1"
    by simp
  with d show "\<exists>now :: i64. uint d < sint now"
    by metis
qed

text \<open>C30. The deadlines that can pass. The clock counts up to \<open>2 ^ 63 - 1\<close>, a deadline is any 64-bit
  number, and nothing checks it when the order or the escrow is made. A cancel of an order with the
  expiry \<open>d\<close>, or a withdraw from an escrow with the unlock time \<open>d\<close>, passes its time gate at some
  time exactly when \<open>d < 2 ^ 63 - 1\<close>, and then both gates stay open at every later time; for a greater
  \<open>d\<close> every request fails at every time. A take can pass its gate whatever the expiry is.\<close>

theorem deadline_bounds:
  "((\<exists>now. check_after_window now d = Inr ()) = (uint d < 2 ^ 63 - 1)) \<and>
   ((\<exists>now. escrow_check_after_window now d = Inr ()) = (uint d < 2 ^ 63 - 1)) \<and>
   (\<exists>now. check_within_window now d = Inr ()) \<and>
   (\<forall>now now'. sint now \<le> sint now' \<and> check_after_window now d = Inr () \<longrightarrow> check_after_window now' d = Inr ()) \<and>
   (\<forall>now now'. sint now \<le> sint now' \<and> escrow_check_after_window now d = Inr () \<longrightarrow>
      escrow_check_after_window now' d = Inr ()) \<and>
   (\<forall>E as data ix w w'. 2 ^ 63 - 1 \<le> uint d \<and> get_cancel_ix (wire_of E) data = Some (ix, []) \<and>
      cn_order_expiry ix = d \<longrightarrow> process_cancel_ix E as data w \<noteq> Inr w') \<and>
   (\<forall>E as data ix w w'. 2 ^ 63 - 1 \<le> uint d \<and> get_withdraw_ix (wire_of E) data = Some (ix, []) \<and>
      wd_unlock_timestamp ix = d \<longrightarrow> process_withdraw_ix E as data w \<noteq> Inr w')"
proof (intro conjI)
  show "(\<exists>now. check_after_window now d = Inr ()) = (uint d < 2 ^ 63 - 1)"
    using after_reachable [of d] by (simp add: result_simps after_as_int)
  show "(\<exists>now. escrow_check_after_window now d = Inr ()) = (uint d < 2 ^ 63 - 1)"
    using after_reachable [of d] by (simp add: result_simps after_as_int)
  show "\<exists>now. check_within_window now d = Inr ()"
    by (rule exI [of _ 0]) (simp add: result_simps)
  show "\<forall>now now'. sint now \<le> sint now' \<and> check_after_window now d = Inr () \<longrightarrow> check_after_window now' d = Inr ()"
    by (simp add: result_simps after_as_int)
  show "\<forall>now now'. sint now \<le> sint now' \<and> escrow_check_after_window now d = Inr () \<longrightarrow>
      escrow_check_after_window now' d = Inr ()"
    by (simp add: result_simps after_as_int)
  have never: "\<not> (0 \<le> sint now \<and> d < now)" if "2 ^ 63 - 1 \<le> uint d" for now
  proof
    assume "0 \<le> sint now \<and> d < now"
    then have "uint d < sint now"
      using after_as_int [of now d] by simp
    then have "uint d < 2 ^ 63 - 1"
      using after_reachable [of d] by blast
    with that show False
      by linarith
  qed
  show "\<forall>E as data ix w w'. 2 ^ 63 - 1 \<le> uint d \<and> get_cancel_ix (wire_of E) data = Some (ix, []) \<and>
      cn_order_expiry ix = d \<longrightarrow> process_cancel_ix E as data w \<noteq> Inr w'"
    using never by (auto simp: process_cancel_ix_ok cancel_authorised_def)
  show "\<forall>E as data ix w w'. 2 ^ 63 - 1 \<le> uint d \<and> get_withdraw_ix (wire_of E) data = Some (ix, []) \<and>
      wd_unlock_timestamp ix = d \<longrightarrow> process_withdraw_ix E as data w \<noteq> Inr w'"
    using never by (auto simp: process_withdraw_ix_ok withdraw_authorised_def)
qed

text \<open>The last deadline that can pass, the first that cannot, and an escrow that stays open.\<close>

theorem deadline_bounds_witness:
  "(\<exists>now. check_after_window now 0x7FFFFFFFFFFFFFFE = Inr ()) \<and>
   \<not> (\<exists>now. escrow_check_after_window now 0x7FFFFFFFFFFFFFFF = Inr ()) \<and>
   escrow_check_after_window 11 9 = Inr ()"
proof -
  have "uint (0x7FFFFFFFFFFFFFFE :: u64) < 2 ^ 63 - 1" "\<not> uint (0x7FFFFFFFFFFFFFFF :: u64) < 2 ^ 63 - 1"
    by simp_all
  moreover have "sint (10 :: i64) \<le> sint (11 :: i64)" "escrow_check_after_window 10 9 = Inr ()"
    by (simp_all add: result_simps)
  then have "escrow_check_after_window 11 9 = Inr ()"
    using conjunct1 [OF conjunct2 [OF conjunct2 [OF conjunct2 [OF conjunct2 [OF deadline_bounds [of 9]]]]]]
    by blast
  ultimately show ?thesis
    using conjunct1 [OF deadline_bounds [of "0x7FFFFFFFFFFFFFFE"]]
      conjunct1 [OF conjunct2 [OF deadline_bounds [of "0x7FFFFFFFFFFFFFFF"]]] by metis
qed

end
