(* ===== verification/Recovery_Properties.thy ===== *)
theory Recovery_Properties
  imports Discovery_Properties
begin

text \<open>
  The two indexers as a whole: an order that was made comes out of \<open>index_taker\<close> at the taker and of
  \<open>index_maker\<close> at the maker, who has kept nothing but the keypair.
\<close>

section \<open>The first poll\<close>

lemma scan_all_found:
  assumes "\<And>t. t \<in> set txs \<Longrightarrow> \<exists>r. f t = Inr r" "tx \<in> set txs" "f tx = Inr (Some x)"
  shows "\<exists>items. scan_all f txs = Inr items \<and> x \<in> set items"
  using assms
proof (induction txs)
  case (Cons t txs)
  obtain r where r: "f t = Inr r"
    using Cons.prems(1) by auto
  have rest: "\<exists>items. scan_all f ts = Inr items" if "set ts \<subseteq> set txs" for ts
    using that
  proof (induction ts)
    case (Cons a ts)
    then obtain s items where "f a = Inr s" "scan_all f ts = Inr items"
      using Cons.prems \<open>\<And>s. s \<in> set (t # txs) \<Longrightarrow> \<exists>r. f s = Inr r\<close> by fastforce
    then show ?case by simp
  qed simp
  show ?case
  proof (cases "t = tx")
    case True
    then show ?thesis
      using rest [of txs] Cons.prems(3) by auto
  next
    case False
    then obtain items where "scan_all f txs = Inr items" "x \<in> set items"
      using Cons by auto
    with r show ?thesis
      by (cases r) auto
  qed
qed simp

text \<open>When the pages served at the first poll hold something, the poll loop returns it at once.\<close>

lemma first_poll_returns:
  assumes "now w = (t0, w0)" "t0 + timeout \<le> latest"
    and "confidential_view_tag S (kp_signing_pubkey X kp) = Some tag" "page_chain fetch tag None w0 txs w1"
    and "scan_all f txs = Inr items" "items \<noteq> []"
  shows "\<exists>w2. index_until latest now sleep timeout what (collect_tagged S X kp fetch (\<lambda>tx w. (f tx, w))) w
     = Some (Inr items, w2)"
proof -
  obtain w2 where "collect_tagged S X kp fetch (\<lambda>tx w. (f tx, w)) w0 = Some (Inr items, w2)"
    using collect_tagged_chain [where time = "\<lambda>_. 0" and f = f, OF assms(3,4)] assms(5) by auto
  then show ?thesis
    using assms(1,2,6) by (simp add: index_until_def index_loop.simps)
qed

lemma first_poll_finds:
  assumes "now w = (t0, w0)" "t0 + timeout \<le> latest"
    and "confidential_view_tag S (kp_signing_pubkey X kp) = Some tag" "page_chain fetch tag None w0 txs w1"
    and "\<And>t. t \<in> set txs \<Longrightarrow> \<exists>r. f t = Inr r" "tx \<in> set txs" "f tx = Inr (Some x)"
  shows "\<exists>items w2. index_until latest now sleep timeout what
      (collect_tagged S X kp fetch (\<lambda>tx w. (f tx, w))) w = Some (Inr items, w2) \<and> x \<in> set items"
proof -
  obtain items where items: "scan_all f txs = Inr items" "x \<in> set items"
    using scan_all_found [where f = f, OF assms(5-7)] by blast
  then have "items \<noteq> []"
    by auto
  with first_poll_returns [where f = f and now = now, OF assms(1-4) items(1)] items(2) show ?thesis
    by blast
qed

section \<open>The taker\<close>

text \<open>A scan with registry lookups that do not change the world.\<close>

definition taker_scan ::
  "('x, 'p, 'm, 'd, 'r, 'i) sdk_env \<Rightarrow> ('k, 't, 'p, 'm, 'e) index_env \<Rightarrow> (bytes \<Rightarrow> 'p shielded_address option) \<Rightarrow>
   'k \<Rightarrow> 'e shielded_transaction \<Rightarrow> sdk_error + ('p, 'm) taker_order option" where
  "taker_scan S X registered kp tx =
     bindR (scan_taker S X kp tx) (\<lambda>c. case c of
        None \<Rightarrow> Inr None
      | Some candidate \<Rightarrow>
          bindR (ext (registered (tc_maker_pubkey candidate))) (\<lambda>maker.
          bindR (into_order S candidate maker (kp_viewing_pubkey X kp)) (\<lambda>order. Inr (Some order))))"

lemma scan_taker_order_pure:
  assumes "resolve = (\<lambda>k w. (registered k, w))"
  shows "scan_taker_order S X resolve kp = (\<lambda>tx w. (taker_scan S X registered kp tx, w))"
  by (intro ext) (auto simp: scan_taker_order_def taker_scan_def assms ext_def
      split: sum.splits option.splits)

text \<open>The indexer serves the pages \<open>txs\<close> of the taker's tag when the polling begins, one of them is
  \<open>tx\<close>, and no other one makes the scan fail.\<close>

definition inbox ::
  "('x, 'p, 'm, 'd, 'r, 'i) sdk_env \<Rightarrow> ('k, 't, 'p, 'm, 'e) index_env \<Rightarrow> (bytes \<Rightarrow> 'p shielded_address option) \<Rightarrow>
   'k \<Rightarrow> ('w \<Rightarrow> nat \<times> 'w) \<Rightarrow> ('e shielded_transaction, 'c, 'w) fetch \<Rightarrow> nat \<Rightarrow> 'w \<Rightarrow>
   'e shielded_transaction \<Rightarrow> bool" where
  "inbox S X registered kp now fetch timeout w tx \<longleftrightarrow>
     (\<exists>t0 w0 tag txs w1. now w = (t0, w0) \<and> t0 + timeout \<le> max_instant X \<and>
        confidential_view_tag S (kp_signing_pubkey X kp) = Some tag \<and>
        page_chain fetch tag None w0 txs w1 \<and> tx \<in> set txs \<and>
        (\<forall>t \<in> set txs. t \<noteq> tx \<longrightarrow> (\<exists>r. taker_scan S X registered kp t = Inr r)))"

text \<open>C15. A made order reaches its taker: when a make that the SDK built with its marker message for a
  taker lands, SPP was handed a transaction whose stamped marker announces the order to that taker.
  As soon as the indexer serves a transaction that has this message and delivers the order's output,
  and as long as no other served transaction makes the scan fail, \<open>index_taker\<close> returns, and among the
  orders that it returns is exactly the order that was made, with the key of its maker.\<close>

theorem made_order_reaches_taker:
  assumes "account_checks_ok E" "wire_of E = sdk_wire S" "wincode_ok (sdk_wire S)"
    and "transact_ok (sdk_wire S)" "borsh_ok (sdk_wire S)" "make_proof_wf (bm_make_proof b)"
    and "make_instruction S b = Inr ix"
    and "swap_process_instruction E (ix_program_id ix) (map view_of (ix_accounts ix)) (ix_data ix) w
           = Inr w'"
    and "order_marker_message S M = Inr msg" "messages (bm_spp_proof b) = [msg]"
    and "signing_pubkey (om_taker_address M) = kp_signing_pubkey X kp"
    and "order_output_utxo S order (kp_viewing_pubkey X kp) = Inr u"
    and "output_hash S u indexed_tree_id = Some h" "utxo_hash (outputs (bm_spp_proof b) ! 1) = h"
    and "length h = 32" "length (bm_payer b) = 32" "length (ot_taker (ou_terms order)) = 32"
    and "resolve = (\<lambda>k v. (registered k, v))" "registered (bm_payer b) = Some (ot_destination (ou_terms order))"
  shows "\<exists>t tb. transact_serialize E t = Some tb \<and>
     swap_signed E (map view_of (tl (ix_accounts ix))) tb w w' \<and>
     (\<forall>tx now sleep fetch timeout v.
        st_messages tx = messages t \<and> delivers S X kp order h tx \<and>
        inbox S X registered kp now fetch timeout v tx \<longrightarrow>
        (\<exists>orders v'. index_taker S X now sleep resolve kp fetch timeout v = Some (Inr orders, v') \<and>
           \<lparr>to_order_utxo = order, to_maker_pubkey = bm_payer b\<rparr> \<in> set orders))"
proof -
  let ?found = "\<lparr>to_order_utxo = order, to_maker_pubkey = bm_payer b\<rparr>"
  obtain t tb where t: "transact_serialize E t = Some tb"
      "swap_signed E (map view_of (tl (ix_accounts ix))) tb w w'"
    and scans: "\<And>tx. st_messages tx = messages t \<Longrightarrow> delivers S X kp order h tx \<Longrightarrow>
      \<exists>c. scan_taker S X kp tx = Inr (Some c) \<and> tc_maker_pubkey c = bm_payer b \<and>
        into_order S c (ot_destination (ou_terms order)) (kp_viewing_pubkey X kp) = Inr ?found"
    using made_order_is_found [OF assms(1-17)] by blast
  have "\<exists>orders v'. index_taker S X now sleep resolve kp fetch timeout v = Some (Inr orders, v') \<and>
      ?found \<in> set orders"
    if tx: "st_messages tx = messages t" "delivers S X kp order h tx"
      and box: "inbox S X registered kp now fetch timeout v tx" for tx now sleep fetch timeout v
  proof -
    have tx': "taker_scan S X registered kp tx = Inr (Some ?found)"
      using scans [OF tx] assms(19) by (auto simp: taker_scan_def ext_def)
    obtain t0 w0 tag txs w1 where box': "now v = (t0, w0)" "t0 + timeout \<le> max_instant X"
      "confidential_view_tag S (kp_signing_pubkey X kp) = Some tag" "page_chain fetch tag None w0 txs w1"
      "tx \<in> set txs" and others: "\<And>t. t \<in> set txs \<Longrightarrow> t \<noteq> tx \<Longrightarrow> \<exists>r. taker_scan S X registered kp t = Inr r"
      using box unfolding inbox_def by blast
    have "\<exists>r. taker_scan S X registered kp t = Inr r" if "t \<in> set txs" for t
      using tx' others [OF that] by (cases "t = tx") auto
    note box' = box' this
    show ?thesis
      unfolding index_taker_def scan_taker_order_pure [OF assms(18)]
      by (rule first_poll_finds [where f = "taker_scan S X registered kp" and now = now, OF box'(1-4,6,5) tx'])
  qed
  with t show ?thesis
    by blast
qed

lemma demo_served: "page_chain (demo_fetch txs) tag None () txs ()"
  using page_chain.last_page [where fetch = "demo_fetch txs" and tag = tag and c = None and w = "()"
      and p = "\<lparr>page_transactions = txs, page_next_cursor = None\<rparr>"]
  by (simp add: demo_fetch_def)

theorem made_order_reaches_taker_witness:
  "\<exists>ix (t :: unit transact_ix_data) tx orders. make_instruction demo_made_S demo_made_params = Inr ix \<and>
     swap_process_instruction demo_make_env (ix_program_id ix) (map view_of (ix_accounts ix))
       (ix_data ix) [] = Inr ([] @ [[1]]) \<and>
     st_messages tx = messages t \<and>
     index_taker demo_made_S demo_made_index (\<lambda>v. (0, v)) (\<lambda>n v. v)
       (\<lambda>k v. (Some (ot_destination (ou_terms demo_made_order)), v)) [5] (demo_fetch [tx]) 1000 ()
       = Some (Inr orders, ()) \<and>
     \<lparr>to_order_utxo = demo_made_order, to_maker_pubkey = replicate 32 3\<rparr> \<in> set orders"
proof -
  obtain ix where ix: "make_instruction demo_made_S demo_made_params = Inr ix"
    using demo_made_builds by blast
  obtain n where n: "plaintext_serialize demo_made_S (to_plaintext (ou_terms demo_made_order) 3) = Inr n"
    by (simp add: plaintext_serialize_def ext_def put_plaintext_def table_wire_def)
  obtain u where u: "order_output_utxo demo_made_S demo_made_order
      (kp_viewing_pubkey demo_made_index [5]) = Inr u" "out_blinding u = replicate 32 2"
    using demo_made_output by blast
  have msg: "order_marker_message demo_made_S demo_order_marker
      = Inr \<lparr>view_tag = [5], message_bytes = replicate 32 2 @ replicate 32 3\<rparr>"
    by (simp add: order_marker_message_def demo_order_marker_def ext_def put_marker_def table_wire_def)
  have params: "messages (bm_spp_proof demo_made_params)
      = [\<lparr>view_tag = [5], message_bytes = replicate 32 2 @ replicate 32 3\<rparr>]"
    "utxo_hash (outputs (bm_spp_proof demo_made_params) ! 1) = replicate 32 2"
    "bm_payer demo_made_params = replicate 32 3" "make_proof_wf (bm_make_proof demo_made_params)"
    "signing_pubkey (om_taker_address demo_order_marker) = kp_signing_pubkey demo_made_index [5]"
    by (simp_all add: demo_made_params_def demo_make_in_def demo_transact_def make_proof_wf_def
        demo_order_marker_def demo_made_index_def demo_index_def)
  have len: "length (ot_taker (ou_terms demo_made_order)) = 32"
    by (simp add: demo_made_order_def order_of_note_def demo_note_def)
  have hash: "output_hash demo_made_S u indexed_tree_id = Some (replicate 32 2)"
    using u(2) by simp
  have wires: "wire_of demo_make_env = sdk_wire demo_made_S" "wincode_ok (sdk_wire demo_made_S)"
    "transact_ok (sdk_wire demo_made_S)" "borsh_ok (sdk_wire demo_made_S)"
    by simp_all
  have lens: "length (replicate 32 (2 :: byte)) = 32" "length (bm_payer demo_made_params) = 32"
    by (simp_all add: params(3))
  let ?reg = "\<lambda>k :: bytes. Some (ot_destination (ou_terms demo_made_order))"
  have "\<exists>t tb. transact_serialize demo_make_env t = Some tb \<and>
     swap_signed demo_make_env (map view_of (tl (ix_accounts ix))) tb [] ([] @ [[1]]) \<and>
     (\<forall>tx now sleep (fetch :: (_, unit, unit) fetch) timeout v. st_messages tx = messages t \<and>
        delivers demo_made_S demo_made_index [5] demo_made_order (replicate 32 2) tx \<and>
        inbox demo_made_S demo_made_index ?reg [5] now fetch timeout v tx \<longrightarrow>
        (\<exists>orders v'. index_taker demo_made_S demo_made_index now sleep (\<lambda>k v. (?reg k, v)) [5] fetch timeout v
            = Some (Inr orders, v') \<and>
          \<lparr>to_order_utxo = demo_made_order, to_maker_pubkey = bm_payer demo_made_params\<rparr> \<in> set orders))"
    by (rule made_order_reaches_taker [OF demo_account_checks wires(1-4) params(4) ix demo_made_lands [OF ix]
        msg params(1,5) u(1) hash params(2) lens len refl refl])
  then obtain t :: "unit transact_ix_data" where t: "\<And>tx now sleep (fetch :: (_, unit, unit) fetch) timeout v.
      st_messages tx = messages t \<and>
      delivers demo_made_S demo_made_index [5] demo_made_order (replicate 32 2) tx \<and>
      inbox demo_made_S demo_made_index ?reg [5] now fetch timeout v tx \<Longrightarrow>
      \<exists>orders v'. index_taker demo_made_S demo_made_index now sleep (\<lambda>k v. (?reg k, v)) [5] fetch timeout v
          = Some (Inr orders, v') \<and>
        \<lparr>to_order_utxo = demo_made_order, to_maker_pubkey = bm_payer demo_made_params\<rparr> \<in> set orders"
    by blast
  let ?tx = "demo_made_tx n (messages t)"
  have "inbox demo_made_S demo_made_index ?reg [5] (\<lambda>v. (0, v)) (demo_fetch [?tx]) 1000 () ?tx"
    unfolding inbox_def
    by (rule exI [of _ 0], rule exI [of _ "()"], rule exI [of _ "[5]"], rule exI [of _ "[?tx]"], rule exI [of _ "()"])
      (simp add: demo_served demo_made_index_def demo_index_def)
  moreover have "st_messages ?tx = messages t"
    by (simp add: demo_made_tx_def)
  ultimately show ?thesis
    using t [of ?tx "\<lambda>v. (0, v)" "demo_fetch [?tx]" 1000 "()" "\<lambda>n v. v"] demo_made_delivers [OF n] params(3)
      ix demo_made_lands [OF ix] by auto
qed

section \<open>The maker\<close>

text \<open>
  What the maker's wallet leaves of an order on the chain: the transaction is encrypted with a key that
  the maker derives from one of its nullifiers, a slot with the hash of the order has the taker's
  viewing key embedded and decrypts under that key to the amount, asset, blinding and note of the
  order, and no slot before it (the change) carries a note.
\<close>

definition no_note ::
  "('k, 't, 'p, 'm, 'e) index_env \<Rightarrow> 't \<Rightarrow> bytes \<Rightarrow> u32 \<times> 'e output_slot \<times> bytes \<Rightarrow> bool" where
  "no_note X key salt = (\<lambda>(i, _, body). case decrypt_with_tx_key X key body salt i of
      None \<Rightarrow> True
    | Some plaintext \<Rightarrow> list_all (\<lambda>r. case r of UtxoData _ \<Rightarrow> False | OtherRecord _ \<Rightarrow> True) (pl_records plaintext))"

definition keeps_order ::
  "('x, 'p, 'm, 'd, 'r, 'i) sdk_env \<Rightarrow> ('k, 't, 'p, 'm, 'e) index_env \<Rightarrow> 'k \<Rightarrow>
   ('p, 'm) order_utxo \<Rightarrow> bytes \<Rightarrow> bytes \<Rightarrow> 'e shielded_transaction \<Rightarrow> bool" where
  "keeps_order S X kp order taker_key h tx \<longleftrightarrow>
     (\<exists>salt key n pre i slot body post asset_id note records m.
        st_tx_viewing_pk tx = Some (viewing_key_pubkey X key) \<and> st_salt tx = Some salt \<and>
        n \<in> set (st_nullifiers tx) \<and> transaction_viewing_key X kp n = Some key \<and>
        unified_slots X tx = pre @ (i, slot, body) # post \<and> list_all (no_note X key salt) pre \<and>
        slot_hash slot = h \<and> embedded_viewing_pk X body = Some taker_key \<and>
        decrypt_with_tx_key X key body salt i =
          Some \<lparr>pl_amount = ou_source_amount order, pl_asset_id = asset_id,
                pl_blinding = ou_blinding order, pl_records = UtxoData note # records\<rparr> \<and>
        plaintext_serialize S (to_plaintext (ou_terms order) (ou_destination_asset_id order)) = Inr note \<and>
        resolve_mint S X asset_id = Inr (ou_source_mint order) \<and>
        resolve_mint S X (ou_destination_asset_id order) = Inr m \<and>
        mint_asset S m = ot_destination_mint (ou_terms order))"

text \<open>A ciphertext is decrypted under the secret that the viewing key shares with the embedded key. This
  secret depends on the point that is the public key, so viewing keys with the same public key (there
  are several for X25519) decrypt alike.\<close>

definition viewing_key_law :: "('k, 't, 'p, 'm, 'e) index_env \<Rightarrow> bool" where
  "viewing_key_law X \<longleftrightarrow>
     (\<forall>k k'. viewing_key_pubkey X k = viewing_key_pubkey X k' \<longrightarrow> decrypt_with_tx_key X k = decrypt_with_tx_key X k')"

lemma viewing_key_law_scan:
  "viewing_key_law X \<Longrightarrow> viewing_key_pubkey X k = viewing_key_pubkey X k' \<Longrightarrow>
   scan_maker_slot S X k = scan_maker_slot S X k'"
proof -
  assume "viewing_key_law X" "viewing_key_pubkey X k = viewing_key_pubkey X k'"
  then have "decrypt_with_tx_key X k = decrypt_with_tx_key X k'"
    unfolding viewing_key_law_def by blast
  then show ?thesis
    by (intro ext) (simp add: scan_maker_slot_def)
qed

lemma no_note_skipped:
  assumes "no_note X key salt slot"
  shows "scan_maker_slot S X key salt a slot = None"
proof (cases slot)
  case (fields i s body)
  have "find_map (\<lambda>r. case r of UtxoData bs \<Rightarrow> Some bs | OtherRecord _ \<Rightarrow> None) (pl_records pl) = None"
    if "decrypt_with_tx_key X key body salt i = Some pl" for pl
    using assms that by (auto simp: no_note_def fields find_map_None list_all_iff split: data_record.splits)
  then show ?thesis
    by (auto simp: scan_maker_slot_def fields maker_order_candidate_def parse_order_data_def
        split: bind_splits)
qed

lemma kept_order_scanned:
  assumes "wincode_ok (sdk_wire S)" "length (ot_taker (ou_terms order)) = 32"
    and "order_output_utxo S order taker_key = Inr u" "output_hash S u indexed_tree_id = Some h"
    and "kp_shielded_address X kp = Some (ot_destination (ou_terms order))"
    and "viewing_key_law X" "keeps_order S X kp order taker_key h tx"
  shows "scan_maker S X kp tx = Inr (Some \<lparr>mo_order_utxo = order, mo_taker_viewing_pubkey = taker_key\<rparr>)"
proof -
  obtain salt key n pre i slot body post asset_id nb records m where
    k: "st_tx_viewing_pk tx = Some (viewing_key_pubkey X key)" "st_salt tx = Some salt"
      "n \<in> set (st_nullifiers tx)" "transaction_viewing_key X kp n = Some key"
    and s: "unified_slots X tx = pre @ (i, slot, body) # post" "list_all (no_note X key salt) pre"
      "slot_hash slot = h" "embedded_viewing_pk X body = Some taker_key"
    and d: "decrypt_with_tx_key X key body salt i =
          Some \<lparr>pl_amount = ou_source_amount order, pl_asset_id = asset_id,
                pl_blinding = ou_blinding order, pl_records = UtxoData nb # records\<rparr>"
      "resolve_mint S X asset_id = Inr (ou_source_mint order)"
      "resolve_mint S X (ou_destination_asset_id order) = Inr m"
      "mint_asset S m = ot_destination_mint (ou_terms order)"
    and nb: "plaintext_serialize S (to_plaintext (ou_terms order) (ou_destination_asset_id order)) = Inr nb"
    using assms(7) unfolding keeps_order_def by blast
  let ?pick = "\<lambda>nullifier. case transaction_viewing_key X kp nullifier of None \<Rightarrow> None
     | Some key' \<Rightarrow> if viewing_key_pubkey X key' = viewing_key_pubkey X key then Some key' else None"
  have "?pick n = Some key"
    using k(4) by simp
  then obtain key' where key': "find_map ?pick (st_nullifiers tx) = Some key'"
    using k(3) find_map_None [of ?pick] by fastforce
  then have "viewing_key_pubkey X key' = viewing_key_pubkey X key"
    using find_map_Some [OF key'] by (auto split: option.splits if_splits)
  note scan = viewing_key_law_scan [OF assms(6) this, where S = S]
  have note': "plaintext_deserialize S nb = Inr (to_plaintext (ou_terms order) (ou_destination_asset_id order))"
    by (rule note_read_back [OF assms(1,2) nb])
  have order: "order_of_note (ot_destination (ou_terms order)) (ou_blinding order) (ou_source_mint order)
      (ou_source_amount order) (ot_destination_mint (ou_terms order))
      (to_plaintext (ou_terms order) (ou_destination_asset_id order)) = order"
    "pt_destination_asset_id (to_plaintext (ou_terms order) (ou_destination_asset_id order))
       = ou_destination_asset_id order"
    by (simp_all add: order_of_note_def to_plaintext_def)
  have "scan_maker_slot S X key salt (ot_destination (ou_terms order)) (i, slot, body)
      = Some \<lparr>mo_order_utxo = order, mo_taker_viewing_pubkey = taker_key\<rparr>"
    using s(3,4) d note' order assms(3,4)
    by (simp add: scan_maker_slot_def maker_order_candidate_def parse_order_data_def)
  moreover have "find_map (scan_maker_slot S X key salt (ot_destination (ou_terms order))) pre = None"
    using s(2) no_note_skipped by (fastforce simp: find_map_None list_all_iff)
  ultimately show ?thesis
    using k(1,2) key' assms(5) s(1) by (simp add: scan_maker_def ext_def find_map_append scan)
qed

text \<open>C16. The maker recovers its orders from the chain: as soon as the indexer serves a transaction in
  which the maker's wallet left an order, \<open>index_maker\<close> returns, and among the orders that it returns
  is exactly that order, with the maker's own address as destination and the viewing key of the
  taker that is needed to settle it. The maker has to keep nothing but the keypair.\<close>

theorem maker_recovers_order:
  assumes "wincode_ok (sdk_wire S)" "length (ot_taker (ou_terms order)) = 32"
    and "order_output_utxo S order taker_key = Inr u" "output_hash S u indexed_tree_id = Some h"
    and "kp_shielded_address X kp = Some (ot_destination (ou_terms order))"
    and "viewing_key_law X" "keeps_order S X kp order taker_key h tx"
    and "now w = (t0, w0)" "t0 + timeout \<le> max_instant X"
    and "confidential_view_tag S (kp_signing_pubkey X kp) = Some tag"
    and "page_chain fetch tag None w0 txs w1" "tx \<in> set txs"
  shows "\<exists>orders w2. index_maker S X now sleep kp fetch timeout w = Some (Inr orders, w2) \<and>
     \<lparr>mo_order_utxo = order, mo_taker_viewing_pubkey = taker_key\<rparr> \<in> set orders"
proof -
  have total: "\<exists>r. scan_maker S X kp t = Inr r" for t
    using assms(5) by (auto simp: scan_maker_def ext_def split: option.splits)
  show ?thesis
    unfolding index_maker_def
    by (rule first_poll_finds [where f = "scan_maker S X kp" and now = now, OF assms(8-11) total assms(12)
          kept_order_scanned [OF assms(1-7)]])
qed

theorem maker_recovers_order_witness:
  "\<exists>note taker_key orders. index_maker demo_hash_S demo_index (\<lambda>w. (0, w)) (\<lambda>n w. w) (replicate 32 2)
       (demo_fetch [demo_order_tx note []]) 1000 () = Some (Inr orders, ()) \<and>
     \<lparr>mo_order_utxo = demo_found demo_maker_address, mo_taker_viewing_pubkey = taker_key\<rparr> \<in> set orders"
proof -
  let ?order = "demo_found demo_maker_address"
  have terms: "to_plaintext (ou_terms ?order) (ou_destination_asset_id ?order) = demo_note"
    by (simp add: demo_found_def order_of_note_def to_plaintext_def demo_note_def)
  obtain n where n: "plaintext_serialize demo_hash_S demo_note = Inr n"
    by (simp add: plaintext_serialize_def ext_def put_plaintext_def table_wire_def demo_hash_S_def)
  obtain u where u: "order_output_utxo demo_hash_S ?order n = Inr u" "out_blinding u = replicate 32 6"
    using demo_found_output by blast
  have hash: "output_hash demo_hash_S u indexed_tree_id = Some (replicate 32 6)"
    using u(2) by (simp add: demo_hash_S_def)
  have keeps: "keeps_order demo_hash_S demo_index (replicate 32 2) ?order n (replicate 32 6) (demo_order_tx n [])"
    unfolding keeps_order_def terms
    by (rule exI [of _ "[]"], rule exI [of _ "[8]"], rule exI [of _ "[8]"], rule exI [of _ "[]"], rule exI [of _ 0],
        rule exI, rule exI [of _ n], rule exI [of _ "[]"], rule exI [of _ 2], rule exI [of _ n],
        rule exI [of _ "[]"], rule exI [of _ "(replicate 32 3, 3)"], intro conjI)
      (use n in \<open>auto simp: unified_slots_def demo_order_tx_def demo_index_def demo_found_def
        order_of_note_def resolve_mint_def ext_def demo_note_asset demo_hash_S_simps\<close>)
  have laws: "wincode_ok (sdk_wire demo_hash_S)" "length (ot_taker (ou_terms ?order)) = 32"
    "kp_shielded_address demo_index (replicate 32 2) = Some (ot_destination (ou_terms ?order))"
    "viewing_key_law demo_index"
    "confidential_view_tag demo_hash_S (kp_signing_pubkey demo_index (replicate 32 2)) = Some (replicate 32 2)"
    "0 + 1000 \<le> max_instant demo_index"
    by (simp_all add: demo_hash_S_simps demo_index_def demo_found_def order_of_note_def demo_note_def
        demo_maker_address_def viewing_key_law_def)
  show ?thesis
    using maker_recovers_order [where now = "\<lambda>w. (0, w)" and sleep = "\<lambda>n w. w" and w = "()"
        and txs = "[demo_order_tx n []]", OF laws(1,2) u(1) hash laws(3,4) keeps refl laws(6,5) demo_served]
    by (intro exI [of _ n]) simp
qed

end
