(* ===== verification/Witness_Keys.thy ===== *)
theory Witness_Keys
  imports Prover_Properties
begin

text \<open>
  The unit tests of the two prover crates (\<open>witness_key_set_matches_circuit_fields\<close> of each file), as
  definitions: the sample inputs, the keys that the circuit has by its Go field names, and the check
  that the witness has these keys and no others. The keys of a UTXO are the external function
  \<open>utxo_proof_input_keys\<close>, the argument \<open>keys\<close>; \<open>u0\<close> is \<open>ProofInputUtxo::default()\<close>. The tests run one
  sample each; the property covers every input.
\<close>

section \<open>Keys of the terms\<close>

definition expected_order_terms_witness_keys :: "string \<Rightarrow> string list" where
  "expected_order_terms_witness_keys pre =
     map (\<lambda>suffix. key_of pre suffix)
       [''DestinationAsset'', ''DestinationAmount'', ''MakerOwnerHash'', ''MakerViewingPk'', ''Expiry'',
        ''TakerPkFe'', ''TakeMode'']"

definition expected_escrow_terms_witness_keys :: "string \<Rightarrow> string list" where
  "expected_escrow_terms_witness_keys pre = map (\<lambda>suffix. key_of pre suffix) [''OwnerHash'', ''Unlock'']"

text \<open>The names that \<open>utxo_proof_input_keys\<close> lists are the names that \<open>utxo_proof_inputs\<close> enters.\<close>

definition utxo_names_law :: "('i, 'f) prover_env \<Rightarrow> (string \<Rightarrow> string list) \<Rightarrow> bool" where
  "utxo_names_law P keys \<longleftrightarrow> (\<forall>u pre. fst ` set (utxo_proof_inputs P u pre) = set (keys pre))"

section \<open>Sample inputs\<close>

definition make_sample :: "'i \<Rightarrow> 'i make_proof_inputs" where
  "make_sample u0 =
     \<lparr>mpi_private_tx_hash = replicate 32 1,
      mpi_order = \<lparr>op_destination_asset = replicate 32 2, op_destination_amount = 7,
         op_maker_owner_hash = replicate 32 3, op_maker_viewing_pk = replicate 33 4, op_expiry = 9,
         op_taker_pk_fe = replicate 32 5, op_take_mode = take_mode_derived\<rparr>,
      mpi_order_utxo = u0,
      mpi_change = u0,
      mpi_source_input_hash = replicate 32 6,
      mpi_private_tx_blinding = replicate 32 8\<rparr>"

definition cancel_sample :: "'i \<Rightarrow> 'i cancel_proof_inputs" where
  "cancel_sample u0 =
     \<lparr>cpi_public_input_hash = replicate 32 1,
      cpi_private_tx_hash = replicate 32 2,
      cpi_order = \<lparr>op_destination_asset = replicate 32 3, op_destination_amount = 7,
         op_maker_owner_hash = replicate 32 4, op_maker_viewing_pk = replicate 33 5, op_expiry = 9,
         op_taker_pk_fe = replicate 32 6, op_take_mode = take_mode_derived\<rparr>,
      cpi_maker_owner_pk_field = replicate 32 7,
      cpi_maker_nullifier_pk = replicate 32 8,
      cpi_order_utxo = u0,
      cpi_source_output = u0,
      cpi_private_tx_blinding = replicate 32 10\<rparr>"

definition take_sample :: "'i \<Rightarrow> 'i take_proof_inputs" where
  "take_sample u0 =
     \<lparr>tpi_public_input_hash = replicate 32 1,
      tpi_private_tx_hash = replicate 32 2,
      tpi_first_nullifier = replicate 32 10,
      tpi_order = \<lparr>op_destination_asset = replicate 32 3, op_destination_amount = 7,
         op_maker_owner_hash = replicate 32 4, op_maker_viewing_pk = replicate 33 5, op_expiry = 9,
         op_taker_pk_fe = replicate 32 6, op_take_mode = take_mode_derived\<rparr>,
      tpi_order_utxo = u0,
      tpi_taker_in = u0,
      tpi_source_output = u0,
      tpi_destination_output = u0,
      tpi_private_tx_blinding = replicate 32 8\<rparr>"

definition take_ve_sample :: "'i \<Rightarrow> 'i take_ve_proof_inputs" where
  "take_ve_sample u0 =
     \<lparr>vpi_public_input_hash = replicate 32 1,
      vpi_private_tx_hash = replicate 32 2,
      vpi_order = \<lparr>op_destination_asset = replicate 32 3, op_destination_amount = 7,
         op_maker_owner_hash = replicate 32 4, op_maker_viewing_pk = replicate 33 5, op_expiry = 9,
         op_taker_pk_fe = replicate 32 6, op_take_mode = take_mode_verifiable\<rparr>,
      vpi_taker_nullifier_pk = replicate 32 7,
      vpi_order_utxo = u0,
      vpi_taker_in = u0,
      vpi_source_output = u0,
      vpi_destination_output = u0,
      vpi_private_tx_blinding = replicate 32 9\<rparr>"

definition escrow_sample :: "'i \<Rightarrow> 'i escrow_proof_inputs" where
  "escrow_sample u0 =
     \<lparr>epi_private_tx_hash = replicate 32 1,
      epi_terms = \<lparr>ep_owner_hash = replicate 32 2, ep_unlock = 42\<rparr>,
      epi_escrow_utxo = u0,
      epi_change = u0,
      epi_source_input_hash = replicate 32 3,
      epi_private_tx_blinding = replicate 32 5\<rparr>"

definition withdraw_sample :: "'i \<Rightarrow> 'i withdraw_proof_inputs" where
  "withdraw_sample u0 =
     \<lparr>wpi_public_input_hash = replicate 32 1,
      wpi_private_tx_hash = replicate 32 2,
      wpi_terms = \<lparr>ep_owner_hash = replicate 32 3, ep_unlock = 42\<rparr>,
      wpi_owner_pk_field = replicate 32 4,
      wpi_nullifier_pk = replicate 32 5,
      wpi_escrow_utxo = u0,
      wpi_source_output = u0,
      wpi_private_tx_blinding = replicate 32 7\<rparr>"

section \<open>Expected keys\<close>

definition make_expected_keys :: "(string \<Rightarrow> string list) \<Rightarrow> string list" where
  "make_expected_keys keys =
     [''PrivateTxHash'', ''SourceInputHash'', ''PrivateTxBlinding''] @
     expected_order_terms_witness_keys ''Order'' @
     keys ''OrderUtxo'' @ keys ''Change''"

definition cancel_expected_keys :: "(string \<Rightarrow> string list) \<Rightarrow> string list" where
  "cancel_expected_keys keys =
     [''Public_PublicInputHash'', ''Public_PrivateTxHash'', ''MakerOwnerPkField'', ''MakerNullifierPk'', ''PrivateTxBlinding''] @
     expected_order_terms_witness_keys ''Order'' @
     keys ''OrderUtxo'' @ keys ''SourceOutput''"

definition take_expected_keys :: "(string \<Rightarrow> string list) \<Rightarrow> string list" where
  "take_expected_keys keys =
     [''Public_PublicInputHash'', ''Public_PrivateTxHash'', ''Public_FirstNullifier'', ''Core_PrivateTxBlinding''] @
     expected_order_terms_witness_keys ''Core_Order'' @
     concat (map keys [''Core_OrderUtxo'', ''Core_TakerIn'', ''Core_SourceOutput'', ''Core_DestinationOutput''])"

definition take_ve_expected_keys :: "(string \<Rightarrow> string list) \<Rightarrow> string list" where
  "take_ve_expected_keys keys =
     [''Public_PublicInputHash'', ''Public_PrivateTxHash'', ''Core_PrivateTxBlinding'', ''TakerNullifierPk''] @
     expected_order_terms_witness_keys ''Core_Order'' @
     concat (map keys [''Core_OrderUtxo'', ''Core_TakerIn'', ''Core_SourceOutput'', ''Core_DestinationOutput''])"

definition escrow_expected_keys :: "(string \<Rightarrow> string list) \<Rightarrow> string list" where
  "escrow_expected_keys keys =
     [''PrivateTxHash'', ''SourceInputHash'', ''PrivateTxBlinding''] @
     expected_escrow_terms_witness_keys ''Terms'' @
     keys ''EscrowUtxo'' @ keys ''Change''"

definition withdraw_expected_keys :: "(string \<Rightarrow> string list) \<Rightarrow> string list" where
  "withdraw_expected_keys keys =
     [''Public_PublicInputHash'', ''Public_PrivateTxHash'', ''OwnerPkField'', ''NullifierPk'', ''PrivateTxBlinding''] @
     expected_escrow_terms_witness_keys ''Terms'' @
     keys ''EscrowUtxo'' @ keys ''SourceOutput''"

section \<open>The tests\<close>

text \<open>The set of the keys of the witness is the set of the expected keys. The tests assert it of their sample;
  here it is a predicate on the inputs.\<close>

definition make_key_test ::
  "('i, 'f) prover_env \<Rightarrow> (string \<Rightarrow> string list) \<Rightarrow> 'i make_proof_inputs \<Rightarrow> bool" where
  "make_key_test P keys q \<longleftrightarrow> dom (make_witness P q) = set (make_expected_keys keys)"

definition cancel_key_test ::
  "('i, 'f) prover_env \<Rightarrow> (string \<Rightarrow> string list) \<Rightarrow> 'i cancel_proof_inputs \<Rightarrow> bool" where
  "cancel_key_test P keys q \<longleftrightarrow> dom (cancel_witness P q) = set (cancel_expected_keys keys)"

definition take_key_test ::
  "('i, 'f) prover_env \<Rightarrow> (string \<Rightarrow> string list) \<Rightarrow> 'i take_proof_inputs \<Rightarrow> bool" where
  "take_key_test P keys q \<longleftrightarrow> dom (take_witness P q) = set (take_expected_keys keys)"

definition take_ve_key_test ::
  "('i, 'f) prover_env \<Rightarrow> (string \<Rightarrow> string list) \<Rightarrow> 'i take_ve_proof_inputs \<Rightarrow> bool" where
  "take_ve_key_test P keys q \<longleftrightarrow> dom (take_ve_witness P q) = set (take_ve_expected_keys keys)"

definition escrow_key_test ::
  "('i, 'f) prover_env \<Rightarrow> (string \<Rightarrow> string list) \<Rightarrow> 'i escrow_proof_inputs \<Rightarrow> bool" where
  "escrow_key_test P keys q \<longleftrightarrow> dom (escrow_witness P q) = set (escrow_expected_keys keys)"

definition withdraw_key_test ::
  "('i, 'f) prover_env \<Rightarrow> (string \<Rightarrow> string list) \<Rightarrow> 'i withdraw_proof_inputs \<Rightarrow> bool" where
  "withdraw_key_test P keys q \<longleftrightarrow> dom (withdraw_witness P q) = set (withdraw_expected_keys keys)"

section \<open>Every input\<close>

lemma scalar_keys: "fst ` set (scalar_entries P ss) = fst ` set ss"
  by (simp add: image_image case_prod_beta)

lemma order_terms_keys:
  "fst ` set (order_witness_entries P t pre) = set (expected_order_terms_witness_keys pre)"
  unfolding set_map [symmetric] order_witness_keys
  by (auto simp: expected_order_terms_witness_keys_def)

lemma escrow_terms_keys:
  "fst ` set (escrow_witness_entries P t pre) = set (expected_escrow_terms_witness_keys pre)"
  by (simp add: escrow_witness_entries_def escrow_term_scalars_def expected_escrow_terms_witness_keys_def)

lemma dom_insert_all: "dom (insert_all es m) = fst ` set es \<union> dom m"
  by (simp add: insert_all_eq dom_map_of_conv_image_fst)

lemmas key_tests = make_key_test_def cancel_key_test_def take_key_test_def take_ve_key_test_def
  escrow_key_test_def withdraw_key_test_def make_witness_def cancel_witness_def take_witness_def
  take_ve_witness_def escrow_witness_def withdraw_witness_def make_expected_keys_def
  cancel_expected_keys_def take_expected_keys_def take_ve_expected_keys_def escrow_expected_keys_def
  withdraw_expected_keys_def make_scalars_def cancel_scalars_def take_scalars_def take_ve_scalars_def
  escrow_scalars_def withdraw_scalars_def

text \<open>C36. Whatever the inputs, the witness map of each of the six circuits has exactly the keys that the
  unit tests of the prover crates expect for the fields of the circuit: no field is left without a
  value, and no value goes to a field that the circuit does not have.\<close>

theorem witness_keys_are_fields:
  assumes "utxo_names_law P keys"
  shows "make_key_test P keys m \<and> cancel_key_test P keys c \<and> take_key_test P keys t \<and>
    take_ve_key_test P keys v \<and> escrow_key_test P keys e \<and> withdraw_key_test P keys d"
  using assms
  by (simp add: utxo_names_law_def key_tests dom_insert_all image_Un scalar_keys order_terms_keys
      escrow_terms_keys Un_ac insert_commute)

definition demo_keys :: "string \<Rightarrow> string list" where
  "demo_keys pre = [key_of pre ''Blinding'']"

lemma demo_names: "utxo_names_law (demo_prover c) demo_keys"
  by (simp add: utxo_names_law_def demo_prover_def demo_keys_def)

text \<open>The six tests pass on their samples.\<close>

theorem witness_keys_are_fields_witness:
  "make_key_test (demo_prover None) demo_keys (make_sample (demo_note 1)) \<and>
   cancel_key_test (demo_prover None) demo_keys (cancel_sample (demo_note 1)) \<and>
   take_key_test (demo_prover None) demo_keys (take_sample (demo_note 1)) \<and>
   take_ve_key_test (demo_prover None) demo_keys (take_ve_sample (demo_note 1)) \<and>
   escrow_key_test (demo_prover None) demo_keys (escrow_sample (demo_note 1)) \<and>
   withdraw_key_test (demo_prover None) demo_keys (withdraw_sample (demo_note 1))"
  using witness_keys_are_fields [OF demo_names] by blast

end
