(* ===== verification/Rust_Client.thy ===== *)
theory Rust_Client
  imports Sdk_Env
begin

text \<open>
  The setup code that the Rust examples share (\<open>rust-client/src/lib.rs\<close>): the service addresses, the
  clients, the payer's keypair, the registry of SPL assets read from the chain, the test token and
  the slot of a transaction. The clients, the RPC and the token program are parameters; calls over
  the network act on the world \<open>'w\<close>.
\<close>

section \<open>Addresses\<close>

definition rpc_url :: string where
  "rpc_url = ''https://devnet.helius-rpc.com''"

definition indexer_url :: string where
  "indexer_url = ''https://d34xe1hqb2ibg2.cloudfront.net''"

definition prover_url :: string where
  "prover_url = ''https://dd73hh473h6ha.cloudfront.net''"

record setup_context =
  sc_rpc_url :: string
  sc_indexer_url :: string
  sc_prover_url :: string
  sc_tree :: bytes

text \<open>\<open>str::trim_end_matches('/')\<close>.\<close>

definition trim_end_slashes :: "string \<Rightarrow> string" where
  "trim_end_slashes s = rev (dropWhile (\<lambda>c. c = CHR ''/'') (rev s))"

section \<open>The external functions\<close>

text \<open>
  \<open>'c\<close> is \<open>ProverClient\<close>, \<open>'z\<close> is \<open>ZolanaClient\<close>, \<open>'k\<close> a keypair, \<open>'g\<close> is \<open>AssetRegistry\<close>, \<open>'a\<close> the data of
  an account and \<open>'n\<close> an instruction. Sending returns the signature of the transaction. \<open>decode_spl_asset\<close> returns the printed error or the asset id
  and mint of \<open>SplAssetRegistry\<close>.
\<close>

record ('c, 'z, 'k, 'g, 'a, 'n, 'w) client_env =
  check_service_url :: "string \<Rightarrow> string \<Rightarrow> unit option"
  prover_client_new :: "string \<Rightarrow> 'c"
  with_signed_tee_devnet :: "'c \<Rightarrow> 'c"
  zolana_client :: "string \<Rightarrow> string \<Rightarrow> 'c \<Rightarrow> 'z"
  pda_tree0 :: bytes
  env_var :: "string \<rightharpoonup> string"
  expand_tilde :: "string \<Rightarrow> string"
  read_keypair_file :: "string \<Rightarrow> string + 'k"
  registry_default :: 'g
  registry_insert :: "u64 \<Rightarrow> bytes \<Rightarrow> 'g \<Rightarrow> 'g option"
  registry_mint :: "'g \<Rightarrow> u64 \<Rightarrow> bytes option"
  program_id_pubkey :: bytes
  asset_accounts :: "'z \<Rightarrow> 'w \<Rightarrow> (bytes \<times> bytes \<times> 'a) list option \<times> 'w"
  decode_spl_asset :: "'a \<Rightarrow> string + u64 \<times> bytes"
  pda_spl_asset_registry :: "bytes \<Rightarrow> bytes"
  new_keypair :: "'w \<Rightarrow> 'k \<times> 'w"
  key_pubkey :: "'k \<Rightarrow> bytes"
  spl_token_program_id :: bytes
  token_mint_len :: nat
  token_account_len :: nat
  min_rent :: "'z \<Rightarrow> nat \<Rightarrow> 'w \<Rightarrow> u64 option \<times> 'w"
  ix_create_account :: "bytes \<Rightarrow> bytes \<Rightarrow> u64 \<Rightarrow> u64 \<Rightarrow> bytes \<Rightarrow> 'n"
  ix_initialize_mint2 :: "bytes \<Rightarrow> bytes \<Rightarrow> bytes \<Rightarrow> bytes option \<Rightarrow> byte \<Rightarrow> 'n option"
  ix_initialize_account3 :: "bytes \<Rightarrow> bytes \<Rightarrow> bytes \<Rightarrow> bytes \<Rightarrow> 'n option"
  ix_mint_to :: "bytes \<Rightarrow> bytes \<Rightarrow> bytes \<Rightarrow> bytes \<Rightarrow> bytes list \<Rightarrow> u64 \<Rightarrow> 'n option"
  create_and_send :: "'z \<Rightarrow> 'n list \<Rightarrow> bytes \<Rightarrow> 'k list \<Rightarrow> 'w \<Rightarrow> bytes option \<times> 'w"
  signature_statuses :: "'z \<Rightarrow> bytes list \<Rightarrow> 'w \<Rightarrow> u64 option list option \<times> 'w"

section \<open>Clients\<close>

definition context_prover_client ::
  "('c, 'z, 'k, 'g, 'a, 'n, 'w) client_env \<Rightarrow> setup_context \<Rightarrow> sdk_error + 'c" where
  "context_prover_client C ctx =
     bindR (ext (check_service_url C (sc_prover_url ctx) ''prover_url'')) (\<lambda>_.
     let prover = prover_client_new C (sc_prover_url ctx) in
     if trim_end_slashes (sc_prover_url ctx) = prover_url
     then Inr (with_signed_tee_devnet C prover)
     else Inr prover)"

definition context_client ::
  "('c, 'z, 'k, 'g, 'a, 'n, 'w) client_env \<Rightarrow> setup_context \<Rightarrow> sdk_error + 'z" where
  "context_client C ctx =
     bindR (ext (check_service_url C (sc_indexer_url ctx) ''indexer_url'')) (\<lambda>_.
     bindR (context_prover_client C ctx) (\<lambda>prover.
     Inr (zolana_client C (sc_rpc_url ctx) (sc_indexer_url ctx) prover)))"

definition setup_client :: "('c, 'z, 'k, 'g, 'a, 'n, 'w) client_env \<Rightarrow> sdk_error + setup_context" where
  "setup_client C =
     bindR (ok_or (Msg ''set API_KEY'') (env_var C ''API_KEY'')) (\<lambda>api_key.
     Inr \<lparr>sc_rpc_url = rpc_url @ ''/?api-key='' @ api_key, sc_indexer_url = indexer_url,
          sc_prover_url = prover_url, sc_tree = pda_tree0 C\<rparr>)"

definition cli_keypair :: "('c, 'z, 'k, 'g, 'a, 'n, 'w) client_env \<Rightarrow> sdk_error + 'k" where
  "cli_keypair C =
     (let path = (case env_var C ''ZOLANA_PAYER_KEYPAIR'' of
                    None \<Rightarrow> ''~/.config/solana/id.json'' | Some p \<Rightarrow> p);
          path = expand_tilde C path
      in map_errR (\<lambda>e. Msg (''load keypair '' @ path @ '': '' @ e)) (read_keypair_file C path))"

section \<open>The asset registry\<close>

fun insert_assets ::
  "('c, 'z, 'k, 'g, 'a, 'n, 'w) client_env \<Rightarrow> (bytes \<times> bytes \<times> 'a) list \<Rightarrow> 'g \<Rightarrow> sdk_error + 'g" where
  "insert_assets C [] assets = Inr assets"
| "insert_assets C ((addr, owner, data) # accounts) assets =
     bindR (map_errR (\<lambda>e. Msg (''decode SPL asset registry: '' @ e)) (decode_spl_asset C data))
       (\<lambda>(asset_id, mint).
     bindR (guardR (owner = program_id_pubkey C \<and> addr = pda_spl_asset_registry C mint)
              (Msg ''invalid SPL asset registry account'')) (\<lambda>_.
     bindR (ext (registry_insert C asset_id mint assets)) (\<lambda>assets.
     insert_assets C accounts assets)))"

text \<open>\<open>asset_accounts\<close> is \<open>get_program_accounts_filtered\<close> with the program id and the filter of the
  code; an account is its address, its owner and its data.\<close>

definition asset_registry ::
  "('c, 'z, 'k, 'g, 'a, 'n, 'w) client_env \<Rightarrow> 'z \<Rightarrow> 'w \<Rightarrow> (sdk_error + 'g) \<times> 'w" where
  "asset_registry C client w =
     (case asset_accounts C client w of
        (None, w) \<Rightarrow> (Inl External, w)
      | (Some accounts, w) \<Rightarrow> (insert_assets C accounts (registry_default C), w))"

section \<open>The test token\<close>

record test_token =
  tt_mint :: bytes
  tt_source_token :: bytes

text \<open>The instructions are built, in order, before anything is sent.\<close>

definition test_token_instructions ::
  "('c, 'z, 'k, 'g, 'a, 'n, 'w) client_env \<Rightarrow> bytes \<Rightarrow> bytes \<Rightarrow> bytes \<Rightarrow> u64 \<Rightarrow> u64 \<Rightarrow> u64 \<Rightarrow> 'n list option" where
  "test_token_instructions C payer mint source_token mint_rent token_rent amount =
     (let token_program = spl_token_program_id C in do {
        init_mint \<leftarrow> ix_initialize_mint2 C token_program mint payer None 9;
        init_account \<leftarrow> ix_initialize_account3 C token_program source_token mint payer;
        mint_tokens \<leftarrow> ix_mint_to C token_program mint source_token payer [] amount;
        Some [ix_create_account C payer mint mint_rent (of_nat (token_mint_len C)) token_program,
              init_mint,
              ix_create_account C payer source_token token_rent (of_nat (token_account_len C)) token_program,
              init_account,
              mint_tokens]
      })"

definition setup_test_token ::
  "('c, 'z, 'k, 'g, 'a, 'n, 'w) client_env \<Rightarrow> 'z \<Rightarrow> 'k \<Rightarrow> u64 \<Rightarrow> 'w \<Rightarrow> (sdk_error + test_token) \<times> 'w" where
  "setup_test_token C client payer amount w =
     (case new_keypair C w of (mint, w) \<Rightarrow>
      case new_keypair C w of (source_token, w) \<Rightarrow>
      case min_rent C client (token_mint_len C) w of
        (None, w) \<Rightarrow> (Inl External, w)
      | (Some mint_rent, w) \<Rightarrow>
          (case min_rent C client (token_account_len C) w of
             (None, w) \<Rightarrow> (Inl External, w)
           | (Some token_rent, w) \<Rightarrow>
               (case test_token_instructions C (key_pubkey C payer) (key_pubkey C mint)
                       (key_pubkey C source_token) mint_rent token_rent amount of
                  None \<Rightarrow> (Inl External, w)
                | Some instructions \<Rightarrow>
                    (case create_and_send C client instructions (key_pubkey C payer)
                            [payer, mint, source_token] w of
                       (None, w) \<Rightarrow> (Inl External, w)
                     | (Some _, w) \<Rightarrow>
                         (Inr \<lparr>tt_mint = key_pubkey C mint,
                               tt_source_token = key_pubkey C source_token\<rparr>, w)))))"

section \<open>The slot of a transaction\<close>

definition landed_slot ::
  "('c, 'z, 'k, 'g, 'a, 'n, 'w) client_env \<Rightarrow> 'z \<Rightarrow> bytes \<Rightarrow> 'w \<Rightarrow> (sdk_error + u64) \<times> 'w" where
  "landed_slot C client signature w =
     (case signature_statuses C client [signature] w of
        (None, w) \<Rightarrow> (Inl External, w)
      | (Some statuses, w) \<Rightarrow>
          (ok_or (Msg ''transaction status missing after confirmation'')
             (do { status \<leftarrow> first_opt statuses; status }), w))"

section \<open>Facts\<close>

text \<open>The documented behaviour of \<open>AssetRegistry\<close>: it starts empty, and after an insertion an id has
  the inserted mint or the one it had.\<close>

definition registry_law :: "('c, 'z, 'k, 'g, 'a, 'n, 'w) client_env \<Rightarrow> bool" where
  "registry_law C \<longleftrightarrow>
     (\<forall>i. registry_mint C (registry_default C) i = None) \<and>
     (\<forall>i m g g' j x. registry_insert C i m g = Some g' \<longrightarrow> registry_mint C g' j = Some x \<longrightarrow>
        j = i \<and> x = m \<or> registry_mint C g j = Some x)"

text \<open>An account that vouches for an asset: it is the registry account of the mint, owned by the
  program, and its data name the asset.\<close>

definition vouches :: "('c, 'z, 'k, 'g, 'a, 'n, 'w) client_env \<Rightarrow> bytes \<times> bytes \<times> 'a \<Rightarrow> u64 \<Rightarrow> bytes \<Rightarrow> bool" where
  "vouches C account i m \<longleftrightarrow>
     (case account of (addr, owner, data) \<Rightarrow> decode_spl_asset C data = Inr (i, m) \<and>
        owner = program_id_pubkey C \<and> addr = pda_spl_asset_registry C m)"

lemma insert_assets_vouched:
  assumes "registry_law C"
  shows "insert_assets C accounts g = Inr g' \<Longrightarrow> registry_mint C g' i = Some m \<Longrightarrow>
     registry_mint C g i = Some m \<or> (\<exists>a \<in> set accounts. vouches C a i m)"
proof (induction accounts arbitrary: g)
  case Nil
  then show ?case by simp
next
  case (Cons account accounts)
  obtain addr owner data where a: "account = (addr, owner, data)"
    by (cases account)
  obtain j n g1 where j: "decode_spl_asset C data = Inr (j, n)" "owner = program_id_pubkey C"
    "addr = pda_spl_asset_registry C n" "registry_insert C j n g = Some g1"
    "insert_assets C accounts g1 = Inr g'"
    using Cons.prems(1) by (auto simp: a result_simps)
  have "registry_mint C g1 i = Some m \<or> (\<exists>a \<in> set accounts. vouches C a i m)"
    using Cons.IH [OF j(5) Cons.prems(2)] .
  moreover have "registry_mint C g1 i = Some m \<longrightarrow> i = j \<and> m = n \<or> registry_mint C g i = Some m"
    using assms j(4) unfolding registry_law_def by blast
  ultimately show ?case
    using j(1-3) by (auto simp: a vouches_def)
qed

text \<open>Every account of a scan that succeeds vouches for some asset.\<close>

lemma insert_assets_all:
  "insert_assets C accounts g = Inr g' \<Longrightarrow> \<forall>a \<in> set accounts. \<exists>i m. vouches C a i m"
proof (induction accounts arbitrary: g)
  case Nil
  then show ?case by simp
next
  case (Cons account accounts)
  obtain addr owner data where a: "account = (addr, owner, data)"
    by (cases account)
  obtain j n g1 where j: "decode_spl_asset C data = Inr (j, n)" "owner = program_id_pubkey C"
    "addr = pda_spl_asset_registry C n" "insert_assets C accounts g1 = Inr g'"
    using Cons.prems by (auto simp: a result_simps)
  then have "vouches C account j n"
    by (simp add: a vouches_def)
  with Cons.IH [OF j(4)] show ?case by auto
qed

section \<open>Properties\<close>

text \<open>The asset registry the examples work with holds nothing but what the chain vouches for: every
  mint it resolves was read from the registry account of that mint, which the program owns, and
  one account in the scan that is not such an account makes the whole call fail.\<close>

theorem asset_registry_vouched:
  assumes "registry_law C" "asset_registry C client w = (Inr g, w')"
  shows "\<exists>accounts. asset_accounts C client w = (Some accounts, w') \<and>
     (\<forall>a \<in> set accounts. \<exists>i m. vouches C a i m) \<and>
     (\<forall>i m. registry_mint C g i = Some m \<longrightarrow> (\<exists>a \<in> set accounts. vouches C a i m))"
proof -
  obtain accounts where r: "asset_accounts C client w = (Some accounts, w')"
    "insert_assets C accounts (registry_default C) = Inr g"
    using assms(2) by (auto simp: asset_registry_def split: prod.splits option.splits)
  have "registry_mint C (registry_default C) i = None" for i
    using assms(1) unfolding registry_law_def by blast
  then have "\<exists>a \<in> set accounts. vouches C a i m" if "registry_mint C g i = Some m" for i m
    using insert_assets_vouched [OF assms(1) r(2) that] by simp
  with r(1) insert_assets_all [OF r(2)] show ?thesis by blast
qed

text \<open>An environment with one registered asset; registries are association lists.\<close>

definition demo_client ::
  "(string, unit, bytes, (u64 \<times> bytes) list, u64 \<times> bytes, unit, unit) client_env" where
  "demo_client = \<lparr>check_service_url = (\<lambda>u n. Some ()), prover_client_new = id,
     with_signed_tee_devnet = id, zolana_client = (\<lambda>r i c. ()), pda_tree0 = [],
     env_var = Map.empty, expand_tilde = id, read_keypair_file = (\<lambda>p. Inl ''missing''),
     registry_default = [], registry_insert = (\<lambda>i m g. Some ((i, m) # g)), registry_mint = map_of,
     program_id_pubkey = [9], asset_accounts = (\<lambda>c w. (Some [([7], [9], (2, [7]))], w)),
     decode_spl_asset = Inr, pda_spl_asset_registry = id, new_keypair = (\<lambda>w. ([], w)),
     key_pubkey = id, spl_token_program_id = [], token_mint_len = 82, token_account_len = 165,
     min_rent = (\<lambda>c n w. (Some 1, w)), ix_create_account = (\<lambda>a b c d e. ()),
     ix_initialize_mint2 = (\<lambda>a b c d e. Some ()), ix_initialize_account3 = (\<lambda>a b c d. Some ()),
     ix_mint_to = (\<lambda>a b c d e f. Some ()), create_and_send = (\<lambda>c is p ks w. (Some [], w)),
     signature_statuses = (\<lambda>c ss w. (None, w))\<rparr>"

theorem asset_registry_vouched_witness:
  "asset_registry demo_client () () = (Inr [(2, [7])], ()) \<and> vouches demo_client ([7], [9], (2, [7])) 2 [7]"
proof -
  have law: "registry_law demo_client"
    by (auto simp: registry_law_def demo_client_def split: if_splits)
  have r: "asset_registry demo_client () () = (Inr [(2, [7])], ())"
    by (simp add: asset_registry_def demo_client_def guardR_def ext_def)
  show ?thesis
    using asset_registry_vouched [OF law r] r by (fastforce simp: demo_client_def)
qed

end
