(* ===== verification/Rust_Examples.thy ===== *)
theory Rust_Examples
  imports Rust_Client "HOL-Library.Multiset"
begin

text \<open>
  The Rust examples (\<open>rust-client/examples/\<close>): depositing, transferring and withdrawing SOL, the
  deposit that sets up the interface of a new mint, the registration of a wallet, and the two
  readers. The wallet, transaction and indexer crates are parameters. A failed \<open>?\<close> is an error, a
  failed \<open>expect\<close> or assertion a panic; what an example prints is left out. This theory has the first
  example, with the promises of the external crates under which it cannot panic; \<open>Rust_Readers\<close> has the
  others.
\<close>

section \<open>Actions\<close>

text \<open>An action acts on the world and ends with a value, an error or a panic.\<close>

datatype stop = Failed sdk_error | Panicked

type_synonym ('w, 'r) act = "'w \<Rightarrow> (stop + 'r) \<times> 'w"

definition bindA :: "('w, 'r) act \<Rightarrow> ('r \<Rightarrow> ('w, 'q) act) \<Rightarrow> ('w, 'q) act" where
  "bindA f g w = (case f w of (Inl e, w1) \<Rightarrow> (Inl e, w1) | (Inr x, w1) \<Rightarrow> g x w1)"

definition returnA :: "'r \<Rightarrow> ('w, 'r) act" where
  "returnA x w = (Inr x, w)"

text \<open>\<open>?\<close> on a pure result, on an external call that only fails or not, and on a call over the network.\<close>

definition liftA :: "sdk_error + 'r \<Rightarrow> ('w, 'r) act" where
  "liftA r w = (map_errR Failed r, w)"

definition tryA :: "'r option \<Rightarrow> ('w, 'r) act" where
  "tryA x = liftA (ext x)"

definition callA :: "('w \<Rightarrow> 'r option \<times> 'w) \<Rightarrow> ('w, 'r) act" where
  "callA f w = (case f w of (x, w1) \<Rightarrow> tryA x w1)"

definition resultA :: "('w \<Rightarrow> (sdk_error + 'r) \<times> 'w) \<Rightarrow> ('w, 'r) act" where
  "resultA f w = (case f w of (x, w1) \<Rightarrow> liftA x w1)"

definition worldA :: "('w \<Rightarrow> 'r \<times> 'w) \<Rightarrow> ('w, 'r) act" where
  "worldA f w = (case f w of (x, w1) \<Rightarrow> (Inr x, w1))"

text \<open>\<open>expect\<close> and \<open>assert!\<close>.\<close>

definition expectA :: "'r option \<Rightarrow> ('w, 'r) act" where
  "expectA x w = (case x of None \<Rightarrow> Inl Panicked | Some y \<Rightarrow> Inr y, w)"

definition assertA :: "bool \<Rightarrow> ('w, unit) act" where
  "assertA b w = (if b then Inr () else Inl Panicked, w)"

text \<open>The weakest precondition for not panicking and, if a value is returned, for \<open>Q\<close>.\<close>

definition wp :: "('w, 'r) act \<Rightarrow> ('r \<Rightarrow> 'w \<Rightarrow> bool) \<Rightarrow> 'w \<Rightarrow> bool" where
  "wp f Q w \<longleftrightarrow> (case f w of (Inl e, w1) \<Rightarrow> e \<noteq> Panicked | (Inr x, w1) \<Rightarrow> Q x w1)"

named_theorems wp_simps \<open>weakest preconditions of actions\<close>

lemma wp_bindA [wp_simps]: "wp (bindA f g) Q = wp f (\<lambda>x. wp (g x) Q)"
  by (rule ext) (auto simp: wp_def bindA_def split: prod.splits sum.splits)

lemma wp_returnA [wp_simps]: "wp (returnA x) Q w \<longleftrightarrow> Q x w"
  by (simp add: wp_def returnA_def)

lemma wp_liftA [wp_simps]: "wp (liftA r) Q w \<longleftrightarrow> (\<forall>x. r = Inr x \<longrightarrow> Q x w)"
  by (cases r) (auto simp: wp_def liftA_def)

lemma wp_tryA [wp_simps]: "wp (tryA q) Q w \<longleftrightarrow> (\<forall>x. q = Some x \<longrightarrow> Q x w)"
  by (cases q) (auto simp: tryA_def ext_def wp_simps)

lemma wp_callA [wp_simps]: "wp (callA f) Q w \<longleftrightarrow> (\<forall>x w1. f w = (Some x, w1) \<longrightarrow> Q x w1)"
  using wp_tryA by (fastforce simp: wp_def callA_def split: prod.splits)

lemma wp_resultA [wp_simps]: "wp (resultA f) Q w \<longleftrightarrow> (\<forall>x w1. f w = (Inr x, w1) \<longrightarrow> Q x w1)"
  using wp_liftA by (fastforce simp: wp_def resultA_def split: prod.splits)

lemma wp_worldA [wp_simps]: "wp (worldA f) Q w \<longleftrightarrow> (\<forall>x w1. f w = (x, w1) \<longrightarrow> Q x w1)"
  by (auto simp: wp_def worldA_def split: prod.splits)

lemma wp_expectA [wp_simps]: "wp (expectA q) Q w \<longleftrightarrow> (\<exists>x. q = Some x \<and> Q x w)"
  by (cases q) (auto simp: wp_def expectA_def)

lemma wp_assertA [wp_simps]: "wp (assertA b) Q w \<longleftrightarrow> b \<and> Q () w"
  by (auto simp: wp_def assertA_def)

lemma wp_no_panic: "wp f Q w \<Longrightarrow> fst (f w) \<noteq> Inl Panicked"
  by (auto simp: wp_def split: prod.splits sum.splits)

text \<open>An action that cannot panic is described by its results.\<close>

lemma wp_results:
  "(\<And>w. wp f (\<lambda>_ _. True) w) \<Longrightarrow> wp f Q w \<longleftrightarrow> (\<forall>x w1. f w = (Inr x, w1) \<longrightarrow> Q x w1)"
  by (fastforce simp: wp_def split: prod.splits sum.splits)

lemma wp_mono: "wp f P w \<Longrightarrow> (\<And>x w1. f w = (Inr x, w1) \<Longrightarrow> P x w1 \<Longrightarrow> Q x w1) \<Longrightarrow> wp f Q w"
  by (auto simp: wp_def split: prod.splits sum.splits)

lemma returned:
  "bindA f g w = (Inr y, w2) \<longleftrightarrow> (\<exists>x w1. f w = (Inr x, w1) \<and> g x w1 = (Inr y, w2))"
  "returnA x w = (Inr y, w2) \<longleftrightarrow> y = x \<and> w2 = w"
  "liftA r w = (Inr y, w2) \<longleftrightarrow> r = Inr y \<and> w2 = w"
  "tryA q w = (Inr y, w2) \<longleftrightarrow> q = Some y \<and> w2 = w"
  "callA c w = (Inr y, w2) \<longleftrightarrow> c w = (Some y, w2)"
  "resultA d w = (Inr y, w2) \<longleftrightarrow> d w = (Inr y, w2)"
  "worldA h w = (Inr y, w2) \<longleftrightarrow> h w = (y, w2)"
  "expectA q w = (Inr y, w2) \<longleftrightarrow> q = Some y \<and> w2 = w"
  "assertA b w = (Inr z, w2) \<longleftrightarrow> b \<and> w2 = w"
  by (cases r; auto simp: bindA_def returnA_def liftA_def tryA_def callA_def resultA_def worldA_def
      expectA_def assertA_def ext_def result_simps split: prod.splits sum.splits option.splits)+

section \<open>What the examples use of the wallet and transaction crates\<close>

text \<open>The arguments of the instruction builders.\<close>

record deposit_spl_accounts =
  ds_mint :: bytes
  ds_user_token :: bytes
  ds_token_program :: bytes

datatype deposit_asset = Deposit_Sol | Deposit_Spl deposit_spl_accounts

record asset_deposit =
  ad_asset :: deposit_asset
  ad_view_tag :: bytes
  ad_owner :: bytes
  ad_amount :: u64
  ad_memo :: "bytes option"

record deposit =
  dp_tree :: bytes
  dp_depositor :: bytes
  dp_deposits :: "asset_deposit list"

datatype transfer_accounts = Sol_Transfer bytes | Other_Transfer

record 'd transact =
  tr_payer :: bytes
  tr_input_trees :: "bytes list"
  tr_output_tree :: bytes
  tr_owner_signers :: "bytes list"
  tr_interface_transfer_accounts :: "transfer_accounts list"
  tr_data :: 'd

record create_spl_interface =
  ci_authority :: bytes
  ci_mint :: bytes
  ci_token_program :: bytes

record register_data =
  rd_nullifier_pubkey :: bytes
  rd_viewing_pubkey :: bytes

datatype merge_encryption_scheme = PoseidonCtrV1 | OtherScheme

text \<open>A balance of one mint, and the result of a scan: the balances \<open>'b\<close> and what it could not resolve.\<close>

record 'u asset_balance =
  bal_mint :: bytes
  bal_amount :: u64
  bal_utxos :: "'u list"

record 'b spendable =
  sp_balances :: 'b
  sp_unknown_asset_ids :: "u64 list"
  sp_unknown_mints :: "bytes list"

text \<open>
  \<open>'s\<close> is \<open>ShieldedKeypair\<close>, \<open>'p\<close> its \<open>PublicKey\<close>, \<open>'y\<close> a transaction as the indexer returns it, \<open>'t\<close> the
  transaction in it, \<open>'b\<close> is \<open>Balances\<close>, \<open>'u\<close> a spendable UTXO, \<open>'x\<close> is \<open>ConfidentialTransaction\<close>, \<open>'i\<close> its
  proof inputs, \<open>'d\<close> the proved instruction data. \<open>transactions_at\<close> is
  \<open>get_shielded_transactions_by_signature\<close> at a slot; \<open>prove\<close> is \<open>prove_transact\<close> with no second argument;
  encrypting draws on the randomness of the world.
\<close>

record ('z, 'k, 'g, 'n, 's, 'p, 'y, 't, 'b, 'u, 'x, 'i, 'd, 'w) wallet_env =
  from_keypair :: "'k \<Rightarrow> 's option"
  signer_of :: "'s \<Rightarrow> 'k"
  address_of :: "'s \<Rightarrow> 'p shielded_address option"
  address_view_tag :: "'p shielded_address \<Rightarrow> bytes option"
  address_owner_hash :: "'p shielded_address \<Rightarrow> bytes option"
  deposit_instruction :: "deposit \<Rightarrow> 'n option"
  transact_instruction :: "'d transact \<Rightarrow> 'n"
  transactions_at :: "'z \<Rightarrow> bytes \<Rightarrow> u64 \<Rightarrow> 'w \<Rightarrow> 'y list option \<times> 'w"
  indexed_transaction :: "'y \<Rightarrow> 't"
  decrypt_spendable :: "'s \<Rightarrow> 't list \<Rightarrow> 'g \<Rightarrow> string + 'b spendable"
  balance_of :: "'b \<Rightarrow> bytes \<Rightarrow> 'u asset_balance option"
  balance_assets :: "'b \<Rightarrow> 'u asset_balance list"
  sol_mint :: bytes
  confidential_new :: "'u list \<Rightarrow> bytes \<Rightarrow> 'x option"
  transfer_sol :: "'x \<Rightarrow> 'p shielded_address \<Rightarrow> u64 \<Rightarrow> 'x option"
  withdraw_sol :: "'x \<Rightarrow> u64 \<Rightarrow> bytes \<Rightarrow> 'x option"
  encrypt_tx :: "'x \<Rightarrow> 's \<Rightarrow> 'w \<Rightarrow> 'i option \<times> 'w"
  prove :: "'z \<Rightarrow> 'i \<Rightarrow> 's \<Rightarrow> 'w \<Rightarrow> 'd option \<times> 'w"
  solana_balance :: "'z \<Rightarrow> bytes \<Rightarrow> 'w \<Rightarrow> u64 option \<times> 'w"

text \<open>\<open>Signer::pubkey\<close> of the wallet.\<close>

definition sender_pubkey ::
  "('c, 'z, 'k, 'g, 'a, 'n, 'w) client_env \<Rightarrow>
   ('z, 'k, 'g, 'n, 's, 'p, 'y, 't, 'b, 'u, 'x, 'i, 'd, 'w) wallet_env \<Rightarrow> 's \<Rightarrow> bytes" where
  "sender_pubkey C X s = key_pubkey C (signer_of X s)"

section \<open>Steps that the examples share\<close>

text \<open>Reading a transaction back: the fetch is gated on the slot it landed in, and the sender decrypts.\<close>

definition read_back ::
  "('c, 'z, 'k, 'g, 'a, 'n, 'w) client_env \<Rightarrow>
   ('z, 'k, 'g, 'n, 's, 'p, 'y, 't, 'b, 'u, 'x, 'i, 'd, 'w) wallet_env \<Rightarrow> 'z \<Rightarrow> 's \<Rightarrow> 'g \<Rightarrow> bytes \<Rightarrow> ('w, 'b) act" where
  "read_back C X client sender assets signature =
     bindA (resultA (landed_slot C client signature)) (\<lambda>slot.
     bindA (callA (transactions_at X client signature slot)) (\<lambda>response.
     let transactions = map (indexed_transaction X) response in
     bindA (liftA (map_errR (\<lambda>e. Msg (''decrypt sender transactions: '' @ e))
              (decrypt_spendable X sender transactions assets))) (\<lambda>spendable.
     returnA (sp_balances spendable))))"

section \<open>Deposit, transfer, withdraw (deposit_transfer_withdraw.rs)\<close>

definition sol_deposit_amount :: u64 where
  "sol_deposit_amount = 10000000"

definition sol_transfer_amount :: u64 where
  "sol_transfer_amount = 3000000"

definition sol_withdraw_amount :: u64 where
  "sol_withdraw_amount = 3000000"

definition check_sol_balance ::
  "('z, 'k, 'g, 'n, 's, 'p, 'y, 't, 'b, 'u, 'x, 'i, 'd, 'w) wallet_env \<Rightarrow> 'b \<Rightarrow> u64 \<Rightarrow> ('w, unit) act" where
  "check_sol_balance X balances amount =
     bindA (expectA (balance_of X balances (sol_mint X))) (\<lambda>sender_balance.
     bindA (assertA (bal_amount sender_balance = amount)) (\<lambda>_.
     assertA (length (bal_utxos sender_balance) = 1)))"

definition select_sol_utxo ::
  "('z, 'k, 'g, 'n, 's, 'p, 'y, 't, 'b, 'u, 'x, 'i, 'd, 'w) wallet_env \<Rightarrow> 'b \<Rightarrow> ('w, 'u) act" where
  "select_sol_utxo X balances =
     expectA (do { balance \<leftarrow> balance_of X balances (sol_mint X); first_opt (bal_utxos balance) })"

definition sol_deposit ::
  "('c, 'z, 'k, 'g, 'a, 'n, 'w) client_env \<Rightarrow>
   ('z, 'k, 'g, 'n, 's, 'p, 'y, 't, 'b, 'u, 'x, 'i, 'd, 'w) wallet_env \<Rightarrow> 'z \<Rightarrow> bytes \<Rightarrow> 's \<Rightarrow>
   'p shielded_address \<Rightarrow> 'g \<Rightarrow> ('w, 'b) act" where
  "sol_deposit C X client tree sender sender_address assets =
     bindA (tryA (address_view_tag X sender_address)) (\<lambda>view_tag.
     bindA (tryA (address_owner_hash X sender_address)) (\<lambda>owner.
     bindA (tryA (deposit_instruction X
       \<lparr>dp_tree = tree, dp_depositor = sender_pubkey C X sender,
        dp_deposits = [\<lparr>ad_asset = Deposit_Sol, ad_view_tag = view_tag, ad_owner = owner,
                        ad_amount = sol_deposit_amount, ad_memo = None\<rparr>]\<rparr>)) (\<lambda>deposit_ix.
     bindA (callA (create_and_send C client [deposit_ix] (sender_pubkey C X sender) [signer_of X sender]))
       (\<lambda>signature.
     bindA (read_back C X client sender assets signature) (\<lambda>balances.
     bindA (check_sol_balance X balances sol_deposit_amount) (\<lambda>_.
     returnA balances))))))"

text \<open>A confidential transaction is encrypted, proved, sent and read back. The transfer has no interface
  accounts, the withdrawal names its recipient.\<close>

definition prove_and_send ::
  "('c, 'z, 'k, 'g, 'a, 'n, 'w) client_env \<Rightarrow>
   ('z, 'k, 'g, 'n, 's, 'p, 'y, 't, 'b, 'u, 'x, 'i, 'd, 'w) wallet_env \<Rightarrow> 'z \<Rightarrow> bytes \<Rightarrow> 's \<Rightarrow> 'g \<Rightarrow>
   transfer_accounts list \<Rightarrow> 'x \<Rightarrow> ('w, 'b) act" where
  "prove_and_send C X client tree sender assets accounts tx =
     bindA (callA (encrypt_tx X tx sender)) (\<lambda>proof_inputs.
     bindA (callA (prove X client proof_inputs sender)) (\<lambda>data.
     let ix = transact_instruction X
       \<lparr>tr_payer = sender_pubkey C X sender, tr_input_trees = [tree], tr_output_tree = tree,
        tr_owner_signers = [sender_pubkey C X sender], tr_interface_transfer_accounts = accounts,
        tr_data = data\<rparr> in
     bindA (callA (create_and_send C client [ix] (sender_pubkey C X sender) [signer_of X sender]))
       (\<lambda>signature.
     read_back C X client sender assets signature)))"

definition sol_transfer ::
  "('c, 'z, 'k, 'g, 'a, 'n, 'w) client_env \<Rightarrow>
   ('z, 'k, 'g, 'n, 's, 'p, 'y, 't, 'b, 'u, 'x, 'i, 'd, 'w) wallet_env \<Rightarrow> 'z \<Rightarrow> bytes \<Rightarrow> 's \<Rightarrow> 's \<Rightarrow> 'g \<Rightarrow> 'b \<Rightarrow>
   ('w, 'b) act" where
  "sol_transfer C X client tree sender recipient assets deposited =
     bindA (select_sol_utxo X deposited) (\<lambda>transfer_utxo.
     bindA (tryA (confidential_new X [transfer_utxo] (sender_pubkey C X sender))) (\<lambda>transfer.
     bindA (tryA (address_of X recipient)) (\<lambda>recipient_address.
     bindA (tryA (transfer_sol X transfer recipient_address sol_transfer_amount)) (\<lambda>transfer.
     bindA (prove_and_send C X client tree sender assets [] transfer) (\<lambda>balances.
     bindA (check_sol_balance X balances (sol_deposit_amount - sol_transfer_amount)) (\<lambda>_.
     returnA balances))))))"

definition sol_withdraw ::
  "('c, 'z, 'k, 'g, 'a, 'n, 'w) client_env \<Rightarrow>
   ('z, 'k, 'g, 'n, 's, 'p, 'y, 't, 'b, 'u, 'x, 'i, 'd, 'w) wallet_env \<Rightarrow> 'z \<Rightarrow> bytes \<Rightarrow> 's \<Rightarrow> 'g \<Rightarrow> 'b \<Rightarrow>
   ('w, unit) act" where
  "sol_withdraw C X client tree sender assets transferred =
     bindA (select_sol_utxo X transferred) (\<lambda>withdrawal_utxo.
     bindA (tryA (confidential_new X [withdrawal_utxo] (sender_pubkey C X sender))) (\<lambda>withdrawal.
     bindA (tryA (withdraw_sol X withdrawal sol_withdraw_amount (sender_pubkey C X sender))) (\<lambda>withdrawal.
     bindA (prove_and_send C X client tree sender assets [Sol_Transfer (sender_pubkey C X sender)] withdrawal)
       (\<lambda>balances.
     bindA (check_sol_balance X balances
       (sol_deposit_amount - sol_transfer_amount - sol_withdraw_amount)) (\<lambda>_.
     bindA (callA (solana_balance X client (sender_pubkey C X sender))) (\<lambda>_.
     returnA ()))))))"

definition run_deposit_transfer_withdraw ::
  "('c, 'z, 'k, 'g, 'a, 'n, 'w) client_env \<Rightarrow>
   ('z, 'k, 'g, 'n, 's, 'p, 'y, 't, 'b, 'u, 'x, 'i, 'd, 'w) wallet_env \<Rightarrow> 'z \<Rightarrow> bytes \<Rightarrow> 'k \<Rightarrow> ('w, unit) act" where
  "run_deposit_transfer_withdraw C X client tree payer =
     (let assets = registry_default C in
      bindA (tryA (from_keypair X payer)) (\<lambda>sender.
      bindA (worldA (new_keypair C)) (\<lambda>recipient_key.
      bindA (tryA (from_keypair X recipient_key)) (\<lambda>recipient.
      bindA (tryA (address_of X sender)) (\<lambda>sender_address.
      bindA (sol_deposit C X client tree sender sender_address assets) (\<lambda>deposited.
      bindA (sol_transfer C X client tree sender recipient assets deposited) (\<lambda>transferred.
      sol_withdraw C X client tree sender assets transferred)))))))"

text \<open>\<open>main\<close>, with the setup of the library.\<close>

definition main_deposit_transfer_withdraw ::
  "('c, 'z, 'k, 'g, 'a, 'n, 'w) client_env \<Rightarrow>
   ('z, 'k, 'g, 'n, 's, 'p, 'y, 't, 'b, 'u, 'x, 'i, 'd, 'w) wallet_env \<Rightarrow> ('w, unit) act" where
  "main_deposit_transfer_withdraw C X =
     bindA (liftA (setup_client C)) (\<lambda>ctx.
     bindA (liftA (context_client C ctx)) (\<lambda>client.
     bindA (liftA (cli_keypair C)) (\<lambda>payer.
     run_deposit_transfer_withdraw C X client (sc_tree ctx) payer)))"

section \<open>What the examples rely on\<close>

text \<open>
  The shielded pool as a sender sees it: what a UTXO is worth, what a confidential transaction pays to
  whom and what it leaves, and the amounts of SOL that a keypair receives as UTXOs from proof inputs, from
  proved data, from an instruction, from the transaction that landed under a signature (with its slot)
  and from a transaction that the indexer returned.
\<close>

record ('n, 's, 'p, 't, 'u, 'x, 'i, 'd, 'w) ledger_view =
  lv_worth :: "'u \<Rightarrow> u64"
  lv_pays :: "'x \<Rightarrow> ('p shielded_address \<times> u64) list"
  lv_rest :: "'x \<Rightarrow> nat"
  lv_sealed :: "'i \<Rightarrow> 's \<Rightarrow> nat list"
  lv_proved :: "'d \<Rightarrow> 's \<Rightarrow> nat list"
  lv_outs :: "'n \<Rightarrow> 's \<Rightarrow> nat list"
  lv_landed :: "'w \<Rightarrow> bytes \<Rightarrow> (u64 \<times> ('s \<Rightarrow> nat list)) option"
  lv_seen :: "'t \<Rightarrow> 's \<Rightarrow> nat list"

text \<open>The transaction crate: a transfer or a withdrawal takes its amount from the value of the inputs, and
  encrypting makes a UTXO for every payment and one for the sender of what is left, if anything is.
  A proof does not change the outputs.\<close>

definition builder_law ::
  "('z, 'k, 'g, 'n, 's, 'p, 'y, 't, 'b, 'u, 'x, 'i, 'd, 'w) wallet_env \<Rightarrow>
   ('n, 's, 'p, 't, 'u, 'x, 'i, 'd, 'w) ledger_view \<Rightarrow> bool" where
  "builder_law X L \<longleftrightarrow>
     (\<forall>us p x. confidential_new X us p = Some x \<longrightarrow>
        lv_pays L x = [] \<and> lv_rest L x = (\<Sum>u \<leftarrow> us. unat (lv_worth L u))) \<and>
     (\<forall>x a m x'. transfer_sol X x a m = Some x' \<longrightarrow> unat m \<le> lv_rest L x \<and>
        lv_pays L x' = lv_pays L x @ [(a, m)] \<and> lv_rest L x' = lv_rest L x - unat m) \<and>
     (\<forall>x m r x'. withdraw_sol X x m r = Some x' \<longrightarrow> unat m \<le> lv_rest L x \<and>
        lv_pays L x' = lv_pays L x \<and> lv_rest L x' = lv_rest L x - unat m) \<and>
     (\<forall>x s w i w1 r. encrypt_tx X x s w = (Some i, w1) \<longrightarrow> 0 < lv_rest L x \<longrightarrow>
        mset (lv_sealed L i r) =
          mset (map (\<lambda>(a, m). unat m) (filter (\<lambda>(a, m). address_of X r = Some a) (lv_pays L x))) +
          (if r = s then {#lv_rest L x#} else {#})) \<and>
     (\<forall>c i s w d w1. prove X c i s w = (Some d, w1) \<longrightarrow> lv_proved L d = lv_sealed L i)"

text \<open>The program and the chain: a deposit of SOL makes a UTXO for the keypair whose view tag and owner hash
  it names, a transaction makes the outputs that were proved, what was sent has landed under its
  signature, and a status is the slot in which the transaction landed.\<close>

definition chain_law ::
  "('c, 'z, 'k, 'g, 'a, 'n, 'w) client_env \<Rightarrow>
   ('z, 'k, 'g, 'n, 's, 'p, 'y, 't, 'b, 'u, 'x, 'i, 'd, 'w) wallet_env \<Rightarrow>
   ('n, 's, 'p, 't, 'u, 'x, 'i, 'd, 'w) ledger_view \<Rightarrow> 'z \<Rightarrow> bool" where
  "chain_law C X L client \<longleftrightarrow>
     (\<forall>d ix s a. deposit_instruction X d = Some ix \<longrightarrow> address_of X s = Some a \<longrightarrow>
        mset (lv_outs L ix s) = mset (map (unat \<circ> ad_amount)
          (filter (\<lambda>e. ad_asset e = Deposit_Sol \<and> address_view_tag X a = Some (ad_view_tag e) \<and>
             address_owner_hash X a = Some (ad_owner e)) (dp_deposits d)))) \<and>
     (\<forall>t. lv_outs L (transact_instruction X t) = lv_proved L (tr_data t)) \<and>
     (\<forall>ixs p ks w g w1. create_and_send C client ixs p ks w = (Some g, w1) \<longrightarrow>
        (\<exists>slot. lv_landed L w1 g = Some (slot, \<lambda>s. concat (map (\<lambda>ix. lv_outs L ix s) ixs)))) \<and>
     (\<forall>gs w sts w1. signature_statuses C client gs w = (Some sts, w1) \<longrightarrow>
        lv_landed L w1 = lv_landed L w \<and>
        list_all2 (\<lambda>g st. \<forall>n slot out. st = Some n \<longrightarrow> lv_landed L w g = Some (slot, out) \<longrightarrow> n = slot) gs sts)"

text \<open>The indexer and the wallet: a fetch by signature that waits for the slot of the transaction returns its
  outputs, and decrypting transactions shows a keypair its UTXOs of SOL in them and their sum.\<close>

definition scan_law ::
  "('z, 'k, 'g, 'n, 's, 'p, 'y, 't, 'b, 'u, 'x, 'i, 'd, 'w) wallet_env \<Rightarrow>
   ('n, 's, 'p, 't, 'u, 'x, 'i, 'd, 'w) ledger_view \<Rightarrow> 'z \<Rightarrow> bool" where
  "scan_law X L client \<longleftrightarrow>
     (\<forall>g n w ys w1 slot out s. transactions_at X client g n w = (Some ys, w1) \<longrightarrow>
        lv_landed L w g = Some (slot, out) \<longrightarrow> slot \<le> n \<longrightarrow>
        mset (concat (map (\<lambda>y. lv_seen L (indexed_transaction X y) s) ys)) = mset (out s)) \<and>
     (\<forall>s ts g sp vs. decrypt_spendable X s ts g = Inr sp \<longrightarrow> vs = concat (map (\<lambda>t. lv_seen L t s) ts) \<longrightarrow>
        vs \<noteq> [] \<longrightarrow> sum_list vs < 2 ^ 64 \<longrightarrow>
        (\<exists>bal. balance_of X (sp_balances sp) (sol_mint X) = Some bal \<and> unat (bal_amount bal) = sum_list vs \<and>
           mset (map (unat \<circ> lv_worth L) (bal_utxos bal)) = mset vs))"

definition ledger_law ::
  "('c, 'z, 'k, 'g, 'a, 'n, 'w) client_env \<Rightarrow>
   ('z, 'k, 'g, 'n, 's, 'p, 'y, 't, 'b, 'u, 'x, 'i, 'd, 'w) wallet_env \<Rightarrow>
   ('n, 's, 'p, 't, 'u, 'x, 'i, 'd, 'w) ledger_view \<Rightarrow> 'z \<Rightarrow> bool" where
  "ledger_law C X L client \<longleftrightarrow> builder_law X L \<and> chain_law C X L client \<and> scan_law X L client"

lemma builder_lawD:
  assumes "builder_law X L"
  shows "confidential_new X us p = Some x \<Longrightarrow> lv_pays L x = []"
    "confidential_new X us p = Some x \<Longrightarrow> lv_rest L x = (\<Sum>u \<leftarrow> us. unat (lv_worth L u))"
    "transfer_sol X x a m = Some x' \<Longrightarrow> lv_pays L x' = lv_pays L x @ [(a, m)]"
    "transfer_sol X x a m = Some x' \<Longrightarrow> lv_rest L x' = lv_rest L x - unat m"
    "withdraw_sol X x m r = Some x' \<Longrightarrow> lv_pays L x' = lv_pays L x"
    "withdraw_sol X x m r = Some x' \<Longrightarrow> lv_rest L x' = lv_rest L x - unat m"
    "encrypt_tx X x s w = (Some i, w1) \<Longrightarrow> 0 < lv_rest L x \<Longrightarrow> mset (lv_sealed L i s) =
       mset (map (\<lambda>(a, m). unat m) (filter (\<lambda>(a, m). address_of X s = Some a) (lv_pays L x))) + {#lv_rest L x#}"
    "prove X c i s w = (Some d, w1) \<Longrightarrow> lv_proved L d = lv_sealed L i"
  using assms unfolding builder_law_def by - (elim conjE; fastforce)+

lemma chain_lawD:
  assumes "chain_law C X L client"
  shows "deposit_instruction X d = Some ix \<Longrightarrow> address_of X s = Some a \<Longrightarrow>
      mset (lv_outs L ix s) = mset (map (unat \<circ> ad_amount)
        (filter (\<lambda>e. ad_asset e = Deposit_Sol \<and> address_view_tag X a = Some (ad_view_tag e) \<and>
           address_owner_hash X a = Some (ad_owner e)) (dp_deposits d)))"
    "lv_outs L (transact_instruction X t) = lv_proved L (tr_data t)"
    "create_and_send C client ixs p ks w = (Some g, w1) \<Longrightarrow>
      \<exists>slot. lv_landed L w1 g = Some (slot, \<lambda>s. concat (map (\<lambda>ix. lv_outs L ix s) ixs))"
    "signature_statuses C client gs w = (Some sts, w1) \<Longrightarrow> lv_landed L w1 = lv_landed L w"
    "signature_statuses C client [g] w = (Some sts, w1) \<Longrightarrow> first_opt sts = Some (Some n) \<Longrightarrow>
      lv_landed L w g = Some (slot, out) \<Longrightarrow> n = slot"
  using assms unfolding chain_law_def by - (blast, blast, blast, blast, fastforce simp: list_all2_Cons1)

lemma scan_lawD:
  assumes "scan_law X L client"
  shows "transactions_at X client g n w = (Some ys, w1) \<Longrightarrow> lv_landed L w g = Some (slot, out) \<Longrightarrow> slot \<le> n \<Longrightarrow>
      mset (concat (map (\<lambda>y. lv_seen L (indexed_transaction X y) s) ys)) = mset (out s)"
    "decrypt_spendable X s ts g' = Inr sp \<Longrightarrow> concat (map (\<lambda>t. lv_seen L t s) ts) = [k] \<Longrightarrow> k < 2 ^ 64 \<Longrightarrow>
      \<exists>bal. balance_of X (sp_balances sp) (sol_mint X) = Some bal \<and> unat (bal_amount bal) = k \<and>
        map (unat \<circ> lv_worth L) (bal_utxos bal) = [k]"
proof -
  show "transactions_at X client g n w = (Some ys, w1) \<Longrightarrow> lv_landed L w g = Some (slot, out) \<Longrightarrow> slot \<le> n \<Longrightarrow>
      mset (concat (map (\<lambda>y. lv_seen L (indexed_transaction X y) s) ys)) = mset (out s)"
    using assms unfolding scan_law_def by blast
  assume d: "decrypt_spendable X s ts g' = Inr sp" "concat (map (\<lambda>t. lv_seen L t s) ts) = [k]" "k < 2 ^ 64"
  then have "sum_list [k] < 2 ^ 64" "[k] \<noteq> []"
    by simp_all
  then obtain bal where bal: "balance_of X (sp_balances sp) (sol_mint X) = Some bal"
    "unat (bal_amount bal) = sum_list [k]" "mset (map (unat \<circ> lv_worth L) (bal_utxos bal)) = mset [k]"
    using assms d(1,2) unfolding scan_law_def by metis
  moreover have "map (unat \<circ> lv_worth L) (bal_utxos bal) = [k]"
    using bal(3) by (simp del: mset_map)
  ultimately show "\<exists>bal. balance_of X (sp_balances sp) (sol_mint X) = Some bal \<and> unat (bal_amount bal) = k \<and>
        map (unat \<circ> lv_worth L) (bal_utxos bal) = [k]"
    by auto
qed

section \<open>No panic\<close>

text \<open>One UTXO of a value, as the only balance of SOL.\<close>

definition holds_one ::
  "('z, 'k, 'g, 'n, 's, 'p, 'y, 't, 'b, 'u, 'x, 'i, 'd, 'w) wallet_env \<Rightarrow>
   ('n, 's, 'p, 't, 'u, 'x, 'i, 'd, 'w) ledger_view \<Rightarrow> 'b \<Rightarrow> u64 \<Rightarrow> bool" where
  "holds_one X L b n \<longleftrightarrow> (\<exists>bal u. balance_of X b (sol_mint X) = Some bal \<and> bal_amount bal = n \<and>
     bal_utxos bal = [u] \<and> lv_worth L u = n)"

text \<open>With one UTXO of the expected value no check fails.\<close>

lemma wp_checks:
  assumes "holds_one X L b n"
  shows "wp (check_sol_balance X b n) Q w \<longleftrightarrow> Q () w"
  using assms
  by (auto simp: holds_one_def check_sol_balance_def wp_simps)

lemma wp_checked:
  assumes "wp f (\<lambda>b _. holds_one X L b n) w" "\<And>b w. holds_one X L b n \<Longrightarrow> Q b w"
  shows "wp f (\<lambda>b. wp (check_sol_balance X b n) (\<lambda>_. Q b)) w"
  using assms by (auto intro: wp_mono simp: wp_checks)

text \<open>Reading back a transaction that landed with one UTXO for the sender shows this UTXO.\<close>

lemma landed_slot_ok:
  assumes "chain_law C X L client" "landed_slot C client g w = (Inr n, w1)" "lv_landed L w g = Some (slot, out)"
  shows "n = slot" "lv_landed L w1 = lv_landed L w"
proof -
  obtain sts where "signature_statuses C client [g] w = (Some sts, w1)" "first_opt sts = Some (Some n)"
    using assms(2) by (auto simp: landed_slot_def result_simps bind_eq_Some_conv split: prod.splits option.splits)
  then show "n = slot" "lv_landed L w1 = lv_landed L w"
    using chain_lawD(4,5) [OF assms(1)] assms(3) by blast+
qed

lemma wp_read_back:
  assumes "ledger_law C X L client" "lv_landed L w g = Some (slot, out)" "mset (out s) = {#unat n#}"
  shows "wp (read_back C X client s assets g) (\<lambda>b _. holds_one X L b n) w"
proof -
  have laws: "chain_law C X L client" "scan_law X L client"
    using assms(1) by (simp_all add: ledger_law_def)
  have "holds_one X L (sp_balances sp) n"
    if run: "landed_slot C client g w = (Inr m, w1)" "transactions_at X client g m w1 = (Some ys, w2)"
      "decrypt_spendable X s (map (indexed_transaction X) ys) assets = Inr sp" for m w1 ys w2 sp
  proof -
    have "m = slot" "lv_landed L w1 g = Some (slot, out)"
      using landed_slot_ok [OF laws(1) run(1) assms(2)] assms(2) by simp_all
    then have "mset (concat (map (\<lambda>y. lv_seen L (indexed_transaction X y) s) ys)) = {#unat n#}"
      using scan_lawD(1) [OF laws(2) run(2), of slot out s] assms(3) by simp
    then have "concat (map (\<lambda>t. lv_seen L t s) (map (indexed_transaction X) ys)) = [unat n]"
      by (simp add: comp_def)
    then obtain bal where bal: "balance_of X (sp_balances sp) (sol_mint X) = Some bal"
      "unat (bal_amount bal) = unat n" "map (unat \<circ> lv_worth L) (bal_utxos bal) = [unat n]"
      using scan_lawD(2) [OF laws(2) run(3), of "unat n"] unat_u64_bound [of n] by auto
    then show ?thesis
      by (auto simp: holds_one_def map_eq_Cons_conv word_unat_eq_iff)
  qed
  then show ?thesis
    by (auto simp: read_back_def Let_def wp_simps map_errR_Inr_iff)
qed

text \<open>A transaction that pays the sender nothing and leaves something ends with one UTXO.\<close>

lemma wp_prove_and_send:
  assumes "ledger_law C X L client" "lv_rest L x = unat n" "0 < n"
    and "\<forall>p \<in> set (lv_pays L x). address_of X s \<noteq> Some (fst p)"
  shows "wp (prove_and_send C X client tree s g accounts x) (\<lambda>b _. holds_one X L b n) w"
proof -
  have laws: "builder_law X L" "chain_law C X L client"
    using assms(1) by (simp_all add: ledger_law_def)
  have "0 < lv_rest L x"
    using assms(2,3) by (simp add: word_less_nat_alt)
  have none: "filter (\<lambda>(a, m). address_of X s = Some a) (lv_pays L x) = []"
    using assms(4) by (auto simp: filter_empty_conv)
  have "wp (read_back C X client s g signature) (\<lambda>b _. holds_one X L b n) w3"
    if e: "encrypt_tx X x s w = (Some i, w1)" "prove X client i s w1 = (Some d, w2)"
      and t: "create_and_send C client [transact_instruction X t] p ks w2 = (Some signature, w3)" "tr_data t = d"
    for i w1 d w2 t p ks signature w3
  proof -
    obtain slot where landed: "lv_landed L w3 signature =
        Some (slot, \<lambda>s. concat (map (\<lambda>ix. lv_outs L ix s) [transact_instruction X t]))"
      using chain_lawD(3) [OF laws(2) t(1)] by blast
    have outs: "mset (lv_outs L (transact_instruction X t) s) = {#unat n#}"
      using builder_lawD(7) [OF laws(1) e(1) \<open>0 < lv_rest L x\<close>] builder_lawD(8) [OF laws(1) e(2)]
        chain_lawD(2) [OF laws(2), of t] t(2) none assms(2) by simp
    show ?thesis
      by (rule wp_read_back [OF assms(1) landed]) (use outs in simp)
  qed
  then show ?thesis
    by (simp add: prove_and_send_def Let_def wp_simps)
qed

lemma wp_sol_deposit:
  assumes "ledger_law C X L client" "address_of X s = Some addr"
  shows "wp (sol_deposit C X client tree s addr g) (\<lambda>b _. holds_one X L b sol_deposit_amount) w"
proof -
  have law: "chain_law C X L client"
    using assms(1) by (simp add: ledger_law_def)
  have step: "wp (read_back C X client s g signature) (\<lambda>b _. holds_one X L b sol_deposit_amount) w1"
    if "address_view_tag X addr = Some tag" "address_owner_hash X addr = Some owner"
      and ix: "deposit_instruction X \<lparr>dp_tree = tree, dp_depositor = sender_pubkey C X s,
        dp_deposits = [\<lparr>ad_asset = Deposit_Sol, ad_view_tag = tag, ad_owner = owner,
                        ad_amount = sol_deposit_amount, ad_memo = None\<rparr>]\<rparr> = Some ix"
      and sent: "create_and_send C client [ix] (sender_pubkey C X s) [signer_of X s] w = (Some signature, w1)"
    for tag owner ix signature w1
  proof -
    obtain slot where landed: "lv_landed L w1 signature = Some (slot, \<lambda>s. concat (map (\<lambda>ix. lv_outs L ix s) [ix]))"
      using chain_lawD(3) [OF law sent] by blast
    have outs: "mset (lv_outs L ix s) = {#unat sol_deposit_amount#}"
      using chain_lawD(1) [OF law ix assms(2)] that(1,2) by simp
    show ?thesis
      by (rule wp_read_back [OF assms(1) landed]) (use outs in simp)
  qed
  show ?thesis
    unfolding sol_deposit_def wp_simps by (auto intro!: wp_checked step)
qed

text \<open>The first UTXO of the balance is the one that the balance holds.\<close>

lemma wp_select:
  assumes "holds_one X L b n"
  obtains u where "lv_worth L u = n" "wp (select_sol_utxo X b) = (\<lambda>Q. Q u)"
proof -
  obtain bal u where "balance_of X b (sol_mint X) = Some bal" "bal_utxos bal = [u]" "lv_worth L u = n"
    using assms by (auto simp: holds_one_def)
  then show ?thesis
    using that by (simp add: select_sol_utxo_def wp_simps fun_eq_iff)
qed

lemma wp_sol_transfer:
  assumes "ledger_law C X L client" "address_of X r \<noteq> address_of X s" "holds_one X L b0 sol_deposit_amount"
  shows "wp (sol_transfer C X client tree s r g b0)
    (\<lambda>b _. holds_one X L b (sol_deposit_amount - sol_transfer_amount)) w"
proof -
  have law: "builder_law X L"
    using assms(1) by (simp add: ledger_law_def)
  obtain u where u: "lv_worth L u = sol_deposit_amount" "wp (select_sol_utxo X b0) = (\<lambda>Q. Q u)"
    using wp_select [OF assms(3)] by blast
  have step: "wp (prove_and_send C X client tree s g [] x')
      (\<lambda>b _. holds_one X L b (sol_deposit_amount - sol_transfer_amount)) w"
    if "confidential_new X [u] p = Some x" "address_of X r = Some a" "transfer_sol X x a sol_transfer_amount = Some x'"
    for p x a x' w
  proof (rule wp_prove_and_send [OF assms(1)])
    show "lv_rest L x' = unat (sol_deposit_amount - sol_transfer_amount)"
      using builder_lawD(2,4) [OF law] that u(1) by (simp add: sol_deposit_amount_def sol_transfer_amount_def)
    show "\<forall>p \<in> set (lv_pays L x'). address_of X s \<noteq> Some (fst p)"
      using builder_lawD(1,3) [OF law] that assms(2) by simp
  qed (simp add: sol_deposit_amount_def sol_transfer_amount_def)
  show ?thesis
    unfolding sol_transfer_def wp_simps u(2) by (auto intro!: wp_checked step)
qed

lemma wp_sol_withdraw:
  assumes "ledger_law C X L client" "holds_one X L b0 (sol_deposit_amount - sol_transfer_amount)"
  shows "wp (sol_withdraw C X client tree s g b0) (\<lambda>_ _. True) w"
proof -
  have law: "builder_law X L"
    using assms(1) by (simp add: ledger_law_def)
  obtain u where u: "lv_worth L u = sol_deposit_amount - sol_transfer_amount"
    "wp (select_sol_utxo X b0) = (\<lambda>Q. Q u)"
    using wp_select [OF assms(2)] by blast
  have step: "wp (prove_and_send C X client tree s g accounts x')
      (\<lambda>b _. holds_one X L b (sol_deposit_amount - sol_transfer_amount - sol_withdraw_amount)) w"
    if "confidential_new X [u] p = Some x" "withdraw_sol X x sol_withdraw_amount q = Some x'"
    for p x q x' accounts w
  proof (rule wp_prove_and_send [OF assms(1)])
    show "lv_rest L x' = unat (sol_deposit_amount - sol_transfer_amount - sol_withdraw_amount)"
      using builder_lawD(2,6) [OF law] that u(1)
      by (simp add: sol_deposit_amount_def sol_transfer_amount_def sol_withdraw_amount_def)
    show "\<forall>p \<in> set (lv_pays L x'). address_of X s \<noteq> Some (fst p)"
      using builder_lawD(1,5) [OF law] that by simp
  qed (simp add: sol_deposit_amount_def sol_transfer_amount_def sol_withdraw_amount_def)
  show ?thesis
    unfolding sol_withdraw_def wp_simps u(2) by (auto intro!: wp_checked step)
qed

text \<open>C39. The example of deposit, transfer and withdrawal never panics, if the crates, the chain and
  the indexer that it calls keep their promises: whatever fails on the way, the run ends with an error
  and none of its five \<open>expect\<close>s and six assertions is hit. After the deposit of 10,000,000 and the
  transfer of 3,000,000 there is one UTXO left, from which 3,000,000 can be withdrawn with change.
  (The fresh keypair of the recipient is not the sender's own.)\<close>

theorem deposit_transfer_withdraw_no_panic:
  assumes "ledger_law C X L client"
    and "\<And>w k w1 r s. new_keypair C w = (k, w1) \<Longrightarrow> from_keypair X k = Some r \<Longrightarrow>
      from_keypair X payer = Some s \<Longrightarrow> address_of X r \<noteq> address_of X s"
  shows "fst (run_deposit_transfer_withdraw C X client tree payer w) \<noteq> Inl Panicked"
proof (rule wp_no_panic)
  have "wp (sol_deposit C X client tree s addr g)
      (\<lambda>b. wp (sol_transfer C X client tree s r g b) (\<lambda>b. wp (sol_withdraw C X client tree s g b) (\<lambda>_ _. True))) w"
    if "from_keypair X payer = Some s" "new_keypair C w0 = (k, w)" "from_keypair X k = Some r"
      "address_of X s = Some addr" for s r k w0 w addr g
    using wp_sol_deposit [OF assms(1) that(4)]
    by (rule wp_mono, intro wp_mono [OF wp_sol_transfer [OF assms(1) assms(2) [OF that(2,3,1)]]])
      (use wp_sol_withdraw [OF assms(1)] in auto)
  then show "wp (run_deposit_transfer_withdraw C X client tree payer) (\<lambda>_ _. True) w"
    by (simp add: run_deposit_transfer_withdraw_def Let_def wp_simps)
qed

text \<open>A ledger on which an instruction is the list of its outputs (owner and amount), and the world is
  the transaction that landed last, in slot 7.\<close>

type_synonym demo_outs = "(bytes \<times> nat) list"

definition demo_address :: "bytes \<Rightarrow> bytes shielded_address" where
  "demo_address s = \<lparr>signing_pubkey = s, nullifier_pubkey = s, viewing_pubkey = s\<rparr>"

definition demo_outs_of :: "demo_outs \<Rightarrow> bytes \<Rightarrow> nat list" where
  "demo_outs_of os s = map snd (filter (\<lambda>p. fst p = s) os)"

definition demo_payments :: "(bytes shielded_address \<times> u64) list \<Rightarrow> demo_outs" where
  "demo_payments ps = map (\<lambda>(a, m). (signing_pubkey a, unat m))
     (filter (\<lambda>p. demo_address (signing_pubkey (fst p)) = fst p) ps)"

definition demo_ledger :: "(string, unit, bytes, unit, unit, demo_outs, demo_outs list) client_env" where
  "demo_ledger = \<lparr>check_service_url = (\<lambda>u n. Some ()), prover_client_new = id,
     with_signed_tee_devnet = id, zolana_client = (\<lambda>r i c. ()), pda_tree0 = [],
     env_var = Map.empty, expand_tilde = id, read_keypair_file = (\<lambda>p. Inr [2]),
     registry_default = (), registry_insert = (\<lambda>i m g. Some g), registry_mint = (\<lambda>g i. None),
     program_id_pubkey = [9], asset_accounts = (\<lambda>c w. (Some [], w)),
     decode_spl_asset = (\<lambda>d. Inl []), pda_spl_asset_registry = id, new_keypair = (\<lambda>w. ([1], w)),
     key_pubkey = id, spl_token_program_id = [], token_mint_len = 82, token_account_len = 165,
     min_rent = (\<lambda>c n w. (Some 1, w)), ix_create_account = (\<lambda>a b c d e. []),
     ix_initialize_mint2 = (\<lambda>a b c d e. Some []), ix_initialize_account3 = (\<lambda>a b c d. Some []),
     ix_mint_to = (\<lambda>a b c d e f. Some []), create_and_send = (\<lambda>c ixs p ks w. (Some [], ixs)),
     signature_statuses = (\<lambda>c gs w. (Some (map (\<lambda>g. Some 7) gs), w))\<rparr>"

definition demo_wallet ::
  "(unit, bytes, unit, demo_outs, bytes, bytes, demo_outs, demo_outs, u64 list, u64,
    (bytes shielded_address \<times> u64) list \<times> nat, demo_outs, demo_outs, demo_outs list) wallet_env" where
  "demo_wallet = \<lparr>from_keypair = Some, signer_of = id,
     address_of = (\<lambda>s. Some (demo_address s)),
     address_view_tag = (\<lambda>a. Some []), address_owner_hash = (\<lambda>a. Some (signing_pubkey a)),
     deposit_instruction = (\<lambda>d. Some (map (\<lambda>e. (ad_owner e, unat (ad_amount e)))
       (filter (\<lambda>e. ad_asset e = Deposit_Sol \<and> ad_view_tag e = []) (dp_deposits d)))),
     transact_instruction = tr_data,
     transactions_at = (\<lambda>c g n w. (Some w, w)), indexed_transaction = id,
     decrypt_spendable = (\<lambda>s ts g. Inr \<lparr>sp_balances = map of_nat (concat (map (\<lambda>t. demo_outs_of t s) ts)),
       sp_unknown_asset_ids = [], sp_unknown_mints = []\<rparr>),
     balance_of = (\<lambda>b m. Some \<lparr>bal_mint = m, bal_amount = sum_list b, bal_utxos = b\<rparr>),
     balance_assets = (\<lambda>b. []), sol_mint = [],
     confidential_new = (\<lambda>us p. Some ([], \<Sum>u \<leftarrow> us. unat u)),
     transfer_sol = (\<lambda>x a m. if unat m \<le> snd x then Some (fst x @ [(a, m)], snd x - unat m) else None),
     withdraw_sol = (\<lambda>x m p. if unat m \<le> snd x then Some (fst x, snd x - unat m) else None),
     encrypt_tx = (\<lambda>x s w. (Some (demo_payments (fst x) @ [(s, snd x)]), w)),
     prove = (\<lambda>c i s w. (Some i, w)), solana_balance = (\<lambda>c p w. (Some 0, w))\<rparr>"

definition demo_view ::
  "(demo_outs, bytes, bytes, demo_outs, u64, (bytes shielded_address \<times> u64) list \<times> nat, demo_outs,
    demo_outs, demo_outs list) ledger_view" where
  "demo_view = \<lparr>lv_worth = id, lv_pays = fst, lv_rest = snd, lv_sealed = demo_outs_of, lv_proved = demo_outs_of,
     lv_outs = demo_outs_of, lv_landed = (\<lambda>w g. Some (7, \<lambda>s. concat (map (\<lambda>ix. demo_outs_of ix s) w))),
     lv_seen = demo_outs_of\<rparr>"

lemmas demo_ledger_defs = demo_ledger_def demo_wallet_def demo_view_def

lemmas run_acts = bindA_def callA_def resultA_def worldA_def tryA_def liftA_def returnA_def expectA_def
  assertA_def ext_def Let_def

lemma demo_address_iff: "demo_address r = a \<longleftrightarrow> demo_address (signing_pubkey a) = a \<and> signing_pubkey a = r"
  by (auto simp: demo_address_def)

lemma demo_payments_to:
  "demo_outs_of (demo_payments ps) r = map (\<lambda>(a, m). unat m) (filter (\<lambda>(a, m). demo_address r = a) ps)"
  by (induction ps) (auto simp: demo_outs_of_def demo_payments_def demo_address_iff [of r])

lemma demo_outs_of_sent: "demo_outs_of (os @ [(s, m)]) r = demo_outs_of os r @ (if r = s then [m] else [])"
  by (auto simp: demo_outs_of_def)

lemma demo_builder_law: "builder_law demo_wallet demo_view"
  unfolding builder_law_def
  by (auto simp: demo_ledger_defs demo_outs_of_sent demo_payments_to split: if_splits)

lemma demo_chain_law: "chain_law demo_ledger demo_wallet demo_view client"
  unfolding chain_law_def
  by (auto simp: demo_ledger_defs demo_outs_of_def demo_address_def filter_map comp_def list_all2_map2
      list_all2_same conj_ac eq_commute)

lemma small_amounts:
  assumes "sum_list vs < 2 ^ 64"
  shows "map (\<lambda>v. unat (of_nat v :: u64)) vs = vs" "unat (\<Sum>v \<leftarrow> vs. of_nat v :: u64) = sum_list vs"
proof -
  show "map (\<lambda>v. unat (of_nat v :: u64)) vs = vs"
    using assms by (induction vs) (simp_all add: unat_of_nat)
  have "(\<Sum>v \<leftarrow> vs. of_nat v :: u64) = of_nat (sum_list vs)"
    by (induction vs) simp_all
  then show "unat (\<Sum>v \<leftarrow> vs. of_nat v :: u64) = sum_list vs"
    using assms by (simp add: unat_of_nat)
qed

lemma demo_scan_law: "scan_law demo_wallet demo_view client"
  unfolding scan_law_def
  by (auto simp: demo_ledger_defs small_amounts comp_def simp del: mset_map)

lemma demo_ledger_law: "ledger_law demo_ledger demo_wallet demo_view client"
  by (simp add: ledger_law_def demo_builder_law demo_chain_law demo_scan_law)

theorem deposit_transfer_withdraw_no_panic_witness:
  "fst (run_deposit_transfer_withdraw demo_ledger demo_wallet () [] [2] []) \<noteq> Inl Panicked \<and>
   run_deposit_transfer_withdraw demo_ledger demo_wallet () [] [2] [] = (Inr (), [[([2], 4000000)]])"
proof
  show "fst (run_deposit_transfer_withdraw demo_ledger demo_wallet () [] [2] []) \<noteq> Inl Panicked"
    by (rule deposit_transfer_withdraw_no_panic [OF demo_ledger_law])
      (auto simp: demo_ledger_defs demo_address_def)
  show "run_deposit_transfer_withdraw demo_ledger demo_wallet () [] [2] [] = (Inr (), [[([2], 4000000)]])"
    by (simp add: run_deposit_transfer_withdraw_def sol_deposit_def sol_transfer_def sol_withdraw_def
        check_sol_balance_def select_sol_utxo_def read_back_def prove_and_send_def landed_slot_def
        sender_pubkey_def demo_ledger_defs demo_outs_of_def demo_payments_def demo_address_def run_acts
        sol_deposit_amount_def sol_transfer_amount_def sol_withdraw_amount_def)
qed

end
