(* ===== verification/Rust_Readers.thy ===== *)
theory Rust_Readers
  imports Rust_Examples
begin

text \<open>
  The other Rust examples (\<open>rust-client/examples/\<close>): the deposit that sets up the interface of a new
  mint, the registration of a wallet, the balance and the history of a wallet.
\<close>

section \<open>What they use of the client crates\<close>

text \<open>
  \<open>'l\<close> is the \<open>Wallet\<close> of the test utilities and \<open>'h\<close> a transaction of its history. \<open>account_at\<close> is
  \<open>get_account\<close>, which finds the data of an account or none; \<open>sync_wallet\<close> is \<open>sync_wallet_with_config\<close>
  with a page limit, and returns the wallet with the asset ids and the mints that it could not resolve.
\<close>

record ('z, 'g, 'a, 'n, 's, 'p, 'b, 'l, 'h, 'w) service_env =
  account_at :: "'z \<Rightarrow> bytes \<Rightarrow> 'w \<Rightarrow> 'a option option \<times> 'w"
  pda_spl_interface :: "bytes \<Rightarrow> bytes"
  interface_instruction :: "create_spl_interface \<Rightarrow> 'n"
  transfer_instruction :: "bytes \<Rightarrow> bytes \<Rightarrow> u64 \<Rightarrow> 'n"
  user_record_pda :: "bytes \<Rightarrow> bytes"
  register_instruction :: "bytes \<Rightarrow> bytes \<Rightarrow> bytes \<Rightarrow> register_data \<Rightarrow> 'n"
  merge_instruction :: "bytes \<Rightarrow> bytes \<Rightarrow> merge_encryption_scheme \<Rightarrow> 'n"
  wallet_registered :: "'z \<Rightarrow> bytes \<Rightarrow> 'w \<Rightarrow> bool option \<times> 'w"
  utxo_scan :: "'s \<Rightarrow> 'g \<Rightarrow> 'z \<Rightarrow> 'w \<Rightarrow> 'b spendable option \<times> 'w"
  wallet_new :: "'p shielded_address \<Rightarrow> 'g \<Rightarrow> string + 'l"
  sync_wallet :: "'l \<Rightarrow> 's \<Rightarrow> 'z \<Rightarrow> nat \<Rightarrow> 'w \<Rightarrow> ('l \<times> u64 list \<times> bytes list) option \<times> 'w"
  private_transactions :: "'l \<Rightarrow> 'h list"

section \<open>A deposit that sets up the interface (deposit_with_interface_setup.rs)\<close>

definition spl_deposit_amount :: u64 where
  "spl_deposit_amount = 1000000000"

text \<open>Steps 1 to 4: the transaction that creates the interface where it is missing and deposits.\<close>

definition interface_deposit ::
  "('c, 'z, 'k, 'g, 'a, 'n, 'w) client_env \<Rightarrow>
   ('z, 'k, 'g, 'n, 's, 'p, 'y, 't, 'b, 'u, 'x, 'i, 'd, 'w) wallet_env \<Rightarrow>
   ('z, 'g, 'a, 'n, 's, 'p, 'b, 'l, 'h, 'w) service_env \<Rightarrow> 'z \<Rightarrow> bytes \<Rightarrow> 'k \<Rightarrow> 'p shielded_address \<Rightarrow>
   test_token \<Rightarrow> ('w, bytes) act" where
  "interface_deposit C X Y client tree payer sender_address token =
     (let mint = tt_mint token; token_program = spl_token_program_id C; pk = key_pubkey C payer in
      bindA (callA (account_at Y client (pda_spl_interface Y mint))) (\<lambda>interface_account.
      let instructions = (if interface_account = None
        then [interface_instruction Y \<lparr>ci_authority = pk, ci_mint = mint, ci_token_program = token_program\<rparr>]
        else []) in
      bindA (tryA (address_view_tag X sender_address)) (\<lambda>view_tag.
      bindA (tryA (address_owner_hash X sender_address)) (\<lambda>owner.
      bindA (tryA (deposit_instruction X
        \<lparr>dp_tree = tree, dp_depositor = pk,
         dp_deposits = [\<lparr>ad_asset = Deposit_Spl \<lparr>ds_mint = mint, ds_user_token = tt_source_token token,
                                                ds_token_program = token_program\<rparr>,
                         ad_view_tag = view_tag, ad_owner = owner, ad_amount = spl_deposit_amount,
                         ad_memo = None\<rparr>]\<rparr>)) (\<lambda>deposit_ix.
      callA (create_and_send C client (instructions @ [deposit_ix]) pk [payer]))))))"

text \<open>Step 5: the asset id that the interface was given.\<close>

definition registered_asset ::
  "('c, 'z, 'k, 'g, 'a, 'n, 'w) client_env \<Rightarrow>
   ('z, 'g, 'a, 'n, 's, 'p, 'b, 'l, 'h, 'w) service_env \<Rightarrow> 'z \<Rightarrow> bytes \<Rightarrow> ('w, 'g) act" where
  "registered_asset C Y client mint =
     bindA (callA (account_at Y client (pda_spl_asset_registry C mint))) (\<lambda>account.
     bindA (liftA (ok_or (Msg ''mint registry missing after interface setup'') account)) (\<lambda>data.
     bindA (liftA (map_errR (\<lambda>e. Msg (''decode mint registry: '' @ e)) (decode_spl_asset C data)))
       (\<lambda>(asset_id, registry_mint).
     tryA (registry_insert C asset_id registry_mint (registry_default C)))))"

definition run_deposit_with_interface_setup ::
  "('c, 'z, 'k, 'g, 'a, 'n, 'w) client_env \<Rightarrow>
   ('z, 'k, 'g, 'n, 's, 'p, 'y, 't, 'b, 'u, 'x, 'i, 'd, 'w) wallet_env \<Rightarrow>
   ('z, 'g, 'a, 'n, 's, 'p, 'b, 'l, 'h, 'w) service_env \<Rightarrow> 'z \<Rightarrow> bytes \<Rightarrow> 'k \<Rightarrow> ('w, bytes) act" where
  "run_deposit_with_interface_setup C X Y client tree payer =
     bindA (tryA (from_keypair X payer)) (\<lambda>sender.
     bindA (tryA (address_of X sender)) (\<lambda>sender_address.
     bindA (resultA (setup_test_token C client payer spl_deposit_amount)) (\<lambda>token.
     bindA (interface_deposit C X Y client tree payer sender_address token) (\<lambda>signature.
     bindA (resultA (landed_slot C client signature)) (\<lambda>slot.
     bindA (registered_asset C Y client (tt_mint token)) (\<lambda>assets.
     bindA (callA (transactions_at X client signature slot)) (\<lambda>response.
     let transactions = map (indexed_transaction X) response in
     bindA (liftA (map_errR (\<lambda>e. Msg (''decrypt sender transactions: '' @ e))
              (decrypt_spendable X sender transactions assets))) (\<lambda>spendable.
     bindA (liftA (ok_or (Msg ''failed to fetch sender's utxo'')
              (balance_of X (sp_balances spendable) (tt_mint token)))) (\<lambda>deposit_balance.
     bindA (assertA (bal_amount deposit_balance = spl_deposit_amount)) (\<lambda>_.
     bindA (assertA (length (bal_utxos deposit_balance) = 1)) (\<lambda>_.
     returnA (tt_mint token))))))))))))"

definition main_deposit_with_interface_setup ::
  "('c, 'z, 'k, 'g, 'a, 'n, 'w) client_env \<Rightarrow>
   ('z, 'k, 'g, 'n, 's, 'p, 'y, 't, 'b, 'u, 'x, 'i, 'd, 'w) wallet_env \<Rightarrow>
   ('z, 'g, 'a, 'n, 's, 'p, 'b, 'l, 'h, 'w) service_env \<Rightarrow> ('w, unit) act" where
  "main_deposit_with_interface_setup C X Y =
     bindA (liftA (setup_client C)) (\<lambda>ctx.
     bindA (liftA (context_client C ctx)) (\<lambda>client.
     bindA (liftA (cli_keypair C)) (\<lambda>payer.
     bindA (run_deposit_with_interface_setup C X Y client (sc_tree ctx) payer) (\<lambda>_.
     returnA ()))))"

section \<open>Registering a wallet (register_private_wallet.rs)\<close>

definition fund_lamports :: u64 where
  "fund_lamports = 10000000"

definition run_register_private_wallet ::
  "('c, 'z, 'k, 'g, 'a, 'n, 'w) client_env \<Rightarrow>
   ('z, 'k, 'g, 'n, 's, 'p, 'y, 't, 'b, 'u, 'x, 'i, 'd, 'w) wallet_env \<Rightarrow>
   ('z, 'g, 'a, 'n, 's, 'p, 'b, 'l, 'h, 'w) service_env \<Rightarrow> 'z \<Rightarrow> 'k \<Rightarrow> ('w, unit) act" where
  "run_register_private_wallet C X Y client payer =
     bindA (worldA (new_keypair C)) (\<lambda>key.
     bindA (tryA (from_keypair X key)) (\<lambda>sender.
     let pk = sender_pubkey C X sender in
     bindA (callA (create_and_send C client [transfer_instruction Y (key_pubkey C payer) pk fund_lamports]
              (key_pubkey C payer) [payer])) (\<lambda>_.
     bindA (tryA (address_of X sender)) (\<lambda>sender_address.
     let user_record = user_record_pda Y pk in
     bindA (callA (create_and_send C client
              [register_instruction Y user_record pk pk
                 \<lparr>rd_nullifier_pubkey = nullifier_pubkey sender_address,
                  rd_viewing_pubkey = viewing_pubkey sender_address\<rparr>,
               merge_instruction Y user_record pk PoseidonCtrV1]
              pk [signer_of X sender])) (\<lambda>_.
     bindA (callA (wallet_registered Y client pk)) (\<lambda>registered.
     assertA registered))))))"

definition main_register_private_wallet ::
  "('c, 'z, 'k, 'g, 'a, 'n, 'w) client_env \<Rightarrow>
   ('z, 'k, 'g, 'n, 's, 'p, 'y, 't, 'b, 'u, 'x, 'i, 'd, 'w) wallet_env \<Rightarrow>
   ('z, 'g, 'a, 'n, 's, 'p, 'b, 'l, 'h, 'w) service_env \<Rightarrow> ('w, unit) act" where
  "main_register_private_wallet C X Y =
     bindA (liftA (setup_client C)) (\<lambda>ctx.
     bindA (liftA (context_client C ctx)) (\<lambda>client.
     bindA (liftA (cli_keypair C)) (\<lambda>payer.
     run_register_private_wallet C X Y client payer)))"

section \<open>Balance and history (sync_balance.rs, read_history.rs)\<close>





text \<open>\<open>main\<close> of the two readers drops the value.\<close>

definition main_reader ::
  "('c, 'z, 'k, 'g, 'a, 'n, 'w) client_env \<Rightarrow> ('z \<Rightarrow> 'k \<Rightarrow> ('w, 'r) act) \<Rightarrow> ('w, unit) act" where
  "main_reader C run =
     bindA (liftA (setup_client C)) (\<lambda>ctx.
     bindA (liftA (context_client C ctx)) (\<lambda>client.
     bindA (liftA (cli_keypair C)) (\<lambda>payer.
     bindA (run client payer) (\<lambda>_.
     returnA ()))))"

section \<open>Properties\<close>




lemma register_private_wallet_ok:
  "run_register_private_wallet C X Y client payer w = (Inr (), w5) \<longleftrightarrow>
     (\<exists>key w1 s sig1 w2 addr sig2 w3. new_keypair C w = (key, w1) \<and> from_keypair X key = Some s \<and>
        create_and_send C client
          [transfer_instruction Y (key_pubkey C payer) (sender_pubkey C X s) fund_lamports]
          (key_pubkey C payer) [payer] w1 = (Some sig1, w2) \<and>
        address_of X s = Some addr \<and>
        create_and_send C client
          [register_instruction Y (user_record_pda Y (sender_pubkey C X s)) (sender_pubkey C X s)
             (sender_pubkey C X s)
             \<lparr>rd_nullifier_pubkey = nullifier_pubkey addr, rd_viewing_pubkey = viewing_pubkey addr\<rparr>,
           merge_instruction Y (user_record_pda Y (sender_pubkey C X s)) (sender_pubkey C X s)
             PoseidonCtrV1]
          (sender_pubkey C X s) [signer_of X s] w2 = (Some sig2, w3) \<and>
        wallet_registered Y client (sender_pubkey C X s) w3 = (Some True, w5))"
  by (fastforce simp: run_register_private_wallet_def returned Let_def)




text \<open>What a run of the interface example did.\<close>

lemma interface_run_ok:
  assumes "run_deposit_with_interface_setup C X Y client tree payer w = (Inr mint, w8)"
  shows "\<exists>s addr token w1 account w2 tag owner dep signature w3 slot w4 data w5 i m g response spendable bal.
     from_keypair X payer = Some s \<and> address_of X s = Some addr \<and>
     setup_test_token C client payer spl_deposit_amount w = (Inr token, w1) \<and> mint = tt_mint token \<and>
     account_at Y client (pda_spl_interface Y mint) w1 = (Some account, w2) \<and>
     address_view_tag X addr = Some tag \<and> address_owner_hash X addr = Some owner \<and>
     deposit_instruction X
       \<lparr>dp_tree = tree, dp_depositor = key_pubkey C payer,
        dp_deposits = [\<lparr>ad_asset = Deposit_Spl \<lparr>ds_mint = mint, ds_user_token = tt_source_token token,
                                               ds_token_program = spl_token_program_id C\<rparr>,
          ad_view_tag = tag, ad_owner = owner, ad_amount = spl_deposit_amount, ad_memo = None\<rparr>]\<rparr> = Some dep \<and>
     create_and_send C client
       ((if account = None
         then [interface_instruction Y \<lparr>ci_authority = key_pubkey C payer, ci_mint = mint,
                 ci_token_program = spl_token_program_id C\<rparr>]
         else []) @ [dep]) (key_pubkey C payer) [payer] w2 = (Some signature, w3) \<and>
     landed_slot C client signature w3 = (Inr slot, w4) \<and>
     account_at Y client (pda_spl_asset_registry C mint) w4 = (Some (Some data), w5) \<and>
     decode_spl_asset C data = Inr (i, m) \<and> registry_insert C i m (registry_default C) = Some g \<and>
     transactions_at X client signature slot w5 = (Some response, w8) \<and>
     decrypt_spendable X s (map (indexed_transaction X) response) g = Inr spendable \<and>
     balance_of X (sp_balances spendable) mint = Some bal \<and>
     bal_amount bal = spl_deposit_amount \<and> length (bal_utxos bal) = 1"
  using assms
  unfolding run_deposit_with_interface_setup_def interface_deposit_def registered_asset_def Let_def returned
    case_prod_unfold result_simps
  by (elim exE conjE) (auto simp: map_errR_Inr_iff)

text \<open>The rules of the interface that the chain applies to the instructions of a transaction, in order:
  \<open>rule\<close> maps whether the interface exists to whether it exists afterwards, or fails.\<close>

primrec run_rules :: "('n \<Rightarrow> bool \<Rightarrow> bool option) \<Rightarrow> 'n list \<Rightarrow> bool \<Rightarrow> bool option" where
  "run_rules rule [] present = Some present"
| "run_rules rule (ix # ixs) present = Option.bind (rule ix present) (run_rules rule ixs)"

definition interface_rules ::
  "('z, 'k, 'g, 'n, 's, 'p, 'y, 't, 'b, 'u, 'x, 'i, 'd, 'w) wallet_env \<Rightarrow>
   ('z, 'g, 'a, 'n, 's, 'p, 'b, 'l, 'h, 'w) service_env \<Rightarrow> ('n \<Rightarrow> bool \<Rightarrow> bool option) \<Rightarrow> bool" where
  "interface_rules X Y rule \<longleftrightarrow>
     (\<forall>c present. rule (interface_instruction Y c) present = (if present then None else Some True)) \<and>
     (\<forall>d ix present. deposit_instruction X d = Some ix \<longrightarrow>
        rule ix present = (if present then Some True else None))"

lemma interface_rules_run:
  "interface_rules X Y rule \<Longrightarrow> deposit_instruction X d = Some dep \<Longrightarrow>
   run_rules rule ((if account = None then [interface_instruction Y c] else []) @ [dep]) (account \<noteq> None)
     = Some True"
  by (auto simp: interface_rules_def)

text \<open>C40. The interface of a mint is set up when it is missing and only then. On a chain where a second
  interface for a mint fails, and a deposit without one fails too, the one transaction that the example
  sends passes these rules whether or not the interface was there. When the run returns, the mint is
  the one of the fresh test token; the asset id was read from the registry account of that mint, after the
  transaction; and with that id alone the payer's wallet decrypts the transaction, fetched at its landed
  slot, to a balance of the whole test amount in one UTXO.\<close>

theorem interface_set_up_once:
  assumes "interface_rules X Y rule"
    and "run_deposit_with_interface_setup C X Y client tree payer w = (Inr mint, w8)"
  shows "\<exists>s token w1 account w2 ixs signature w3 slot w4 data w5 i m g response spendable bal.
     from_keypair X payer = Some s \<and>
     setup_test_token C client payer spl_deposit_amount w = (Inr token, w1) \<and> mint = tt_mint token \<and>
     account_at Y client (pda_spl_interface Y mint) w1 = (Some account, w2) \<and>
     create_and_send C client ixs (key_pubkey C payer) [payer] w2 = (Some signature, w3) \<and>
     run_rules rule ixs (account \<noteq> None) = Some True \<and>
     landed_slot C client signature w3 = (Inr slot, w4) \<and>
     account_at Y client (pda_spl_asset_registry C mint) w4 = (Some (Some data), w5) \<and>
     decode_spl_asset C data = Inr (i, m) \<and> registry_insert C i m (registry_default C) = Some g \<and>
     transactions_at X client signature slot w5 = (Some response, w8) \<and>
     decrypt_spendable X s (map (indexed_transaction X) response) g = Inr spendable \<and>
     balance_of X (sp_balances spendable) mint = Some bal \<and>
     bal_amount bal = 1000000000 \<and> length (bal_utxos bal) = 1"
proof -
  note amount = spl_deposit_amount_def
  from interface_run_ok [OF assms(2)] show ?thesis
  proof (elim exE conjE)
    fix s addr token w1 account w2 tag owner dep signature w3 slot w4 data w5 i m g response spendable bal
    assume run: "from_keypair X payer = Some s"
      "setup_test_token C client payer spl_deposit_amount w = (Inr token, w1)" "mint = tt_mint token"
      "account_at Y client (pda_spl_interface Y mint) w1 = (Some account, w2)"
      "create_and_send C client
       ((if account = None
         then [interface_instruction Y \<lparr>ci_authority = key_pubkey C payer, ci_mint = mint,
                 ci_token_program = spl_token_program_id C\<rparr>]
         else []) @ [dep]) (key_pubkey C payer) [payer] w2 = (Some signature, w3)"
      "landed_slot C client signature w3 = (Inr slot, w4)"
      "account_at Y client (pda_spl_asset_registry C mint) w4 = (Some (Some data), w5)"
      "decode_spl_asset C data = Inr (i, m)" "registry_insert C i m (registry_default C) = Some g"
      "transactions_at X client signature slot w5 = (Some response, w8)"
      "decrypt_spendable X s (map (indexed_transaction X) response) g = Inr spendable"
      "balance_of X (sp_balances spendable) mint = Some bal" "length (bal_utxos bal) = 1"
      "bal_amount bal = spl_deposit_amount"
    assume dep: "deposit_instruction X
       \<lparr>dp_tree = tree, dp_depositor = key_pubkey C payer,
        dp_deposits = [\<lparr>ad_asset = Deposit_Spl \<lparr>ds_mint = mint, ds_user_token = tt_source_token token,
                                               ds_token_program = spl_token_program_id C\<rparr>,
          ad_view_tag = tag, ad_owner = owner, ad_amount = spl_deposit_amount, ad_memo = None\<rparr>]\<rparr> = Some dep"
    show ?thesis
      by (intro exI conjI) (rule run interface_rules_run [OF assms(1) dep] run(14) [unfolded amount])+
  qed
qed

text \<open>A chain without the interface of the test token; its registry knows the token as asset 2.\<close>

definition demo_tokens ::
  "(string, unit, bytes, (u64 \<times> bytes) list, u64 \<times> bytes, bool, unit) client_env" where
  "demo_tokens = \<lparr>check_service_url = (\<lambda>u n. Some ()), prover_client_new = id,
     with_signed_tee_devnet = id, zolana_client = (\<lambda>r i c. ()), pda_tree0 = [],
     env_var = Map.empty, expand_tilde = id, read_keypair_file = (\<lambda>p. Inr [2]),
     registry_default = [], registry_insert = (\<lambda>i m g. Some ((i, m) # g)), registry_mint = map_of,
     program_id_pubkey = [9], asset_accounts = (\<lambda>c w. (Some [([7], [9], (2, [7]))], w)),
     decode_spl_asset = Inr, pda_spl_asset_registry = id, new_keypair = (\<lambda>w. ([7], w)),
     key_pubkey = id, spl_token_program_id = [], token_mint_len = 82, token_account_len = 165,
     min_rent = (\<lambda>c n w. (Some 1, w)), ix_create_account = (\<lambda>a b c d e. False),
     ix_initialize_mint2 = (\<lambda>a b c d e. Some False), ix_initialize_account3 = (\<lambda>a b c d. Some False),
     ix_mint_to = (\<lambda>a b c d e f. Some False), create_and_send = (\<lambda>c is p ks w. (Some [], w)),
     signature_statuses = (\<lambda>c ss w. (Some [Some 7], w))\<rparr>"

definition demo_token_wallet ::
  "(unit, bytes, (u64 \<times> bytes) list, bool, bytes, bytes, unit, unit, bytes list, unit, unit, unit, unit, unit)
     wallet_env" where
  "demo_token_wallet = \<lparr>from_keypair = Some, signer_of = id,
     address_of = (\<lambda>s. Some \<lparr>signing_pubkey = s, nullifier_pubkey = s, viewing_pubkey = s\<rparr>),
     address_view_tag = (\<lambda>a. Some []), address_owner_hash = (\<lambda>a. Some []),
     deposit_instruction = (\<lambda>d. Some False), transact_instruction = (\<lambda>t. False),
     transactions_at = (\<lambda>c g n w. (Some [()], w)), indexed_transaction = id,
     decrypt_spendable = (\<lambda>s ts g. Inr \<lparr>sp_balances = map snd g, sp_unknown_asset_ids = [], sp_unknown_mints = []\<rparr>),
     balance_of = (\<lambda>b m. if m \<in> set b
       then Some \<lparr>bal_mint = m, bal_amount = 1000000000, bal_utxos = [()]\<rparr> else None),
     balance_assets = (\<lambda>b. []), sol_mint = [],
     confidential_new = (\<lambda>us p. Some ()), transfer_sol = (\<lambda>x a m. Some ()), withdraw_sol = (\<lambda>x m p. Some ()),
     encrypt_tx = (\<lambda>x s w. (Some (), w)), prove = (\<lambda>c i s w. (Some (), w)),
     solana_balance = (\<lambda>c p w. (Some 0, w))\<rparr>"

definition demo_service ::
  "(unit, (u64 \<times> bytes) list, u64 \<times> bytes, bool, bytes, bytes, bytes list, unit, bytes, unit) service_env" where
  "demo_service = \<lparr>account_at = (\<lambda>c a w. (Some (if a = [0, 7] then None else Some (2, a)), w)),
     pda_spl_interface = (\<lambda>m. 0 # m), interface_instruction = (\<lambda>c. True),
     transfer_instruction = (\<lambda>a b n. False), user_record_pda = id, register_instruction = (\<lambda>r a b d. False),
     merge_instruction = (\<lambda>r a s. False), wallet_registered = (\<lambda>c p w. (Some True, w)),
     utxo_scan = (\<lambda>s g c w. (Some \<lparr>sp_balances = map snd g, sp_unknown_asset_ids = [], sp_unknown_mints = []\<rparr>, w)),
     wallet_new = (\<lambda>a g. Inr ()), sync_wallet = (\<lambda>l s c n w. (Some (l, [], []), w)),
     private_transactions = (\<lambda>l. [])\<rparr>"

lemmas demo_reader_defs = demo_tokens_def demo_token_wallet_def demo_service_def

lemma demo_interface_runs:
  "run_deposit_with_interface_setup demo_tokens demo_token_wallet demo_service () [] [2] () = (Inr [7], ())"
  by (simp add: run_deposit_with_interface_setup_def interface_deposit_def registered_asset_def
      setup_test_token_def test_token_instructions_def landed_slot_def run_acts demo_reader_defs
      spl_deposit_amount_def)

theorem interface_set_up_once_witness:
  "\<exists>account w2 ixs signature. account_at demo_service () [0, 7] () = (Some account, w2) \<and>
     create_and_send demo_tokens () ixs [2] [[2]] w2 = (Some signature, ()) \<and>
     run_rules (\<lambda>ix p. if ix = p then None else Some True) ixs (account \<noteq> None) = Some True"
proof -
  have rules: "interface_rules demo_token_wallet demo_service (\<lambda>ix p. if ix = p then None else Some True)"
    by (simp add: interface_rules_def demo_reader_defs)
  have demo: "pda_spl_interface demo_service = (#) 0" "key_pubkey demo_tokens = id"
    by (simp_all add: demo_reader_defs)
  show ?thesis
    using interface_set_up_once [OF rules demo_interface_runs, unfolded demo]
    by (elim exE conjE) auto
qed


end
